(* ===== verification/Prelude.thy ===== *)
theory Prelude
  imports Main "HOL-Library.AList"
begin

text \<open>
  Shared vocabulary of the development: Python exceptions as values, computations that keep their
  state when they raise, the weakest-precondition calculus the component proofs use, trace
  properties of the form "this only happens after that", and the insertion-ordered dictionaries
  of the source as association lists.
\<close>

section \<open>Exceptions\<close>

text \<open>
  The service errors (\<open>ProviderError\<close>, \<open>ControlError\<close>) carry an HTTP status, a code and a
  message; the command-line tools raise a named error with a message only
  (\<open>ControllerError\<close>, \<open>DeploymentError\<close>, \<open>SoakRunnerError\<close>, \<open>FailoverRunnerError\<close>);
  everything else Python may raise on the modelled paths is a builtin exception, by name.
\<close>

datatype exn =
    HttpErr (http_status: nat) (http_code: string) (http_message: string)
  | ToolErr (tool_message: string)
  | ValueErr
  | TypeErr
  | KeyErr
  | AttributeErr
  | OverflowErr
  | OsErr
  | OutOfFuel

section \<open>Stateful computations with exceptions\<close>

text \<open>
  A computation maps a state to a result and the state it leaves behind. A raise does not undo
  what happened before it, as in Python.
\<close>

type_synonym ('s, 'a) comp = "'s \<Rightarrow> (exn + 'a) \<times> 's"

definition ret :: "'a \<Rightarrow> ('s, 'a) comp" where
  "ret x = (\<lambda>s. (Inr x, s))"

definition throw :: "exn \<Rightarrow> ('s, 'a) comp" where
  "throw e = (\<lambda>s. (Inl e, s))"

definition bnd :: "('s, 'a) comp \<Rightarrow> ('a \<Rightarrow> ('s, 'b) comp) \<Rightarrow> ('s, 'b) comp" where
  "bnd m f = (\<lambda>s. case m s of (Inl e, t) \<Rightarrow> (Inl e, t) | (Inr x, t) \<Rightarrow> f x t)"

definition seqc :: "('s, 'a) comp \<Rightarrow> ('s, 'b) comp \<Rightarrow> ('s, 'b) comp" where
  "seqc m n = bnd m (\<lambda>_. n)"

definition gets :: "('s \<Rightarrow> 'a) \<Rightarrow> ('s, 'a) comp" where
  "gets f = (\<lambda>s. (Inr (f s), s))"

definition modify :: "('s \<Rightarrow> 's) \<Rightarrow> ('s, unit) comp" where
  "modify f = (\<lambda>s. (Inr (), f s))"

text \<open>\<open>raise_if\<close> is the ubiquitous \<open>if c: raise e\<close>; \<open>lift_res\<close> runs a pure fallible function.\<close>

definition raise_if :: "bool \<Rightarrow> exn \<Rightarrow> ('s, unit) comp" where
  "raise_if c e = (if c then throw e else ret ())"

definition whenc :: "bool \<Rightarrow> ('s, unit) comp \<Rightarrow> ('s, unit) comp" where
  "whenc c m = (if c then m else ret ())"

definition lift_res :: "exn + 'a \<Rightarrow> ('s, 'a) comp" where
  "lift_res r = (\<lambda>s. (r, s))"

fun for_each :: "'x list \<Rightarrow> ('x \<Rightarrow> ('s, unit) comp) \<Rightarrow> ('s, unit) comp" where
  "for_each [] f = ret ()"
| "for_each (x # xs) f = seqc (f x) (for_each xs f)"

text \<open>\<open>try: m except <errors of p> as e: h e\<close>.\<close>

definition catching :: "(exn \<Rightarrow> bool) \<Rightarrow> ('s, 'a) comp \<Rightarrow> (exn \<Rightarrow> ('s, 'a) comp) \<Rightarrow> ('s, 'a) comp" where
  "catching p m h = (\<lambda>s. case m s of
     (Inl e, t) \<Rightarrow> if p e then h e t else (Inl e, t) | (Inr x, t) \<Rightarrow> (Inr x, t))"

section \<open>Pure fallible computations\<close>

definition rbind :: "exn + 'a \<Rightarrow> ('a \<Rightarrow> exn + 'b) \<Rightarrow> exn + 'b" where
  "rbind r f = (case r of Inl e \<Rightarrow> Inl e | Inr x \<Rightarrow> f x)"

definition check :: "bool \<Rightarrow> exn \<Rightarrow> exn + unit" where
  "check ok e = (if ok then Inr () else Inl e)"

fun rmap :: "('a \<Rightarrow> exn + 'b) \<Rightarrow> 'a list \<Rightarrow> exn + 'b list" where
  "rmap f [] = Inr []"
| "rmap f (x # xs) = rbind (f x) (\<lambda>y. rbind (rmap f xs) (\<lambda>ys. Inr (y # ys)))"

lemma rbind_simps [simp]:
  "rbind (Inl e) f = Inl e"
  "rbind (Inr x) f = f x"
  by (simp_all add: rbind_def)

lemma rbind_eq_Inr [simp]:
  "rbind r f = Inr y \<longleftrightarrow> (\<exists>x. r = Inr x \<and> f x = Inr y)"
  by (cases r) auto

lemma rbind_eq_Inl:
  "rbind r f = Inl e \<longleftrightarrow> r = Inl e \<or> (\<exists>x. r = Inr x \<and> f x = Inl e)"
  by (cases r) auto

lemma check_Inr [simp]: "check ok e = Inr u \<longleftrightarrow> ok"
  by (simp add: check_def)

lemma check_Inl [simp]: "check ok e = Inl e' \<longleftrightarrow> \<not> ok \<and> e' = e"
  by (auto simp: check_def)

lemma check_cond [simp]:
  "check True e = Inr ()"
  "check False e = Inl e"
  by (simp_all add: check_def)

lemma rmap_Inr_length: "rmap f xs = Inr ys \<Longrightarrow> length ys = length xs"
  by (induction xs arbitrary: ys) auto

lemma rmap_Inr_nth:
  "rmap f xs = Inr ys \<Longrightarrow> i < length xs \<Longrightarrow> f (xs ! i) = Inr (ys ! i)"
  by (induction xs arbitrary: ys i) (auto simp: nth_Cons split: nat.splits)

lemma rmap_Inr_all: "rmap f xs = Inr ys \<Longrightarrow> y \<in> set ys \<Longrightarrow> \<exists>x\<in>set xs. f x = Inr y"
  by (induction xs arbitrary: ys) auto

section \<open>Weakest preconditions\<close>

text \<open>
  \<open>wp m Q E s\<close>: running \<open>m\<close> from \<open>s\<close> ends in \<open>Q\<close> when it returns and in \<open>E\<close> when it raises.
  The calculus is equational, so \<open>simp add: wp\<close> pushes a postcondition through a whole operation.
\<close>

named_theorems wp "equations of the weakest-precondition calculus"

definition wp :: "('s, 'a) comp \<Rightarrow> ('a \<Rightarrow> 's \<Rightarrow> bool) \<Rightarrow> (exn \<Rightarrow> 's \<Rightarrow> bool) \<Rightarrow> 's \<Rightarrow> bool" where
  "wp m Q E s = (case m s of (Inl e, t) \<Rightarrow> E e t | (Inr x, t) \<Rightarrow> Q x t)"

lemma wp_ret [wp]: "wp (ret x) Q E s = Q x s"
  by (simp add: wp_def ret_def)

lemma wp_throw [wp]: "wp (throw e) Q E s = E e s"
  by (simp add: wp_def throw_def)

lemma wp_bnd [wp]: "wp (bnd m f) Q E s = wp m (\<lambda>x. wp (f x) Q E) E s"
  by (auto simp: wp_def bnd_def split: prod.splits sum.splits)

lemma wp_seqc [wp]: "wp (seqc m n) Q E s = wp m (\<lambda>_. wp n Q E) E s"
  by (simp add: seqc_def wp_bnd)

lemma wp_gets [wp]: "wp (gets f) Q E s = Q (f s) s"
  by (simp add: wp_def gets_def)

lemma wp_modify [wp]: "wp (modify f) Q E s = Q () (f s)"
  by (simp add: wp_def modify_def)

lemma wp_raise_if [wp]: "wp (raise_if c e) Q E s = (if c then E e s else Q () s)"
  by (simp add: raise_if_def wp_ret wp_throw)

lemma wp_whenc [wp]: "wp (whenc c m) Q E s = (if c then wp m Q E s else Q () s)"
  by (simp add: whenc_def wp_ret)

lemma wp_lift_res [wp]:
  "wp (lift_res r) Q E s = (case r of Inl e \<Rightarrow> E e s | Inr x \<Rightarrow> Q x s)"
  by (simp add: wp_def lift_res_def split: sum.splits)

lemma wp_if [wp]: "wp (if c then m else n) Q E s = (if c then wp m Q E s else wp n Q E s)"
  by simp

lemma wp_catching [wp]:
  "wp (catching p m h) Q E s = wp m Q (\<lambda>e t. if p e then wp (h e) Q E t else E e t) s"
  by (auto simp: wp_def catching_def split: prod.splits sum.splits)

lemma wp_mono:
  assumes "wp m Q E s" and "\<And>x t. Q x t \<Longrightarrow> Q' x t" and "\<And>e t. E e t \<Longrightarrow> E' e t"
  shows "wp m Q' E' s"
  using assms by (auto simp: wp_def split: prod.splits sum.splits)

lemma wp_conj:
  "wp m Q E s \<Longrightarrow> wp m Q' E' s \<Longrightarrow> wp m (\<lambda>x t. Q x t \<and> Q' x t) (\<lambda>e t. E e t \<and> E' e t) s"
  by (auto simp: wp_def split: prod.splits sum.splits)

lemma wp_Inr: "wp m Q E s \<Longrightarrow> m s = (Inr x, t) \<Longrightarrow> Q x t"
  by (simp add: wp_def)

lemma wp_Inl: "wp m Q E s \<Longrightarrow> m s = (Inl e, t) \<Longrightarrow> E e t"
  by (simp add: wp_def)

lemma wpI:
  assumes "\<And>x t. m s = (Inr x, t) \<Longrightarrow> Q x t" and "\<And>e t. m s = (Inl e, t) \<Longrightarrow> E e t"
  shows "wp m Q E s"
  using assms by (auto simp: wp_def split: prod.splits sum.splits)

lemma wp_for_each:
  assumes step: "\<And>x t. x \<in> set xs \<Longrightarrow> I t \<Longrightarrow> wp (f x) (\<lambda>_. I) E t"
  shows "I s \<Longrightarrow> wp (for_each xs f) (\<lambda>_. I) E s"
  using step
proof (induction xs arbitrary: s)
  case Nil
  then show ?case by (simp add: wp)
next
  case (Cons x xs)
  from Cons.prems have "wp (f x) (\<lambda>_. I) E s" by simp
  moreover have "wp (for_each xs f) (\<lambda>_. I) E t" if "I t" for t
    using Cons.IH [OF that] Cons.prems(2) by simp
  ultimately show ?case by (auto simp: wp elim: wp_mono)
qed

text \<open>
  An invariant of every outcome, returning or raising: \<open>keeps I m\<close>. It composes, so a whole
  operation keeps what its steps keep.
\<close>

definition keeps :: "('s \<Rightarrow> bool) \<Rightarrow> ('s, 'a) comp \<Rightarrow> bool" where
  "keeps I m \<longleftrightarrow> (\<forall>s. I s \<longrightarrow> I (snd (m s)))"

named_theorems keeps_intro "operations that keep an invariant on every outcome"

lemma keepsD: "keeps I m \<Longrightarrow> I s \<Longrightarrow> m s = (r, t) \<Longrightarrow> I t"
  unfolding keeps_def by (metis snd_conv)

lemma keeps_ret [keeps_intro]: "keeps I (ret x)"
  by (simp add: keeps_def ret_def)

lemma keeps_throw [keeps_intro]: "keeps I (throw e)"
  by (simp add: keeps_def throw_def)

lemma keeps_gets [keeps_intro]: "keeps I (gets f)"
  by (simp add: keeps_def gets_def)

lemma keeps_lift_res [keeps_intro]: "keeps I (lift_res r)"
  by (simp add: keeps_def lift_res_def)

lemma keeps_raise_if [keeps_intro]: "keeps I (raise_if c e)"
  by (simp add: raise_if_def keeps_ret keeps_throw)

lemma keeps_bnd [keeps_intro]:
  assumes "keeps I m" and "\<And>x. keeps I (f x)"
  shows "keeps I (bnd m f)"
  using assms unfolding keeps_def bnd_def
  by (fastforce split: prod.splits sum.splits)

lemma keeps_seqc [keeps_intro]: "keeps I m \<Longrightarrow> keeps I n \<Longrightarrow> keeps I (seqc m n)"
  unfolding seqc_def by (rule keeps_bnd)

lemma keeps_whenc [keeps_intro]: "keeps I m \<Longrightarrow> keeps I (whenc c m)"
  by (simp add: whenc_def keeps_ret)

lemma keeps_if [keeps_intro]: "keeps I m \<Longrightarrow> keeps I n \<Longrightarrow> keeps I (if c then m else n)"
  by simp

lemma keeps_catching [keeps_intro]: "keeps I m \<Longrightarrow> (\<And>e. keeps I (h e)) \<Longrightarrow> keeps I (catching p m h)"
  unfolding keeps_def catching_def by (fastforce split: prod.splits sum.splits)

lemma keeps_modify: "(\<And>s. I s \<Longrightarrow> I (f s)) \<Longrightarrow> keeps I (modify f)"
  by (simp add: keeps_def modify_def)

lemma keeps_for_each [keeps_intro]:
  "(\<And>x. keeps I (f x)) \<Longrightarrow> keeps I (for_each xs f)"
  by (induction xs) (auto intro: keeps_intro)

text \<open>\<open>fuelled m\<close>: the fuel a model gives its loops never runs out, whatever the state.\<close>

definition fuelled :: "('s, 'a) comp \<Rightarrow> bool" where
  "fuelled m \<longleftrightarrow> (\<forall>s. fst (m s) \<noteq> Inl OutOfFuel)"

named_theorems fuelled_intro "computations that never run out of fuel"

lemma fuelled_pure [fuelled_intro]:
  "fuelled (ret x)" "fuelled (gets f)" "fuelled (modify g)" "e \<noteq> OutOfFuel \<Longrightarrow> fuelled (throw e)"
  "e \<noteq> OutOfFuel \<Longrightarrow> fuelled (raise_if c e)" "r \<noteq> Inl OutOfFuel \<Longrightarrow> fuelled (lift_res r)"
  by (simp_all add: fuelled_def ret_def gets_def modify_def throw_def raise_if_def lift_res_def)

lemma fuelled_wp: "fuelled m \<longleftrightarrow> (\<forall>s. wp m (\<lambda>_ _. True) (\<lambda>e _. e \<noteq> OutOfFuel) s)"
proof -
  have "fst (m s) \<noteq> Inl OutOfFuel \<longleftrightarrow> wp m (\<lambda>_ _. True) (\<lambda>e _. e \<noteq> OutOfFuel) s" for s
    by (cases "m s"; cases "fst (m s)") (auto simp: wp_def)
  then show ?thesis by (simp add: fuelled_def)
qed

lemma fuelled_bnd [fuelled_intro]: "fuelled m \<Longrightarrow> (\<And>x. fuelled (f x)) \<Longrightarrow> fuelled (bnd m f)"
  unfolding fuelled_wp wp_bnd by (blast intro: wp_mono)

lemma fuelled_seqc [fuelled_intro]: "fuelled m \<Longrightarrow> fuelled n \<Longrightarrow> fuelled (seqc m n)"
  unfolding seqc_def by (rule fuelled_bnd)

lemma fuelled_catching [fuelled_intro]:
  assumes "fuelled m" and "\<And>e. fuelled (h e)"
  shows "fuelled (catching p m h)"
  unfolding fuelled_def
proof
  fix s
  obtain r t where m: "m s = (r, t)" by fastforce
  have "r \<noteq> Inl OutOfFuel" using assms(1) m unfolding fuelled_def by (metis fst_conv)
  moreover have "fst (h e t) \<noteq> Inl OutOfFuel" for e using assms(2) unfolding fuelled_def by blast
  ultimately show "fst (catching p m h s) \<noteq> Inl OutOfFuel"
    using m by (cases r) (simp_all add: catching_def)
qed

lemma fuelled_if [fuelled_intro]: "fuelled m \<Longrightarrow> fuelled n \<Longrightarrow> fuelled (if c then m else n)"
  by simp

lemma fuelled_whenc [fuelled_intro]: "fuelled m \<Longrightarrow> fuelled (whenc c m)"
  by (simp add: whenc_def fuelled_pure)

lemma fuelled_for_each [fuelled_intro]: "(\<And>x. fuelled (f x)) \<Longrightarrow> fuelled (for_each xs f)"
  by (induction xs) (auto intro: fuelled_intro)

section \<open>Ordering properties of event traces\<close>

text \<open>
  Traces are kept newest event first. \<open>guarded A G tr\<close>: whenever an event of \<open>tr\<close> satisfies \<open>A\<close>,
  the trace before it satisfies \<open>G\<close>.
\<close>

fun guarded :: "('e \<Rightarrow> bool) \<Rightarrow> ('e list \<Rightarrow> bool) \<Rightarrow> 'e list \<Rightarrow> bool" where
  "guarded A G [] = True"
| "guarded A G (e # tr) = ((A e \<longrightarrow> G tr) \<and> guarded A G tr)"

lemma guarded_append_no_event:
  "guarded A G tr \<Longrightarrow> \<not> list_ex A new \<Longrightarrow> guarded A G (new @ tr)"
  by (induction new) auto

lemma guarded_split: "guarded A G tr \<Longrightarrow> tr = later @ a # earlier \<Longrightarrow> A a \<Longrightarrow> G earlier"
  by (induction later arbitrary: tr) auto

section \<open>Insertion-ordered dictionaries\<close>

text \<open>
  A Python dict is an association list with distinct keys: \<open>map_of\<close> is \<open>d.get(k)\<close> and
  \<open>AList.update k v\<close> is \<open>d[k] = v\<close>, which replaces in place or appends.
\<close>

abbreviation dput :: "'k \<Rightarrow> 'v \<Rightarrow> ('k \<times> 'v) list \<Rightarrow> ('k \<times> 'v) list" where
  "dput \<equiv> AList.update"

fun dputs :: "('k \<times> 'v) list \<Rightarrow> ('k \<times> 'v) list \<Rightarrow> ('k \<times> 'v) list" where
  "dputs [] d = d"
| "dputs ((k, v) # kvs) d = dputs kvs (dput k v d)"

lemma map_of_dput [simp]: "map_of (dput k v d) = (map_of d)(k \<mapsto> v)"
  by (simp add: update_conv')

lemma distinct_dput [simp]: "distinct (map fst d) \<Longrightarrow> distinct (map fst (dput k v d))"
  by (rule distinct_update)

lemma fst_set_dput [simp]: "fst ` set (dput k v d) = insert k (fst ` set d)"
  by (metis dom_map_of_conv_image_fst dom_fun_upd map_of_dput option.distinct(1))

lemma distinct_dputs: "distinct (map fst d) \<Longrightarrow> distinct (map fst (dputs kvs d))"
  by (induction kvs d rule: dputs.induct) simp_all

lemma map_of_dputs:
  "distinct (map fst kvs) \<Longrightarrow>
   map_of (dputs kvs d) k = (case map_of kvs k of Some v \<Rightarrow> Some v | None \<Rightarrow> map_of d k)"
proof (induction kvs d rule: dputs.induct)
  case (2 k' v kvs d)
  then have "map_of kvs k' = None" by (simp add: map_of_eq_None_iff)
  with 2 show ?case by (cases "k = k'") (simp_all split: option.splits)
qed simp

lemma dput_fresh: "k \<notin> fst ` set d \<Longrightarrow> dput k v d = d @ [(k, v)]"
  by (induction d) auto

end
