(* ===== verification/PyText.thy ===== *)
theory PyText
  imports Prelude "HOL-Library.Char_ord" "HOL-Library.List_Lexorder"
begin

text \<open>
  Python text as the code uses it. A \<open>str\<close> is carried as its UTF-8 bytes, one HOL character per
  byte: the regular expressions of the source only name ASCII classes, so a full match reads the
  same on bytes, \<open>sorted\<close> orders strings by code point and so by byte, \<open>encode\<close> is the identity, and
  \<open>len\<close> counts the bytes that start a code point. Whitespace and digit tests are the ASCII ones.
\<close>

section \<open>Character classes\<close>

definition code :: "char \<Rightarrow> nat" where
  "code c = of_char c"

definition in_range :: "nat \<Rightarrow> nat \<Rightarrow> char \<Rightarrow> bool" where
  "in_range lo hi c \<longleftrightarrow> lo \<le> code c \<and> code c \<le> hi"

definition is_digit :: "char \<Rightarrow> bool" where
  "is_digit c \<longleftrightarrow> in_range 48 57 c"

definition is_lower :: "char \<Rightarrow> bool" where
  "is_lower c \<longleftrightarrow> in_range 97 122 c"

definition is_upper :: "char \<Rightarrow> bool" where
  "is_upper c \<longleftrightarrow> in_range 65 90 c"

definition is_alnum :: "char \<Rightarrow> bool" where
  "is_alnum c \<longleftrightarrow> is_digit c \<or> is_lower c \<or> is_upper c"

definition is_lower_alnum :: "char \<Rightarrow> bool" where
  "is_lower_alnum c \<longleftrightarrow> is_digit c \<or> is_lower c"

definition is_lower_hex :: "char \<Rightarrow> bool" where
  "is_lower_hex c \<longleftrightarrow> is_digit c \<or> in_range 97 102 c"

definition is_hex :: "char \<Rightarrow> bool" where
  "is_hex c \<longleftrightarrow> is_lower_hex c \<or> in_range 65 70 c"

definition is_space :: "char \<Rightarrow> bool" where
  "is_space c \<longleftrightarrow> in_range 9 13 c \<or> in_range 28 32 c"

definition is_ascii :: "char \<Rightarrow> bool" where
  "is_ascii c \<longleftrightarrow> code c < 128"

text \<open>A class that also allows the characters of a punctuation string.\<close>

definition plus_of :: "(char \<Rightarrow> bool) \<Rightarrow> string \<Rightarrow> char \<Rightarrow> bool" where
  "plus_of p extra c \<longleftrightarrow> p c \<or> c \<in> set extra"

lemmas class_defs = code_def in_range_def is_digit_def is_lower_def is_upper_def is_alnum_def
  is_lower_alnum_def is_lower_hex_def is_hex_def is_space_def is_ascii_def plus_of_def

section \<open>Full matches of the source's pattern shapes\<close>

text \<open>\<open>[p]{lo,hi}\<close>, and \<open>[p][q]{lo,hi}\<close>, each anchored at both ends.\<close>

definition rep_match :: "(char \<Rightarrow> bool) \<Rightarrow> nat \<Rightarrow> nat \<Rightarrow> string \<Rightarrow> bool" where
  "rep_match p lo hi s \<longleftrightarrow> lo \<le> length s \<and> length s \<le> hi \<and> list_all p s"

fun head_rep_match :: "(char \<Rightarrow> bool) \<Rightarrow> (char \<Rightarrow> bool) \<Rightarrow> nat \<Rightarrow> nat \<Rightarrow> string \<Rightarrow> bool" where
  "head_rep_match p q lo hi [] = False"
| "head_rep_match p q lo hi (c # s) = (p c \<and> rep_match q lo hi s)"

definition hex64 :: "string \<Rightarrow> bool" where
  "hex64 s \<longleftrightarrow> rep_match is_lower_hex 64 64 s"

section \<open>Prefixes, splitting, stripping\<close>

fun starts_with :: "string \<Rightarrow> string \<Rightarrow> bool" where
  "starts_with [] s = True"
| "starts_with (p # ps) [] = False"
| "starts_with (p # ps) (c # s) = (p = c \<and> starts_with ps s)"

definition ends_with :: "string \<Rightarrow> string \<Rightarrow> bool" where
  "ends_with suf s = starts_with (rev suf) (rev s)"

fun contains_str :: "string \<Rightarrow> string \<Rightarrow> bool" where
  "contains_str p [] = (p = [])"
| "contains_str p (c # s) = (starts_with p (c # s) \<or> contains_str p s)"

text \<open>\<open>s.split(c, 1)\<close> when \<open>c\<close> occurs, \<open>s.split(c)\<close> and \<open>s.splitlines()\<close> for newlines only.\<close>

fun split_once :: "char \<Rightarrow> string \<Rightarrow> (string \<times> string) option" where
  "split_once d [] = None"
| "split_once d (c # s) =
     (if c = d then Some ([], s)
      else map_option (\<lambda>(a, b). (c # a, b)) (split_once d s))"

fun py_split :: "char \<Rightarrow> string \<Rightarrow> string list" where
  "py_split d [] = [[]]"
| "py_split d (c # s) =
     (if c = d then [] # py_split d s
      else (case py_split d s of [] \<Rightarrow> [[c]] | w # ws \<Rightarrow> (c # w) # ws))"

fun py_splitlines :: "string \<Rightarrow> string list" where
  "py_splitlines [] = []"
| "py_splitlines (c # s) =
     (if code c = 10 then [] # py_splitlines s
      else (case py_splitlines s of [] \<Rightarrow> [[c]] | w # ws \<Rightarrow>
        (if s \<noteq> [] \<and> code (hd s) = 10 then [c] # ws else (c # w) # ws)))"

definition py_lstrip :: "string \<Rightarrow> string" where
  "py_lstrip s = dropWhile is_space s"

definition py_rstrip :: "string \<Rightarrow> string" where
  "py_rstrip s = rev (dropWhile is_space (rev s))"

definition py_strip :: "string \<Rightarrow> string" where
  "py_strip s = py_rstrip (py_lstrip s)"

definition rstrip_char :: "char \<Rightarrow> string \<Rightarrow> string" where
  "rstrip_char d s = rev (dropWhile (\<lambda>c. c = d) (rev s))"

definition to_lower :: "string \<Rightarrow> string" where
  "to_lower s = map (\<lambda>c. if is_upper c then char_of (code c + 32) else c) s"

text \<open>\<open>len(s)\<close>: continuation bytes (10xxxxxx) do not start a code point.\<close>

definition py_len :: "string \<Rightarrow> nat" where
  "py_len s = length (List.filter (\<lambda>c. \<not> in_range 128 191 c) s)"

lemma py_len_ascii: "list_all is_ascii s \<Longrightarrow> py_len s = length s"
  by (induction s) (auto simp: py_len_def is_ascii_def in_range_def)

text \<open>\<open>s[:n]\<close>, by code points.\<close>

fun py_take :: "nat \<Rightarrow> string \<Rightarrow> string" where
  "py_take n [] = []"
| "py_take n (c # s) =
     (if in_range 128 191 c then c # py_take n s
      else (case n of 0 \<Rightarrow> [] | Suc m \<Rightarrow> c # py_take m s))"

section \<open>Integers as text\<close>

definition digit_char :: "nat \<Rightarrow> char" where
  "digit_char d = char_of (48 + d)"

fun nat_str :: "nat \<Rightarrow> string" where
  "nat_str n = (if n < 10 then [digit_char n] else nat_str (n div 10) @ [digit_char (n mod 10)])"

declare nat_str.simps [simp del]

definition int_str :: "int \<Rightarrow> string" where
  "int_str i = (if i < 0 then CHR ''-'' # nat_str (nat (- i)) else nat_str (nat i))"

definition digits_val :: "string \<Rightarrow> nat" where
  "digits_val s = foldl (\<lambda>a c. 10 * a + (code c - 48)) 0 s"

definition hex_digit_val :: "char \<Rightarrow> nat" where
  "hex_digit_val c =
     (if is_digit c then code c - 48 else if in_range 97 102 c then code c - 87 else code c - 55)"

definition hex_val :: "string \<Rightarrow> nat" where
  "hex_val s = foldl (\<lambda>a c. 16 * a + hex_digit_val c) 0 s"

definition hex_digit :: "nat \<Rightarrow> char" where
  "hex_digit d = (if d < 10 then char_of (48 + d) else char_of (87 + d))"

fun hex_str :: "nat \<Rightarrow> string" where
  "hex_str n = (if n < 16 then [hex_digit n] else hex_str (n div 16) @ [hex_digit (n mod 16)])"

declare hex_str.simps [simp del]

text \<open>\<open>int(s)\<close>: surrounding blanks, a sign, decimal digits with single underscores between them.\<close>

fun underscored :: "string \<Rightarrow> string option" where
  "underscored [] = None"
| "underscored [c] = (if is_digit c then Some [c] else None)"
| "underscored (c # d # s) =
     (if \<not> is_digit c then None
      else if d = CHR ''_'' then map_option ((#) c) (underscored s)
      else map_option ((#) c) (underscored (d # s)))"

definition py_int :: "string \<Rightarrow> exn + int" where
  "py_int s =
     (let t = py_strip s;
          (neg, ds) = (case t of [] \<Rightarrow> (False, [])
             | c # r \<Rightarrow> if c = CHR ''-'' then (True, r) else if c = CHR ''+'' then (False, r) else (False, t))
      in case underscored ds of
           None \<Rightarrow> Inl ValueErr
         | Some d \<Rightarrow> Inr (if neg then - int (digits_val d) else int (digits_val d)))"

text \<open>\<open>s.isdigit()\<close>.\<close>

definition all_digits :: "string \<Rightarrow> bool" where
  "all_digits s \<longleftrightarrow> s \<noteq> [] \<and> list_all is_digit s"

text \<open>\<open>repr(s)\<close> of a string, and \<open>repr(sorted(...))\<close> of a list of strings, as error messages use them.\<close>

definition hex2 :: "nat \<Rightarrow> string" where
  "hex2 n = [hex_digit (n div 16 mod 16), hex_digit (n mod 16)]"

definition repr_char :: "char \<Rightarrow> char \<Rightarrow> string" where
  "repr_char q c =
     (if c = q \<or> code c = 92 then [char_of (92::nat), c]
      else if code c = 10 then [char_of (92::nat), CHR ''n'']
      else if code c = 13 then [char_of (92::nat), CHR ''r'']
      else if code c = 9 then [char_of (92::nat), CHR ''t'']
      else if code c < 32 \<or> code c = 127 then [char_of (92::nat), CHR ''x''] @ hex2 (code c)
      else [c])"

definition py_repr_str :: "string \<Rightarrow> string" where
  "py_repr_str s =
     (let q = (if char_of (39::nat) \<in> set s \<and> char_of (34::nat) \<notin> set s
               then char_of (34::nat) else char_of (39::nat))
      in [q] @ concat (map (repr_char q) s) @ [q])"

fun join_with :: "string \<Rightarrow> string list \<Rightarrow> string" where
  "join_with sep [] = []"
| "join_with sep [w] = w"
| "join_with sep (w # v # ws) = w @ sep @ join_with sep (v # ws)"

definition py_repr_strs :: "string list \<Rightarrow> string" where
  "py_repr_strs ws = ''['' @ join_with '', '' (map py_repr_str ws) @ '']''"

section \<open>Facts about digits\<close>

lemma code_char_of: "n < 256 \<Longrightarrow> code (char_of n) = n"
  by (simp add: code_def)

lemma code_less: "code c < 256"
  by (simp add: code_def)

lemma digit_char_digit: "d < 10 \<Longrightarrow> is_digit (digit_char d)"
  by (simp add: digit_char_def is_digit_def in_range_def code_char_of)

lemma code_digit_char: "d < 10 \<Longrightarrow> code (digit_char d) = 48 + d"
  by (simp add: digit_char_def code_char_of)

lemma nat_str_nonempty [simp]: "nat_str n \<noteq> []"
  by (subst nat_str.simps) simp

lemma nat_str_digits: "list_all is_digit (nat_str n)"
proof (induction n rule: nat_str.induct)
  case (1 n)
  then show ?case
    by (subst nat_str.simps) (auto simp: digit_char_digit)
qed

lemma digits_val_snoc: "digits_val (s @ [c]) = 10 * digits_val s + (code c - 48)"
  by (simp add: digits_val_def)

lemma digits_val_nat_str [simp]: "digits_val (nat_str n) = n"
proof (induction n rule: nat_str.induct)
  case (1 n)
  then show ?case
    by (subst nat_str.simps)
      (auto simp: digits_val_snoc code_digit_char digits_val_def)
qed

lemma nat_str_inj: "nat_str m = nat_str n \<Longrightarrow> m = n"
  by (metis digits_val_nat_str)

lemma nat_str_leading: "n \<noteq> 0 \<Longrightarrow> hd (nat_str n) \<noteq> CHR ''0''"
proof (induction n rule: nat_str.induct)
  case (1 n)
  show ?case
  proof (cases "n < 10")
    case True
    with "1.prems" have "code (digit_char n) \<noteq> code (CHR ''0'')"
      by (simp add: code_digit_char) (simp add: code_def)
    with True show ?thesis by (subst nat_str.simps) auto
  next
    case False
    with 1 show ?thesis by (subst nat_str.simps) simp
  qed
qed

lemma nat_str_0 [simp]: "nat_str 0 = ''0''"
  by (subst nat_str.simps) (simp add: digit_char_def char_of_eq_iff)

lemma list_all_mono': "list_all p xs \<Longrightarrow> (\<And>x. p x \<Longrightarrow> q x) \<Longrightarrow> list_all q xs"
  by (auto simp: list_all_iff)

lemma starts_with_append [simp]: "starts_with p (p @ s)"
  by (induction p) auto

lemma starts_with_iff: "starts_with p s \<longleftrightarrow> (\<exists>r. s = p @ r)"
  by (induction p s rule: starts_with.induct) auto

lemma hex64_length: "hex64 s \<Longrightarrow> length s = 64"
  by (simp add: hex64_def rep_match_def)

end
