(* ===== verification/PyFloat.thy ===== *)
theory PyFloat
  imports PyText
begin

text \<open>
  The only thing the modelled code does with a float it read from JSON is print it back, test its
  type or compare it with a small integer, so a float is represented by its Python \<open>repr\<close>.
  \<open>float_norm\<close> computes that text from a decimal literal: the nearest binary64 value (ties to even)
  in exact integer arithmetic, then the shortest decimal that reads back as the same value.
\<close>

section \<open>Scanning a JSON number\<close>

definition span_digits :: "string \<Rightarrow> string \<times> string" where
  "span_digits s = (takeWhile is_digit s, dropWhile is_digit s)"

definition scan_sign :: "string \<Rightarrow> string \<times> string" where
  "scan_sign s = (case s of c # r \<Rightarrow> if c = CHR ''-'' then (''-'', r) else ([], s) | [] \<Rightarrow> ([], s))"

text \<open>The integer part is a lone zero or starts with a nonzero digit.\<close>

definition scan_int :: "string \<Rightarrow> string \<times> string" where
  "scan_int s = (case s of [] \<Rightarrow> ([], [])
     | c # r \<Rightarrow> if c = CHR ''0'' then (''0'', r) else span_digits s)"

definition scan_frac :: "string \<Rightarrow> string \<times> string" where
  "scan_frac s = (case s of [] \<Rightarrow> ([], [])
     | c # r \<Rightarrow> if c = CHR ''.'' \<and> fst (span_digits r) \<noteq> []
                 then (CHR ''.'' # fst (span_digits r), snd (span_digits r)) else ([], s))"

definition scan_exp_sign :: "string \<Rightarrow> string \<times> string" where
  "scan_exp_sign s = (case s of [] \<Rightarrow> ([], [])
     | c # r \<Rightarrow> if c = CHR ''+'' \<or> c = CHR ''-'' then ([c], r) else ([], s))"

definition scan_exp :: "string \<Rightarrow> string \<times> string" where
  "scan_exp s = (case s of [] \<Rightarrow> ([], [])
     | c # r \<Rightarrow>
         (let (sg, r1) = scan_exp_sign r; (ds, r2) = span_digits r1
          in if (c = CHR ''e'' \<or> c = CHR ''E'') \<and> ds \<noteq> [] then (c # sg @ ds, r2) else ([], s)))"

record num_lexeme =
  lex_sign :: string
  lex_int :: string
  lex_frac :: string
  lex_exp :: string

definition scan_num :: "string \<Rightarrow> num_lexeme \<times> string" where
  "scan_num s =
     (let (sg, s1) = scan_sign s; (ip, s2) = scan_int s1;
          (fp, s3) = scan_frac s2; (ep, s4) = scan_exp s3
      in (\<lparr>lex_sign = sg, lex_int = ip, lex_frac = fp, lex_exp = ep\<rparr>, s4))"

definition lex_text :: "num_lexeme \<Rightarrow> string" where
  "lex_text l = lex_sign l @ lex_int l @ lex_frac l @ lex_exp l"

section \<open>Nearest binary64 value\<close>

fun bit_len :: "nat \<Rightarrow> nat" where
  "bit_len n = (if n = 0 then 0 else Suc (bit_len (n div 2)))"

declare bit_len.simps [simp del]

text \<open>Round-half-even quotient.\<close>

definition round_div :: "nat \<Rightarrow> nat \<Rightarrow> nat" where
  "round_div n d =
     (let q = n div d; r = n mod d
      in if 2 * r < d \<or> (2 * r = d \<and> even q) then q else q + 1)"

definition floor_log2 :: "nat \<Rightarrow> nat \<Rightarrow> int" where
  "floor_log2 n d =
     (let k = int (bit_len n) - int (bit_len d)
      in if (if 0 \<le> k then d * 2 ^ nat k \<le> n else d \<le> n * 2 ^ nat (- k)) then k else k - 1)"

text \<open>The pair \<open>(m, e)\<close> with value \<open>m * 2 ^ e\<close>, or \<open>None\<close> beyond the range.\<close>

definition to_double :: "nat \<Rightarrow> nat \<Rightarrow> (nat \<times> int) option" where
  "to_double n d =
     (if n = 0 then Some (0, 0)
      else
        let e = max (floor_log2 n d - 52) (- 1074);
            m = (if 0 \<le> e then round_div n (d * 2 ^ nat e) else round_div (n * 2 ^ nat (- e)) d);
            (m', e') = (if m = 2 ^ 53 then (2 ^ 52, e + 1) else (m, e))
        in if 971 < e' then None else Some (m', e'))"

definition dec_ratio :: "nat \<Rightarrow> int \<Rightarrow> nat \<times> nat" where
  "dec_ratio m e10 = (if 0 \<le> e10 then (m * 10 ^ nat e10, 1) else (m, 10 ^ nat (- e10)))"

definition dec_to_double :: "nat \<Rightarrow> int \<Rightarrow> (nat \<times> int) option" where
  "dec_to_double m e10 =
     (let size = int (length (nat_str m)) + e10
      in if m = 0 \<or> size < - 330 then Some (0, 0)
         else if 330 < size then None
         else (case dec_ratio m e10 of (n, d) \<Rightarrow> to_double n d))"

section \<open>Shortest decimal that reads back\<close>

definition double_ratio :: "nat \<times> int \<Rightarrow> nat \<times> nat" where
  "double_ratio f = (case f of (m, e) \<Rightarrow> if 0 \<le> e then (m * 2 ^ nat e, 1) else (m, 2 ^ nat (- e)))"

text \<open>\<open>floor (log10 (n / d))\<close> by search from an estimate.\<close>

fun log10_search :: "nat \<Rightarrow> int \<Rightarrow> nat \<Rightarrow> nat \<Rightarrow> int" where
  "log10_search 0 k n d = k"
| "log10_search (Suc fuel) k n d =
     (if (if 0 \<le> k then d * 10 ^ nat k \<le> n else d \<le> n * 10 ^ nat (- k)) then k
      else log10_search fuel (k - 1) n d)"

definition round_dec :: "nat \<Rightarrow> nat \<Rightarrow> int \<Rightarrow> nat" where
  "round_dec n d e = (if 0 \<le> e then round_div n (d * 10 ^ nat e) else round_div (n * 10 ^ nat (- e)) d)"

fun shortest :: "nat \<Rightarrow> nat \<Rightarrow> nat \<times> int \<Rightarrow> int \<Rightarrow> nat \<times> int" where
  "shortest 0 p f k = (round_dec (fst (double_ratio f)) (snd (double_ratio f)) (k - 16), k - 16)"
| "shortest (Suc fuel) p f k =
     (let e = k - int p + 1;
          m = round_dec (fst (double_ratio f)) (snd (double_ratio f)) e
      in if dec_to_double m e = Some f then (m, e) else shortest fuel (Suc p) f k)"

fun strip_zeros :: "nat \<Rightarrow> nat \<Rightarrow> int \<Rightarrow> nat \<times> int" where
  "strip_zeros 0 m e = (m, e)"
| "strip_zeros (Suc fuel) m e =
     (if m \<noteq> 0 \<and> m mod 10 = 0 then strip_zeros fuel (m div 10) (e + 1) else (m, e))"

definition exp_text :: "int \<Rightarrow> string" where
  "exp_text e =
     (let a = nat_str (nat \<bar>e\<bar>) in (if e < 0 then ''e-'' else ''e+'') @ (if length a < 2 then ''0'' @ a else a))"

text \<open>The layout of \<open>repr\<close>: fixed notation for a decimal point from -3 to 16, else an exponent.\<close>

definition layout :: "nat \<Rightarrow> int \<Rightarrow> string" where
  "layout m e =
     (let ds = nat_str m; pt = int (length ds) + e
      in if - 4 < pt \<and> pt \<le> 16
         then (if pt \<le> 0 then ''0.'' @ replicate (nat (- pt)) (CHR ''0'') @ ds
               else if length ds \<le> nat pt
                    then ds @ replicate (nat pt - length ds) (CHR ''0'') @ ''.0''
                    else take (nat pt) ds @ ''.'' @ drop (nat pt) ds)
         else (case ds of [] \<Rightarrow> [] | c # r \<Rightarrow> c # (if r = [] then [] else CHR ''.'' # r)) @ exp_text (pt - 1))"

definition float_repr :: "string \<Rightarrow> nat \<Rightarrow> int \<Rightarrow> string" where
  "float_repr sign m10 e10 =
     (case dec_to_double m10 e10 of
        None \<Rightarrow> sign @ ''inf''
      | Some f \<Rightarrow>
          if fst f = 0 then sign @ ''0.0''
          else
            let (n, d) = double_ratio f;
                k = log10_search 700 (int (length (nat_str n)) - int (length (nat_str d)) + 1) n d;
                (m, e) = shortest 17 1 f k;
                (m', e') = strip_zeros 40 m e
            in sign @ layout m' e')"

definition float_norm :: "num_lexeme \<Rightarrow> string" where
  "float_norm l =
     (let frac = drop 1 (lex_frac l);
          ex = drop 1 (lex_exp l);
          ev = (case ex of [] \<Rightarrow> 0
                | c # r \<Rightarrow> if c = CHR ''-'' then - int (digits_val r)
                           else if c = CHR ''+'' then int (digits_val r) else int (digits_val ex))
      in float_repr (lex_sign l) (digits_val (lex_int l @ frac)) (ev - int (length frac)))"

section \<open>Scanning stops where the number does\<close>

definition num_stop :: "string \<Rightarrow> bool" where
  "num_stop s \<longleftrightarrow> (case s of [] \<Rightarrow> True | c # _ \<Rightarrow> \<not> is_digit c \<and> c \<notin> set ''.eE+-'')"

lemma num_stop_Nil [simp]: "num_stop []"
  by (simp add: num_stop_def)

lemma span_digits_append:
  "span_digits s = (d, []) \<Longrightarrow> num_stop rest \<Longrightarrow> span_digits (s @ rest) = (d, rest)"
  by (induction s arbitrary: d)
    (auto simp: span_digits_def num_stop_def split: list.splits if_splits)

lemma span_digits_append_proper:
  "span_digits s = (d, c # r) \<Longrightarrow> span_digits (s @ rest) = (d, c # r @ rest)"
  by (induction s arbitrary: d) (auto simp: span_digits_def split: if_splits)

lemma span_digits_all: "list_all is_digit ds \<Longrightarrow> num_stop rest \<Longrightarrow> span_digits (ds @ rest) = (ds, rest)"
  by (induction ds) (auto simp: span_digits_def num_stop_def split: list.splits)

end
