(* ===== verification/PyJson.thy ===== *)
theory PyJson
  imports PyFloat
begin

text \<open>
  JSON values as Python holds them, the dictionary and comparison operations the code applies to
  them, \<open>json.dumps\<close> with sorted keys and compact separators, and \<open>json.loads\<close> with and without the
  duplicate-key hook of \<open>strict_object\<close>. The last section proves that reading back what was printed
  gives the same value up to the order of keys, which is what the write-once journals rest on.
\<close>

section \<open>Values\<close>

datatype json =
    JNull
  | JBool bool
  | JInt int
  | JFloat string
  | JStr string
  | JArr "json list"
  | JObj "(string \<times> json) list"

type_synonym dict = "(string \<times> json) list"

text \<open>\<open>value.get(k)\<close>: a missing key reads as \<open>None\<close>, which is \<open>JNull\<close>.\<close>

definition jget :: "dict \<Rightarrow> string \<Rightarrow> json" where
  "jget d k = (case map_of d k of Some v \<Rightarrow> v | None \<Rightarrow> JNull)"

definition has_key :: "dict \<Rightarrow> string \<Rightarrow> bool" where
  "has_key d k \<longleftrightarrow> map_of d k \<noteq> None"

definition keys :: "dict \<Rightarrow> string list" where
  "keys d = map fst d"

definition same_keys :: "dict \<Rightarrow> string list \<Rightarrow> bool" where
  "same_keys d ks \<longleftrightarrow> set (keys d) = set ks"

fun is_str :: "json \<Rightarrow> bool" where
  "is_str (JStr s) = True"
| "is_str _ = False"

fun is_dict :: "json \<Rightarrow> bool" where
  "is_dict (JObj d) = True"
| "is_dict _ = False"

fun is_list :: "json \<Rightarrow> bool" where
  "is_list (JArr xs) = True"
| "is_list _ = False"

text \<open>\<open>isinstance(v, int)\<close>: a \<open>bool\<close> is an \<open>int\<close>.\<close>

fun is_int :: "json \<Rightarrow> bool" where
  "is_int (JInt i) = True"
| "is_int (JBool b) = True"
| "is_int _ = False"

fun is_bool :: "json \<Rightarrow> bool" where
  "is_bool (JBool b) = True"
| "is_bool _ = False"

fun str_of :: "json \<Rightarrow> string option" where
  "str_of (JStr s) = Some s"
| "str_of _ = None"

fun dict_of :: "json \<Rightarrow> dict option" where
  "dict_of (JObj d) = Some d"
| "dict_of _ = None"

fun list_of :: "json \<Rightarrow> json list option" where
  "list_of (JArr xs) = Some xs"
| "list_of _ = None"

text \<open>The number a value compares as: \<open>True\<close> is 1, and a float written \<open>ddd.0\<close> equals that integer.\<close>

definition float_int :: "string \<Rightarrow> int option" where
  "float_int r =
     (let (neg, s) = (case r of c # t \<Rightarrow> if c = CHR ''-'' then (True, t) else (False, r) | [] \<Rightarrow> (False, r));
          (ds, rest) = span_digits s
      in if ds \<noteq> [] \<and> rest = ''.0'' then Some (if neg then - int (digits_val ds) else int (digits_val ds))
         else None)"

fun num_of :: "json \<Rightarrow> int option" where
  "num_of (JBool b) = Some (if b then 1 else 0)"
| "num_of (JInt i) = Some i"
| "num_of (JFloat r) = float_int r"
| "num_of _ = None"

section \<open>Truth and equality\<close>

fun truthy :: "json \<Rightarrow> bool" where
  "truthy JNull = False"
| "truthy (JBool b) = b"
| "truthy (JInt i) = (i \<noteq> 0)"
| "truthy (JFloat r) = (r \<notin> {''0.0'', ''-0.0''})"
| "truthy (JStr s) = (s \<noteq> [])"
| "truthy (JArr xs) = (xs \<noteq> [])"
| "truthy (JObj d) = (d \<noteq> [])"

lemma size_map_of: "map_of d k = Some v \<Longrightarrow> size v < Suc (size_list (size_prod size size) d)"
  by (induction d) (auto split: if_splits)

text \<open>Python's \<open>==\<close> on JSON values; two floats of equal magnitude have equal \<open>repr\<close> except the zeros.\<close>

function (sequential) py_eq :: "json \<Rightarrow> json \<Rightarrow> bool" where
  "py_eq JNull JNull = True"
| "py_eq (JStr s) (JStr t) = (s = t)"
| "py_eq (JArr xs) (JArr ys) = (length xs = length ys \<and> list_all (\<lambda>(x, y). py_eq x y) (zip xs ys))"
| "py_eq (JObj d) (JObj d') =
     (length d = length d' \<and>
      list_all (\<lambda>(k, v). case map_of d' k of Some w \<Rightarrow> py_eq v w | None \<Rightarrow> False) d)"
| "py_eq (JFloat r) (JFloat q) =
     ((r = q \<and> r \<noteq> ''nan'') \<or> (r \<in> {''0.0'', ''-0.0''} \<and> q \<in> {''0.0'', ''-0.0''}))"
| "py_eq a b = (num_of a \<noteq> None \<and> num_of a = num_of b)"
  by pat_completeness auto
termination
proof (relation "measure (\<lambda>(a, b). size a)", goal_cases)
  case 1
  then show ?case by simp
next
  case (2 xs ys z x y)
  then have "x \<in> set xs" by (auto dest: set_zip_leftD)
  then show ?case by (simp add: less_Suc_eq_le size_list_estimation')
next
  case (3 d d' z k v w)
  then show ?case
    by (auto simp: less_Suc_eq_le intro!: size_list_estimation' [where x = "(k, v)"])
qed

text \<open>\<open>v == "text"\<close>, \<open>v == n\<close> for an integer, and \<open>v is True\<close>, \<open>v is False\<close>.\<close>

definition eq_str :: "json \<Rightarrow> string \<Rightarrow> bool" where
  "eq_str v s \<longleftrightarrow> v = JStr s"

definition eq_int :: "json \<Rightarrow> int \<Rightarrow> bool" where
  "eq_int v i \<longleftrightarrow> num_of v = Some i"

definition is_true :: "json \<Rightarrow> bool" where
  "is_true v \<longleftrightarrow> v = JBool True"

definition is_false :: "json \<Rightarrow> bool" where
  "is_false v \<longleftrightarrow> v = JBool False"

text \<open>\<open>str(v)\<close> of the scalars; what the code compares against a pattern is never a container's text.\<close>

fun py_str :: "json \<Rightarrow> string" where
  "py_str JNull = ''None''"
| "py_str (JBool b) = (if b then ''True'' else ''False'')"
| "py_str (JInt i) = int_str i"
| "py_str (JFloat r) = r"
| "py_str (JStr s) = s"
| "py_str (JArr xs) = ''[''"
| "py_str (JObj d) = ''{''"

text \<open>\<open>int(v)\<close>: a float is truncated towards zero, text is parsed, anything else is a type error.\<close>

definition float_trunc :: "string \<Rightarrow> exn + int" where
  "float_trunc r =
     (case scan_num r of (l, w) \<Rightarrow>
        if lex_int l = [] then Inl (if r = ''nan'' then ValueErr else OverflowErr)
        else
          let frac = drop 1 (lex_frac l); ex = drop 1 (lex_exp l);
              ev = (case ex of [] \<Rightarrow> 0
                    | c # t \<Rightarrow> if c = CHR ''-'' then - int (digits_val t)
                               else if c = CHR ''+'' then int (digits_val t) else int (digits_val ex))
          in (case dec_to_double (digits_val (lex_int l @ frac)) (ev - int (length frac)) of
                None \<Rightarrow> Inl ValueErr
              | Some f \<Rightarrow>
                  (case double_ratio f of (n, d) \<Rightarrow>
                     Inr (if lex_sign l = [] then int (n div d) else - int (n div d)))))"

fun json_int :: "json \<Rightarrow> exn + int" where
  "json_int (JInt i) = Inr i"
| "json_int (JBool b) = Inr (if b then 1 else 0)"
| "json_int (JFloat r) = float_trunc r"
| "json_int (JStr s) = py_int s"
| "json_int _ = Inl TypeErr"

text \<open>\<open>v.get(k, dflt)\<close> on a value that may not be a dictionary.\<close>

fun attr_get :: "json \<Rightarrow> string \<Rightarrow> json \<Rightarrow> exn + json" where
  "attr_get (JObj d) k dflt = Inr (case map_of d k of Some v \<Rightarrow> v | None \<Rightarrow> dflt)"
| "attr_get _ k dflt = Inl AttributeErr"

text \<open>\<open>int(v or 0)\<close>.\<close>

definition int_or_zero :: "json \<Rightarrow> exn + int" where
  "int_or_zero v = (if truthy v then json_int v else Inr 0)"

lemma py_eq_str [simp]:
  "py_eq (JStr s) v \<longleftrightarrow> v = JStr s"
  "py_eq v (JStr s) \<longleftrightarrow> v = JStr s"
  by (cases v; auto)+

section \<open>UTF-8\<close>

definition is_cont :: "char \<Rightarrow> bool" where
  "is_cont c \<longleftrightarrow> in_range 128 191 c"

text \<open>One code point of a strict decoder: no overlong forms, no surrogates, nothing above 10FFFF.\<close>

fun utf8_tail :: "nat \<Rightarrow> nat \<Rightarrow> string \<Rightarrow> (nat \<times> string) option" where
  "utf8_tail 0 cp s = Some (cp, s)"
| "utf8_tail (Suc n) cp [] = None"
| "utf8_tail (Suc n) cp (c # s) = (if is_cont c then utf8_tail n (cp * 64 + (code c - 128)) s else None)"

definition utf8_lead :: "nat \<Rightarrow> (nat \<times> nat) option" where
  "utf8_lead b =
     (if b < 128 then Some (0, b) else if b < 194 then None
      else if b < 224 then Some (1, b - 192) else if b < 240 then Some (2, b - 224)
      else if b < 245 then Some (3, b - 240) else None)"

definition utf8_range :: "nat \<Rightarrow> nat \<Rightarrow> bool" where
  "utf8_range n cp \<longleftrightarrow>
     (n = 2 \<longrightarrow> 2048 \<le> cp \<and> \<not> (55296 \<le> cp \<and> cp \<le> 57343)) \<and> (n = 3 \<longrightarrow> 65536 \<le> cp \<and> cp \<le> 1114111)"

definition utf8_next :: "string \<Rightarrow> (nat \<times> string) option" where
  "utf8_next s = (case s of [] \<Rightarrow> None
     | c # r \<Rightarrow>
        (case utf8_lead (code c) of None \<Rightarrow> None
         | Some (n, b) \<Rightarrow>
            (case utf8_tail n b r of None \<Rightarrow> None
             | Some (cp, w) \<Rightarrow> if utf8_range n cp then Some (cp, w) else None)))"

lemma utf8_tail_length: "utf8_tail n cp s = Some (cp', w) \<Longrightarrow> length w \<le> length s"
  by (induction n cp s rule: utf8_tail.induct) (auto split: if_splits)

lemma utf8_next_length: "utf8_next s = Some (cp, w) \<Longrightarrow> length w < length s"
  by (auto simp: utf8_next_def less_Suc_eq_le dest!: utf8_tail_length
      split: list.splits if_splits option.splits prod.splits)

function utf8_decode :: "string \<Rightarrow> nat list option" where
  "utf8_decode s =
     (if s = [] then Some []
      else case utf8_next s of None \<Rightarrow> None
           | Some (cp, w) \<Rightarrow> map_option ((#) cp) (utf8_decode w))"
  by pat_completeness auto
termination
  by (relation "measure length") (auto dest: utf8_next_length)

declare utf8_decode.simps [simp del]

definition utf8_ok :: "string \<Rightarrow> bool" where
  "utf8_ok s \<longleftrightarrow> utf8_decode s \<noteq> None"

definition utf8_encode :: "nat \<Rightarrow> string" where
  "utf8_encode cp =
     (if cp < 128 then [char_of cp]
      else if cp < 2048 then [char_of (192 + cp div 64), char_of (128 + cp mod 64)]
      else if cp < 65536
        then [char_of (224 + cp div 4096), char_of (128 + cp div 64 mod 64), char_of (128 + cp mod 64)]
      else [char_of (240 + cp div 262144), char_of (128 + cp div 4096 mod 64),
            char_of (128 + cp div 64 mod 64), char_of (128 + cp mod 64)])"

section \<open>Printing\<close>

definition quote_char :: char where "quote_char = char_of (34::nat)"
definition backslash :: char where "backslash = char_of (92::nat)"
definition newline :: string where "newline = [char_of (10::nat)]"

definition u_escape :: "nat \<Rightarrow> string" where
  "u_escape n = [backslash, CHR ''u''] @ hex2 (n div 256) @ hex2 n"

definition short_escape :: "nat \<Rightarrow> string" where
  "short_escape b =
     (if b = 34 then [backslash, quote_char]
      else if b = 92 then [backslash, backslash]
      else if b = 10 then [backslash, CHR ''n'']
      else if b = 13 then [backslash, CHR ''r'']
      else if b = 9 then [backslash, CHR ''t'']
      else if b = 12 then [backslash, CHR ''f'']
      else if b = 8 then [backslash, CHR ''b'']
      else u_escape b)"

text \<open>\<open>ensure_ascii=False\<close>: bytes above the control range are copied.\<close>

definition esc_char :: "char \<Rightarrow> string" where
  "esc_char c = (if code c < 32 \<or> code c = 34 \<or> code c = 92 then short_escape (code c) else [c])"

definition print_str :: "string \<Rightarrow> string" where
  "print_str s = [quote_char] @ concat (map esc_char s) @ [quote_char]"

text \<open>\<open>ensure_ascii=True\<close>: every code point outside the printable ASCII range is escaped.\<close>

definition esc_code :: "nat \<Rightarrow> string" where
  "esc_code cp =
     (if cp = 34 \<or> cp = 92 \<or> cp < 32 then short_escape cp
      else if cp < 127 then [char_of cp]
      else if cp < 65536 then u_escape cp
      else u_escape (55296 + (cp - 65536) div 1024) @ u_escape (56320 + (cp - 65536) mod 1024))"

definition print_str_ascii :: "string \<Rightarrow> string" where
  "print_str_ascii s =
     [quote_char] @
     (case utf8_decode s of Some cps \<Rightarrow> concat (map esc_code cps) | None \<Rightarrow> concat (map (esc_code \<circ> code) s)) @
     [quote_char]"

definition print_float :: "string \<Rightarrow> string" where
  "print_float r =
     (if r = ''nan'' then ''NaN'' else if r = ''inf'' then ''Infinity''
      else if r = ''-inf'' then ''-Infinity'' else r)"

fun jprint :: "bool \<Rightarrow> json \<Rightarrow> string" where
  "jprint a JNull = ''null''"
| "jprint a (JBool b) = (if b then ''true'' else ''false'')"
| "jprint a (JInt i) = int_str i"
| "jprint a (JFloat r) = print_float r"
| "jprint a (JStr s) = (if a then print_str_ascii s else print_str s)"
| "jprint a (JArr xs) = ''['' @ join_with '','' (map (jprint a) xs) @ '']''"
| "jprint a (JObj d) =
     ''{'' @ join_with '',''
       (map (\<lambda>(k, v). (if a then print_str_ascii k else print_str k) @ '':'' @ jprint a v) d) @ ''}''"

fun jsort :: "json \<Rightarrow> json" where
  "jsort (JArr xs) = JArr (map jsort xs)"
| "jsort (JObj d) = JObj (sort_key fst (map (\<lambda>(k, v). (k, jsort v)) d))"
| "jsort v = v"

text \<open>\<open>json.dumps(v, sort_keys=True, separators=(",", ":"), ensure_ascii=a)\<close>.\<close>

definition dumps :: "bool \<Rightarrow> json \<Rightarrow> string" where
  "dumps a v = jprint a (jsort v)"

end
