(* ===== verification/PyJsonLaws.thy ===== *)
theory PyJsonLaws
  imports PyJsonRead
begin

text \<open>
  Laws of the JSON library: the fuel of the reader is always enough, a printed value reads back as
  itself, and sorting keys is idempotent and leaves every lookup alone.
\<close>

section \<open>The fuel is enough\<close>

lemma skip_ws_length: "length (skip_ws s) \<le> length s"
  by (simp add: skip_ws_def length_dropWhile_le)

lemma skip_ws_Cons_length: "skip_ws s = d # w \<Longrightarrow> length w < length s"
  using skip_ws_length [of s] by simp

lemma parse_str_length: "parse_str s = Some (t, w) \<Longrightarrow> length w < length s"
proof (induction s arbitrary: t w rule: parse_str.induct)
  case (2 c r)
  show ?case
  proof (cases "code c = 92")
    case True
    with "2.prems" obtain t0 w0 u where "unescape r = Some (t0, w0)" "parse_str w0 = Some (u, w)"
      by (auto split: option.splits if_splits)
    with "2.IH"(1) [of "(t0, w0)" t0 w0] True show ?thesis by (fastforce dest: unescape_length)
  next
    case False
    with 2 show ?thesis by (fastforce split: if_splits)
  qed
qed simp

lemma scan_lengths:
  "length (snd (span_digits s)) \<le> length s"
  "length (snd (scan_sign s)) \<le> length s"
  "length (snd (scan_frac s)) \<le> length s"
  by (auto simp: span_digits_def scan_sign_def scan_frac_def length_dropWhile_le
      intro: le_SucI split: list.splits)

lemma scan_exp_length: "length (snd (scan_exp s)) \<le> length s"
proof (cases s)
  case (Cons c r)
  have "length (snd (scan_exp_sign r)) \<le> length r"
    by (auto simp: scan_exp_sign_def split: list.splits)
  moreover have "length (snd (span_digits (snd (scan_exp_sign r)))) \<le> length (snd (scan_exp_sign r))"
    by (rule scan_lengths)
  ultimately show ?thesis
    using Cons by (auto simp: scan_exp_def Let_def split: prod.splits)
qed (simp add: scan_exp_def)

lemma scan_int_length:
  "length (snd (scan_int s)) \<le> length s"
  "fst (scan_int s) \<noteq> [] \<Longrightarrow> length (snd (scan_int s)) < length s"
  by (auto simp: scan_int_def span_digits_def less_Suc_eq_le length_dropWhile_le
      intro: le_SucI split: list.splits if_splits)

lemma parse_num_length: "parse_num s = Some (v, w) \<Longrightarrow> length w < length s"
proof -
  assume a: "parse_num s = Some (v, w)"
  obtain sg s1 where 1: "scan_sign s = (sg, s1)" by fastforce
  obtain ip s2 where 2: "scan_int s1 = (ip, s2)" by fastforce
  obtain fp s3 where 3: "scan_frac s2 = (fp, s3)" by fastforce
  obtain ep s4 where 4: "scan_exp s3 = (ep, s4)" by fastforce
  from a 1 2 3 4 have "ip \<noteq> []" "w = s4"
    by (auto simp: parse_num_def scan_num_def split: if_splits)
  then show ?thesis
    using scan_lengths(2) [of s] scan_int_length(2) [of s1] scan_lengths(3) [of s2]
      scan_exp_length [of s3] 1 2 3 4 by simp
qed

lemma parse_word_length: "parse_word s = Some (v, w) \<Longrightarrow> length w < length s"
  by (auto simp: parse_word_def starts_with_iff dest: parse_num_length split: if_splits)

lemma finish_obj_Inr: "finish_obj st kvs w = Inr (v, w') \<Longrightarrow> w' = w"
  by (auto simp: finish_obj_def split: sum.splits)

lemma parse_length:
  "parse_val n st s = Inr (v, w) \<Longrightarrow> length w < length s"
  "parse_elems n st acc s = Inr (v, w) \<Longrightarrow> length w < length s"
  "parse_members n st d s = Inr (v, w) \<Longrightarrow> length w < length s"
proof (induction n st s and n st acc s and n st d s arbitrary: v w and v w and v w
    rule: parse_val_parse_elems_parse_members.induct)
  case (2 n st s)
  from "2.prems" obtain c r where s: "s = c # r" by (auto simp: pbind_Inr)
  show ?case
  proof (cases "code c = 34 \<or> c \<notin> {CHR ''['', CHR ''{''}")
    case True
    with "2.prems" s show ?thesis
      by (auto simp: pbind_Inr dest: parse_str_length parse_word_length split: if_splits)
  next
    case False
    with "2.prems" s obtain d x where d: "skip_ws r = d # x" by (auto simp: pbind_Inr split: if_splits)
    have "length (d # x) \<le> length r" using skip_ws_length [of r] d by simp
    moreover have "length w < length (d # x)"
      using "2.prems" s d False "2.IH"(1) [of c r d x v w] "2.IH"(2) [of c r d x v w]
      by (auto simp: pbind_Inr dest: finish_obj_Inr split: if_splits)
    ultimately show ?thesis using s by simp
  qed
next
  case (4 n st acc s)
  then obtain v0 w0 d x where v: "parse_val n st s = Inr (v0, w0)" and d: "skip_ws w0 = d # x"
    and rest: "(if d = CHR '']'' then Inr (JArr (acc @ [v0]), x)
       else if d = CHR '','' then parse_elems n st (acc @ [v0]) (skip_ws x) else Inl Syntax) = Inr (v, w)"
    by (auto simp: pbind_Inr)
  from "4.IH"(1) [OF v] have l: "length w0 < length s" .
  from d have "length x < length w0" by (rule skip_ws_Cons_length)
  moreover have "length w \<le> length x"
    using rest "4.IH"(2) [of v0 w0 d x v w] v d skip_ws_length [of x]
    by (auto split: if_splits)
  ultimately show ?case using l by simp
next
  case (6 n st d s)
  then obtain c r k w0 e w1 v0 w2 f w3 where s: "s = c # r" "code c = 34"
    and k: "parse_str r = Some (k, w0)" and e: "skip_ws w0 = e # w1" "e = CHR '':''"
    and v: "parse_val n st (skip_ws w1) = Inr (v0, w2)" and f: "skip_ws w2 = f # w3"
    and rest: "(if f = CHR ''}'' then finish_obj st (d @ [(k, v0)]) w3
      else if f = CHR '','' then parse_members n st (d @ [(k, v0)]) (skip_ws w3) else Inl Syntax) = Inr (v, w)"
    by (auto simp: pbind_Inr split: if_splits)
  have "length w0 < length r" using k by (rule parse_str_length)
  moreover have "length w1 < length w0" using e(1) by (rule skip_ws_Cons_length)
  moreover have "length w2 < length (skip_ws w1)"
    using "6.IH"(1) [of c r k w0 e w1 v0 w2] s k e v by simp
  moreover have "length w3 < length w2" using f by (rule skip_ws_Cons_length)
  moreover have "length w \<le> length w3"
    using rest "6.IH"(2) [of c r k w0 e w1 v0 w2 f w3 v w] s k e v f skip_ws_length [of w3]
    by (auto dest: finish_obj_Inr split: if_splits)
  ultimately show ?case using s skip_ws_length [of w1] by simp
qed simp_all

lemma finish_obj_fuel: "finish_obj st kvs w \<noteq> Inl NoFuel"
  by (auto simp: finish_obj_def build_obj_def split: sum.splits option.splits)

lemma parse_fuel:
  "2 * length s + 1 \<le> n \<Longrightarrow> parse_val n st s \<noteq> Inl NoFuel"
  "2 * length s + 2 \<le> n \<Longrightarrow> parse_elems n st acc s \<noteq> Inl NoFuel"
  "2 * length s + 2 \<le> n \<Longrightarrow> parse_members n st d s \<noteq> Inl NoFuel"
proof (induction n st s and n st acc s and n st d s
    rule: parse_val_parse_elems_parse_members.induct)
  case (2 n st s)
  have l: "length (skip_ws r) \<le> length r" for r by (rule skip_ws_length)
  have "2 * length (d # x) + 2 \<le> n" if "s = c # r" "skip_ws r = d # x" for c r d x
    using that "2.prems" l [of r] by simp
  with "2.IH" show ?case
    by (auto simp: pbind_Inl finish_obj_fuel split: if_splits)
next
  case (4 n st acc s)
  have "2 * length s + 1 \<le> n" using "4.prems" by simp
  with "4.IH"(1) have "parse_val n st s \<noteq> Inl NoFuel" .
  moreover have "parse_elems n st (acc @ [v0]) (skip_ws x) \<noteq> Inl NoFuel"
    if "parse_val n st s = Inr (v0, w0)" "skip_ws w0 = CHR '','' # x" for v0 w0 x
  proof -
    have "length (skip_ws x) < length s"
      using parse_length(1) [OF that(1)] skip_ws_Cons_length [OF that(2)] skip_ws_length [of x] by simp
    with "4.IH"(2) [of v0 w0 "CHR '',''" x] that "4.prems" show ?thesis by simp
  qed
  ultimately show ?case by (auto simp: pbind_Inl split: if_splits)
next
  case (6 n st d s)
  have a: "parse_val n st (skip_ws w1) \<noteq> Inl NoFuel"
    if "s = c # r" "code c = 34" "parse_str r = Some (k, w0)" "skip_ws w0 = CHR '':'' # w1" for c r k w0 w1
  proof -
    have "length (skip_ws w1) < length s"
      using that parse_str_length [OF that(3)] skip_ws_Cons_length [OF that(4)] skip_ws_length [of w1] by simp
    with "6.IH"(1) [of c r k w0 "CHR '':''" w1] that "6.prems" show ?thesis by simp
  qed
  have b: "parse_members n st (d @ [(k, v)]) (skip_ws w3) \<noteq> Inl NoFuel"
    if "s = c # r" "code c = 34" "parse_str r = Some (k, w0)" "skip_ws w0 = CHR '':'' # w1"
      "parse_val n st (skip_ws w1) = Inr (v, w2)" "skip_ws w2 = CHR '','' # w3" for c r k w0 w1 v w2 w3
  proof -
    have "length (skip_ws w3) < length s"
      using that parse_str_length [OF that(3)] skip_ws_Cons_length [OF that(4)] skip_ws_length [of w1]
        parse_length(1) [OF that(5)] skip_ws_Cons_length [OF that(6)] skip_ws_length [of w3] by simp
    with "6.IH"(2) [of c r k w0 "CHR '':''" w1 v w2 "CHR '',''" w3] that "6.prems" show ?thesis by simp
  qed
  from a b show ?case by (auto simp: pbind_Inl finish_obj_fuel split: if_splits)
qed auto

lemma loads_fuel: "loads st s \<noteq> Inl NoFuel"
  using parse_fuel(1) [of "skip_ws s" "2 * length (skip_ws s) + 2" st]
  by (auto simp: loads_def loads_text_def Let_def split: sum.splits prod.splits)

section \<open>Strings read back\<close>

lemma hex_digit_val_digit: "d < 16 \<Longrightarrow> hex_digit_val (hex_digit d) = d"
  by (auto simp: hex_digit_val_def hex_digit_def class_defs)

lemma is_hex_digit: "d < 16 \<Longrightarrow> is_hex (hex_digit d)"
  by (auto simp: hex_digit_def class_defs)

lemma take_hex4_hex2:
  "a < 256 \<Longrightarrow> b < 256 \<Longrightarrow> take_hex4 (hex2 a @ hex2 b @ rest) = Some (a * 256 + b, rest)"
  by (simp add: take_hex4_def hex2_def is_hex_digit hex_val_def hex_digit_val_digit)

lemma unescape_short:
  assumes "code c < 32 \<or> code c = 34 \<or> code c = 92"
  shows "\<exists>e. short_escape (code c) = backslash # e \<and> unescape (e @ rest) = Some ([c], rest)"
proof -
  have cc: "char_of (code c) = c" by (simp add: code_def)
  have named: "\<exists>e. short_escape n = backslash # e \<and> unescape (e @ rest) = Some ([char_of n], rest)"
    if "n \<in> {34, 92, 10, 13, 9, 12, 8}" for n
    using that
    by (elim insertE emptyE)
      (simp_all add: short_escape_def unescape_def quote_char_def backslash_def code_def)
  show ?thesis
  proof (cases "code c \<in> {34, 92, 10, 13, 9, 12, 8}")
    case True
    from named [OF True] show ?thesis by (simp only: cc)
  next
    case False
    with assms have "code c < 32" by auto
    then have "take_hex4 (hex2 (code c div 256) @ hex2 (code c) @ rest) = Some (code c, rest)"
      by (subst take_hex4_hex2) auto
    with False \<open>code c < 32\<close> show ?thesis
      by (simp add: short_escape_def u_escape_def unescape_def utf8_encode_def cc)
        (simp add: code_def)
  qed
qed

lemma parse_str_esc:
  "parse_str (concat (map esc_char s) @ quote_char # rest) = Some (s, rest)"
proof (induction s)
  case Nil
  then show ?case by (simp add: quote_char_def code_char_of)
next
  case (Cons c s)
  let ?tail = "concat (map esc_char s) @ quote_char # rest"
  show ?case
  proof (cases "code c < 32 \<or> code c = 34 \<or> code c = 92")
    case True
    then obtain e where e: "short_escape (code c) = backslash # e" "unescape (e @ ?tail) = Some ([c], ?tail)"
      using unescape_short by blast
    have "code backslash = 92" by (simp add: backslash_def code_char_of)
    moreover have "esc_char c = backslash # e" using e True by (simp add: esc_char_def)
    ultimately show ?thesis using e Cons.IH by simp
  next
    case False
    then have "esc_char c = [c]" by (simp add: esc_char_def)
    with False Cons.IH show ?thesis by simp
  qed
qed

section \<open>Numbers read back\<close>

lemma span_digits_app:
  "num_stop rest \<Longrightarrow> span_digits (s @ rest) = (fst (span_digits s), snd (span_digits s) @ rest)"
  by (induction s) (auto simp: span_digits_def num_stop_def split: list.splits)

lemma scan_int_app:
  "num_stop rest \<Longrightarrow> s \<noteq> [] \<Longrightarrow> scan_int (s @ rest) = (fst (scan_int s), snd (scan_int s) @ rest)"
  using span_digits_app [of rest s] by (cases s) (auto simp: scan_int_def)

lemma scan_frac_app:
  "num_stop rest \<Longrightarrow> scan_frac (s @ rest) = (fst (scan_frac s), snd (scan_frac s) @ rest)"
  by (cases s) (auto simp: scan_frac_def span_digits_app num_stop_def split: list.splits)

lemma scan_exp_sign_app:
  "num_stop rest \<Longrightarrow> scan_exp_sign (s @ rest) = (fst (scan_exp_sign s), snd (scan_exp_sign s) @ rest)"
  by (cases s) (auto simp: scan_exp_sign_def num_stop_def split: list.splits)

lemma scan_exp_app:
  "num_stop rest \<Longrightarrow> scan_exp (s @ rest) = (fst (scan_exp s), snd (scan_exp s) @ rest)"
proof (cases s)
  case Nil
  assume "num_stop rest"
  with Nil show ?thesis
    by (cases rest) (auto simp: scan_exp_def num_stop_def Let_def split: prod.splits)
next
  case (Cons c r)
  assume "num_stop rest"
  with Cons show ?thesis
    by (simp add: scan_exp_def Let_def scan_exp_sign_app span_digits_app split: prod.splits)
qed

lemma scan_num_app:
  assumes "scan_num s = (l, [])" and "lex_int l \<noteq> []" and "num_stop rest"
  shows "scan_num (s @ rest) = (l, rest)"
proof -
  from assms have s: "s \<noteq> []"
    by (auto simp: scan_num_def scan_sign_def scan_int_def split: prod.splits)
  have sg: "scan_sign (s @ rest) = (fst (scan_sign s), snd (scan_sign s) @ rest)"
    using s by (cases s) (auto simp: scan_sign_def)
  have "snd (scan_sign s) \<noteq> []"
    using assms by (auto simp: scan_num_def scan_int_def split: prod.splits)
  with assms sg show ?thesis
    by (auto simp: scan_num_def scan_int_app scan_frac_app scan_exp_app split: prod.splits)
qed

lemma scan_num_int_str:
  "scan_num (int_str i) =
    (\<lparr>lex_sign = (if i < 0 then ''-'' else []), lex_int = nat_str (nat \<bar>i\<bar>), lex_frac = [], lex_exp = []\<rparr>, [])"
proof -
  have int: "scan_int (nat_str n) = (nat_str n, [])" for n
  proof -
    obtain c r where c: "nat_str n = c # r" by (cases "nat_str n") auto
    show ?thesis
    proof (cases "n = 0")
      case True then show ?thesis by (simp add: scan_int_def)
    next
      case False
      then have "c \<noteq> CHR ''0''" using nat_str_leading [OF False] c by simp
      with c span_digits_all [OF nat_str_digits [of n], of "[]"] show ?thesis
        by (simp add: scan_int_def)
    qed
  qed
  have sign: "scan_sign (nat_str n) = ([], nat_str n)" for n
  proof -
    obtain c r where "nat_str n = c # r" "is_digit c"
      using nat_str_digits [of n] by (cases "nat_str n") auto
    then show ?thesis by (auto simp: scan_sign_def class_defs)
  qed
  show ?thesis
    by (auto simp: scan_num_def int_str_def int sign scan_frac_def scan_exp_def)
      (auto simp: scan_sign_def int scan_frac_def scan_exp_def)
qed

section \<open>Values read back\<close>

definition float_ok :: "string \<Rightarrow> bool" where
  "float_ok r \<longleftrightarrow> r \<in> {''nan'', ''inf'', ''-inf''} \<or>
     (case scan_num r of (l, w) \<Rightarrow>
        w = [] \<and> lex_int l \<noteq> [] \<and> (lex_frac l \<noteq> [] \<or> lex_exp l \<noteq> []) \<and> float_norm l = r)"

text \<open>What every value read by \<open>loads\<close> or built by the code satisfies.\<close>

fun wf_json :: "json \<Rightarrow> bool" where
  "wf_json (JStr s) = utf8_ok s"
| "wf_json (JFloat r) = float_ok r"
| "wf_json (JArr xs) = list_all wf_json xs"
| "wf_json (JObj d) = (distinct (map fst d) \<and> list_all (\<lambda>(k, v). utf8_ok k \<and> wf_json v) d)"
| "wf_json _ = True"

lemma skip_ws_Cons [simp]: "\<not> is_ws c \<Longrightarrow> skip_ws (c # s) = c # s"
  by (simp add: skip_ws_def)

lemma parse_num_int: "num_stop rest \<Longrightarrow> parse_num (int_str i @ rest) = Some (JInt i, rest)"
  by (subst parse_num_def, subst scan_num_app [OF scan_num_int_str]) auto

definition num_head :: "char \<Rightarrow> bool" where
  "num_head c \<longleftrightarrow> is_digit c \<or> c = CHR ''-''"

lemma scan_int_head: "fst (scan_int s) \<noteq> [] \<Longrightarrow> \<exists>c t. s = c # t \<and> is_digit c"
  by (cases s) (auto simp: scan_int_def span_digits_def class_defs split: if_splits)

lemma scan_num_head:
  assumes "scan_num r = (l, w)" and "lex_int l \<noteq> []"
  shows "\<exists>c t. r = c # t \<and> num_head c \<and> (c = CHR ''-'' \<longrightarrow> t \<noteq> [] \<and> is_digit (hd t))"
proof -
  obtain sg s1 where sg: "scan_sign r = (sg, s1)" by fastforce
  with assms have "fst (scan_int s1) \<noteq> []" by (auto simp: scan_num_def split: prod.splits)
  then obtain c t where s1: "s1 = c # t" "is_digit c" using scan_int_head by blast
  then have "c \<noteq> CHR ''-''" by (auto simp: class_defs)
  with sg s1 show ?thesis
    by (auto simp: scan_sign_def num_head_def split: list.splits if_splits)
qed

lemma digit_neq:
  assumes "is_digit c"
  shows "c \<noteq> CHR ''n''" "c \<noteq> CHR ''t''" "c \<noteq> CHR ''f''" "c \<noteq> CHR ''N''" "c \<noteq> CHR ''I''" "c \<noteq> CHR ''-''"
  using assms by (auto simp: class_defs)

lemma parse_word_digit: "is_digit c \<Longrightarrow> parse_word (c # t) = parse_num (c # t)"
  using digit_neq [of c] by (simp add: parse_word_def)

lemma parse_word_minus: "is_digit c \<Longrightarrow> parse_word (CHR ''-'' # c # t) = parse_num (CHR ''-'' # c # t)"
  using digit_neq [of c] by (simp add: parse_word_def)

lemma parse_word_num:
  assumes "scan_num r = (l, w)" and "lex_int l \<noteq> []"
  shows "parse_word (r @ rest) = parse_num (r @ rest)"
proof -
  from scan_num_head [OF assms] obtain c t where r: "r = c # t" "num_head c"
    and minus: "c = CHR ''-'' \<longrightarrow> t \<noteq> [] \<and> is_digit (hd t)" by blast
  show ?thesis
  proof (cases "is_digit c")
    case True
    with r show ?thesis by (simp add: parse_word_digit)
  next
    case False
    with r minus obtain d u where "c = CHR ''-''" "t = d # u" "is_digit d"
      by (cases t) (auto simp: num_head_def)
    with r show ?thesis by (simp add: parse_word_minus)
  qed
qed

lemma parse_word_int: "num_stop rest \<Longrightarrow> parse_word (int_str i @ rest) = Some (JInt i, rest)"
  using parse_word_num [OF scan_num_int_str [of i], of rest] parse_num_int [of rest i] by simp

lemma parse_word_float:
  assumes "float_ok r" and "num_stop rest"
  shows "parse_word (print_float r @ rest) = Some (JFloat r, rest)"
proof (cases "r \<in> {''nan'', ''inf'', ''-inf''}")
  case True
  then show ?thesis by (auto simp: print_float_def parse_word_def)
next
  case False
  with assms obtain l where l: "scan_num r = (l, [])" "lex_int l \<noteq> []"
    "lex_frac l \<noteq> [] \<or> lex_exp l \<noteq> []" "float_norm l = r"
    by (auto simp: float_ok_def split: prod.splits)
  then have "parse_num (r @ rest) = Some (JFloat r, rest)"
    using scan_num_app [OF l(1,2) assms(2)] by (auto simp: parse_num_def)
  with l False show ?thesis by (auto simp: print_float_def parse_word_num)
qed

definition val_head :: "char \<Rightarrow> bool" where
  "val_head c \<longleftrightarrow> \<not> is_ws c \<and> c \<noteq> CHR '']'' \<and> c \<noteq> CHR ''}''"

lemma int_str_head: "\<exists>c w. int_str i = c # w \<and> num_head c"
  using scan_num_head [OF scan_num_int_str [of i]] by auto

lemma print_float_head: "float_ok r \<Longrightarrow> \<exists>c w. print_float r = c # w \<and> (num_head c \<or> c = CHR ''N'' \<or> c = CHR ''I'')"
proof (cases "r \<in> {''nan'', ''inf'', ''-inf''}")
  case True
  then show ?thesis by (auto simp: print_float_def num_head_def)
next
  case False
  assume "float_ok r"
  with False obtain l where "scan_num r = (l, [])" "lex_int l \<noteq> []"
    by (auto simp: float_ok_def split: prod.splits)
  from scan_num_head [OF this] False show ?thesis by (auto simp: print_float_def)
qed

lemma num_head_val_head: "num_head c \<Longrightarrow> val_head c"
  by (auto simp: num_head_def val_head_def is_ws_def class_defs)

lemma code_quote_char [simp]: "code quote_char = 34"
  by (simp add: quote_char_def code_char_of)

lemma quote_char_neq [simp]: "quote_char \<noteq> CHR '']''" "quote_char \<noteq> CHR ''}''"
  by (simp_all add: quote_char_def char_of_eq_iff)

lemma code_quote_of_char [simp]: "of_char quote_char = (34::nat)"
  by (simp add: quote_char_def)

lemma jprint_head: "wf_json v \<Longrightarrow> \<exists>c w. jprint False v = c # w \<and> val_head c"
proof (cases v)
  case (JInt i)
  then show ?thesis using int_str_head [of i] by (auto simp: num_head_val_head)
next
  case (JFloat r)
  assume "wf_json v"
  with JFloat print_float_head [of r] show ?thesis
    by (auto simp: val_head_def is_ws_def class_defs dest: num_head_val_head)
qed (auto simp: val_head_def is_ws_def print_str_def class_defs)

lemma jprint_nonempty: "wf_json v \<Longrightarrow> jprint False v \<noteq> []"
  using jprint_head by fastforce

lemma num_stop_sep [simp]: "num_stop (CHR '','' # s)" "num_stop (CHR '']'' # s)" "num_stop (CHR ''}'' # s)"
  by (simp_all add: num_stop_def class_defs)

lemma not_ws_sep [simp]: "\<not> is_ws (CHR '','')" "\<not> is_ws (CHR '']'')" "\<not> is_ws (CHR ''}'')" "\<not> is_ws (CHR '':'')"
  by (simp_all add: is_ws_def class_defs)

text \<open>\<open>reads_back\<close>: with enough fuel, the value's text is consumed exactly.\<close>

definition reads_back :: "json \<Rightarrow> bool" where
  "reads_back v \<longleftrightarrow> (\<forall>n st rest. num_stop rest \<longrightarrow> 2 * length (jprint False v) + 1 \<le> n \<longrightarrow>
     parse_val n st (jprint False v @ rest) = Inr (v, rest))"

lemma parse_elems_print:
  "xs \<noteq> [] \<Longrightarrow> list_all wf_json xs \<Longrightarrow> list_all reads_back xs \<Longrightarrow>
   2 * length (join_with '','' (map (jprint False) xs)) + 2 \<le> n \<Longrightarrow>
   parse_elems n st acc (join_with '','' (map (jprint False) xs) @ CHR '']'' # rest) = Inr (JArr (acc @ xs), rest)"
proof (induction xs arbitrary: n acc rule: induct_list012)
  case (2 x)
  then obtain m where n: "n = Suc m" by (cases n) auto
  from 2 n have "parse_val m st (jprint False x @ CHR '']'' # rest) = Inr (x, CHR '']'' # rest)"
    by (simp add: reads_back_def)
  then show ?case by (simp add: n)
next
  case (3 x y zs)
  then obtain m where n: "n = Suc m" by (cases n) auto
  let ?t = "join_with '','' (map (jprint False) (y # zs)) @ CHR '']'' # rest"
  from 3 n have v: "parse_val m st (jprint False x @ CHR '','' # ?t) = Inr (x, CHR '','' # ?t)"
    by (simp add: reads_back_def)
  from 3 obtain c w where "jprint False y = c # w" "val_head c" using jprint_head [of y] by auto
  then have "skip_ws ?t = ?t" by (cases zs) (auto simp: val_head_def)
  moreover from 3 n have "parse_elems m st (acc @ [x]) ?t = Inr (JArr ((acc @ [x]) @ (y # zs)), rest)"
    using jprint_nonempty [of x] by (intro "3.IH"(2)) auto
  ultimately show ?case using v by (simp add: n)
qed simp

definition print_member :: "string \<times> json \<Rightarrow> string" where
  "print_member kv = print_str (fst kv) @ '':'' @ jprint False (snd kv)"

lemma jprint_JObj: "jprint False (JObj d) = ''{'' @ join_with '','' (map print_member d) @ ''}''"
proof -
  have "(\<lambda>(k, v). print_str k @ '':'' @ jprint False v) = print_member"
    by (auto simp: print_member_def)
  then show ?thesis by simp
qed

lemma print_member_head: "\<exists>w. print_member kv = quote_char # w"
  by (simp add: print_member_def print_str_def)

lemma not_ws_quote [simp]: "\<not> is_ws quote_char"
  by (simp add: is_ws_def)

lemma parse_member_print:
  assumes "wf_json v" and "reads_back v" and "num_stop rest"
    and "2 * length (print_member (k, v)) \<le> n"
  shows "\<exists>r w w1. print_member (k, v) @ rest = quote_char # r \<and> parse_str r = Some (k, w) \<and>
    skip_ws w = CHR '':'' # w1 \<and> parse_val n st (skip_ws w1) = Inr (v, rest)"
proof -
  let ?w = "CHR '':'' # jprint False v @ rest"
  have "print_member (k, v) @ rest = quote_char # concat (map esc_char k) @ quote_char # ?w"
    by (simp add: print_member_def print_str_def)
  moreover have "parse_str (concat (map esc_char k) @ quote_char # ?w) = Some (k, ?w)"
    by (rule parse_str_esc)
  moreover have "skip_ws (jprint False v @ rest) = jprint False v @ rest"
    using jprint_head [OF assms(1)] by (auto simp: val_head_def)
  moreover have "parse_val n st (jprint False v @ rest) = Inr (v, rest)"
    using assms by (auto simp: reads_back_def print_member_def print_str_def)
  ultimately show ?thesis by (metis not_ws_sep(4) skip_ws_Cons)
qed

lemma first_dup_distinct: "distinct ks \<Longrightarrow> set ks \<inter> set seen = {} \<Longrightarrow> first_dup seen ks = None"
  by (induction ks arbitrary: seen) auto

lemma dputs_fresh: "distinct (map fst (d @ kvs)) \<Longrightarrow> dputs kvs d = d @ kvs"
proof (induction kvs d rule: dputs.induct)
  case (2 k v kvs d)
  then have "dput k v d = d @ [(k, v)]" by (intro dput_fresh) auto
  with 2 show ?case by simp
qed simp

lemma finish_obj_distinct: "distinct (map fst kvs) \<Longrightarrow> finish_obj st kvs w = Inr (JObj kvs, w)"
  using first_dup_distinct [of "map fst kvs" "[]"] dputs_fresh [of "[]" kvs]
  by (simp add: finish_obj_def build_obj_def)

lemma parse_members_print:
  "kvs \<noteq> [] \<Longrightarrow> list_all (\<lambda>(k, v). wf_json v \<and> reads_back v) kvs \<Longrightarrow> distinct (map fst (acc @ kvs)) \<Longrightarrow>
   2 * length (join_with '','' (map print_member kvs)) + 2 \<le> n \<Longrightarrow>
   parse_members n st acc (join_with '','' (map print_member kvs) @ CHR ''}'' # rest) = Inr (JObj (acc @ kvs), rest)"
proof (induction kvs arbitrary: n acc rule: induct_list012)
  case (2 kv)
  then obtain m k v where n: "n = Suc m" and kv: "kv = (k, v)" by (cases n; cases kv) auto
  from 2 n kv parse_member_print [of v "CHR ''}'' # rest" k m st] obtain r w w1 where
    "print_member kv @ CHR ''}'' # rest = quote_char # r" "parse_str r = Some (k, w)"
    "skip_ws w = CHR '':'' # w1" "parse_val m st (skip_ws w1) = Inr (v, CHR ''}'' # rest)" by auto
  moreover have "finish_obj st (acc @ [(k, v)]) rest = Inr (JObj (acc @ [(k, v)]), rest)"
    using 2 kv by (intro finish_obj_distinct) auto
  ultimately show ?case by (simp add: n kv)
next
  case (3 kv kw kvs)
  then obtain m k v where n: "n = Suc m" and kv: "kv = (k, v)" by (cases n; cases kv) auto
  let ?t = "join_with '','' (map print_member (kw # kvs)) @ CHR ''}'' # rest"
  from 3 n kv parse_member_print [of v "CHR '','' # ?t" k m st] obtain r w w1 where
    m: "print_member kv @ CHR '','' # ?t = quote_char # r" "parse_str r = Some (k, w)"
    "skip_ws w = CHR '':'' # w1" "parse_val m st (skip_ws w1) = Inr (v, CHR '','' # ?t)" by auto
  obtain u where "print_member kw = quote_char # u" using print_member_head by blast
  then have "skip_ws ?t = ?t" by (cases kvs) auto
  moreover from 3 n kv have "parse_members m st (acc @ [(k, v)]) ?t = Inr (JObj ((acc @ [(k, v)]) @ (kw # kvs)), rest)"
    by (intro "3.IH"(2)) auto
  moreover have "parse_members n st acc (print_member kv @ CHR '','' # ?t) = Inr (JObj (acc @ kv # kw # kvs), rest)"
    unfolding n m(1) using m calculation kv by simp
  ultimately show ?case by simp
qed simp

lemma word_heads:
  "num_head c \<or> c \<in> {CHR ''n'', CHR ''t'', CHR ''f'', CHR ''N'', CHR ''I''} \<Longrightarrow>
   code c \<noteq> 34 \<and> c \<noteq> CHR ''['' \<and> c \<noteq> CHR ''{''"
  by (auto simp: num_head_def class_defs)

lemma parse_val_word:
  "num_head c \<or> c \<in> {CHR ''n'', CHR ''t'', CHR ''f'', CHR ''N'', CHR ''I''} \<Longrightarrow>
   parse_val (Suc n) st (c # r) = or_syntax (parse_word (c # r))"
  using word_heads [of c] by simp

lemma reads_backI:
  assumes "\<And>m st rest. num_stop rest \<Longrightarrow> 2 * length (jprint False v) \<le> m \<Longrightarrow>
    parse_val (Suc m) st (jprint False v @ rest) = Inr (v, rest)"
  shows "reads_back v"
  unfolding reads_back_def
proof (intro allI impI)
  fix n st and rest :: string
  assume "num_stop rest" "2 * length (jprint False v) + 1 \<le> n"
  then show "parse_val n st (jprint False v @ rest) = Inr (v, rest)"
    using assms [of rest "n - 1" st] by (cases n) auto
qed

theorem read_print: "wf_json v \<Longrightarrow> reads_back v"
proof (induction v)
  case JNull
  show ?case by (rule reads_backI) (simp add: parse_val_word parse_word_def del: parse_val.simps)
next
  case (JBool b)
  show ?case by (rule reads_backI) (simp add: parse_val_word parse_word_def del: parse_val.simps)
next
  case (JInt i)
  obtain c w where c: "int_str i = c # w" "num_head c" using int_str_head by blast
  then have "parse_word (c # w @ rest) = Some (JInt i, rest)" if "num_stop rest" for rest
    using parse_word_int [OF that, of i] by simp
  with c show ?case by (intro reads_backI) (simp add: parse_val_word del: parse_val.simps)
next
  case (JFloat r)
  then have ok: "float_ok r" by simp
  from print_float_head [OF ok] obtain c w where c: "print_float r = c # w"
    "num_head c \<or> c \<in> {CHR ''n'', CHR ''t'', CHR ''f'', CHR ''N'', CHR ''I''}" by auto
  then have "parse_word (c # w @ rest) = Some (JFloat r, rest)" if "num_stop rest" for rest
    using parse_word_float [OF ok that] by simp
  with c show ?case by (intro reads_backI) (simp add: parse_val_word del: parse_val.simps)
next
  case (JStr s)
  have "parse_str (concat (map esc_char s) @ quote_char # rest) = Some (s, rest)" for rest
    by (rule parse_str_esc)
  then show ?case by (intro reads_backI) (simp add: print_str_def)
next
  case (JArr xs)
  then have xs: "list_all wf_json xs" "list_all reads_back xs" by (auto simp: list_all_iff)
  show ?case
  proof (rule reads_backI)
    fix m st and rest :: string
    assume n: "2 * length (jprint False (JArr xs)) \<le> m"
    show "parse_val (Suc m) st (jprint False (JArr xs) @ rest) = Inr (JArr xs, rest)"
    proof (cases xs)
      case Nil
      then show ?thesis by (simp add: code_def)
    next
      case (Cons x ys)
      let ?t = "join_with '','' (map (jprint False) xs) @ CHR '']'' # rest"
      obtain c w where "jprint False x = c # w" "val_head c" using xs Cons jprint_head [of x] by auto
      then obtain u where u: "?t = c # u" "\<not> is_ws c" "c \<noteq> CHR '']''"
        using Cons by (cases ys) (auto simp: val_head_def)
      have "parse_elems m st [] ?t = Inr (JArr ([] @ xs), rest)"
        using Cons xs n by (intro parse_elems_print) auto
      with u show ?thesis by (simp add: code_def)
    qed
  qed
next
  case (JObj d)
  then have d: "list_all (\<lambda>(k, v). wf_json v \<and> reads_back v) d" "distinct (map fst d)"
    by (fastforce simp: list_all_iff)+
  show ?case
  proof (rule reads_backI)
    fix m st and rest :: string
    assume n: "2 * length (jprint False (JObj d)) \<le> m"
    show "parse_val (Suc m) st (jprint False (JObj d) @ rest) = Inr (JObj d, rest)"
    proof (cases d)
      case Nil
      then show ?thesis by (simp add: code_def finish_obj_distinct)
    next
      case (Cons kv kvs)
      let ?t = "join_with '','' (map print_member d) @ CHR ''}'' # rest"
      obtain w where "print_member kv = quote_char # w" using print_member_head by blast
      then obtain u where u: "?t = quote_char # u" using Cons by (cases kvs) auto
      have "parse_members m st [] ?t = Inr (JObj ([] @ d), rest)"
        using Cons d n by (intro parse_members_print) (auto simp: jprint_JObj simp del: jprint.simps)
      with u show ?thesis unfolding jprint_JObj by (simp add: code_def)
    qed
  qed
qed

section \<open>Sorted keys\<close>

lemma map_fst_jsort: "map fst (map (\<lambda>(k, v). (k, jsort v)) d) = map fst d"
  by (induction d) auto

lemma map_of_sort_key: "distinct (map fst d) \<Longrightarrow> map_of (sort_key fst d) = map_of d"
  by (rule map_of_eqI) (auto simp: distinct_map inj_on_def intro!: map_of_inject_set [THEN iffD2])

lemma distinct_fst_sort_key: "distinct (map fst d) \<Longrightarrow> distinct (map fst (sort_key fst d))"
  by (simp add: distinct_map)

lemma wf_jsort: "wf_json v \<Longrightarrow> wf_json (jsort v)"
proof (induction v)
  case (JObj d)
  then have "distinct (map fst (map (\<lambda>(k, v). (k, jsort v)) d))" by (simp only: map_fst_jsort wf_json.simps)
  then have "distinct (map fst (sort_key fst (map (\<lambda>(k, v). (k, jsort v)) d)))"
    by (rule distinct_fst_sort_key)
  with JObj show ?case by (fastforce simp: list_all_iff)
qed (auto simp: list_all_iff)

lemma jsort_sorted_map:
  "sorted (map fst d) \<Longrightarrow> sort_key fst (map (\<lambda>(k, v). (k, f v)) d) = map (\<lambda>(k, v). (k, f v)) d"
  by (rule sort_key_id_if_sorted) (simp add: comp_def case_prod_beta)

lemma jsort_idem [simp]: "jsort (jsort v) = jsort v"
proof (induction v)
  case (JObj d)
  let ?d = "sort_key fst (map (\<lambda>(k, v). (k, jsort v)) d)"
  have "map (\<lambda>(k, v). (k, jsort v)) ?d = ?d"
    by (rule map_idI) (use JObj in force)
  then show ?case by (simp add: sort_key_id_if_sorted)
qed auto

lemma dumps_jsort [simp]: "dumps a (jsort v) = dumps a v"
  by (simp add: dumps_def)

lemma canonical_jsort [simp]: "canonical_bytes (jsort v) = canonical_bytes v"
  by (simp add: canonical_bytes_def)

lemma map_of_map_snd: "map_of (map (\<lambda>(k, v). (k, f v)) d) k = map_option f (map_of d k)"
  by (induction d) auto

lemma map_of_jsort:
  "distinct (map fst d) \<Longrightarrow> jsort (JObj d) = JObj d' \<Longrightarrow> map_of d' k = map_option jsort (map_of d k)"
  using map_of_sort_key [of "map (\<lambda>(k, v). (k, jsort v)) d"] map_fst_jsort [of d]
  by (auto simp: map_of_map_snd simp del: map_map)

section \<open>Printed text is UTF-8\<close>

lemma utf8_tail_app: "utf8_tail n cp s = Some (cp', w) \<Longrightarrow> utf8_tail n cp (s @ t) = Some (cp', w @ t)"
  by (induction n cp s rule: utf8_tail.induct) (auto split: if_splits)

lemma utf8_next_iff:
  "utf8_next s = Some (cp, w) \<longleftrightarrow>
    (\<exists>c r n b. s = c # r \<and> utf8_lead (code c) = Some (n, b) \<and> utf8_tail n b r = Some (cp, w) \<and> utf8_range n cp)"
  by (auto simp: utf8_next_def split: list.splits option.splits if_splits)

lemma utf8_next_app: "utf8_next s = Some (cp, w) \<Longrightarrow> utf8_next (s @ t) = Some (cp, w @ t)"
  unfolding utf8_next_iff by (fastforce dest: utf8_tail_app)

lemma utf8_decode_app:
  "utf8_decode s = Some xs \<Longrightarrow> utf8_decode (s @ t) = map_option ((@) xs) (utf8_decode t)"
proof (induction s arbitrary: xs rule: utf8_decode.induct)
  case (1 s)
  show ?case
  proof (cases "s = []")
    case True
    with "1.prems" show ?thesis by (simp add: utf8_decode.simps [of "[]"] option.map_ident)
  next
    case False
    with "1.prems" obtain cp w ys where n: "utf8_next s = Some (cp, w)" "utf8_decode w = Some ys" "xs = cp # ys"
      by (auto simp: utf8_decode.simps [of s] split: option.splits)
    with "1.IH" [OF False n(1) refl] have "utf8_decode (w @ t) = map_option ((@) ys) (utf8_decode t)" by simp
    with n False show ?thesis
      by (simp add: utf8_decode.simps [of "s @ t"] utf8_next_app option.map_comp comp_def)
  qed
qed

lemma utf8_ok_Nil [simp]: "utf8_ok []"
  by (simp add: utf8_ok_def utf8_decode.simps [of "[]"])

lemma utf8_ok_app [intro]: "utf8_ok s \<Longrightarrow> utf8_ok t \<Longrightarrow> utf8_ok (s @ t)"
  by (auto simp: utf8_ok_def utf8_decode_app)

lemma utf8_ok_ascii_Cons: "code c < 128 \<Longrightarrow> utf8_ok (c # s) \<longleftrightarrow> utf8_ok s"
  by (auto simp: utf8_ok_def utf8_decode.simps [of "c # s"] utf8_next_def
      utf8_lead_def utf8_range_def)

lemma utf8_ok_ascii: "list_all is_ascii s \<Longrightarrow> utf8_ok s"
  by (induction s) (auto simp: utf8_ok_ascii_Cons is_ascii_def)

lemma utf8_ok_join: "list_all utf8_ok ws \<Longrightarrow> utf8_ok sep \<Longrightarrow> utf8_ok (join_with sep ws)"
  by (induction sep ws rule: join_with.induct) auto

lemma utf8_tail_conts:
  "utf8_tail n cp s = Some (cp', w) \<Longrightarrow> \<exists>p. s = p @ w \<and> list_all is_cont p"
  by (induction n cp s rule: utf8_tail.induct) (auto split: if_splits intro: exI [of _ "_ # _"])

lemma utf8_tail_strip:
  "utf8_tail n cp (p @ w) = Some (cp', w) \<Longrightarrow> utf8_tail n cp p = Some (cp', [])"
proof (induction n cp p rule: utf8_tail.induct)
  case (1 cp s)
  then show ?case by simp
next
  case (2 n cp)
  then show ?case by (cases w) (auto dest: utf8_tail_length split: if_splits)
qed (auto split: if_splits)

lemma utf8_next_prefix:
  assumes "utf8_next s = Some (cp, w)"
  shows "\<exists>c p. s = c # p @ w \<and> (p = [] \<or> \<not> code c < 128) \<and> list_all is_cont p"
  using assms
proof -
  from assms obtain c r n b where r: "s = c # r" "utf8_lead (code c) = Some (n, b)" "utf8_tail n b r = Some (cp, w)"
    unfolding utf8_next_iff by blast
  then obtain p where p: "r = p @ w" "list_all is_cont p" using utf8_tail_conts by blast
  have "n = 0 \<and> r = w" if "code c < 128" using r that by (auto simp: utf8_lead_def)
  with r p show ?thesis by auto
qed

lemma esc_char_high: "\<not> code c < 128 \<Longrightarrow> esc_char c = [c]"
  by (simp add: esc_char_def)

lemma esc_char_conts: "list_all is_cont p \<Longrightarrow> concat (map esc_char p) = p"
  by (induction p) (auto simp: esc_char_high is_cont_def in_range_def)

lemma hex_digit_ascii: "d < 16 \<Longrightarrow> is_ascii (hex_digit d)"
  by (simp add: hex_digit_def is_ascii_def code_char_of)

lemma esc_char_ascii: "code c < 128 \<Longrightarrow> list_all is_ascii (esc_char c)"
proof -
  assume c: "code c < 128"
  have q: "is_ascii backslash" "is_ascii quote_char" "is_ascii (CHR ''n'')" "is_ascii (CHR ''r'')"
    "is_ascii (CHR ''t'')" "is_ascii (CHR ''f'')" "is_ascii (CHR ''b'')" "is_ascii (CHR ''u'')"
    by (simp_all add: is_ascii_def backslash_def quote_char_def code_def)
  have "list_all is_ascii (u_escape n)" for n
    by (simp add: u_escape_def hex2_def hex_digit_ascii q)
  with c q show ?thesis
    by (simp add: esc_char_def short_escape_def) (simp add: is_ascii_def)
qed

lemma utf8_ok_esc: "utf8_ok s \<Longrightarrow> utf8_ok (concat (map esc_char s))"
proof (induction s rule: utf8_decode.induct)
  case (1 s)
  show ?case
  proof (cases "s = []")
    case False
    with "1.prems" obtain cp w where n: "utf8_next s = Some (cp, w)" "utf8_ok w"
      by (auto simp: utf8_ok_def utf8_decode.simps [of s] split: option.splits)
    with "1.IH" [OF False n(1) refl] have IH: "utf8_ok (concat (map esc_char w))" by simp
    from utf8_next_prefix [OF n(1)] obtain c p where
      s: "s = c # p @ w" "p = [] \<or> \<not> code c < 128" "list_all is_cont p" by blast
    show ?thesis
    proof (cases "code c < 128")
      case True
      with s IH show ?thesis by (auto intro: utf8_ok_ascii esc_char_ascii)
    next
      case False
      then have "concat (map esc_char s) = c # p @ concat (map esc_char w)"
        using s by (simp add: esc_char_high esc_char_conts)
      moreover have "utf8_ok (c # p)"
      proof -
        have "utf8_next (c # p) = Some (cp, [])"
          using n(1) s(1) unfolding utf8_next_iff by (auto dest: utf8_tail_strip)
        then show ?thesis by (simp add: utf8_ok_def utf8_decode.simps [of "c # p"] utf8_decode.simps [of "[]"])
      qed
      ultimately show ?thesis using IH utf8_ok_app [of "c # p"] by simp
    qed
  qed simp
qed

lemma utf8_ok_ascii_text [simp]:
  "utf8_ok ''null''" "utf8_ok ''true''" "utf8_ok ''false''" "utf8_ok '',''" "utf8_ok ''[''"
  "utf8_ok '']''" "utf8_ok ''{''" "utf8_ok ''}''" "utf8_ok '':''" "utf8_ok ''NaN''"
  "utf8_ok ''Infinity''" "utf8_ok ''-Infinity''" "utf8_ok newline" "utf8_ok [quote_char]"
  by (rule utf8_ok_ascii, simp add: is_ascii_def newline_def quote_char_def code_def)+

text \<open>Printable ASCII, which \<open>json.dumps\<close> leaves unescaped and no reader treats as a line break.\<close>

definition plain_text :: "string \<Rightarrow> bool" where
  "plain_text s \<longleftrightarrow> list_all (\<lambda>c. 32 \<le> code c \<and> code c < 127) s"

lemma plain_text_simps:
  "plain_text []" "plain_text (c # s) \<longleftrightarrow> 32 \<le> code c \<and> code c < 127 \<and> plain_text s"
  by (simp_all add: plain_text_def)

lemma plain_text_append [simp]: "plain_text (s @ t) \<longleftrightarrow> plain_text s \<and> plain_text t"
  by (simp add: plain_text_def)

lemma plain_utf8: "plain_text s \<Longrightarrow> utf8_ok s"
  by (rule utf8_ok_ascii) (auto simp: plain_text_def is_ascii_def list_all_iff)

lemma plain_digits: "list_all is_digit s \<Longrightarrow> plain_text s"
  by (auto simp: plain_text_def list_all_iff class_defs)

lemma plain_int_str: "plain_text (int_str i)"
  using plain_digits [OF nat_str_digits] by (simp add: int_str_def plain_text_simps) (simp add: code_def)

lemma plain_span_digits: "plain_text (fst (span_digits s))"
  by (rule plain_digits) (auto simp: span_digits_def list_all_iff dest!: set_takeWhileD)

lemma span_digits_text: "fst (span_digits s) @ snd (span_digits s) = s"
  by (simp add: span_digits_def)

lemma plain_scan_text:
  "fst (scan_sign s) @ snd (scan_sign s) = s \<and> plain_text (fst (scan_sign s))"
  "fst (scan_int s) @ snd (scan_int s) = s \<and> plain_text (fst (scan_int s))"
  "fst (scan_frac s) @ snd (scan_frac s) = s \<and> plain_text (fst (scan_frac s))"
  by (auto simp: scan_sign_def scan_int_def scan_frac_def span_digits_text plain_span_digits plain_text_simps
      code_def split: list.splits)

lemma plain_scan_exp:
  "fst (scan_exp s) @ snd (scan_exp s) = s \<and> plain_text (fst (scan_exp s))"
proof (cases s)
  case (Cons c r)
  obtain sg r1 where sg: "scan_exp_sign r = (sg, r1)" by fastforce
  then have "sg @ r1 = r" "plain_text sg"
    by (auto simp: scan_exp_sign_def plain_text_simps code_def split: list.splits if_splits)
  with Cons sg span_digits_text [of r1] plain_span_digits [of r1] show ?thesis
    by (auto simp: scan_exp_def plain_text_simps code_def split: prod.splits)
qed (simp add: scan_exp_def plain_text_simps)

lemma plain_scan_num: "scan_num r = (l, []) \<Longrightarrow> plain_text r"
proof -
  assume a: "scan_num r = (l, [])"
  obtain sg s1 ip s2 fp s3 ep s4 where *: "scan_sign r = (sg, s1)" "scan_int s1 = (ip, s2)"
    "scan_frac s2 = (fp, s3)" "scan_exp s3 = (ep, s4)" by (metis surj_pair)
  with a have "s4 = []" by (simp add: scan_num_def)
  with * plain_scan_text(1) [of r] plain_scan_text(2) [of s1] plain_scan_text(3) [of s2]
    plain_scan_exp [of s3] show ?thesis
    by (metis append_Nil2 fst_conv plain_text_append snd_conv)
qed

lemma plain_float: "float_ok r \<Longrightarrow> plain_text (print_float r)"
  by (auto simp: float_ok_def print_float_def plain_text_simps code_def dest!: plain_scan_num split: prod.splits)

lemma utf8_ok_float: "float_ok r \<Longrightarrow> utf8_ok (print_float r)"
  by (rule plain_utf8 [OF plain_float])

lemma utf8_ok_print_str: "utf8_ok s \<Longrightarrow> utf8_ok (print_str s)"
  unfolding print_str_def by (intro utf8_ok_app utf8_ok_esc) simp_all

lemma utf8_ok_jprint: "wf_json v \<Longrightarrow> utf8_ok (jprint False v)"
proof (induction v)
  case (JInt i)
  show ?case by (simp add: plain_utf8 plain_int_str)
next
  case (JArr xs)
  then have "list_all utf8_ok (map (jprint False) xs)" by (auto simp: list_all_iff)
  then show ?case unfolding jprint.simps by (intro utf8_ok_app utf8_ok_join) simp_all
next
  case (JObj d)
  then have "utf8_ok (print_member kv)" if "kv \<in> set d" for kv
    unfolding print_member_def using that
    by (intro utf8_ok_app utf8_ok_print_str utf8_ok_ascii_text) (fastforce simp: list_all_iff)+
  then have "list_all utf8_ok (map print_member d)" by (simp add: list_all_iff)
  then show ?case unfolding jprint_JObj by (intro utf8_ok_app utf8_ok_join) simp_all
qed (auto intro: utf8_ok_print_str utf8_ok_float)

section \<open>The round trip of a stored record\<close>

lemma skip_ws_newline [simp]: "skip_ws newline = []"
  by (simp add: skip_ws_def newline_def is_ws_def code_char_of)

lemma num_stop_newline [simp]: "num_stop newline"
  by (simp add: num_stop_def newline_def class_defs char_of_eq_iff)

lemma loads_canonical: "wf_json v \<Longrightarrow> loads st (canonical_bytes v) = Inr (jsort v)"
proof -
  assume "wf_json v"
  then have wf: "wf_json (jsort v)" by (rule wf_jsort)
  let ?t = "jprint False (jsort v) @ newline"
  have "skip_ws ?t = ?t" using jprint_head [OF wf] by (auto simp: val_head_def)
  moreover have "parse_val (2 * length ?t + 2) st ?t = Inr (jsort v, newline)"
    using read_print [OF wf] unfolding reads_back_def by (simp del: parse_val.simps)
  moreover have "utf8_ok ?t" using utf8_ok_jprint [OF wf] by auto
  ultimately show ?thesis
    by (simp add: loads_def loads_text_def canonical_bytes_def dumps_def Let_def del: parse_val.simps)
qed

lemma canonical_inj: "wf_json v \<Longrightarrow> wf_json w \<Longrightarrow> canonical_bytes v = canonical_bytes w \<Longrightarrow> jsort v = jsort w"
  by (metis loads_canonical sum.inject(2))

section \<open>Plain text\<close>

text \<open>
  On printable ASCII text the two printers agree, so a file written with \<open>ensure_ascii\<close> reads back too.
\<close>

fun plain_json :: "json \<Rightarrow> bool" where
  "plain_json (JStr s) = plain_text s"
| "plain_json (JFloat r) = float_ok r"
| "plain_json (JArr xs) = list_all plain_json xs"
| "plain_json (JObj d) = (distinct (map fst d) \<and> list_all (\<lambda>(k, v). plain_text k \<and> plain_json v) d)"
| "plain_json _ = True"

lemma plain_wf: "plain_json v \<Longrightarrow> wf_json v"
  by (induction v) (fastforce simp: list_all_iff plain_utf8)+

lemma utf8_decode_plain: "plain_text s \<Longrightarrow> utf8_decode s = Some (map code s)"
proof (induction s)
  case (Cons c s)
  then have "utf8_next (c # s) = Some (code c, s)"
    by (simp add: plain_text_simps utf8_next_def utf8_lead_def utf8_range_def)
  with Cons show ?case by (simp add: plain_text_simps utf8_decode.simps [of "c # s"])
qed (simp add: utf8_decode.simps [of "[]"])

lemma esc_code_plain: "32 \<le> code c \<Longrightarrow> code c < 127 \<Longrightarrow> esc_code (code c) = esc_char c"
  by (auto simp: esc_code_def esc_char_def) (simp add: code_def)

lemma print_str_plain: "plain_text s \<Longrightarrow> print_str_ascii s = print_str s"
  by (simp add: print_str_ascii_def print_str_def utf8_decode_plain, induction s)
    (auto simp: plain_text_simps esc_code_plain)

lemma jprint_plain: "plain_json v \<Longrightarrow> jprint True v = jprint False v"
proof (induction v)
  case (JArr xs)
  then have "map (jprint True) xs = map (jprint False) xs" by (auto simp: list_all_iff)
  then show ?case by (simp only: jprint.simps)
next
  case (JObj d)
  have "(if True then print_str_ascii k else print_str k) @ '':'' @ jprint True v =
        (if False then print_str_ascii k else print_str k) @ '':'' @ jprint False v" if "(k, v) \<in> set d" for k v
    using that JObj by (auto simp: list_all_iff print_str_plain)
  then have "map (\<lambda>(k, v). (if True then print_str_ascii k else print_str k) @ '':'' @ jprint True v) d =
        map (\<lambda>(k, v). (if False then print_str_ascii k else print_str k) @ '':'' @ jprint False v) d"
    by (intro map_cong) auto
  then show ?case by (simp only: jprint.simps)
qed (simp_all add: print_str_plain)

lemma plain_jsort: "plain_json v \<Longrightarrow> plain_json (jsort v)"
proof (induction v)
  case (JObj d)
  then have "distinct (map fst (map (\<lambda>(k, v). (k, jsort v)) d))" by (simp only: map_fst_jsort plain_json.simps)
  then have "distinct (map fst (sort_key fst (map (\<lambda>(k, v). (k, jsort v)) d)))"
    by (rule distinct_fst_sort_key)
  with JObj show ?case by (fastforce simp: list_all_iff)
qed (auto simp: list_all_iff)

lemma loads_dumps_plain: "plain_json v \<Longrightarrow> loads st (dumps True v @ newline) = Inr (jsort v)"
  using loads_canonical [OF plain_wf] jprint_plain [OF plain_jsort]
  by (simp add: canonical_bytes_def dumps_def)

lemma read_back_plain: "plain_json v \<Longrightarrow> utf8_ok (dumps True v @ newline)"
  using utf8_ok_jprint [OF plain_wf [OF plain_jsort]] jprint_plain [OF plain_jsort]
  by (auto simp: dumps_def)

text \<open>A plain value is printed on one line of printable characters.\<close>

lemma plain_esc: "plain_text s \<Longrightarrow> plain_text (concat (map esc_char s))"
  by (induction s) (auto simp: plain_text_simps esc_char_def short_escape_def backslash_def quote_char_def code_char_of)

lemma plain_print_str: "plain_text s \<Longrightarrow> plain_text (print_str s)"
  by (simp add: print_str_def plain_esc plain_text_simps)

lemma plain_join: "plain_text sep \<Longrightarrow> list_all plain_text ws \<Longrightarrow> plain_text (join_with sep ws)"
  by (induction sep ws rule: join_with.induct) (simp_all add: plain_text_simps)

lemma plain_punctuation:
  "plain_text '',''" "plain_text ''[''" "plain_text '']''" "plain_text ''{''" "plain_text ''}''" "plain_text '':''"
  by (simp_all add: plain_text_simps code_def)

lemma plain_jprint: "plain_json v \<Longrightarrow> plain_text (jprint False v)"
proof (induction v)
  case (JArr xs)
  then have "list_all plain_text (map (jprint False) xs)" by (auto simp: list_all_iff)
  then show ?case unfolding jprint.simps plain_text_append by (intro conjI plain_punctuation plain_join)
next
  case (JObj d)
  then have "plain_text (print_member kv)" if "kv \<in> set d" for kv
    unfolding print_member_def plain_text_append using that
    by (intro conjI plain_punctuation plain_print_str) (fastforce simp: list_all_iff)+
  then have "list_all plain_text (map print_member d)" by (simp add: list_all_iff)
  then show ?case unfolding jprint_JObj plain_text_append by (intro conjI plain_punctuation plain_join)
qed (simp_all add: plain_text_simps code_def plain_int_str plain_float plain_print_str)

lemma plain_dumps: "plain_json v \<Longrightarrow> plain_text (dumps True v)"
  using plain_jprint [OF plain_jsort] jprint_plain [OF plain_jsort] by (simp add: dumps_def)

section \<open>Values up to the order of their keys\<close>

text \<open>Two values are the same when they print alike; reading back keeps every field up to that.\<close>

definition same_value :: "json \<Rightarrow> json \<Rightarrow> bool" where
  "same_value v w \<longleftrightarrow> jsort v = jsort w"

lemma same_value_refl [simp]: "same_value v v"
  by (simp add: same_value_def)

lemma same_value_trans: "same_value u v \<Longrightarrow> same_value v w \<Longrightarrow> same_value u w"
  by (simp add: same_value_def)

lemma jget_jsort:
  "distinct (map fst d) \<Longrightarrow> jsort (JObj d) = JObj d' \<Longrightarrow> jget d' k = jsort (jget d k)"
  by (auto simp: jget_def map_of_jsort split: option.splits)

lemma sort_key_Nil [simp]: "sort_key f xs = [] \<longleftrightarrow> xs = []"
  by (metis length_0_conv length_sort)

lemma jsort_scalar [simp]:
  "jsort v = JStr s \<longleftrightarrow> v = JStr s" "JStr s = jsort v \<longleftrightarrow> v = JStr s" "jsort v = JNull \<longleftrightarrow> v = JNull"
  "truthy (jsort v) \<longleftrightarrow> truthy v" "is_int (jsort v) \<longleftrightarrow> is_int v"
  by (cases v; auto; fail)+

lemma truthy_same: "same_value v w \<Longrightarrow> truthy v \<longleftrightarrow> truthy w"
  unfolding same_value_def by (metis jsort_scalar(4))

lemma same_value_jget:
  assumes "same_value (JObj d) (JObj d')" "distinct (map fst d)" "distinct (map fst d')"
  shows "same_value (jget d k) (jget d' k)"
proof -
  obtain e where "jsort (JObj d) = JObj e" by simp
  with assms jget_jsort [of d e k] jget_jsort [of d' e k] show ?thesis
    by (simp add: same_value_def)
qed

lemma same_value_str: "same_value (JStr s) v \<longleftrightarrow> v = JStr s"
  unfolding same_value_def by (metis jsort.simps(5) jsort_scalar(1))

lemma is_str_jsort [simp]: "is_str (jsort v) \<longleftrightarrow> is_str v"
  by (cases v) auto

lemma jsort_bool_int [simp]:
  "jsort v = JBool b \<longleftrightarrow> v = JBool b" "JBool b = jsort v \<longleftrightarrow> v = JBool b" "jsort v = JInt i \<longleftrightarrow> v = JInt i"
  by (cases v; auto; fail)+

lemma distinct_fst_sort: "distinct (map fst d) \<Longrightarrow> distinct (map fst (sort_key f d))"
  by (simp add: distinct_map)

lemma sort_key_fst_cong:
  assumes "distinct (map fst d)" and "distinct (map fst e)" and "set d = set e"
  shows "sort_key fst d = sort_key fst e"
proof (rule map_sorted_distinct_set_unique [where f = fst])
  show "inj_on fst (set (sort_key fst d) \<union> set (sort_key fst e))"
    using assms by (simp add: distinct_map)
  show "distinct (map fst (sort_key fst d))" "distinct (map fst (sort_key fst e))"
    using assms by (simp_all add: distinct_map)
qed (use assms(3) in simp_all)

lemma jsort_obj_cong:
  assumes "distinct (map fst d)" and "distinct (map fst e)"
    and same: "\<And>k. map_option jsort (map_of d k) = map_option jsort (map_of e k)"
  shows "jsort (JObj d) = jsort (JObj e)"
proof -
  let ?f = "map (\<lambda>(k, v). (k, jsort v)) :: dict \<Rightarrow> dict"
  have keys: "distinct (map fst (?f d))" "distinct (map fst (?f e))"
    using assms(1,2) by (simp_all only: map_fst_jsort)
  moreover have "map_of (?f d) = map_of (?f e)" using same by (auto simp: map_of_map_snd)
  ultimately have "set (?f d) = set (?f e)" by (simp only: map_of_inject_set)
  from sort_key_fst_cong [OF keys this] show ?thesis by simp
qed

lemma jsort_obj_self: "distinct (map fst d) \<Longrightarrow> jsort (JObj d) = JObj e \<Longrightarrow> distinct (map fst e)"
  using distinct_fst_sort [of "map (\<lambda>(k, v). (k, jsort v)) d"] map_fst_jsort [of d] by (auto simp del: map_map)

text \<open>\<open>jweight v\<close> bounds the length of the text of \<open>v\<close>, whatever the order of the keys.\<close>

fun jweight :: "json \<Rightarrow> nat" where
  "jweight JNull = 4"
| "jweight (JBool b) = 5"
| "jweight (JInt i) = length (int_str i)"
| "jweight (JFloat r) = length r + 9"
| "jweight (JStr s) = length (print_str s)"
| "jweight (JArr xs) = 2 + sum_list (map (\<lambda>x. Suc (jweight x)) xs)"
| "jweight (JObj d) = 2 + sum_list (map (\<lambda>(k, v). length (print_str k) + jweight v + 2) d)"

lemma length_join: "length (join_with '','' ws) = sum_list (map length ws) + (length ws - 1)"
  by (induction "'',''" ws rule: join_with.induct) auto

lemma sum_list_sort: "sum_list (map f (sort_key g xs)) = (sum_list (map f xs) :: nat)"
proof -
  have "sum_list (map f (insort_key g x ys)) = f x + sum_list (map f ys)" for x ys
    by (induction ys) auto
  then show ?thesis by (induction xs) auto
qed

lemma length_jprint: "length (jprint False v) \<le> jweight v"
proof (induction v)
  case (JArr xs)
  then have "sum_list (map (\<lambda>x. length (jprint False x)) xs) + length xs \<le> sum_list (map (\<lambda>x. Suc (jweight x)) xs)"
    by (induction xs) fastforce+
  then show ?case by (simp add: length_join comp_def)
next
  case (JObj d)
  have "sum_list (map (\<lambda>(k, v). length (print_str k) + Suc (length (jprint False v))) d) + length d
      \<le> sum_list (map (\<lambda>(k, v). length (print_str k) + jweight v + 2) d)"
    using JObj by (induction d) fastforce+
  then show ?case by (simp add: length_join comp_def case_prod_unfold)
qed (simp_all add: print_float_def)

lemma jweight_jsort: "jweight (jsort v) = jweight v"
proof (induction v)
  case (JArr xs)
  then have "map (\<lambda>x. Suc (jweight (jsort x))) xs = map (\<lambda>x. Suc (jweight x)) xs" by simp
  then show ?case by (simp only: jsort.simps jweight.simps map_map comp_def)
next
  case (JObj d)
  then have "sum_list (map (\<lambda>(k, v). length (print_str k) + jweight (jsort v) + 2) d) =
      sum_list (map (\<lambda>(k, v). length (print_str k) + jweight v + 2) d)"
    by (induction d) fastforce+
  then show ?case by (simp add: sum_list_sort comp_def case_prod_unfold)
qed simp_all

lemma length_canonical: "length (canonical_bytes v) \<le> Suc (jweight v)"
  using length_jprint [of "jsort v"] by (simp add: canonical_bytes_def dumps_def newline_def jweight_jsort)

lemma length_print_str_plain: "list_all (\<lambda>c. 32 \<le> code c \<and> code c \<noteq> 34 \<and> code c \<noteq> 92) s \<Longrightarrow> length (print_str s) = length s + 2"
  by (induction s) (auto simp: print_str_def esc_char_def)

end
