(* ===== verification/PyUrl.thy ===== *)
theory PyUrl
  imports PyText
begin

text \<open>
  \<open>urllib.parse\<close> as the code uses it: \<open>urlsplit\<close>/\<open>urlparse\<close> with the derived attributes
  \<open>hostname\<close>, \<open>username\<close>, \<open>password\<close> and \<open>port\<close>, \<open>urlunsplit\<close> without path, query and fragment,
  and \<open>quote(s, safe='')\<close>. The NFKC check of non-ASCII host names and the address syntax inside
  brackets are not modelled.
\<close>

record url =
  u_scheme :: string
  u_netloc :: string
  u_path :: string
  u_query :: string
  u_fragment :: string

definition is_alpha :: "char \<Rightarrow> bool" where
  "is_alpha c \<longleftrightarrow> is_lower c \<or> is_upper c"

definition scheme_char :: "char \<Rightarrow> bool" where
  "scheme_char = plus_of is_alnum ''+-.''"

text \<open>Leading control characters and blanks are stripped, tabs and line ends removed.\<close>

definition url_clean :: "string \<Rightarrow> string" where
  "url_clean s = List.filter (\<lambda>c. code c \<notin> {9, 10, 13}) (dropWhile (\<lambda>c. code c \<le> 32) s)"

definition split_scheme :: "string \<Rightarrow> string \<times> string" where
  "split_scheme s = (case split_once (CHR '':'') s of
       Some (a, b) \<Rightarrow>
         if a \<noteq> [] \<and> is_alpha (hd a) \<and> list_all scheme_char a then (to_lower a, b) else ([], s)
     | None \<Rightarrow> ([], s))"

definition split_netloc :: "string \<Rightarrow> string \<times> string" where
  "split_netloc s =
     (if starts_with ''//'' s
      then (let r = drop 2 s in
            (takeWhile (\<lambda>c. c \<notin> set ''/?#'') r, dropWhile (\<lambda>c. c \<notin> set ''/?#'') r))
      else ([], s))"

definition cut_at :: "char \<Rightarrow> string \<Rightarrow> string \<times> string" where
  "cut_at d s = (case split_once d s of Some p \<Rightarrow> p | None \<Rightarrow> (s, []))"

definition urlsplit :: "string \<Rightarrow> exn + url" where
  "urlsplit s =
     (let (scheme, r1) = split_scheme (url_clean s);
          (netloc, r2) = split_netloc r1;
          (r3, fragment) = cut_at (CHR ''#'') r2;
          (path, query) = cut_at (CHR ''?'') r3
      in if (CHR ''['' \<in> set netloc) \<noteq> (CHR '']'' \<in> set netloc) then Inl ValueErr
         else Inr \<lparr>u_scheme = scheme, u_netloc = netloc, u_path = path, u_query = query, u_fragment = fragment\<rparr>)"

text \<open>The last \<open>@\<close> separates the user information from the host and port.\<close>

definition rsplit_at :: "string \<Rightarrow> (string \<times> string) option" where
  "rsplit_at s = (case split_once (CHR ''@'') (rev s) of
       Some (a, b) \<Rightarrow> Some (rev b, rev a) | None \<Rightarrow> None)"

definition hostinfo :: "url \<Rightarrow> string" where
  "hostinfo u = (case rsplit_at (u_netloc u) of Some (_, h) \<Rightarrow> h | None \<Rightarrow> u_netloc u)"

definition split_host_port :: "string \<Rightarrow> string \<times> string" where
  "split_host_port h = (case split_once (CHR ''['') h of
       Some (_, r) \<Rightarrow> (case cut_at (CHR '']'') r of (host, p) \<Rightarrow> (host, snd (cut_at (CHR '':'') p)))
     | None \<Rightarrow> cut_at (CHR '':'') h)"

text \<open>\<open>None\<close> and the empty string are both falsy, so a missing attribute is the empty string.\<close>

definition hostname :: "url \<Rightarrow> string" where
  "hostname u = to_lower (fst (split_host_port (hostinfo u)))"

definition username :: "url \<Rightarrow> string" where
  "username u = (case rsplit_at (u_netloc u) of Some (i, _) \<Rightarrow> fst (cut_at (CHR '':'') i) | None \<Rightarrow> [])"

definition password :: "url \<Rightarrow> string" where
  "password u = (case rsplit_at (u_netloc u) of Some (i, _) \<Rightarrow> snd (cut_at (CHR '':'') i) | None \<Rightarrow> [])"

definition url_port :: "url \<Rightarrow> exn + nat option" where
  "url_port u =
     (let p = snd (split_host_port (hostinfo u))
      in if p = [] then Inr None
         else if \<not> all_digits p then Inl ValueErr
         else if 65535 < digits_val p then Inl ValueErr
         else Inr (Some (digits_val p)))"

text \<open>\<open>urlunsplit((scheme, netloc, "", "", ""))\<close>.\<close>

definition origin :: "string \<Rightarrow> string \<Rightarrow> string" where
  "origin scheme netloc =
     (if scheme = [] then (if netloc = [] then [] else ''//'' @ netloc) else scheme @ ''://'' @ netloc)"

definition unreserved :: "char \<Rightarrow> bool" where
  "unreserved = plus_of is_alnum ''_.-~''"

definition to_upper_char :: "char \<Rightarrow> char" where
  "to_upper_char c = (if is_lower c then char_of (code c - 32) else c)"

definition quote_all :: "string \<Rightarrow> string" where
  "quote_all s = concat (map (\<lambda>c. if unreserved c then [c] else CHR ''%'' # map to_upper_char (hex2 (code c))) s)"

lemma quote_all_unreserved: "list_all unreserved s \<Longrightarrow> quote_all s = s"
  by (induction s) (auto simp: quote_all_def)

end
