(* ===== verification/Sha256.thy ===== *)
theory Sha256
  imports PyText "HOL-Library.Word"
begin

text \<open>
  \<open>hashlib.sha256\<close> and \<open>hmac\<close> of the standard library, on 32-bit words, with the hexadecimal digest
  the code uses everywhere. The proofs of the development never unfold the compression function:
  they hold for the digest as a fixed function from texts to 64 lowercase hexadecimal characters.
\<close>

unbundle bit_operations_syntax

type_synonym w32 = "32 word"

section \<open>Constants\<close>

text \<open>The round constants and the initial state of FIPS 180-4, in decimal.\<close>

definition sha_k :: "w32 list" where
  "sha_k = [
    1116352408, 1899447441, 3049323471, 3921009573, 961987163, 1508970993, 2453635748, 2870763221,
    3624381080, 310598401, 607225278, 1426881987, 1925078388, 2162078206, 2614888103, 3248222580,
    3835390401, 4022224774, 264347078, 604807628, 770255983, 1249150122, 1555081692, 1996064986,
    2554220882, 2821834349, 2952996808, 3210313671, 3336571891, 3584528711, 113926993, 338241895,
    666307205, 773529912, 1294757372, 1396182291, 1695183700, 1986661051, 2177026350, 2456956037,
    2730485921, 2820302411, 3259730800, 3345764771, 3516065817, 3600352804, 4094571909, 275423344,
    430227734, 506948616, 659060556, 883997877, 958139571, 1322822218, 1537002063, 1747873779,
    1955562222, 2024104815, 2227730452, 2361852424, 2428436474, 2756734187, 3204031479, 3329325298]"

definition sha_init :: "w32 list" where
  "sha_init =
     [1779033703, 3144134277, 1013904242, 2773480762, 1359893119, 2600822924, 528734635, 1541459225]"

section \<open>Padding and blocks\<close>

definition be_bytes :: "nat \<Rightarrow> nat \<Rightarrow> nat list" where
  "be_bytes n v = rev (map (\<lambda>i. v div 256 ^ i mod 256) [0..<n])"

definition sha_pad :: "nat list \<Rightarrow> nat list" where
  "sha_pad bs =
     (let n = length bs; z = (119 - n mod 64) mod 64
      in bs @ [128] @ replicate z 0 @ be_bytes 8 (8 * n))"

definition word_of_bytes :: "nat list \<Rightarrow> w32" where
  "word_of_bytes bs = word_of_nat (foldl (\<lambda>a b. 256 * a + b) 0 bs)"

fun chunks :: "nat \<Rightarrow> nat \<Rightarrow> 'a list \<Rightarrow> 'a list list" where
  "chunks 0 n xs = []"
| "chunks (Suc k) n xs = take n xs # chunks k n (drop n xs)"

section \<open>Compression\<close>

definition rotr :: "nat \<Rightarrow> w32 \<Rightarrow> w32" where
  "rotr n x = drop_bit n x OR push_bit (32 - n) x"

definition small0 :: "w32 \<Rightarrow> w32" where "small0 x = rotr 7 x XOR rotr 18 x XOR drop_bit 3 x"
definition small1 :: "w32 \<Rightarrow> w32" where "small1 x = rotr 17 x XOR rotr 19 x XOR drop_bit 10 x"
definition big0 :: "w32 \<Rightarrow> w32" where "big0 x = rotr 2 x XOR rotr 13 x XOR rotr 22 x"
definition big1 :: "w32 \<Rightarrow> w32" where "big1 x = rotr 6 x XOR rotr 11 x XOR rotr 25 x"
definition sha_ch :: "w32 \<Rightarrow> w32 \<Rightarrow> w32 \<Rightarrow> w32" where "sha_ch e f g = (e AND f) XOR (NOT e AND g)"
definition sha_maj :: "w32 \<Rightarrow> w32 \<Rightarrow> w32 \<Rightarrow> w32" where
  "sha_maj a b c = (a AND b) XOR (a AND c) XOR (b AND c)"

text \<open>The message schedule, newest word first.\<close>

fun schedule :: "nat \<Rightarrow> w32 list \<Rightarrow> w32 list" where
  "schedule 0 ws = ws"
| "schedule (Suc n) ws = schedule n ((small1 (ws ! 1) + ws ! 6 + small0 (ws ! 14) + ws ! 15) # ws)"

fun sha_round :: "w32 list \<Rightarrow> w32 \<times> w32 \<Rightarrow> w32 list" where
  "sha_round [a, b, c, d, e, f, g, h] (k, w) =
     (let t1 = h + big1 e + sha_ch e f g + k + w; t2 = big0 a + sha_maj a b c
      in [t1 + t2, a, b, c, d + t1, e, f, g])"
| "sha_round st kw = st"

definition sha_block :: "w32 list \<Rightarrow> nat list \<Rightarrow> w32 list" where
  "sha_block st bs =
     (let ws = rev (schedule 48 (rev (map word_of_bytes (chunks 16 4 bs))))
      in map2 (+) st (foldl sha_round st (zip sha_k ws)))"

definition sha256_words :: "nat list \<Rightarrow> w32 list" where
  "sha256_words bs =
     (let p = sha_pad bs in foldl sha_block sha_init (chunks (length p div 64) 64 p))"

section \<open>Digests\<close>

definition bytes_of :: "string \<Rightarrow> nat list" where
  "bytes_of s = map code s"

definition sha256_digest :: "nat list \<Rightarrow> nat list" where
  "sha256_digest bs = concat (map (\<lambda>w. be_bytes 4 (unat w)) (sha256_words bs))"

definition hex_of_bytes :: "nat list \<Rightarrow> string" where
  "hex_of_bytes bs = concat (map hex2 bs)"

text \<open>\<open>hashlib.sha256(s).hexdigest()\<close>.\<close>

definition sha256_hex :: "string \<Rightarrow> string" where
  "sha256_hex s = hex_of_bytes (sha256_digest (bytes_of s))"

text \<open>\<open>hmac.new(key, msg, hashlib.sha256).hexdigest()\<close>.\<close>

definition hmac_sha256_hex :: "nat list \<Rightarrow> string \<Rightarrow> string" where
  "hmac_sha256_hex key msg =
     (let k0 = (if 64 < length key then sha256_digest key else key);
          k = k0 @ replicate (64 - length k0) 0;
          inner = sha256_digest (map (\<lambda>b. b XOR 54) k @ bytes_of msg)
      in hex_of_bytes (sha256_digest (map (\<lambda>b. b XOR 92) k @ inner)))"

text \<open>\<open>bytes.fromhex(s)\<close> on a string of hexadecimal digit pairs.\<close>

fun from_hex :: "string \<Rightarrow> nat list" where
  "from_hex (a # b # s) = (16 * hex_digit_val a + hex_digit_val b) # from_hex s"
| "from_hex _ = []"

section \<open>Shape of a digest\<close>

lemma length_be_bytes [simp]: "length (be_bytes n v) = n"
  by (simp add: be_bytes_def)

lemma length_sha_round [simp]: "length (sha_round st kw) = length st"
  by (induction st kw rule: sha_round.induct) (auto simp: Let_def)

lemma length_fold_round [simp]: "length (foldl sha_round st kws) = length st"
  by (induction kws arbitrary: st) auto

lemma length_sha_block: "length (sha_block st bs) = length st"
  by (simp add: sha_block_def Let_def)

lemma length_fold_block: "length (foldl sha_block st bss) = length st"
  by (induction bss arbitrary: st) (auto simp: length_sha_block)

lemma length_sha256_words: "length (sha256_words bs) = 8"
  by (simp add: sha256_words_def Let_def length_fold_block sha_init_def)

lemma sum_list_const: "(\<And>x. x \<in> set xs \<Longrightarrow> f x = (c::nat)) \<Longrightarrow> sum_list (map f xs) = c * length xs"
  by (induction xs) auto

lemma length_sha256_digest: "length (sha256_digest bs) = 32"
  by (simp add: sha256_digest_def length_concat comp_def sum_list_const [where c = 4] length_sha256_words)

lemma length_hex2 [simp]: "length (hex2 b) = 2"
  by (simp add: hex2_def)

lemma hex_digit_lower_hex: "d < 16 \<Longrightarrow> is_lower_hex (hex_digit d)"
  by (auto simp: hex_digit_def class_defs)

lemma hex64_sha256 [simp]: "hex64 (sha256_hex s)"
  by (auto simp: hex64_def rep_match_def sha256_hex_def hex_of_bytes_def length_concat comp_def
      sum_list_const [where c = 2] length_sha256_digest list_all_iff hex2_def hex_digit_lower_hex)

lemma length_sha256_hex [simp]: "length (sha256_hex s) = 64"
  by (rule hex64_length) simp

end
