(* ===== verification/Platform.thy ===== *)
theory Platform
  imports PyJsonLaws PyUrl Sha256
begin

text \<open>
  What a service sees of its surroundings. The surroundings are an opaque state \<open>'w\<close> and a record of
  functions the operating system, the network and the clock answer with; every call may take time.
  The services never look inside \<open>'w\<close>, so a theorem holds whatever the platform does. Each call
  that leaves the process is an event of the trace.
\<close>

section \<open>Configuration surroundings: environment variables and files\<close>

type_synonym environ = "string \<Rightarrow> string option"

definition env_get :: "environ \<Rightarrow> string \<Rightarrow> string \<Rightarrow> string" where
  "env_get env name dflt = (case env name of Some v \<Rightarrow> v | None \<Rightarrow> dflt)"

text \<open>A path names a regular file with permission bits and content, a directory, or a link.\<close>

datatype fs_node = FFile nat string | FDir | FLink string

type_synonym files = "string \<Rightarrow> fs_node option"

text \<open>Link resolution gives up after the 40 links the kernel follows.\<close>

fun fs_resolve :: "nat \<Rightarrow> files \<Rightarrow> string \<Rightarrow> fs_node option" where
  "fs_resolve 0 fs p = None"
| "fs_resolve (Suc n) fs p =
     (case fs p of Some (FLink q) \<Rightarrow> fs_resolve n fs q | x \<Rightarrow> x)"

definition fs_follow :: "files \<Rightarrow> string \<Rightarrow> fs_node option" where
  "fs_follow fs p = fs_resolve 41 fs p"

definition is_symlink :: "files \<Rightarrow> string \<Rightarrow> bool" where
  "is_symlink fs p \<longleftrightarrow> (case fs p of Some (FLink _) \<Rightarrow> True | _ \<Rightarrow> False)"

definition is_file :: "files \<Rightarrow> string \<Rightarrow> bool" where
  "is_file fs p \<longleftrightarrow> (case fs_follow fs p of Some (FFile _ _) \<Rightarrow> True | _ \<Rightarrow> False)"

definition is_dir :: "files \<Rightarrow> string \<Rightarrow> bool" where
  "is_dir fs p \<longleftrightarrow> (case fs_follow fs p of Some FDir \<Rightarrow> True | _ \<Rightarrow> False)"

definition path_exists :: "files \<Rightarrow> string \<Rightarrow> bool" where
  "path_exists fs p \<longleftrightarrow> fs_follow fs p \<noteq> None"

definition read_bytes :: "files \<Rightarrow> string \<Rightarrow> exn + string" where
  "read_bytes fs p = (case fs_follow fs p of Some (FFile _ c) \<Rightarrow> Inr c | _ \<Rightarrow> Inl OsErr)"

definition read_text :: "files \<Rightarrow> string \<Rightarrow> exn + string" where
  "read_text fs p = rbind (read_bytes fs p) (\<lambda>c. if utf8_ok c then Inr c else Inl ValueErr)"

definition file_mode :: "files \<Rightarrow> string \<Rightarrow> nat" where
  "file_mode fs p = (case fs_follow fs p of Some (FFile m _) \<Rightarrow> m | _ \<Rightarrow> 0)"

lemma is_file_read: "is_file fs p \<Longrightarrow> \<exists>c. read_bytes fs p = Inr c"
  by (auto simp: is_file_def read_bytes_def split: option.splits fs_node.splits)

section \<open>Running processes, network requests, clocks\<close>

record proc =
  returncode :: int
  stdout :: string
  stderr :: string

datatype http_reply = NetFail | Reply nat string

record http_request =
  rq_method :: string
  rq_url :: string
  rq_headers :: "(string \<times> string) list"
  rq_body :: "string option"
  rq_verify_tls :: bool

datatype event =
    EvRun "string list" "proc option"
  | EvHttp http_request http_reply
  | EvDns string "string list option"
  | EvSleep
  | EvSave string
  | EvWrite string string

text \<open>
  Each function returns the answer, the nanoseconds it took and the next state of the surroundings.
  \<open>p_sleep\<close> returns the time slept beyond the requested second; \<open>p_store\<close> says whether a new file
  could be written out.
\<close>

record 'w platform =
  p_run :: "string list \<Rightarrow> nat \<Rightarrow> 'w \<Rightarrow> proc option \<times> nat \<times> 'w"
  p_http :: "http_request \<Rightarrow> nat \<Rightarrow> 'w \<Rightarrow> http_reply \<times> nat \<times> 'w"
  p_dns :: "string \<Rightarrow> nat \<Rightarrow> 'w \<Rightarrow> string list option \<times> nat \<times> 'w"
  p_wall :: "'w \<Rightarrow> int \<times> nat \<times> 'w"
  p_sleep :: "'w \<Rightarrow> nat \<times> 'w"
  p_store :: "string \<Rightarrow> string \<Rightarrow> 'w \<Rightarrow> bool \<times> nat \<times> 'w"

record 'w sys =
  outside :: 'w
  mono :: nat
  trace :: "event list"

definition second_ns :: nat where "second_ns = 1000000000"

definition seconds :: "nat \<Rightarrow> nat" where "seconds n = n * second_ns"

lemma second_ns_pos [simp]: "0 < second_ns"
  by (simp add: second_ns_def)

text \<open>
  \<open>subprocess.run(cmd, timeout=t)\<close>; no answer stands for a timeout or a missing executable, which
  every caller treats alike.
\<close>

definition run_process :: "'w platform \<Rightarrow> string list \<Rightarrow> nat \<Rightarrow> (('w, 'z) sys_scheme, proc) comp" where
  "run_process P cmd t = (\<lambda>s. case p_run P cmd t (outside s) of (r, dt, w) \<Rightarrow>
     (case r of None \<Rightarrow> Inl OsErr | Some pr \<Rightarrow> Inr pr,
      s\<lparr>outside := w, mono := mono s + dt, trace := EvRun cmd r # trace s\<rparr>))"

text \<open>One HTTP exchange; a network failure is an answer, as the callers treat it.\<close>

definition http_exchange ::
  "'w platform \<Rightarrow> http_request \<Rightarrow> nat \<Rightarrow> (('w, 'z) sys_scheme, http_reply) comp" where
  "http_exchange P rq t = (\<lambda>s. case p_http P rq t (outside s) of (r, dt, w) \<Rightarrow>
     (Inr r, s\<lparr>outside := w, mono := mono s + dt, trace := EvHttp rq r # trace s\<rparr>))"

definition getaddrinfo :: "'w platform \<Rightarrow> string \<Rightarrow> nat \<Rightarrow> (('w, 'z) sys_scheme, string list option) comp" where
  "getaddrinfo P host port = (\<lambda>s. case p_dns P host port (outside s) of (r, dt, w) \<Rightarrow>
     (Inr r, s\<lparr>outside := w, mono := mono s + dt, trace := EvDns host r # trace s\<rparr>))"

text \<open>\<open>int(time.time() * 1000)\<close> and \<open>time.monotonic()\<close>, in nanoseconds.\<close>

definition wall_ms :: "'w platform \<Rightarrow> (('w, 'z) sys_scheme, int) comp" where
  "wall_ms P = (\<lambda>s. case p_wall P (outside s) of (ms, dt, w) \<Rightarrow>
     (Inr ms, s\<lparr>outside := w, mono := mono s + dt\<rparr>))"

definition monotonic :: "(('w, 'z) sys_scheme, nat) comp" where
  "monotonic = gets mono"

definition sleep_seconds :: "'w platform \<Rightarrow> nat \<Rightarrow> (('w, 'z) sys_scheme, unit) comp" where
  "sleep_seconds P n = (\<lambda>s. case p_sleep P (outside s) of (extra, w) \<Rightarrow>
     (Inr (), s\<lparr>outside := w, mono := mono s + seconds n + extra, trace := EvSleep # trace s\<rparr>))"

section \<open>Polling\<close>

text \<open>
  The loops \<open>while time.monotonic() < deadline: ...; time.sleep(1)\<close>: the body returns or carries on
  with a new loop variable; \<open>late\<close> is what the code does once the deadline has passed. Every turn
  sleeps a second, so one unit of fuel more than the timeout in seconds is enough.
\<close>

fun poll :: "nat \<Rightarrow> 'w platform \<Rightarrow> nat \<Rightarrow> ('b \<Rightarrow> (('w, 'z) sys_scheme, 'a option \<times> 'b) comp) \<Rightarrow>
    ('b \<Rightarrow> (('w, 'z) sys_scheme, 'a) comp) \<Rightarrow> 'b \<Rightarrow> (('w, 'z) sys_scheme, 'a) comp" where
  "poll 0 P deadline body late b = throw OutOfFuel"
| "poll (Suc n) P deadline body late b =
     bnd monotonic (\<lambda>t.
     if t < deadline then
       bnd (body b) (\<lambda>x. case fst x of
           Some r \<Rightarrow> ret r
         | None \<Rightarrow> seqc (sleep_seconds P 1) (poll n P deadline body late (snd x)))
     else late b)"

definition poll_for :: "'w platform \<Rightarrow> nat \<Rightarrow> ('b \<Rightarrow> (('w, 'z) sys_scheme, 'a option \<times> 'b) comp) \<Rightarrow>
    ('b \<Rightarrow> (('w, 'z) sys_scheme, 'a) comp) \<Rightarrow> 'b \<Rightarrow> (('w, 'z) sys_scheme, 'a) comp" where
  "poll_for P timeout body late b =
     bnd monotonic (\<lambda>t. poll (Suc timeout) P (t + seconds timeout) body late b)"

section \<open>Rules\<close>

text \<open>
  Time never runs backwards and events are never forgotten: \<open>extends s0 s\<close> holds from the start of
  an operation to any later point of it.
\<close>

definition extends :: "('w, 'z) sys_scheme \<Rightarrow> ('w, 'z) sys_scheme \<Rightarrow> bool" where
  "extends s t \<longleftrightarrow> mono s \<le> mono t \<and> (\<exists>new. trace t = new @ trace s)"

lemma extends_refl [simp]: "extends s s"
  by (simp add: extends_def)

lemma extends_trans: "extends r s \<Longrightarrow> extends s t \<Longrightarrow> extends r t"
  unfolding extends_def by (metis append_assoc order_trans)

definition advances :: "(('w, 'z) sys_scheme, 'a) comp \<Rightarrow> bool" where
  "advances m \<longleftrightarrow> (\<forall>s. extends s (snd (m s)))"

named_theorems advances_intro "computations that only move time and the trace forward"

lemma advancesD: "advances m \<Longrightarrow> m s = (r, t) \<Longrightarrow> extends s t"
  unfolding advances_def by (metis snd_conv)

lemma advances_bnd [advances_intro]:
  assumes "advances m" and "\<And>x. advances (f x)"
  shows "advances (bnd m f)"
  unfolding advances_def
proof
  fix s
  obtain r t where m: "m s = (r, t)" by fastforce
  show "extends s (snd (bnd m f s))"
  proof (cases r)
    case (Inl e)
    with m show ?thesis using advancesD [OF assms(1) m] by (simp add: bnd_def)
  next
    case (Inr x)
    obtain q u where f: "f x t = (q, u)" by fastforce
    with m Inr show ?thesis
      using extends_trans [OF advancesD [OF assms(1) m] advancesD [OF assms(2) f]] by (simp add: bnd_def)
  qed
qed

lemma advances_seqc [advances_intro]: "advances m \<Longrightarrow> advances n \<Longrightarrow> advances (seqc m n)"
  unfolding seqc_def by (rule advances_bnd)

lemma advances_pure [advances_intro]:
  "advances (ret x)" "advances (throw e)" "advances (gets f)" "advances (lift_res r)" "advances (raise_if c e)"
  by (simp_all add: advances_def ret_def throw_def gets_def lift_res_def raise_if_def)

lemma advances_if [advances_intro]: "advances m \<Longrightarrow> advances n \<Longrightarrow> advances (if c then m else n)"
  by simp

lemma advances_whenc [advances_intro]: "advances m \<Longrightarrow> advances (whenc c m)"
  by (simp add: whenc_def advances_pure)

lemma advances_for_each [advances_intro]: "(\<And>x. advances (f x)) \<Longrightarrow> advances (for_each xs f)"
  by (induction xs) (auto intro: advances_intro)

lemma advances_prims [advances_intro]:
  "advances (run_process P cmd t)" "advances (http_exchange P rq t)" "advances (getaddrinfo P h p)"
  "advances (wall_ms P)" "advances monotonic" "advances (sleep_seconds P n)"
  by (auto simp: advances_def extends_def run_process_def http_exchange_def getaddrinfo_def wall_ms_def
      monotonic_def gets_def sleep_seconds_def split: prod.splits)

text \<open>Facts about past events survive every later step.\<close>

lemma extends_past: "extends s t \<Longrightarrow> list_ex p (trace s) \<Longrightarrow> list_ex p (trace t)"
  by (auto simp: extends_def)

lemma extends_mono: "extends s t \<Longrightarrow> mono s \<le> mono t"
  by (simp add: extends_def)

lemma advances_modify: "(\<And>s. extends s (f s)) \<Longrightarrow> advances (modify f)"
  by (simp add: advances_def modify_def)

text \<open>Exact weakest preconditions of the two calls whose events the safety properties name.\<close>

lemma wp_run_process [wp]:
  "wp (run_process P cmd t) Q E s =
    (case p_run P cmd t (outside s) of (r, dt, w) \<Rightarrow>
      (let s' = s\<lparr>outside := w, mono := mono s + dt, trace := EvRun cmd r # trace s\<rparr>
       in case r of None \<Rightarrow> E OsErr s' | Some x \<Rightarrow> Q x s'))"
  by (simp add: wp_def run_process_def Let_def split: prod.splits option.splits)

section \<open>Ordering of commands within an operation\<close>

text \<open>
  \<open>hushed q m\<close>: \<open>m\<close> leaves no event that satisfies \<open>q\<close>. \<open>governs q G tr0 F m F'\<close>: started in a state
  whose trace since \<open>tr0\<close> shows an event for every predicate of \<open>F\<close> and respects the guard, \<open>m\<close>
  respects the guard \<open>G\<close> of the events \<open>q\<close> on every outcome, and shows the events \<open>F' x\<close> when it
  returns \<open>x\<close>. \<open>quiet p\<close> and \<open>gov p\<close> watch for the commands that satisfy \<open>p\<close>.
\<close>

definition ran :: "(string list \<Rightarrow> bool) \<Rightarrow> event \<Rightarrow> bool" where
  "ran p e = (case e of EvRun cmd r \<Rightarrow> p cmd | _ \<Rightarrow> False)"

lemma ran_simps [simp]:
  "ran p (EvRun cmd r) = p cmd" "\<not> ran p (EvHttp rq rp)" "\<not> ran p (EvDns h a)" "\<not> ran p EvSleep"
  "\<not> ran p (EvSave b)" "\<not> ran p (EvWrite f b)"
  by (simp_all add: ran_def)

definition hushed :: "(event \<Rightarrow> bool) \<Rightarrow> (('w, 'z) sys_scheme, 'a) comp \<Rightarrow> bool" where
  "hushed q m \<longleftrightarrow> (\<forall>s. \<exists>new. trace (snd (m s)) = new @ trace s \<and> \<not> list_ex q new)"

abbreviation quiet :: "(string list \<Rightarrow> bool) \<Rightarrow> (('w, 'z) sys_scheme, 'a) comp \<Rightarrow> bool" where
  "quiet p \<equiv> hushed (ran p)"

lemmas quiet_def = hushed_def [of "ran p" for p]

named_theorems quiet_intro "computations that run none of the commands watched for"

lemma hushedE:
  assumes "hushed q m" and "m s = (r, t)"
  obtains new where "trace t = new @ trace s" and "\<not> list_ex q new"
  using assms unfolding hushed_def by (metis snd_conv)

lemma quiet_bnd [quiet_intro]:
  assumes "hushed q m" and "\<And>x. hushed q (f x)"
  shows "hushed q (bnd m f)"
  unfolding hushed_def
proof
  fix s
  obtain r t where m: "m s = (r, t)" by fastforce
  obtain new where new: "trace t = new @ trace s" "\<not> list_ex q new"
    using hushedE [OF assms(1) m] by metis
  show "\<exists>new. trace (snd (bnd m f s)) = new @ trace s \<and> \<not> list_ex q new"
  proof (cases r)
    case (Inl e)
    with m new show ?thesis by (auto simp: bnd_def)
  next
    case (Inr x)
    obtain r' u where f: "f x t = (r', u)" by fastforce
    obtain more where "trace u = more @ trace t" "\<not> list_ex q more"
      using hushedE [OF assms(2) f] by metis
    with m f Inr new show ?thesis by (intro exI [of _ "more @ new"]) (simp add: bnd_def)
  qed
qed

lemma quiet_seqc [quiet_intro]: "hushed q m \<Longrightarrow> hushed q n \<Longrightarrow> hushed q (seqc m n)"
  unfolding seqc_def by (rule quiet_bnd)

lemma quiet_pure [quiet_intro]:
  "hushed q (ret x)" "hushed q (throw e)" "hushed q (gets f)" "hushed q (lift_res r)" "hushed q (raise_if c e)"
  by (simp_all add: hushed_def ret_def throw_def gets_def lift_res_def raise_if_def)

lemma quiet_if [quiet_intro]: "hushed q m \<Longrightarrow> hushed q n \<Longrightarrow> hushed q (if c then m else n)"
  by simp

lemma quiet_whenc [quiet_intro]: "hushed q m \<Longrightarrow> hushed q (whenc c m)"
  by (simp add: whenc_def quiet_pure)

lemma quiet_for_each [quiet_intro]: "(\<And>x. hushed q (f x)) \<Longrightarrow> hushed q (for_each xs f)"
  by (induction xs) (auto intro: quiet_intro)

lemma hushed_catching [quiet_intro]:
  assumes "hushed q m" and "\<And>e. hushed q (h e)"
  shows "hushed q (catching p m h)"
  unfolding hushed_def
proof
  fix s
  obtain r t where m: "m s = (r, t)" by fastforce
  obtain new where new: "trace t = new @ trace s" "\<not> list_ex q new" using hushedE [OF assms(1) m] .
  show "\<exists>new. trace (snd (catching p m h s)) = new @ trace s \<and> \<not> list_ex q new"
  proof (cases r)
    case (Inl e)
    obtain r' u where "h e t = (r', u)" by fastforce
    moreover from hushedE [OF assms(2) this]
    obtain more where "trace u = more @ trace t" "\<not> list_ex q more" .
    ultimately show ?thesis
      using m Inl new by (auto simp: catching_def intro: exI [of _ "more @ new"])
  next
    case (Inr x)
    with m new show ?thesis by (auto simp: catching_def)
  qed
qed

lemma hushed_http: "(\<And>r. \<not> q (EvHttp rq r)) \<Longrightarrow> hushed q (http_exchange P rq t)"
  by (auto simp: hushed_def http_exchange_def split: prod.splits)

lemma hushed_sleep: "\<not> q EvSleep \<Longrightarrow> hushed q (sleep_seconds P n)"
  by (auto simp: hushed_def sleep_seconds_def split: prod.splits)

lemma hushed_clock [quiet_intro]: "hushed q (wall_ms P)" "hushed q monotonic"
  by (auto simp: hushed_def wall_ms_def monotonic_def gets_def split: prod.splits)

lemma quiet_prims [quiet_intro]:
  "quiet p (http_exchange P rq t)" "quiet p (getaddrinfo P h n)" "quiet p (sleep_seconds P n)"
  by (auto simp: quiet_def http_exchange_def getaddrinfo_def sleep_seconds_def split: prod.splits)

lemma quiet_run [quiet_intro]: "\<not> p cmd \<Longrightarrow> quiet p (run_process P cmd t)"
  by (auto simp: hushed_def run_process_def split: prod.splits)

lemma quiet_modify: "(\<And>s. trace (f s) = trace s) \<Longrightarrow> hushed q (modify f)"
  by (simp add: hushed_def modify_def)

definition shows_all :: "(event \<Rightarrow> bool) set \<Rightarrow> event list \<Rightarrow> bool" where
  "shows_all F tr \<longleftrightarrow> (\<forall>B\<in>F. list_ex B tr)"

definition noted :: "event list \<Rightarrow> (event \<Rightarrow> bool) \<Rightarrow> (event list \<Rightarrow> bool) \<Rightarrow> (event \<Rightarrow> bool) set \<Rightarrow>
    ('w, 'z) sys_scheme \<Rightarrow> bool" where
  "noted tr0 q G F s \<longleftrightarrow> (\<exists>new. trace s = new @ tr0 \<and> guarded q G new \<and> shows_all F new)"

definition governs :: "(event \<Rightarrow> bool) \<Rightarrow> (event list \<Rightarrow> bool) \<Rightarrow> event list \<Rightarrow> (event \<Rightarrow> bool) set \<Rightarrow>
    (('w, 'z) sys_scheme, 'a) comp \<Rightarrow> ('a \<Rightarrow> (event \<Rightarrow> bool) set) \<Rightarrow> bool" where
  "governs q G tr0 F m F' \<longleftrightarrow>
     (\<forall>s. noted tr0 q G F s \<longrightarrow> wp m (\<lambda>x. noted tr0 q G (F' x)) (\<lambda>_. noted tr0 q G {}) s)"

abbreviation since :: "event list \<Rightarrow> (string list \<Rightarrow> bool) \<Rightarrow> (event list \<Rightarrow> bool) \<Rightarrow> (event \<Rightarrow> bool) set \<Rightarrow>
    ('w, 'z) sys_scheme \<Rightarrow> bool" where
  "since tr0 p \<equiv> noted tr0 (ran p)"

abbreviation gov :: "(string list \<Rightarrow> bool) \<Rightarrow> (event list \<Rightarrow> bool) \<Rightarrow> event list \<Rightarrow> (event \<Rightarrow> bool) set \<Rightarrow>
    (('w, 'z) sys_scheme, 'a) comp \<Rightarrow> ('a \<Rightarrow> (event \<Rightarrow> bool) set) \<Rightarrow> bool" where
  "gov p \<equiv> governs (ran p)"

lemmas since_def = noted_def [of _ "ran p" for p]
lemmas gov_def = governs_def [of "ran p" for p]

lemma shows_all_mono: "shows_all F tr \<Longrightarrow> F' \<subseteq> F \<Longrightarrow> shows_all F' tr"
  by (auto simp: shows_all_def)

lemma since_mono: "noted tr0 q G F s \<Longrightarrow> F' \<subseteq> F \<Longrightarrow> noted tr0 q G F' s"
  unfolding noted_def using shows_all_mono by blast

lemma shows_all_append: "shows_all F tr \<Longrightarrow> shows_all F (new @ tr)"
  by (auto simp: shows_all_def)

lemma gov_bnd: "governs q G tr0 F m Fx \<Longrightarrow> (\<And>x. governs q G tr0 (Fx x) (f x) Fy) \<Longrightarrow> governs q G tr0 F (bnd m f) Fy"
  by (fastforce simp: governs_def wp_bnd elim: wp_mono)

lemma gov_seqc: "governs q G tr0 F m Fx \<Longrightarrow> (\<And>x. governs q G tr0 (Fx x) n Fy) \<Longrightarrow> governs q G tr0 F (seqc m n) Fy"
  unfolding seqc_def by (rule gov_bnd)

lemma gov_post: "governs q G tr0 F m Fx \<Longrightarrow> (\<And>x. Fy x \<subseteq> Fx x) \<Longrightarrow> governs q G tr0 F m Fy"
  unfolding governs_def by (blast intro: wp_mono since_mono)

lemma gov_pre: "governs q G tr0 F m Fx \<Longrightarrow> F \<subseteq> Fz \<Longrightarrow> governs q G tr0 Fz m Fx"
  unfolding governs_def by (blast intro: since_mono)

lemma since_quiet:
  assumes "hushed q m" and "m s = (r, t)" and "noted tr0 q G F s"
  shows "noted tr0 q G F t"
proof -
  obtain new where new: "trace t = new @ trace s" "\<not> list_ex q new"
    using hushedE [OF assms(1,2)] by metis
  obtain old where old: "trace s = old @ tr0" "guarded q G old" "shows_all F old"
    using assms(3) unfolding noted_def by metis
  have "trace t = (new @ old) @ tr0" using new old by simp
  then show ?thesis
    unfolding noted_def using new old guarded_append_no_event shows_all_append by blast
qed

lemma gov_quiet: "hushed q m \<Longrightarrow> governs q G tr0 F m (\<lambda>_. F)"
  unfolding governs_def by (auto intro!: wpI dest: since_quiet elim: since_mono)

lemma gov_quiet_post: "hushed q m \<Longrightarrow> (\<And>x. F' x \<subseteq> F) \<Longrightarrow> governs q G tr0 F m F'"
  by (rule gov_post [OF gov_quiet])

lemma gov_ret: "F' x \<subseteq> F \<Longrightarrow> governs q G tr0 F (ret x) F'"
  unfolding governs_def by (auto simp: wp elim: since_mono)

lemma gov_throw: "governs q G tr0 F (throw e) F'"
  unfolding governs_def by (auto simp: wp elim: since_mono)

lemma gov_raise_if: "(\<not> c \<Longrightarrow> F' () \<subseteq> F) \<Longrightarrow> governs q G tr0 F (raise_if c e) F'"
  unfolding raise_if_def by (simp add: gov_ret gov_throw)

lemma governs_bnd_lift:
  "(\<And>x. r = Inr x \<Longrightarrow> governs q G tr0 F (f x) F') \<Longrightarrow> governs q G tr0 F (bnd (lift_res r) f) F'"
  unfolding governs_def by (auto simp: wp elim: since_mono split: sum.splits)

lemma governs_unless:
  "(\<not> c \<Longrightarrow> governs q G tr0 F n F') \<Longrightarrow> governs q G tr0 F (seqc (raise_if c e) n) F'"
  unfolding governs_def by (auto simp: wp elim: since_mono)

lemma governs_catching:
  assumes "governs q G tr0 F m F'" and "\<And>e. governs q G tr0 {} (h e) F'"
  shows "governs q G tr0 F (catching p m h) F'"
  unfolding governs_def wp_catching
proof (intro allI impI)
  fix s :: "('a, 'b) sys_scheme"
  assume "noted tr0 q G F s"
  with assms(1) have "wp m (\<lambda>x. noted tr0 q G (F' x)) (\<lambda>_. noted tr0 q G {}) s" by (simp add: governs_def)
  then show "wp m (\<lambda>x. noted tr0 q G (F' x))
      (\<lambda>e t. if p e then wp (h e) (\<lambda>x. noted tr0 q G (F' x)) (\<lambda>_. noted tr0 q G {}) t else noted tr0 q G {} t) s"
    by (rule wp_mono) (use assms(2) in \<open>auto simp: governs_def\<close>)
qed

lemma gov_if: "(c \<Longrightarrow> governs q G tr0 F m F') \<Longrightarrow> (\<not> c \<Longrightarrow> governs q G tr0 F n F') \<Longrightarrow> governs q G tr0 F (if c then m else n) F'"
  by simp

text \<open>
  A command leaves its own event: when it is watched for, the guard must follow from the events
  shown so far.
\<close>

lemma gov_run:
  assumes "p cmd \<Longrightarrow> \<forall>tr. shows_all F tr \<longrightarrow> G tr"
    and "\<And>pr. \<forall>B\<in>F' pr. B \<in> F \<or> B (EvRun cmd (Some pr))"
  shows "gov p G tr0 F (run_process P cmd t) F'"
proof -
  have "since tr0 p G F' (s\<lparr>outside := w, mono := m, trace := EvRun cmd r # trace s\<rparr>)"
    if "since tr0 p G F s" "\<forall>B\<in>F'. B \<in> F \<or> B (EvRun cmd r)" for s :: "('a, 'b) sys_scheme" and w m r F'
    using that assms(1) by (fastforce simp: since_def shows_all_def)
  then show ?thesis
    using assms(2) by (fastforce simp: gov_def wp Let_def split: prod.splits option.splits)
qed

lemma governs_http:
  assumes "\<And>r. q (EvHttp rq r) \<Longrightarrow> \<forall>tr. shows_all F tr \<longrightarrow> G tr"
    and "\<And>r. \<forall>B\<in>F' r. B \<in> F \<or> B (EvHttp rq r)"
  shows "governs q G tr0 F (http_exchange P rq t) F'"
proof -
  have "noted tr0 q G (F' r) (s\<lparr>outside := w, mono := m, trace := EvHttp rq r # trace s\<rparr>)"
    if "noted tr0 q G F s" for s :: "('a, 'b) sys_scheme" and w m r
    using that assms(1) [of r] assms(2) [of r] by (fastforce simp: noted_def shows_all_def)
  then show ?thesis by (simp add: governs_def wp_def http_exchange_def split: prod.splits)
qed

lemma gov_http: "(\<And>r. \<forall>B\<in>F' r. B \<in> F \<or> B (EvHttp rq r)) \<Longrightarrow> gov p G tr0 F (http_exchange P rq t) F'"
  by (rule governs_http) simp

lemma gov_for_each:
  assumes "\<And>x F. governs q G tr0 F (f x) (\<lambda>_. insert (B x) F)"
  shows "governs q G tr0 F (for_each xs f) (\<lambda>_. F \<union> B ` set xs)"
proof (induction xs arbitrary: F)
  case Nil
  show ?case by (simp add: gov_ret)
next
  case (Cons x xs)
  show ?case
    unfolding for_each.simps
    by (rule gov_seqc [OF assms gov_post [OF Cons]]) auto
qed

lemma gov_guarded:
  assumes "governs q G (trace s) {} m F'" and "m s = (r, t)"
  shows "\<exists>new. trace t = new @ trace s \<and> guarded q G new"
proof -
  have "noted (trace s) q G {} s" by (simp add: noted_def shows_all_def)
  with assms have "wp m (\<lambda>x. noted (trace s) q G (F' x)) (\<lambda>_. noted (trace s) q G {}) s"
    by (simp add: governs_def)
  with assms(2) show ?thesis by (cases r) (auto simp: wp_def noted_def)
qed

section \<open>Rules for polling loops\<close>

lemma keeps_poll [keeps_intro]:
  assumes "\<And>b. keeps I (body b)" and "\<And>b. keeps I (late b)" and "\<And>n. keeps I (sleep_seconds P n)"
  shows "keeps I (poll n P deadline body late b)"
proof (induction n arbitrary: b)
  case (Suc n)
  have "keeps I (case fst x of Some r \<Rightarrow> ret r
      | None \<Rightarrow> seqc (sleep_seconds P 1) (poll n P deadline body late (snd x)))" for x
    by (cases "fst x") (auto intro!: keeps_intro assms Suc)
  then show ?case by (auto intro!: keeps_intro assms simp: monotonic_def)
qed (auto intro: keeps_intro)

lemma advances_poll [advances_intro]:
  assumes "\<And>b. advances (body b)" and "\<And>b. advances (late b)"
  shows "advances (poll n P deadline body late b)"
proof (induction n arbitrary: b)
  case (Suc n)
  have "advances (case fst x of Some r \<Rightarrow> ret r
      | None \<Rightarrow> seqc (sleep_seconds P 1) (poll n P deadline body late (snd x)))" for x
    by (cases "fst x") (auto intro!: advances_intro Suc)
  then show ?case by (auto intro!: advances_intro assms)
qed (auto intro: advances_intro)

lemma quiet_poll [quiet_intro]:
  assumes "\<And>b. quiet p (body b)" and "\<And>b. quiet p (late b)"
  shows "quiet p (poll n P deadline body late b)"
proof (induction n arbitrary: b)
  case (Suc n)
  have "quiet p (case fst x of Some r \<Rightarrow> ret r
      | None \<Rightarrow> seqc (sleep_seconds P 1) (poll n P deadline body late (snd x)))" for x
    by (cases "fst x") (auto intro!: quiet_intro Suc)
  then show ?case by (auto intro!: quiet_intro assms)
qed (auto intro: quiet_intro)

lemma poll_for_intros:
  "\<lbrakk>\<And>b. advances (body b); \<And>b. advances (late b)\<rbrakk> \<Longrightarrow> advances (poll_for P n body late b)"
  "\<lbrakk>\<And>b. quiet p (body b); \<And>b. quiet p (late b)\<rbrakk> \<Longrightarrow> quiet p (poll_for P n body late b)"
  unfolding poll_for_def by (intro advances_intro quiet_intro; simp)+

lemmas [advances_intro] = poll_for_intros(1)
lemmas [quiet_intro] = poll_for_intros(2)

lemma gov_poll:
  assumes body: "\<And>b. gov p G tr0 F (body b) (\<lambda>x. case fst x of Some r \<Rightarrow> F' r | None \<Rightarrow> F)"
    and late: "\<And>b. gov p G tr0 F (late b) F'"
  shows "gov p G tr0 F (poll n P deadline body late b) F'"
proof (induction n arbitrary: b)
  case 0
  show ?case by (simp add: gov_throw)
next
  case (Suc n)
  have "gov p G tr0 (case fst x of Some r \<Rightarrow> F' r | None \<Rightarrow> F)
      (case fst x of Some r \<Rightarrow> ret r
       | None \<Rightarrow> seqc (sleep_seconds P 1) (poll n P deadline body late (snd x))) F'" for x
    by (cases "fst x") (auto intro!: gov_ret gov_seqc [OF gov_quiet] quiet_intro Suc)
  then show ?case
    unfolding poll.simps
    by (intro gov_bnd [OF gov_quiet] quiet_intro gov_if gov_bnd [OF body] late)
qed

lemma gov_poll_for:
  assumes "\<And>b. gov p G tr0 F (body b) (\<lambda>x. case fst x of Some r \<Rightarrow> F' r | None \<Rightarrow> F)"
    and "\<And>b. gov p G tr0 F (late b) F'"
  shows "gov p G tr0 F (poll_for P n body late b) F'"
  unfolding poll_for_def by (intro gov_bnd [OF gov_quiet] quiet_intro gov_poll assms)

lemma wp_advances:
  assumes "advances m" and "fuelled m"
  shows "wp m (\<lambda>_ t. mono s \<le> mono t) (\<lambda>e _. e \<noteq> OutOfFuel) s"
proof (rule wpI)
  show "mono s \<le> mono t" if "m s = (Inr x, t)" for x t
    using advancesD [OF assms(1) that] by (rule extends_mono)
  show "e \<noteq> OutOfFuel" if "m s = (Inl e, t)" for e t
    using assms(2) that by (metis fst_conv fuelled_def)
qed

lemma wp_poll_result:
  assumes body: "\<And>b s. wp (body b) (\<lambda>x _. case fst x of Some r \<Rightarrow> Q r | None \<Rightarrow> True) (\<lambda>_ _. True) s"
    and late: "\<And>b s. wp (late b) (\<lambda>r _. Q r) (\<lambda>_ _. True) s"
  shows "wp (poll_for P n body late b) (\<lambda>r _. Q r) (\<lambda>_ _. True) s"
proof -
  have "wp (poll m P deadline body late b) (\<lambda>r _. Q r) (\<lambda>_ _. True) s" for m deadline b s
  proof (induction m arbitrary: b s)
    case (Suc m)
    have "wp (case fst x of Some r \<Rightarrow> ret r
        | None \<Rightarrow> seqc (sleep_seconds P 1) (poll m P deadline body late (snd x))) (\<lambda>r _. Q r) (\<lambda>_ _. True) t"
      if "case fst x of Some r \<Rightarrow> Q r | None \<Rightarrow> True" for x t
      using that by (cases "fst x") (auto simp: wp intro!: wpI dest!: wp_Inr [OF Suc])
    then show ?case by (auto simp: wp monotonic_def late intro: wp_mono [OF body])
  qed (simp add: wp)
  then show ?thesis unfolding poll_for_def monotonic_def wp_bnd wp_gets .
qed

text \<open>Fuel: a turn of the loop takes at least the second it sleeps.\<close>

lemma poll_fuel:
  assumes body: "\<And>b. advances (body b)" "\<And>b. fuelled (body b)" and late: "\<And>b. fuelled (late b)"
  shows "deadline \<le> mono s + seconds n \<Longrightarrow>
    wp (poll (Suc n) P deadline body late b) (\<lambda>_ _. True) (\<lambda>e _. e \<noteq> OutOfFuel) s"
proof (induction n arbitrary: b s)
  case 0
  with late show ?case by (simp add: wp monotonic_def seconds_def fuelled_wp)
next
  case (Suc n)
  have next_turn: "wp (seqc (sleep_seconds P 1) (poll (Suc n) P deadline body late c))
      (\<lambda>_ _. True) (\<lambda>e _. e \<noteq> OutOfFuel) t" if "mono s \<le> mono t" for c t
    unfolding wp_seqc
    by (rule wpI) (use that Suc in \<open>auto simp: sleep_seconds_def seconds_def split: prod.splits\<close>)
  have "wp (body b) (\<lambda>_ t. mono s \<le> mono t) (\<lambda>e _. e \<noteq> OutOfFuel) s"
    by (rule wp_advances) (use body in auto)
  then have "wp (body b) (\<lambda>x. wp (case fst x of Some r \<Rightarrow> ret r
      | None \<Rightarrow> seqc (sleep_seconds P 1) (poll (Suc n) P deadline body late (snd x)))
      (\<lambda>_ _. True) (\<lambda>e _. e \<noteq> OutOfFuel)) (\<lambda>e _. e \<noteq> OutOfFuel) s"
    by (rule wp_mono) (use next_turn in \<open>auto simp: wp_ret split: option.splits\<close>)
  with late show ?case
    by (subst poll.simps) (simp add: wp monotonic_def fuelled_wp del: poll.simps)
qed

lemma fuelled_poll_for [fuelled_intro]:
  assumes "\<And>b. advances (body b)" "\<And>b. fuelled (body b)" "\<And>b. fuelled (late b)"
  shows "fuelled (poll_for P n body late b)"
  unfolding fuelled_wp poll_for_def monotonic_def wp_bnd wp_gets
  by (intro allI poll_fuel assms) simp

lemma fuelled_prims [fuelled_intro]:
  "fuelled (run_process P cmd t)" "fuelled (http_exchange P rq t)" "fuelled (getaddrinfo P h n)"
  "fuelled (wall_ms P)" "fuelled monotonic" "fuelled (sleep_seconds P n)"
  by (auto simp: fuelled_def run_process_def http_exchange_def getaddrinfo_def wall_ms_def monotonic_def
      gets_def sleep_seconds_def split: prod.splits option.splits)

end
