(* ===== verification/Failover_Config.thy ===== *)
theory Failover_Config
  imports Platform
begin

text \<open>
  Configuration and helpers of \<open>failover-provider/provider.py\<close>: the identifier patterns, secrets,
  bounded integers, service URLs, PostgreSQL log sequence numbers, canonical hashes, and
  \<open>Config.from_environment\<close>.
\<close>

section \<open>Patterns and errors\<close>

definition pv_max_body_bytes :: nat where
  "pv_max_body_bytes = 1048576"

definition pv_safe_id :: "string \<Rightarrow> bool" where
  "pv_safe_id s \<longleftrightarrow> head_rep_match is_lower_alnum (plus_of is_lower_alnum ''._:-'') 7 199 s"

definition pv_safe_resource :: "string \<Rightarrow> bool" where
  "pv_safe_resource s \<longleftrightarrow> head_rep_match is_lower_alnum (plus_of is_lower_alnum ''.-'') 0 62 s"

text \<open>The optional prefix of a label key ends at its only slash.\<close>

definition pv_safe_label_key :: "string \<Rightarrow> bool" where
  "pv_safe_label_key s \<longleftrightarrow>
     (case split_once (CHR ''/'') s of
        None \<Rightarrow> head_rep_match is_alnum (plus_of is_alnum ''_.-'') 0 62 s
      | Some (p, n) \<Rightarrow>
          p \<noteq> [] \<and> list_all (plus_of is_lower_alnum ''.-'') p \<and>
          head_rep_match is_alnum (plus_of is_alnum ''_.-'') 0 62 n)"

definition lsn_pattern :: "string \<Rightarrow> bool" where
  "lsn_pattern s \<longleftrightarrow>
     (case split_once (CHR ''/'') s of
        None \<Rightarrow> False
      | Some (a, b) \<Rightarrow> a \<noteq> [] \<and> b \<noteq> [] \<and> list_all is_hex a \<and> list_all is_hex b)"

definition invalid_config :: "string \<Rightarrow> exn" where
  "invalid_config m = HttpErr 500 ''invalid-config'' m"

section \<open>Reading the environment\<close>

definition pv_require_container :: "bool \<Rightarrow> environ \<Rightarrow> exn + unit" where
  "pv_require_container dockerenv env =
     check (dockerenv \<or> env ''ZKDEAL_VERIFIED_CONTAINER'' = Some ''1'')
       (HttpErr 500 ''container-required'' ''failover provider execution is container-only'')"

definition pv_secret :: "environ \<Rightarrow> files \<Rightarrow> string \<Rightarrow> exn + string" where
  "pv_secret env fs name =
     (let direct = env_get env name []; file = env_get env (name @ ''_FILE'') []
      in rbind (check (direct = [] \<or> file = [])
                 (invalid_config (name @ '' and '' @ name @ ''_FILE are mutually exclusive''))) (\<lambda>_.
         rbind (if file = [] then Inr direct
                else
                  rbind (check (path_exists fs file) (invalid_config (name @ ''_FILE is unavailable''))) (\<lambda>_.
                  rbind (check (is_file fs file)
                          (invalid_config (name @ ''_FILE must resolve to a regular file''))) (\<lambda>_.
                  rbind (read_text fs file) (\<lambda>c. Inr (py_strip c))))) (\<lambda>value.
         rbind (check (\<not> (value = [] \<or> py_len value < 16))
                 (invalid_config (name @ '' must contain at least 16 characters''))) (\<lambda>_.
         Inr value))))"

definition pv_integer :: "environ \<Rightarrow> string \<Rightarrow> int \<Rightarrow> int \<Rightarrow> int \<Rightarrow> exn + int" where
  "pv_integer env name dflt lo hi =
     (case py_int (env_get env name (int_str dflt)) of
        Inl _ \<Rightarrow> Inl (invalid_config (name @ '' must be an integer''))
      | Inr value \<Rightarrow>
          rbind (check (lo \<le> value \<and> value \<le> hi)
                  (invalid_config (name @ '' must be between '' @ int_str lo @ '' and '' @ int_str hi)))
            (\<lambda>_. Inr value))"

definition pv_safe_value :: "environ \<Rightarrow> (string \<Rightarrow> bool) \<Rightarrow> string \<Rightarrow> exn + string" where
  "pv_safe_value env pattern name =
     (let value = env_get env name []
      in rbind (check (pattern value) (invalid_config (name @ '' is not a safe fixed resource name'')))
           (\<lambda>_. Inr value))"

definition cluster_host :: "string \<Rightarrow> bool" where
  "cluster_host h \<longleftrightarrow>
     h \<noteq> [] \<and> (CHR ''.'' \<notin> set h \<or> ends_with ''.svc'' h \<or> ends_with ''.svc.cluster.local'' h)"

definition pv_checked_url :: "string \<Rightarrow> string \<Rightarrow> bool \<Rightarrow> bool \<Rightarrow> exn + string" where
  "pv_checked_url value name allow_http cluster_http =
     rbind (urlsplit value) (\<lambda>parsed.
     let internal = (cluster_http \<and> u_scheme parsed = ''http'' \<and> cluster_host (hostname parsed))
     in rbind (check (\<not> (u_scheme parsed \<noteq> ''https'' \<and> \<not> (allow_http \<or> internal)))
                (invalid_config (name @ '' must use HTTPS''))) (\<lambda>_.
        rbind (check (u_scheme parsed \<in> {''http'', ''https''} \<and> hostname parsed \<noteq> [])
                (invalid_config (name @ '' is not a service URL''))) (\<lambda>_.
        rbind (check (\<not> (username parsed \<noteq> [] \<or> password parsed \<noteq> [] \<or> u_fragment parsed \<noteq> []))
                (invalid_config (name @ '' contains forbidden URL fields''))) (\<lambda>_.
        Inr (rstrip_char (CHR ''/'') value)))))"

section \<open>Log sequence numbers and hashes\<close>

definition pv_lsn_value :: "string \<Rightarrow> exn + nat" where
  "pv_lsn_value value =
     rbind (check (lsn_pattern value)
             (HttpErr 503 ''invalid-lsn'' ''platform returned a malformed PostgreSQL LSN'')) (\<lambda>_.
     case split_once (CHR ''/'') value of
       Some (high, low) \<Rightarrow> Inr (push_bit 32 (hex_val high) + hex_val low)
     | None \<Rightarrow> Inl ValueErr)"

definition pv_canonical_hash :: "json \<Rightarrow> string" where
  "pv_canonical_hash value = sha256_hex (dumps True value)"

section \<open>Config\<close>

record pv_config =
  pv_platform_kind :: string
  pv_active_health_urls :: "string list"
  pv_standby_health_url :: string
  pv_indexer_freshness_url :: string
  pv_signer_authority_health_urls :: "string list"
  pv_active_coordinator_id :: string
  pv_standby_coordinator_id :: string
  pv_provider_token :: string
  pv_approval_token :: string
  pv_request_timeout_seconds :: nat
  pv_platform_timeout_seconds :: nat
  pv_state_path :: string
  pv_listen_host :: string
  pv_listen_port :: nat
  pv_tls_cert_file :: "string option"
  pv_tls_key_file :: "string option"
  pv_allow_http :: bool

text \<open>The comma-separated URL lists drop blank items.\<close>

definition url_items :: "string \<Rightarrow> string list" where
  "url_items v = map py_strip (List.filter (\<lambda>item. py_strip item \<noteq> []) (py_split (CHR '','') v))"

definition pv_config_from_environment :: "environ \<Rightarrow> files \<Rightarrow> exn + pv_config" where
  "pv_config_from_environment env fs =
     (let insecure = (env ''FAILOVER_PROVIDER_ALLOW_INSECURE_HTTP'' = Some ''acceptance-only'');
          kind = env_get env ''FAILOVER_PLATFORM'' []
      in rbind (check (kind \<in> {''docker'', ''kubernetes''})
                 (invalid_config ''FAILOVER_PLATFORM must be docker or kubernetes'')) (\<lambda>_.
         rbind (rmap (\<lambda>item. pv_checked_url item ''ACTIVE_HEALTH_URLS'' insecure False)
                 (url_items (env_get env ''ACTIVE_HEALTH_URLS'' []))) (\<lambda>urls.
         rbind (check (2 \<le> length urls)
                 (invalid_config ''ACTIVE_HEALTH_URLS requires two independent witnesses'')) (\<lambda>_.
         rbind (rmap (\<lambda>item. pv_checked_url item ''SIGNER_AUTHORITY_HEALTH_URLS'' insecure True)
                 (url_items (env_get env ''SIGNER_AUTHORITY_HEALTH_URLS'' []))) (\<lambda>signer_urls.
         rbind (check (signer_urls \<noteq> [])
                 (invalid_config ''SIGNER_AUTHORITY_HEALTH_URLS requires at least one scoped signer role'')) (\<lambda>_.
         let active_id = env_get env ''ACTIVE_COORDINATOR_ID'' [];
             standby_id = env_get env ''STANDBY_COORDINATOR_ID'' [];
             cert = env ''FAILOVER_PROVIDER_TLS_CERT_FILE'';
             key = env ''FAILOVER_PROVIDER_TLS_KEY_FILE''
         in rbind (check (pv_safe_id active_id \<and> pv_safe_id standby_id \<and> active_id \<noteq> standby_id)
                    (invalid_config ''coordinator IDs must be distinct safe IDs'')) (\<lambda>_.
            rbind (check (insecure \<or> (cert \<notin> {None, Some []} \<and> key \<notin> {None, Some []}))
                    (invalid_config ''TLS certificate and key files are required'')) (\<lambda>_.
            rbind (pv_checked_url (env_get env ''STANDBY_HEALTH_URL'' []) ''STANDBY_HEALTH_URL'' insecure True) (\<lambda>standby_url.
            rbind (pv_checked_url (env_get env ''INDEXER_FRESHNESS_URL'' []) ''INDEXER_FRESHNESS_URL'' insecure True) (\<lambda>indexer_url.
            rbind (pv_secret env fs ''FAILOVER_PROVIDER_TOKEN'') (\<lambda>ptok.
            rbind (pv_secret env fs ''FAILOVER_APPROVAL_TOKEN'') (\<lambda>atok.
            rbind (pv_integer env ''REQUEST_TIMEOUT_SECONDS'' 10 1 30) (\<lambda>rt.
            rbind (pv_integer env ''PLATFORM_TIMEOUT_SECONDS'' 120 10 240) (\<lambda>pt.
            rbind (pv_integer env ''FAILOVER_PROVIDER_LISTEN_PORT'' 8443 1024 65535) (\<lambda>port.
            Inr \<lparr>pv_platform_kind = kind, pv_active_health_urls = urls, pv_standby_health_url = standby_url,
              pv_indexer_freshness_url = indexer_url, pv_signer_authority_health_urls = signer_urls,
              pv_active_coordinator_id = active_id, pv_standby_coordinator_id = standby_id,
              pv_provider_token = ptok, pv_approval_token = atok,
              pv_request_timeout_seconds = nat rt, pv_platform_timeout_seconds = nat pt,
              pv_state_path = env_get env ''FAILOVER_PROVIDER_STATE_PATH''
                ''/var/lib/zkdeal-failover-provider/state.json'',
              pv_listen_host = env_get env ''FAILOVER_PROVIDER_LISTEN_HOST'' ''0.0.0.0'',
              pv_listen_port = nat port, pv_tls_cert_file = cert, pv_tls_key_file = key,
              pv_allow_http = insecure\<rparr>)))))))))))))))"

text \<open>What the rest of the provider relies on.\<close>

definition pv_config_ok :: "pv_config \<Rightarrow> bool" where
  "pv_config_ok c \<longleftrightarrow>
     pv_platform_kind c \<in> {''docker'', ''kubernetes''} \<and>
     2 \<le> length (pv_active_health_urls c) \<and> pv_signer_authority_health_urls c \<noteq> [] \<and>
     pv_safe_id (pv_active_coordinator_id c) \<and> pv_safe_id (pv_standby_coordinator_id c) \<and>
     pv_active_coordinator_id c \<noteq> pv_standby_coordinator_id c \<and>
     16 \<le> py_len (pv_provider_token c) \<and> 16 \<le> py_len (pv_approval_token c) \<and>
     1 \<le> pv_request_timeout_seconds c \<and> pv_request_timeout_seconds c \<le> 30 \<and>
     10 \<le> pv_platform_timeout_seconds c \<and> pv_platform_timeout_seconds c \<le> 240 \<and>
     1024 \<le> pv_listen_port c \<and> pv_listen_port c \<le> 65535 \<and>
     (\<not> pv_allow_http c \<longrightarrow> pv_tls_cert_file c \<notin> {None, Some []} \<and> pv_tls_key_file c \<notin> {None, Some []})"

lemma pv_secret_length: "pv_secret env fs name = Inr v \<Longrightarrow> 16 \<le> py_len v"
  by (auto simp: pv_secret_def Let_def)

lemma pv_integer_bounds: "pv_integer env name d lo hi = Inr v \<Longrightarrow> lo \<le> v \<and> v \<le> hi"
  by (auto simp: pv_integer_def split: sum.splits)

lemma pv_config_checked: "pv_config_from_environment env fs = Inr c \<Longrightarrow> pv_config_ok c"
  unfolding pv_config_from_environment_def Let_def
  apply clarsimp
  apply (drule pv_secret_length)+
  apply (drule pv_integer_bounds)+
  apply (simp add: pv_config_ok_def le_nat_iff nat_le_iff)
  apply blast
  done

text \<open>A checked URL is HTTPS unless the acceptance switch or the in-cluster exception allows HTTP.\<close>

lemma pv_checked_url_scheme:
  "pv_checked_url v name allow_http cluster = Inr r \<Longrightarrow>
   \<exists>u. urlsplit v = Inr u \<and> hostname u \<noteq> [] \<and> username u = [] \<and> password u = [] \<and>
     (u_scheme u = ''https'' \<or>
      u_scheme u = ''http'' \<and> (allow_http \<or> cluster \<and> cluster_host (hostname u)))"
  by (auto simp: pv_checked_url_def Let_def)

section \<open>Log sequence numbers\<close>

lemma pv_lsn_value_total:
  "lsn_pattern v \<Longrightarrow>
   pv_lsn_value v = Inr (let (a, b) = the (split_once (CHR ''/'') v) in hex_val a * 2 ^ 32 + hex_val b)"
  by (auto simp: pv_lsn_value_def lsn_pattern_def push_bit_eq_mult split: option.splits)

lemma pv_lsn_value_Inr: "(\<exists>n. pv_lsn_value v = Inr n) \<longleftrightarrow> lsn_pattern v"
  by (auto simp: pv_lsn_value_def lsn_pattern_def split: option.splits)

end
