(* ===== verification/PyClock.thy ===== *)
theory PyClock
  imports Platform
begin

text \<open>
  \<open>time.monotonic()\<close> is a binary64 number of seconds. A non-negative double is carried as its exact
  ratio; differences and products are rounded to the nearest double as the processor does, and
  \<open>round(x, 3)\<close> is exact on the ratio.
\<close>

type_synonym ratio = "nat \<times> nat"

definition nearest :: "nat \<Rightarrow> nat \<Rightarrow> ratio" where
  "nearest n d = (case to_double n d of Some f \<Rightarrow> double_ratio f | None \<Rightarrow> (0, 1))"

definition clock_double :: "nat \<Rightarrow> ratio" where
  "clock_double ns =
     (if ns mod second_ns = 0 then nearest (ns div second_ns) 1
      else (case nearest ns 1 of (n, d) \<Rightarrow> nearest n (d * second_ns)))"

definition ratio_le :: "ratio \<Rightarrow> ratio \<Rightarrow> bool" where
  "ratio_le a b \<longleftrightarrow> fst a * snd b \<le> fst b * snd a"

definition elapsed_double :: "nat \<Rightarrow> nat \<Rightarrow> ratio" where
  "elapsed_double later earlier =
     (case clock_double later of (n1, d1) \<Rightarrow> case clock_double earlier of (n2, d2) \<Rightarrow>
      nearest (n1 * d2 - n2 * d1) (d1 * d2))"

definition ratio_thousandths :: "ratio \<Rightarrow> nat" where
  "ratio_thousandths r = round_dec (fst r) (snd r) (- 3)"

definition thousandths_json :: "nat \<Rightarrow> json" where
  "thousandths_json k = JFloat (float_repr [] k (- 3))"

text \<open>\<open>round(later - earlier, 3)\<close>, as a number of thousandths.\<close>

definition elapsed_thousandths :: "nat \<Rightarrow> nat \<Rightarrow> nat" where
  "elapsed_thousandths later earlier = ratio_thousandths (elapsed_double later earlier)"

text \<open>\<open>(later - earlier) * 1000\<close>, \<open>later - earlier < n\<close> for whole seconds, and \<open>int(n * 0.99)\<close>.\<close>

definition elapsed_ms :: "nat \<Rightarrow> nat \<Rightarrow> ratio" where
  "elapsed_ms later earlier = (case elapsed_double later earlier of (n, d) \<Rightarrow> nearest (n * 1000) d)"

definition elapsed_below :: "nat \<Rightarrow> nat \<Rightarrow> nat \<Rightarrow> bool" where
  "elapsed_below later earlier n = (case elapsed_double later earlier of (a, d) \<Rightarrow> a < n * d)"

definition p99_rank :: "nat \<Rightarrow> nat" where
  "p99_rank n = (case nearest 99 100 of (a, d) \<Rightarrow> case nearest (n * a) d of (b, e) \<Rightarrow> b div e)"

end
