(* ===== verification/Promotion_Controller.thy ===== *)
theory Promotion_Controller
  imports Failover_Config PyClock
begin

text \<open>
  The promotion controller of \<open>scripts/promotion_controller.py\<close>: its configuration, the bounded JSON
  requests, the checks of what the failover provider and the owner answer, the monitor loop and the
  promotion sequence. The names carry the prefix \<open>pc_\<close>; \<open>ControllerError\<close> is \<open>ToolErr\<close>.
\<close>

section \<open>Reading the environment\<close>

definition pc_max_response_bytes :: nat where
  "pc_max_response_bytes = 1048576"

definition pc_safe_id :: "string \<Rightarrow> bool" where
  "pc_safe_id s \<longleftrightarrow> head_rep_match is_lower_alnum (plus_of is_lower_alnum ''._:-'') 7 199 s"

definition pc_require_container :: "bool \<Rightarrow> environ \<Rightarrow> exn + unit" where
  "pc_require_container dockerenv env =
     check (dockerenv \<or> env ''ZKDEAL_VERIFIED_CONTAINER'' = Some ''1'')
       (ToolErr ''promotion controller execution is container-only'')"

definition pc_secret :: "environ \<Rightarrow> files \<Rightarrow> string \<Rightarrow> exn + string" where
  "pc_secret env fs name =
     (let direct = env_get env name []; file = env_get env (name @ ''_FILE'') []
      in rbind (check (direct = [] \<or> file = [])
                 (ToolErr (name @ '' and '' @ name @ ''_FILE are mutually exclusive''))) (\<lambda>_.
         rbind (if file = [] then Inr direct
                else
                  rbind (check (is_file fs file \<and> \<not> is_symlink fs file)
                          (ToolErr (name @ ''_FILE must be a regular file''))) (\<lambda>_.
                  rbind (read_text fs file) (\<lambda>c. Inr (py_strip c)))) (\<lambda>value.
         rbind (check (\<not> (value = [] \<or> py_len value < 16))
                 (ToolErr (name @ '' must be supplied as a scoped secret of at least 16 characters''))) (\<lambda>_.
         Inr value))))"

definition pc_integer :: "environ \<Rightarrow> string \<Rightarrow> int \<Rightarrow> int \<Rightarrow> int \<Rightarrow> exn + int" where
  "pc_integer env name dflt lo hi =
     (case py_int (env_get env name (int_str dflt)) of
        Inl _ \<Rightarrow> Inl (ToolErr (name @ '' must be an integer''))
      | Inr value \<Rightarrow>
          rbind (check (lo \<le> value \<and> value \<le> hi)
                  (ToolErr (name @ '' must be between '' @ int_str lo @ '' and '' @ int_str hi)))
            (\<lambda>_. Inr value))"

definition pc_checked_url :: "string \<Rightarrow> string \<Rightarrow> bool \<Rightarrow> bool \<Rightarrow> exn + string" where
  "pc_checked_url value name allow_http allow_cluster_http =
     rbind (urlsplit value) (\<lambda>parsed.
     let in_cluster = (allow_cluster_http \<and> u_scheme parsed = ''http'' \<and> cluster_host (hostname parsed))
     in rbind (check (u_scheme parsed \<in> (if allow_http then {''http'', ''https''} else {''https''}) \<or> in_cluster)
                (ToolErr (name @ '' must use '' @ (if allow_http then ''HTTP(S)'' else ''HTTPS'')))) (\<lambda>_.
        rbind (check (\<not> (hostname parsed = [] \<or> username parsed \<noteq> [] \<or> password parsed \<noteq> [] \<or> u_fragment parsed \<noteq> []))
                (ToolErr (name @ '' is not an acceptable service URL''))) (\<lambda>_.
        Inr (rstrip_char (CHR ''/'') value))))"

definition pc_lsn_value :: "string \<Rightarrow> exn + nat" where
  "pc_lsn_value value =
     rbind (check (lsn_pattern value) (ToolErr (''invalid PostgreSQL LSN: '' @ py_repr_str value))) (\<lambda>_.
     case split_once (CHR ''/'') value of
       Some (high, low) \<Rightarrow> Inr (push_bit 32 (hex_val high) + hex_val low)
     | None \<Rightarrow> Inl ValueErr)"

section \<open>Config\<close>

record pc_config =
  pc_active_health_urls :: "string list"
  pc_standby_health_url :: string
  pc_failover_provider_url :: string
  pc_promotion_endpoint :: string
  pc_active_coordinator_id :: string
  pc_standby_coordinator_id :: string
  pc_candidate_id :: string
  pc_provider_token :: string
  pc_approval_token :: string
  pc_principal_token :: string
  pc_failure_threshold :: nat
  pc_poll_seconds :: nat
  pc_max_monitor_cycles :: nat
  pc_max_rto_seconds :: nat
  pc_max_checkpoint_age_seconds :: int
  pc_request_timeout_seconds :: nat
  pc_state_path :: string
  pc_armed :: bool
  pc_allow_http :: bool

definition pc_identity :: "string \<Rightarrow> exn + string \<times> nat option" where
  "pc_identity item = rbind (urlsplit item) (\<lambda>p. rbind (url_port p) (\<lambda>port. Inr (hostname p, port)))"

definition pc_require_id :: "string \<times> string \<Rightarrow> exn + unit" where
  "pc_require_id nv =
     check (pc_safe_id (snd nv)) (ToolErr (fst nv @ '' must be 8-200 lowercase safe characters''))"

definition pc_config_from_environment :: "environ \<Rightarrow> files \<Rightarrow> exn + pc_config" where
  "pc_config_from_environment env fs =
     (let insecure = (env ''PROMOTION_ALLOW_INSECURE_HTTP'' = Some ''acceptance-only'');
          active_id = env_get env ''ACTIVE_COORDINATOR_ID'' [];
          standby_id = env_get env ''STANDBY_COORDINATOR_ID'' [];
          candidate = env_get env ''PROMOTION_CANDIDATE_ID'' []
      in rbind (rmap (\<lambda>item. pc_checked_url item ''ACTIVE_HEALTH_URLS'' insecure False)
                 (url_items (env_get env ''ACTIVE_HEALTH_URLS'' []))) (\<lambda>urls.
         rbind (check (2 \<le> length urls)
                 (ToolErr ''ACTIVE_HEALTH_URLS requires at least two independent witnesses'')) (\<lambda>_.
         rbind (rmap pc_identity urls) (\<lambda>identities.
         rbind (check (distinct identities)
                 (ToolErr ''active health witnesses must use distinct network identities'')) (\<lambda>_.
         rbind (rmap pc_require_id [(''ACTIVE_COORDINATOR_ID'', active_id), (''STANDBY_COORDINATOR_ID'', standby_id),
                  (''PROMOTION_CANDIDATE_ID'', candidate)]) (\<lambda>_.
         rbind (check (active_id \<noteq> standby_id)
                 (ToolErr ''active and standby coordinator identities must differ'')) (\<lambda>_.
         rbind (pc_checked_url (env_get env ''STANDBY_HEALTH_URL'' []) ''STANDBY_HEALTH_URL'' insecure True) (\<lambda>standby_url.
         rbind (pc_checked_url (env_get env ''FAILOVER_PROVIDER_URL'' []) ''FAILOVER_PROVIDER_URL'' insecure False) (\<lambda>provider_url.
         rbind (pc_checked_url (env_get env ''PROMOTION_ENDPOINT'' []) ''PROMOTION_ENDPOINT'' insecure True) (\<lambda>endpoint.
         rbind (pc_secret env fs ''FAILOVER_PROVIDER_TOKEN'') (\<lambda>ptok.
         rbind (pc_secret env fs ''FAILOVER_APPROVAL_TOKEN'') (\<lambda>atok.
         rbind (pc_secret env fs ''PROMOTION_PRINCIPAL_TOKEN'') (\<lambda>prtok.
         rbind (pc_integer env ''FAILURE_THRESHOLD'' 3 3 20) (\<lambda>threshold.
         rbind (pc_integer env ''POLL_SECONDS'' 10 1 60) (\<lambda>poll.
         rbind (pc_integer env ''MAX_MONITOR_CYCLES'' 0 0 1000000) (\<lambda>cycles.
         rbind (pc_integer env ''MAX_RTO_SECONDS'' 300 30 300) (\<lambda>rto.
         rbind (pc_integer env ''MAX_CHECKPOINT_AGE_SECONDS'' 30 1 300) (\<lambda>age.
         rbind (pc_integer env ''REQUEST_TIMEOUT_SECONDS'' 10 1 30) (\<lambda>rt.
         Inr \<lparr>pc_active_health_urls = urls, pc_standby_health_url = standby_url,
           pc_failover_provider_url = provider_url, pc_promotion_endpoint = endpoint,
           pc_active_coordinator_id = active_id, pc_standby_coordinator_id = standby_id,
           pc_candidate_id = candidate, pc_provider_token = ptok, pc_approval_token = atok,
           pc_principal_token = prtok, pc_failure_threshold = nat threshold, pc_poll_seconds = nat poll,
           pc_max_monitor_cycles = nat cycles, pc_max_rto_seconds = nat rto,
           pc_max_checkpoint_age_seconds = age, pc_request_timeout_seconds = nat rt,
           pc_state_path = env_get env ''PROMOTION_CONTROLLER_STATE_PATH'' ''/tmp/promotion-controller-state.json'',
           pc_armed = (env ''PROMOTION_CONTROLLER_ARMED'' = Some ''true''), pc_allow_http = insecure\<rparr>)))))))))))))))))))"

section \<open>State and reports\<close>

text \<open>The state file holds the last report; the same line is printed to standard output.\<close>

record 'w pc_state = "'w sys" +
  pc_file :: "string option"

definition pc_atomic_json :: "dict \<Rightarrow> ('w pc_state, unit) comp" where
  "pc_atomic_json value = modify (\<lambda>s.
     let b = dumps True (JObj value) @ newline in s\<lparr>trace := EvSave b # trace s, pc_file := Some b\<rparr>)"

definition pc_report :: "pc_config \<Rightarrow> string \<Rightarrow> int \<Rightarrow> dict \<Rightarrow> dict" where
  "pc_report cfg status now kvs =
     dputs kvs
       [(''schemaVersion'', JInt 1), (''status'', JStr status), (''candidateId'', JStr (pc_candidate_id cfg)),
        (''activeCoordinatorId'', JStr (pc_active_coordinator_id cfg)),
        (''standbyCoordinatorId'', JStr (pc_standby_coordinator_id cfg)), (''observedAtUnixMs'', JInt now)]"

definition pc_emit :: "'w platform \<Rightarrow> pc_config \<Rightarrow> string \<Rightarrow> dict \<Rightarrow> ('w pc_state, unit) comp" where
  "pc_emit P cfg status kvs = bnd (wall_ms P) (\<lambda>now. pc_atomic_json (pc_report cfg status now kvs))"

section \<open>Requests\<close>

text \<open>An empty token, key or approval adds no header. Header names are matched without case.\<close>

definition pc_request :: "string \<Rightarrow> string \<Rightarrow> string \<Rightarrow> string \<Rightarrow> string \<Rightarrow> dict option \<Rightarrow> http_request" where
  "pc_request u meth token key approval body =
     \<lparr>rq_method = meth, rq_url = u,
      rq_headers = [(''Accept'', ''application/json'')] @
        (if token \<noteq> [] then [(''Authorization'', ''Bearer '' @ token)] else []) @
        (if key \<noteq> [] then [(''Idempotency-Key'', key)] else []) @
        (if approval \<noteq> [] then [(''X-Zkdeal-Failover-Approval'', approval)] else []) @
        (if body \<noteq> None then [(''Content-Type'', ''application/json'')] else []),
      rq_body = map_option (\<lambda>d. dumps True (JObj d)) body, rq_verify_tls = True\<rparr>"

text \<open>
  \<open>urlopen\<close> raises for every status outside 200 to 299. The exception's class name, which ends the
  message, is not observed for a network failure. Bytes that are not UTF-8 raise \<open>UnicodeDecodeError\<close>,
  which is a \<open>ValueError\<close> and not the \<open>JSONDecodeError\<close> the code catches.
\<close>

definition pc_read_reply :: "string \<Rightarrow> http_reply \<Rightarrow> exn + dict" where
  "pc_read_reply u r = (case r of
       NetFail \<Rightarrow> Inl (ToolErr (''request failed for '' @ u @ '': URLError''))
     | Reply status raw \<Rightarrow>
         if \<not> (200 \<le> status \<and> status < 300) then Inl (ToolErr (''request failed for '' @ u @ '': HTTPError''))
         else if pc_max_response_bytes < length raw
         then Inl (ToolErr (''response exceeded '' @ nat_str pc_max_response_bytes @ '' bytes: '' @ u))
         else if \<not> utf8_ok raw then Inl ValueErr
         else (case loads False raw of
                 Inl _ \<Rightarrow> Inl (ToolErr (''non-JSON response from '' @ u))
               | Inr (JObj d) \<Rightarrow> Inr d
               | Inr _ \<Rightarrow> Inl (ToolErr (''response from '' @ u @ '' is not an object''))))"

definition pc_request_json :: "'w platform \<Rightarrow> nat \<Rightarrow> http_request \<Rightarrow> (('w, 'z) sys_scheme, dict) comp" where
  "pc_request_json P timeout rq =
     bnd (http_exchange P rq timeout) (\<lambda>r. lift_res (pc_read_reply (rq_url rq) r))"

definition pc_get :: "string \<Rightarrow> http_request" where
  "pc_get u = pc_request u ''GET'' [] [] [] None"

section \<open>What the answers must prove\<close>

definition pc_witness_healthy :: "dict \<Rightarrow> string \<Rightarrow> bool" where
  "pc_witness_healthy value active_id \<longleftrightarrow>
     eq_str (jget value ''coordinatorId'') active_id \<and> eq_str (jget value ''effectiveRole'') ''active'' \<and>
     is_true (jget value ''acceptingWrites'') \<and> is_true (jget value ''fenceFresh'')"

definition pc_standby_ready :: "dict \<Rightarrow> string \<Rightarrow> bool" where
  "pc_standby_ready value standby_id \<longleftrightarrow>
     eq_str (jget value ''coordinatorId'') standby_id \<and> eq_str (jget value ''configuredRole'') ''standby'' \<and>
     eq_str (jget value ''effectiveRole'') ''standby'' \<and> is_false (jget value ''acceptingWrites'')"

definition pc_required_proofs :: "string list" where
  "pc_required_proofs =
     [''activeFenced'', ''oldWriterTerminated'', ''targetCapturedByProvider'', ''databasePromoted'',
      ''standbyReplayAtOrAfterTarget'', ''indexerHeadMatchesL1'', ''stableDatabaseEndpointRouted'']"

definition pc_text_field :: "dict \<Rightarrow> string \<Rightarrow> string" where
  "pc_text_field value f = (case map_of value f of None \<Rightarrow> [] | Some v \<Rightarrow> py_str v)"

definition pc_prove :: "string \<Rightarrow> dict \<Rightarrow> string \<Rightarrow> exn + unit" where
  "pc_prove who value f = check (is_true (jget value f)) (ToolErr (who @ '' did not prove '' @ f))"

definition pc_validate_prepare :: "pc_config \<Rightarrow> dict \<Rightarrow> exn + string" where
  "pc_validate_prepare cfg value =
     rbind (check (eq_str (jget value ''operationId'') (pc_candidate_id cfg))
             (ToolErr ''failover provider operation ID differs from the candidate ID'')) (\<lambda>_.
     rbind (rmap (pc_prove ''failover provider'' value) pc_required_proofs) (\<lambda>_.
     rbind (check (eq_str (jget value ''status'') ''READY_FOR_APPLICATION_PROMOTION'')
             (ToolErr ''failover provider is not ready for application promotion'')) (\<lambda>_.
     rbind (check (eq_str (jget value ''primaryTargetSource'') ''durable-fenced-wal-checkpoint'')
             (ToolErr ''failover provider did not use the durable fenced primary target'')) (\<lambda>_.
     rbind (check (is_false (jget value ''standbySignerAuthorityActive''))
             (ToolErr ''standby signer authority became active before fence promotion'')) (\<lambda>_.
     rbind (pc_lsn_value (pc_text_field value ''standbyReplayLsn'')) (\<lambda>replay.
     rbind (pc_lsn_value (pc_text_field value ''primaryTargetLsn'')) (\<lambda>target.
     rbind (check (target \<le> replay)
             (ToolErr ''standby replay LSN is behind the fenced primary target'')) (\<lambda>_.
     let age = jget value ''checkpointAgeSeconds''
     in rbind (check (is_int age \<and> 0 \<le> the (num_of age) \<and> the (num_of age) \<le> pc_max_checkpoint_age_seconds cfg)
                (ToolErr ''failover provider checkpoint is stale'')) (\<lambda>_.
        Inr (pc_candidate_id cfg))))))))))"

definition pc_validate_owner_promotion :: "dict \<Rightarrow> exn + unit" where
  "pc_validate_owner_promotion value =
     rbind (rmap (pc_prove ''owner promotion'' value) [''promoted'', ''indexerHeadMatchesL1'']) (\<lambda>_.
     rbind (check (eq_str (jget value ''effectiveRole'') ''active'')
             (ToolErr ''owner promotion did not activate the standby coordinator'')) (\<lambda>_.
     check (is_dict (jget value ''promotionReplication''))
       (ToolErr ''owner promotion omitted replication evidence'')))"

definition pc_commit_expected :: "pc_config \<Rightarrow> string \<Rightarrow> dict" where
  "pc_commit_expected cfg operation_id =
     [(''operationId'', JStr operation_id), (''writerRouteCommitted'', JBool True),
      (''writerCoordinatorId'', JStr (pc_standby_coordinator_id cfg)),
      (''oldWriterRouteRemoved'', JBool True), (''stableDatabaseEndpointRouted'', JBool True),
      (''signerAuthorityActivatedAfterFence'', JBool True)]"

definition pc_validate_commit :: "pc_config \<Rightarrow> string \<Rightarrow> dict \<Rightarrow> exn + unit" where
  "pc_validate_commit cfg operation_id value =
     rbind (rmap (\<lambda>fv. check (py_eq (jget value (fst fv)) (snd fv))
                          (ToolErr (''failover provider commit differs: '' @ fst fv)))
             (pc_commit_expected cfg operation_id)) (\<lambda>_. Inr ())"

section \<open>Monitoring\<close>

text \<open>One witness: healthy, or failed when it answers otherwise or a \<open>ControllerError\<close> is raised.\<close>

definition pc_observe :: "'w platform \<Rightarrow> pc_config \<Rightarrow> string \<Rightarrow> (('w, 'z) sys_scheme, bool) comp" where
  "pc_observe P cfg u =
     catching (\<lambda>e. case e of ToolErr _ \<Rightarrow> True | _ \<Rightarrow> False)
       (bnd (pc_request_json P (pc_request_timeout_seconds cfg) (pc_get u)) (\<lambda>value.
        ret (pc_witness_healthy value (pc_active_coordinator_id cfg))))
       (\<lambda>_. ret False)"

text \<open>The numbers of healthy and of failed witnesses of one cycle.\<close>

fun pc_observe_all :: "'w platform \<Rightarrow> pc_config \<Rightarrow> string list \<Rightarrow> (('w, 'z) sys_scheme, nat \<times> nat) comp" where
  "pc_observe_all P cfg [] = ret (0, 0)"
| "pc_observe_all P cfg (u # urls) =
     bnd (pc_observe P cfg u) (\<lambda>up.
     bnd (pc_observe_all P cfg urls) (\<lambda>(healthy, failed).
     ret (if up then (Suc healthy, failed) else (healthy, Suc failed))))"

text \<open>After a cycle: the count of consecutive failed cycles and the time of the first of them.\<close>

definition pc_count_cycle :: "'w platform \<Rightarrow> pc_config \<Rightarrow> nat \<Rightarrow> nat \<Rightarrow> nat \<Rightarrow> nat \<Rightarrow> nat \<Rightarrow>
    ('w pc_state, nat \<times> nat) comp" where
  "pc_count_cycle P cfg cycle consecutive first_failure healthy failed =
     (if 0 < healthy
      then seqc (pc_emit P cfg ''active-healthy''
                   [(''cycle'', JInt (int cycle)), (''healthyWitnesses'', JInt (int healthy))])
             (ret (0, 0))
      else bnd (if consecutive = 0 then monotonic else ret first_failure) (\<lambda>first.
           seqc (pc_emit P cfg ''active-unhealthy''
                   [(''cycle'', JInt (int cycle)), (''consecutiveFailures'', JInt (int (Suc consecutive))),
                    (''failedWitnesses'', JInt (int failed))])
             (ret (Suc consecutive, first))))"

text \<open>
  The loop over cycles returns the time of the first failed cycle when the threshold is reached and
  \<open>None\<close> when the monitor window is over; \<open>MAX_MONITOR_CYCLES\<close> 0 means no window.
\<close>

fun pc_monitor :: "nat \<Rightarrow> 'w platform \<Rightarrow> pc_config \<Rightarrow> nat \<Rightarrow> nat \<Rightarrow> nat \<Rightarrow> ('w pc_state, nat option) comp" where
  "pc_monitor 0 P cfg cycle consecutive first_failure = throw OutOfFuel"
| "pc_monitor (Suc n) P cfg cycle consecutive first_failure =
     bnd (pc_observe_all P cfg (pc_active_health_urls cfg)) (\<lambda>(healthy, failed).
     bnd (pc_count_cycle P cfg (Suc cycle) consecutive first_failure healthy failed) (\<lambda>(count, first).
     if healthy = 0 \<and> pc_failure_threshold cfg \<le> count then ret (Some first)
     else if pc_max_monitor_cycles cfg \<noteq> 0 \<and> pc_max_monitor_cycles cfg \<le> Suc cycle
     then seqc (pc_emit P cfg ''monitor-window-complete'' [(''promoted'', JBool False)]) (ret None)
     else seqc (sleep_seconds P (pc_poll_seconds cfg)) (pc_monitor n P cfg (Suc cycle) count first)))"

section \<open>Promotion\<close>

text \<open>\<open>rto > max_rto_seconds\<close>, comparing the double nearest to the thousandths with an integer.\<close>

definition rto_exceeds :: "nat \<Rightarrow> nat \<Rightarrow> bool" where
  "rto_exceeds thousandths limit =
     (case dec_to_double thousandths (- 3) of
        Some f \<Rightarrow> (case double_ratio f of (n, d) \<Rightarrow> limit * d < n) | None \<Rightarrow> True)"

definition pc_prepare_request :: "pc_config \<Rightarrow> http_request" where
  "pc_prepare_request cfg =
     pc_request (pc_failover_provider_url cfg) ''POST'' (pc_provider_token cfg) (pc_candidate_id cfg)
       (pc_approval_token cfg)
       (Some [(''candidateId'', JStr (pc_candidate_id cfg)),
              (''activeCoordinatorId'', JStr (pc_active_coordinator_id cfg)),
              (''standbyCoordinatorId'', JStr (pc_standby_coordinator_id cfg)),
              (''failedWitnessCount'', JInt (int (length (pc_active_health_urls cfg))))])"

definition pc_owner_request :: "pc_config \<Rightarrow> http_request" where
  "pc_owner_request cfg =
     pc_request (pc_promotion_endpoint cfg) ''POST'' (pc_principal_token cfg)
       (pc_candidate_id cfg @ '':owner'') [] (Some [])"

definition pc_commit_request :: "pc_config \<Rightarrow> string \<Rightarrow> string \<Rightarrow> http_request" where
  "pc_commit_request cfg operation_id owner_hash =
     pc_request (pc_failover_provider_url cfg @ ''/'' @ quote_all operation_id @ ''/commit'') ''POST''
       (pc_provider_token cfg) (pc_candidate_id cfg @ '':commit'') (pc_approval_token cfg)
       (Some [(''ownerResponseSha256'', JStr owner_hash)])"

definition pc_result :: "string \<Rightarrow> nat \<Rightarrow> dict" where
  "pc_result operation_id thousandths =
     [(''promoted'', JBool True), (''operationId'', JStr operation_id),
      (''rtoSeconds'', JFloat (float_repr [] thousandths (- 3))), (''oldWriterFenced'', JBool True),
      (''databasePromoted'', JBool True), (''ownerPromoted'', JBool True),
      (''writerRouteCommitted'', JBool True), (''signerActivatedOnlyAfterFence'', JBool True)]"

definition pc_promote :: "'w platform \<Rightarrow> pc_config \<Rightarrow> nat \<Rightarrow> ('w pc_state, dict) comp" where
  "pc_promote P cfg first_failure =
     (let ask = pc_request_json P (pc_request_timeout_seconds cfg)
      in seqc (raise_if (\<not> pc_armed cfg)
                (ToolErr ''failure threshold reached but promotion controller is not armed''))
         (bnd (ask (pc_get (pc_standby_health_url cfg))) (\<lambda>standby.
          seqc (raise_if (\<not> pc_standby_ready standby (pc_standby_coordinator_id cfg))
                 (ToolErr ''standby coordinator is not signerless standby-ready''))
          (bnd (ask (pc_prepare_request cfg)) (\<lambda>prepare.
           bnd (lift_res (pc_validate_prepare cfg prepare)) (\<lambda>operation_id.
           seqc (pc_emit P cfg ''provider-fenced-and-promoted'' [(''operationId'', JStr operation_id)])
           (bnd (ask (pc_owner_request cfg)) (\<lambda>owner.
            bnd (lift_res (pc_validate_owner_promotion owner)) (\<lambda>_.
            let owner_hash = sha256_hex (dumps True (JObj owner))
            in seqc (pc_emit P cfg ''owner-promoted''
                       [(''operationId'', JStr operation_id), (''ownerResponseSha256'', JStr owner_hash)])
               (bnd (ask (pc_commit_request cfg operation_id owner_hash)) (\<lambda>commit.
                bnd (lift_res (pc_validate_commit cfg operation_id commit)) (\<lambda>_.
                bnd monotonic (\<lambda>now.
                let rto = elapsed_thousandths now first_failure; result = pc_result operation_id rto
                in seqc (raise_if (rto_exceeds rto (pc_max_rto_seconds cfg))
                          (ToolErr (''promotion exceeded configured RTO: '' @ float_repr [] rto (- 3) @ ''s'')))
                   (seqc (pc_emit P cfg ''promotion-complete'' result) (ret result)))))))))))))))"

definition pc_run :: "nat \<Rightarrow> 'w platform \<Rightarrow> pc_config \<Rightarrow> ('w pc_state, dict option) comp" where
  "pc_run fuel P cfg =
     seqc (pc_emit P cfg ''monitoring'' [(''armed'', JBool (pc_armed cfg)),
             (''witnessCount'', JInt (int (length (pc_active_health_urls cfg))))])
     (bnd (pc_monitor fuel P cfg 0 0 0) (\<lambda>reached.
      case reached of
        None \<Rightarrow> ret None
      | Some first_failure \<Rightarrow> bnd (pc_promote P cfg first_failure) (\<lambda>result. ret (Some result))))"

text \<open>The exit status: 0 after a promotion, 3 when the window ended without one, 1 after an error.\<close>

definition pc_main :: "nat \<Rightarrow> 'w platform \<Rightarrow> bool \<Rightarrow> environ \<Rightarrow> files \<Rightarrow> 'w pc_state \<Rightarrow> nat \<times> 'w pc_state" where
  "pc_main fuel P dockerenv env fs s =
     (case bnd (lift_res (rbind (pc_require_container dockerenv env) (\<lambda>_. pc_config_from_environment env fs)))
             (pc_run fuel P) s of
        (Inr (Some _), t) \<Rightarrow> (0, t)
      | (Inr None, t) \<Rightarrow> (3, t)
      | (Inl _, t) \<Rightarrow> (1, t))"

end
