(* ===== verification/Promotion_Safety.thy ===== *)
theory Promotion_Safety
  imports Promotion_Controller
begin

text \<open>
  What the promotion controller has seen when it acts: the monitor's evidence of a sustained outage,
  and the order of its requests to the provider and to the owner.
\<close>

section \<open>Events\<close>

definition sends :: "http_request \<Rightarrow> event \<Rightarrow> bool" where
  "sends rq e \<longleftrightarrow> (\<exists>r. e = EvHttp rq r)"

text \<open>The request was answered with a JSON object that satisfies \<open>Q\<close>.\<close>

definition obtained :: "http_request \<Rightarrow> (dict \<Rightarrow> bool) \<Rightarrow> event \<Rightarrow> bool" where
  "obtained rq Q e \<longleftrightarrow> (\<exists>r d. e = EvHttp rq r \<and> pc_read_reply (rq_url rq) r = Inr d \<and> Q d)"

definition pc_reply_healthy :: "pc_config \<Rightarrow> string \<Rightarrow> http_reply \<Rightarrow> bool" where
  "pc_reply_healthy cfg u r =
     (case pc_read_reply u r of Inr d \<Rightarrow> pc_witness_healthy d (pc_active_coordinator_id cfg) | Inl _ \<Rightarrow> False)"

definition witness_failed :: "pc_config \<Rightarrow> string \<Rightarrow> event \<Rightarrow> bool" where
  "witness_failed cfg u e \<longleftrightarrow> (\<exists>r. e = EvHttp (pc_get u) r \<and> \<not> pc_reply_healthy cfg u r)"

definition witness_up :: "pc_config \<Rightarrow> event \<Rightarrow> bool" where
  "witness_up cfg e \<longleftrightarrow> (\<exists>u r. e = EvHttp (pc_get u) r \<and> pc_reply_healthy cfg u r)"

text \<open>
  The newest part of the trace holds at least \<open>k\<close> failed observations of every witness and no
  healthy one.
\<close>

definition outage :: "pc_config \<Rightarrow> nat \<Rightarrow> event list \<Rightarrow> bool" where
  "outage cfg k tr \<longleftrightarrow>
     (\<exists>recent older. tr = recent @ older \<and> \<not> list_ex (witness_up cfg) recent \<and>
        list_all (\<lambda>u. k \<le> length (List.filter (witness_failed cfg u) recent)) (pc_active_health_urls cfg))"

lemma pc_get_inj: "pc_get u = pc_get v \<Longrightarrow> u = v"
  by (simp add: pc_get_def pc_request_def)

lemma outage_0 [simp]: "outage cfg 0 tr"
  unfolding outage_def by (rule exI [of _ "[]"]) (simp add: list_all_iff)

lemma outage_more:
  assumes "outage cfg k tr" and "\<not> list_ex (witness_up cfg) pass"
    and "\<And>u. u \<in> set (pc_active_health_urls cfg) \<Longrightarrow> list_ex (witness_failed cfg u) pass"
  shows "outage cfg (Suc k) (pass @ tr)"
proof -
  obtain recent older where r: "tr = recent @ older" "\<not> list_ex (witness_up cfg) recent"
    "list_all (\<lambda>u. k \<le> length (List.filter (witness_failed cfg u) recent)) (pc_active_health_urls cfg)"
    using assms(1) unfolding outage_def by blast
  have "Suc k \<le> length (List.filter (witness_failed cfg u) (pass @ recent))"
    if "u \<in> set (pc_active_health_urls cfg)" for u
  proof -
    have "List.filter (witness_failed cfg u) pass \<noteq> []"
      using assms(3) [OF that] by (auto simp: list_ex_iff filter_empty_conv)
    then have "1 \<le> length (List.filter (witness_failed cfg u) pass)" by (simp add: Suc_leI)
    with that r(3) show ?thesis by (auto simp: list_all_iff)
  qed
  then show ?thesis
    unfolding outage_def using r assms(2)
    by (intro exI [of _ "pass @ recent"] exI [of _ older]) (simp add: list_all_iff)
qed

lemma outage_skip: "outage cfg k tr \<Longrightarrow> \<not> list_ex (witness_up cfg) new \<Longrightarrow> outage cfg k (new @ tr)"
  unfolding outage_def
  apply (elim exE conjE)
  subgoal for recent older
    by (intro exI [of _ "new @ recent"] exI [of _ older]) (auto simp: list_all_iff intro: trans_le_add2)
  done

lemma outage_less: "outage cfg k tr \<Longrightarrow> k' \<le> k \<Longrightarrow> outage cfg k' tr"
  unfolding outage_def list_all_iff by (elim exE conjE) (metis order_trans)

text \<open>The trace since \<open>tr0\<close> ends in an outage of \<open>k\<close> cycles.\<close>

definition outage_since :: "event list \<Rightarrow> pc_config \<Rightarrow> nat \<Rightarrow> ('w, 'z) sys_scheme \<Rightarrow> bool" where
  "outage_since tr0 cfg k s \<longleftrightarrow> (\<exists>new. trace s = new @ tr0 \<and> outage cfg k new)"

lemma outage_since_0: "trace s = new @ tr0 \<Longrightarrow> outage_since tr0 cfg 0 s"
  by (simp add: outage_since_def)

lemma outage_since_0I: "outage_since tr0 cfg k s \<Longrightarrow> outage_since tr0 cfg 0 s"
  by (auto simp: outage_since_def)

lemma outage_since_skip:
  "outage_since tr0 cfg k s \<Longrightarrow> trace t = e # trace s \<Longrightarrow> \<not> witness_up cfg e \<Longrightarrow> outage_since tr0 cfg k t"
  unfolding outage_since_def using outage_skip [of cfg k _ "[e]"] by fastforce

section \<open>Monitoring\<close>

lemma not_up [simp]: "\<not> witness_up cfg (EvSave b)" "\<not> witness_up cfg EvSleep"
  by (simp_all add: witness_up_def)

lemma pc_emit_run:
  obtains b s' where "pc_emit P cfg status kvs s = (Inr (), s')" and "trace s' = EvSave b # trace s"
proof -
  obtain ms dt w where "p_wall P (outside s) = (ms, dt, w)" by (cases "p_wall P (outside s)") auto
  then show ?thesis
    using that by (simp add: pc_emit_def pc_atomic_json_def wall_ms_def bnd_def modify_def Let_def)
qed

lemma pc_emit_outage: "outage_since tr0 cfg k s \<Longrightarrow> wp (pc_emit P cfg status kvs) (\<lambda>_. outage_since tr0 cfg k) E s"
  by (rule pc_emit_run [of P cfg status kvs s]) (auto simp: wp_def intro: outage_since_skip)

lemma pc_observe_run:
  "wp (pc_observe P cfg u)
     (\<lambda>up t. \<exists>r. trace t = EvHttp (pc_get u) r # trace s \<and> up = pc_reply_healthy cfg u r)
     (\<lambda>_ t. \<exists>r. trace t = EvHttp (pc_get u) r # trace s) s"
proof -
  have "rq_url (pc_get u) = u" by (simp add: pc_get_def pc_request_def)
  then show ?thesis
    by (auto simp: pc_observe_def pc_request_json_def wp wp_def http_exchange_def lift_res_def bnd_def
        catching_def ret_def pc_reply_healthy_def split: prod.splits sum.splits)
qed

definition pass_of :: "pc_config \<Rightarrow> string list \<Rightarrow> nat \<Rightarrow> event list \<Rightarrow> bool" where
  "pass_of cfg urls healthy pass \<longleftrightarrow>
     (healthy = 0 \<longrightarrow> \<not> list_ex (witness_up cfg) pass \<and> (\<forall>u\<in>set urls. list_ex (witness_failed cfg u) pass))"

lemma pass_of_Cons:
  "pass_of cfg urls healthy pass \<Longrightarrow>
   pass_of cfg (u # urls) (if pc_reply_healthy cfg u r then Suc healthy else healthy) (pass @ [EvHttp (pc_get u) r])"
  by (auto simp: pass_of_def witness_up_def witness_failed_def dest: pc_get_inj)

lemma pc_observe_all_run:
  "wp (pc_observe_all P cfg urls)
     (\<lambda>x t. \<exists>pass. trace t = pass @ trace s \<and> pass_of cfg urls (fst x) pass)
     (\<lambda>_ t. \<exists>pass. trace t = pass @ trace s) (s :: ('w, 'z) sys_scheme)"
proof (induction urls arbitrary: s)
  case Nil
  show ?case by (simp add: wp pass_of_def)
next
  case (Cons u urls)
  have later: "wp (bnd (pc_observe_all P cfg urls)
        (\<lambda>(healthy, failed). ret (if up then (Suc healthy, failed) else (healthy, Suc failed))))
      (\<lambda>x t. \<exists>pass. trace t = pass @ trace s \<and> pass_of cfg (u # urls) (fst x) pass)
      (\<lambda>_ t. \<exists>pass. trace t = pass @ trace s) t"
    if t: "trace t = EvHttp (pc_get u) r # trace s" and up: "up = pc_reply_healthy cfg u r"
    for up r and t :: "('w, 'z) sys_scheme"
    unfolding wp_bnd
  proof (rule wp_mono [OF Cons])
    fix x :: "nat \<times> nat" and t'
    assume "\<exists>pass. trace t' = pass @ trace t \<and> pass_of cfg urls (fst x) pass"
    then obtain pass where "trace t' = (pass @ [EvHttp (pc_get u) r]) @ trace s" "pass_of cfg urls (fst x) pass"
      using t by auto
    then show "wp (case x of (healthy, failed) \<Rightarrow> ret (if up then (Suc healthy, failed) else (healthy, Suc failed)))
        (\<lambda>x t. \<exists>pass. trace t = pass @ trace s \<and> pass_of cfg (u # urls) (fst x) pass)
        (\<lambda>_ t. \<exists>pass. trace t = pass @ trace s) t'"
      using pass_of_Cons [of cfg urls "fst x" pass u r] up by (cases x) (auto simp: wp_ret)
  qed (use t in fastforce)
  show ?case
    unfolding pc_observe_all.simps
    by (subst wp_bnd, rule wp_mono [OF pc_observe_run]) (use later in fastforce)+
qed

lemma pc_observe_all_outage:
  assumes "outage_since tr0 cfg k s"
  shows "wp (pc_observe_all P cfg (pc_active_health_urls cfg))
    (\<lambda>x. outage_since tr0 cfg (if fst x = 0 then Suc k else 0)) (\<lambda>_. outage_since tr0 cfg 0) s"
proof (rule wp_mono [OF pc_observe_all_run])
  fix x t
  assume "\<exists>pass. trace t = pass @ trace s \<and> pass_of cfg (pc_active_health_urls cfg) (fst x) pass"
  then show "outage_since tr0 cfg (if fst x = 0 then Suc k else 0) t"
    using assms unfolding outage_since_def pass_of_def by (fastforce dest: outage_more)
next
  show "outage_since tr0 cfg 0 t" if "\<exists>pass. trace t = pass @ trace s" for t
    using that assms unfolding outage_since_def by fastforce
qed

lemma pc_count_cycle_outage:
  assumes "outage_since tr0 cfg (if healthy = 0 then Suc k else 0) s"
  shows "wp (pc_count_cycle P cfg cycle k first healthy failed)
    (\<lambda>x. outage_since tr0 cfg (fst x)) (\<lambda>_. outage_since tr0 cfg 0) s"
  using assms by (auto simp: pc_count_cycle_def wp monotonic_def intro!: wp_mono [OF pc_emit_outage])

text \<open>
  From a state whose trace since \<open>tr0\<close> ends in an outage of \<open>consecutive\<close> cycles, the monitor reaches
  its threshold only behind an outage of that many cycles.
\<close>

lemma pc_monitor_outage:
  "outage_since tr0 cfg consecutive s \<Longrightarrow>
   wp (pc_monitor n P cfg cycle consecutive first)
     (\<lambda>reached. outage_since tr0 cfg (if reached = None then 0 else pc_failure_threshold cfg))
     (\<lambda>_. outage_since tr0 cfg 0) s"
proof (induction n arbitrary: s cycle consecutive first)
  case 0
  then show ?case by (simp add: wp outage_since_0I)
next
  case (Suc n)
  have tail: "wp (if healthy = 0 \<and> pc_failure_threshold cfg \<le> k then ret (Some f)
      else if pc_max_monitor_cycles cfg \<noteq> 0 \<and> pc_max_monitor_cycles cfg \<le> Suc cycle
      then seqc (pc_emit P cfg ''monitor-window-complete'' [(''promoted'', JBool False)]) (ret None)
      else seqc (sleep_seconds P (pc_poll_seconds cfg)) (pc_monitor n P cfg (Suc cycle) k f))
      (\<lambda>reached. outage_since tr0 cfg (if reached = None then 0 else pc_failure_threshold cfg))
      (\<lambda>_. outage_since tr0 cfg 0) t"
    if t: "outage_since tr0 cfg k t" for t :: "'a pc_state" and k f and healthy :: nat
  proof -
    obtain extra w where "p_sleep P (outside t) = (extra, w)" by fastforce
    then have sleep: "wp (sleep_seconds P (pc_poll_seconds cfg)) (\<lambda>_. outage_since tr0 cfg k) E t" for E
      by (simp add: wp_def sleep_seconds_def outage_since_skip [OF t])
    have "outage_since tr0 cfg (pc_failure_threshold cfg) t" if "pc_failure_threshold cfg \<le> k"
      using t that unfolding outage_since_def by (blast intro: outage_less)
    moreover have "wp (seqc (pc_emit P cfg st kvs) (ret (None :: nat option)))
      (\<lambda>reached. outage_since tr0 cfg (if reached = None then 0 else pc_failure_threshold cfg))
      (\<lambda>_. outage_since tr0 cfg 0) t" for st kvs
      unfolding wp_seqc wp_ret using pc_emit_outage [OF outage_since_0I [OF t]] by simp
    moreover have "wp (seqc (sleep_seconds P (pc_poll_seconds cfg)) (pc_monitor n P cfg (Suc cycle) k f))
      (\<lambda>reached. outage_since tr0 cfg (if reached = None then 0 else pc_failure_threshold cfg))
      (\<lambda>_. outage_since tr0 cfg 0) t"
      unfolding wp_seqc by (rule wp_mono [OF sleep Suc.IH]) auto
    ultimately show ?thesis by (simp add: wp_ret)
  qed
  show ?case
    unfolding pc_monitor.simps
    by (subst wp_bnd, rule wp_mono [OF pc_observe_all_outage [OF Suc.prems]])
      (auto simp: wp_bnd split: prod.splits intro!: wp_mono [OF pc_count_cycle_outage] tail)
qed

section \<open>The order of the requests\<close>

text \<open>Predicates of events that only a POST satisfies.\<close>

definition posts_only :: "(event \<Rightarrow> bool) \<Rightarrow> bool" where
  "posts_only q \<longleftrightarrow> (\<forall>e. q e \<longrightarrow> (\<exists>rq r. e = EvHttp rq r \<and> rq_method rq = ''POST''))"

lemma posts_only_not:
  "posts_only q \<Longrightarrow> \<not> q EvSleep" "posts_only q \<Longrightarrow> \<not> q (EvSave b)" "posts_only q \<Longrightarrow> \<not> q (EvHttp (pc_get u) r)"
  by (auto simp: posts_only_def pc_get_def pc_request_def)

lemma hushed_emit: "posts_only q \<Longrightarrow> hushed q (pc_emit P cfg status kvs)"
  unfolding hushed_def
proof
  fix s
  assume "posts_only q"
  then show "\<exists>new. trace (snd (pc_emit P cfg status kvs s)) = new @ trace s \<and> \<not> list_ex q new"
    by (rule_tac pc_emit_run [of P cfg status kvs s])
      (auto intro: exI [of _ "[e]" for e] simp: posts_only_not)
qed

lemma governs_ask:
  assumes "\<And>r. q (EvHttp rq r) \<Longrightarrow> \<forall>tr. shows_all F tr \<longrightarrow> G tr"
    and "\<And>d. governs q G tr0 (insert (obtained rq (\<lambda>d'. d' = d)) F) (f d) F'"
  shows "governs q G tr0 F (bnd (pc_request_json P t rq) f) F'"
proof (rule gov_bnd)
  show "governs q G tr0 F (pc_request_json P t rq) (\<lambda>d. insert (obtained rq (\<lambda>d'. d' = d)) F)"
    unfolding pc_request_json_def
  proof (rule gov_bnd)
    show "governs q G tr0 F (http_exchange P rq t) (\<lambda>r. insert (\<lambda>e. e = EvHttp rq r) F)"
      by (rule governs_http) (use assms(1) in auto)
    show "governs q G tr0 (insert (\<lambda>e. e = EvHttp rq r) F) (lift_res (pc_read_reply (rq_url rq) r))
        (\<lambda>d. insert (obtained rq (\<lambda>d'. d' = d)) F)" for r
      unfolding governs_def wp_lift_res
      by (auto split: sum.splits simp: noted_def shows_all_def obtained_def list_ex_iff)
  qed
qed (rule assms(2))

text \<open>What the trace must show at each of the three requests that change something.\<close>

definition standby_seen :: "pc_config \<Rightarrow> event list \<Rightarrow> bool" where
  "standby_seen cfg tr \<longleftrightarrow>
     list_ex (obtained (pc_get (pc_standby_health_url cfg)) (\<lambda>d. pc_standby_ready d (pc_standby_coordinator_id cfg))) tr"

definition prepared_seen :: "pc_config \<Rightarrow> event list \<Rightarrow> bool" where
  "prepared_seen cfg tr \<longleftrightarrow>
     list_ex (obtained (pc_prepare_request cfg) (\<lambda>d. pc_validate_prepare cfg d = Inr (pc_candidate_id cfg))) tr"

definition owner_seen :: "pc_config \<Rightarrow> string \<Rightarrow> event list \<Rightarrow> bool" where
  "owner_seen cfg h tr \<longleftrightarrow>
     list_ex (obtained (pc_owner_request cfg)
       (\<lambda>d. pc_validate_owner_promotion d = Inr () \<and> h = sha256_hex (dumps True (JObj d)))) tr"

lemma list_ex_obtained: "list_ex (obtained rq (\<lambda>d'. d' = d)) tr \<Longrightarrow> Q d \<Longrightarrow> list_ex (obtained rq Q) tr"
  by (auto simp: list_ex_iff obtained_def)

lemma seenI:
  "list_ex (obtained (pc_get (pc_standby_health_url cfg)) (\<lambda>d'. d' = d)) tr \<Longrightarrow>
    pc_standby_ready d (pc_standby_coordinator_id cfg) \<Longrightarrow> standby_seen cfg tr"
  "list_ex (obtained (pc_prepare_request cfg) (\<lambda>d'. d' = d)) tr \<Longrightarrow>
    pc_validate_prepare cfg d = Inr (pc_candidate_id cfg) \<Longrightarrow> prepared_seen cfg tr"
  "list_ex (obtained (pc_owner_request cfg) (\<lambda>d'. d' = d)) tr \<Longrightarrow>
    pc_validate_owner_promotion d = Inr () \<Longrightarrow> owner_seen cfg (sha256_hex (dumps True (JObj d))) tr"
  unfolding standby_seen_def prepared_seen_def owner_seen_def by (erule list_ex_obtained, simp)+

lemma validate_prepare_candidate: "pc_validate_prepare cfg d = Inr x \<Longrightarrow> x = pc_candidate_id cfg"
  by (auto simp: pc_validate_prepare_def Let_def)

lemma pc_promote_governed:
  assumes q: "posts_only q"
    and prepare: "\<And>r tr. q (EvHttp (pc_prepare_request cfg) r) \<Longrightarrow> pc_armed cfg \<Longrightarrow> standby_seen cfg tr \<Longrightarrow> G tr"
    and owner: "\<And>r tr. q (EvHttp (pc_owner_request cfg) r) \<Longrightarrow> prepared_seen cfg tr \<Longrightarrow> G tr"
    and commit: "\<And>h r tr. q (EvHttp (pc_commit_request cfg (pc_candidate_id cfg) h) r) \<Longrightarrow>
        prepared_seen cfg tr \<Longrightarrow> owner_seen cfg h tr \<Longrightarrow> G tr"
  shows "governs q G tr0 {} (pc_promote P cfg first) (\<lambda>_. {})"
  unfolding pc_promote_def Let_def
  apply (rule governs_unless)
  apply (rule governs_ask)
   apply (simp add: posts_only_not q)
  subgoal for standby
    apply (rule governs_unless)
    apply (rule governs_ask)
     apply (auto simp: shows_all_def intro: prepare seenI)[1]
    subgoal for prep
      apply (rule governs_bnd_lift)
      subgoal for oid
        apply (frule validate_prepare_candidate)
        apply (simp only:)
        apply (rule gov_seqc, rule gov_quiet, rule hushed_emit [OF q])
        apply (rule governs_ask)
         apply (auto simp: shows_all_def intro: owner seenI)[1]
        subgoal for own
          apply (rule governs_bnd_lift)
          apply (rule gov_seqc, rule gov_quiet, rule hushed_emit [OF q])
          apply (rule governs_ask)
           apply (auto simp: shows_all_def intro: commit seenI)[1]
          apply (rule governs_bnd_lift)
          apply (rule gov_bnd, rule gov_quiet, rule hushed_clock)
          apply (rule governs_unless)
          apply (rule gov_seqc, rule gov_quiet, rule hushed_emit [OF q])
          apply (rule gov_ret, simp)
          done
        done
      done
    done
  done

section \<open>A whole run\<close>

lemma pc_observe_hushed: "posts_only q \<Longrightarrow> hushed q (pc_observe P cfg u)"
  unfolding pc_observe_def pc_request_json_def
  by (intro quiet_intro hushed_http) (simp_all add: posts_only_not)

lemma pc_observe_all_hushed: "posts_only q \<Longrightarrow> hushed q (pc_observe_all P cfg urls)"
  by (induction urls) (auto intro!: quiet_intro pc_observe_hushed split: prod.splits)

lemma pc_count_cycle_hushed: "posts_only q \<Longrightarrow> hushed q (pc_count_cycle P cfg cycle k first healthy failed)"
  unfolding pc_count_cycle_def by (auto intro!: quiet_intro hushed_emit)

lemma pc_monitor_hushed: "posts_only q \<Longrightarrow> hushed q (pc_monitor n P cfg cycle k first)"
proof (induction n arbitrary: cycle k first)
  case (Suc n)
  then show ?case
    by (auto intro!: quiet_intro pc_observe_all_hushed pc_count_cycle_hushed hushed_emit hushed_sleep
        simp: posts_only_not split: prod.splits)
qed (auto intro: quiet_intro)

lemma guarded_after:
  "guarded A (\<lambda>tr. G (tr @ old)) new \<Longrightarrow> \<not> list_ex A old \<Longrightarrow> guarded A G (new @ old)"
  by (induction new) (use guarded_append_no_event [of A G "[]" old] in auto)

lemma pc_run_governed:
  assumes q: "posts_only q"
    and prepare: "\<And>r tr old. q (EvHttp (pc_prepare_request cfg) r) \<Longrightarrow> pc_armed cfg \<Longrightarrow> standby_seen cfg tr \<Longrightarrow>
        outage cfg (pc_failure_threshold cfg) old \<Longrightarrow> G (tr @ old)"
    and owner: "\<And>r tr old. q (EvHttp (pc_owner_request cfg) r) \<Longrightarrow> prepared_seen cfg tr \<Longrightarrow> G (tr @ old)"
    and commit: "\<And>h r tr old. q (EvHttp (pc_commit_request cfg (pc_candidate_id cfg) h) r) \<Longrightarrow>
        prepared_seen cfg tr \<Longrightarrow> owner_seen cfg h tr \<Longrightarrow> G (tr @ old)"
  shows "\<exists>new. trace (snd (pc_run fuel P cfg s)) = new @ trace s \<and> guarded q G new"
proof -
  let ?emit = "pc_emit P cfg ''monitoring'' [(''armed'', JBool (pc_armed cfg)),
             (''witnessCount'', JInt (int (length (pc_active_health_urls cfg))))]"
  obtain b s1 where s1: "?emit s = (Inr (), s1)" "trace s1 = EvSave b # trace s" by (rule pc_emit_run)
  have fresh: "outage_since (trace s) cfg 0 s1" using s1(2) by (simp add: outage_since_def)
  obtain r t where r: "pc_monitor fuel P cfg 0 0 0 s1 = (r, t)" by fastforce
  obtain new where "trace t = new @ trace s1" "\<not> list_ex q new" using hushedE [OF pc_monitor_hushed [OF q] r] .
  then have m: "trace t = (new @ [EvSave b]) @ trace s" "\<not> list_ex q (new @ [EvSave b])"
    using s1(2) posts_only_not(2) [OF q] by simp_all
  define m where "m = new @ [EvSave b]"
  note m = m [folded m_def]
  consider e where "r = Inl e" | "r = Inr None" | ff where "r = Inr (Some ff)" by (cases r) auto
  then show ?thesis
  proof cases
    case 3
    have "outage_since (trace s) cfg (pc_failure_threshold cfg) t"
      using wp_Inr [OF pc_monitor_outage [OF fresh] r [unfolded 3]] by simp
    then have out: "outage cfg (pc_failure_threshold cfg) m" using m(1) by (simp add: outage_since_def)
    obtain r' u where p: "pc_promote P cfg ff t = (r', u)" by fastforce
    have "governs q (\<lambda>tr. G (tr @ m)) (trace t) {} (pc_promote P cfg ff) (\<lambda>_. {})"
      by (rule pc_promote_governed [OF q prepare owner commit]) (use out in auto)
    from gov_guarded [OF this p] obtain new where "trace u = new @ trace t" "guarded q (\<lambda>tr. G (tr @ m)) new"
      by blast
    moreover have "trace (snd (pc_run fuel P cfg s)) = trace u"
      using s1 r 3 p by (cases r') (simp_all add: pc_run_def seqc_def bnd_def ret_def)
    ultimately show ?thesis using m guarded_after [of q G m new] by (intro exI [of _ "new @ m"]) simp
  qed (use s1 r m guarded_append_no_event [of q G "[]" m] in
        \<open>auto simp: pc_run_def seqc_def bnd_def ret_def\<close>)
qed

text \<open>The three requests differ in their keys.\<close>

lemma request_key: "map_of (rq_headers (pc_request u meth token key approval body)) ''Idempotency-Key'' =
    (if key = [] then None else Some key)"
  by (simp add: pc_request_def)

lemma requests_differ:
  "pc_prepare_request cfg \<noteq> pc_owner_request cfg" "pc_prepare_request cfg \<noteq> pc_commit_request cfg c h"
  "pc_owner_request cfg \<noteq> pc_commit_request cfg c h"
proof -
  have k: "rq = rq' \<Longrightarrow> map_of (rq_headers rq) ''Idempotency-Key'' = map_of (rq_headers rq') ''Idempotency-Key''"
    for rq rq' by simp
  show "pc_prepare_request cfg \<noteq> pc_owner_request cfg" "pc_prepare_request cfg \<noteq> pc_commit_request cfg c h"
    "pc_owner_request cfg \<noteq> pc_commit_request cfg c h"
    unfolding pc_prepare_request_def pc_owner_request_def pc_commit_request_def
    by (auto dest!: k simp: request_key split: if_splits)
qed

lemma posts_sends [simp]:
  "posts_only (sends (pc_prepare_request cfg))" "posts_only (sends (pc_owner_request cfg))"
  "posts_only (sends (pc_commit_request cfg c h))"
  by (auto simp: posts_only_def sends_def pc_prepare_request_def pc_owner_request_def pc_commit_request_def
      pc_request_def)

text \<open>Somewhere in the past, the monitor saw an outage as long as the threshold.\<close>

definition outage_seen :: "pc_config \<Rightarrow> event list \<Rightarrow> bool" where
  "outage_seen cfg tr \<longleftrightarrow> (\<exists>later old. tr = later @ old \<and> outage cfg (pc_failure_threshold cfg) old)"

lemma seen_append:
  "standby_seen cfg tr \<Longrightarrow> standby_seen cfg (tr @ old)" "prepared_seen cfg tr \<Longrightarrow> prepared_seen cfg (tr @ old)"
  "owner_seen cfg h tr \<Longrightarrow> owner_seen cfg h (tr @ old)"
  by (simp_all add: standby_seen_def prepared_seen_def owner_seen_def)

end
