(* ===== verification/HttpServer.thy ===== *)
theory HttpServer
  imports Platform
begin

text \<open>
  What a handler of Python's \<open>http.server\<close> sees of a request, and the content type the message
  library reads from it.
\<close>

text \<open>Header names are matched without case by the server library; here they are written as asked for.\<close>

record inbound =
  in_path :: string
  in_header :: "string \<Rightarrow> string option"
  in_body :: string

text \<open>\<open>get_content_type\<close> of the message library: parameters cut off, lower case, \<open>text/plain\<close> by default.\<close>

definition content_type :: "string option \<Rightarrow> string" where
  "content_type h =
     (case h of None \<Rightarrow> ''text/plain''
      | Some v \<Rightarrow>
          (let t = to_lower (py_strip (takeWhile (\<lambda>c. c \<noteq> CHR '';'') v))
           in if length (List.filter (\<lambda>c. c = CHR ''/'') t) = 1 then t else ''text/plain''))"

end
