(* ===== verification/Failover_Drivers.thy ===== *)
theory Failover_Drivers
  imports Failover_Config HttpServer
begin

text \<open>
  The platform side of \<open>failover-provider/provider.py\<close>: bounded JSON reads, witness independence and
  health observations, and the two drivers that fence the old writer, promote the standby database
  and commit the route, as computations over an arbitrary platform.
\<close>

section \<open>Observations\<close>

definition pv_err :: "nat \<Rightarrow> string \<Rightarrow> string \<Rightarrow> exn" where
  "pv_err status c m = HttpErr status c m"

definition scheme_of :: "string \<Rightarrow> string" where
  "scheme_of u = (case urlsplit u of Inr p \<Rightarrow> u_scheme p | Inl _ \<Rightarrow> [])"

definition pv_get_request :: "string \<Rightarrow> bool \<Rightarrow> http_request" where
  "pv_get_request u allow_http =
     \<lparr>rq_method = ''GET'', rq_url = u, rq_headers = [(''Accept'', ''application/json'')], rq_body = None,
      rq_verify_tls = (\<not> (allow_http \<and> scheme_of u = ''https''))\<rparr>"

text \<open>Status 0 and an empty object stand for every failure to obtain a JSON object.\<close>

definition pv_read_reply :: "http_reply \<Rightarrow> nat \<times> dict" where
  "pv_read_reply r = (case r of
       NetFail \<Rightarrow> (0, [])
     | Reply status payload \<Rightarrow>
         if pv_max_body_bytes < length payload then (0, [])
         else (case loads False payload of
                 Inr (JObj d) \<Rightarrow> (status, d)
               | _ \<Rightarrow> (status, [])))"

definition pv_request_json :: "'w platform \<Rightarrow> string \<Rightarrow> nat \<Rightarrow> bool \<Rightarrow> (('w, 'z) sys_scheme, nat \<times> dict) comp" where
  "pv_request_json P u timeout allow_http =
     bnd (http_exchange P (pv_get_request u allow_http) timeout) (\<lambda>r. ret (pv_read_reply r))"

fun overlapping :: "string list list \<Rightarrow> bool" where
  "overlapping [] = False"
| "overlapping (a # rest) = ((\<exists>b\<in>set rest. set a \<inter> set b \<noteq> {}) \<or> overlapping rest)"

definition host_and_port :: "string \<Rightarrow> exn + string \<times> nat" where
  "host_and_port u = rbind (urlsplit u) (\<lambda>p. rbind (url_port p) (\<lambda>port.
     Inr (hostname p, (case port of Some n \<Rightarrow> if n = 0 then 443 else n | None \<Rightarrow> 443))))"

fun pv_witness_addresses :: "'w platform \<Rightarrow> string list \<Rightarrow> (('w, 'z) sys_scheme, string list list) comp" where
  "pv_witness_addresses P [] = ret []"
| "pv_witness_addresses P (u # urls) =
     bnd (lift_res (host_and_port u)) (\<lambda>(host, port).
     bnd (getaddrinfo P host port) (\<lambda>rows.
     case rows of
       None \<Rightarrow> throw (pv_err 503 ''witness-dns-failed'' (''witness DNS resolution failed: '' @ host))
     | Some [] \<Rightarrow> throw (pv_err 503 ''witness-dns-failed'' (''witness has no network address: '' @ host))
     | Some addresses \<Rightarrow> bnd (pv_witness_addresses P urls) (\<lambda>more. ret (addresses # more))))"

definition pv_witness_networks :: "'w platform \<Rightarrow> string list \<Rightarrow> (('w, 'z) sys_scheme, string list list) comp" where
  "pv_witness_networks P urls =
     bnd (pv_witness_addresses P urls) (\<lambda>identities.
     seqc (raise_if (overlapping identities)
            (pv_err 503 ''witnesses-not-independent'' ''active witnesses resolve to an overlapping network identity''))
          (ret identities))"

definition pv_active_healthy :: "dict \<Rightarrow> string \<Rightarrow> bool" where
  "pv_active_healthy value coordinator_id \<longleftrightarrow>
     eq_str (jget value ''coordinatorId'') coordinator_id \<and>
     eq_str (jget value ''effectiveRole'') ''active'' \<and>
     is_true (jget value ''acceptingWrites'') \<and> is_true (jget value ''fenceFresh'')"

definition pv_observe_failed :: "'w platform \<Rightarrow> pv_config \<Rightarrow> string \<Rightarrow> string \<Rightarrow> (('w, 'z) sys_scheme, unit) comp" where
  "pv_observe_failed P cfg active_id u =
     bnd (pv_request_json P u (pv_request_timeout_seconds cfg) (pv_allow_http cfg)) (\<lambda>(status, value).
     raise_if (status = 200 \<and> pv_active_healthy value active_id)
       (pv_err 409 ''active-witness-veto'' ''an independent witness still observes a fresh active writer''))"

text \<open>The loop raises on the first healthy witness, so a completed loop counted every one as failed.\<close>

definition pv_verify_witness_failures :: "'w platform \<Rightarrow> pv_config \<Rightarrow> dict \<Rightarrow> (('w, 'z) sys_scheme, unit) comp" where
  "pv_verify_witness_failures P cfg request =
     bnd (pv_witness_networks P (pv_active_health_urls cfg)) (\<lambda>_.
     seqc (for_each (pv_active_health_urls cfg)
            (pv_observe_failed P cfg (py_str (jget request ''activeCoordinatorId''))))
     (let failed = length (pv_active_health_urls cfg)
      in raise_if (failed < 2 \<or> \<not> eq_int (jget request ''failedWitnessCount'') (int failed))
           (pv_err 409 ''witness-count-mismatch'' ''provider witness observations do not match the request'')))"

definition pv_standby_safe :: "dict \<Rightarrow> string \<Rightarrow> bool" where
  "pv_standby_safe value coordinator_id \<longleftrightarrow>
     eq_str (jget value ''coordinatorId'') coordinator_id \<and>
     eq_str (jget value ''configuredRole'') ''standby'' \<and>
     eq_str (jget value ''effectiveRole'') ''standby'' \<and> is_false (jget value ''acceptingWrites'')"

definition pv_verify_standby :: "'w platform \<Rightarrow> pv_config \<Rightarrow> string \<Rightarrow> (('w, 'z) sys_scheme, unit) comp" where
  "pv_verify_standby P cfg coordinator_id =
     bnd (pv_request_json P (pv_standby_health_url cfg) (pv_request_timeout_seconds cfg) (pv_allow_http cfg))
       (\<lambda>(status, value).
     raise_if (status \<noteq> 200 \<or> \<not> pv_standby_safe value coordinator_id)
       (pv_err 503 ''standby-not-safe'' ''standby is not healthy, signerless and fenced''))"

definition pv_indexer_fresh :: "nat \<Rightarrow> dict \<Rightarrow> bool" where
  "pv_indexer_fresh status value \<longleftrightarrow>
     status = 200 \<and> is_true (jget value ''indexerHeadMatchesL1'') \<and> eq_int (jget value ''unresolvedSafetyEvents'') 0"

definition pv_verify_indexer :: "'w platform \<Rightarrow> pv_config \<Rightarrow> (('w, 'z) sys_scheme, unit) comp" where
  "pv_verify_indexer P cfg =
     bnd (pv_request_json P (pv_indexer_freshness_url cfg) (pv_request_timeout_seconds cfg) (pv_allow_http cfg))
       (\<lambda>(status, value).
     raise_if (\<not> pv_indexer_fresh status value)
       (pv_err 503 ''indexer-not-fresh'' ''canonical indexer freshness/safety gate failed''))"

text \<open>One observation pass over every signer role: the statuses by URL.\<close>

fun pv_signer_pass :: "'w platform \<Rightarrow> pv_config \<Rightarrow> string list \<Rightarrow> (string \<times> nat) list \<Rightarrow>
    (('w, 'z) sys_scheme, bool \<times> (string \<times> nat) list) comp" where
  "pv_signer_pass P cfg [] seen = ret (True, seen)"
| "pv_signer_pass P cfg (u # urls) seen =
     bnd (pv_request_json P u (pv_request_timeout_seconds cfg) (pv_allow_http cfg)) (\<lambda>(status, _).
     bnd (pv_signer_pass P cfg urls (dput u status seen)) (\<lambda>(healthy, seen').
     ret (status = 200 \<and> healthy, seen')))"

definition pv_verify_signer_authority :: "'w platform \<Rightarrow> pv_config \<Rightarrow> (('w, 'z) sys_scheme, unit) comp" where
  "pv_verify_signer_authority P cfg =
     poll_for P (pv_platform_timeout_seconds cfg)
       (\<lambda>seen. bnd (pv_signer_pass P cfg (pv_signer_authority_health_urls cfg) seen) (\<lambda>(healthy, seen').
               ret (if healthy then Some () else None, seen')))
       (\<lambda>seen.
          let failed = length (List.filter (\<lambda>(u, status). status \<noteq> 200) seen);
              shown = (if failed = 0 then length (pv_signer_authority_health_urls cfg) else failed)
          in throw (pv_err 503 ''signer-activation-failed''
               (nat_str shown @ '' post-fence signer role(s) did not become healthy'')))
       []"

section \<open>Waiting for the standby to replay the fenced target\<close>

text \<open>Shared by the drivers, over their own \<open>psql\<close> on the standby database.\<close>

definition q_recovery :: string where "q_recovery = ''select pg_is_in_recovery()''"
definition q_flush_lsn :: string where "q_flush_lsn = ''select pg_current_wal_flush_lsn()''"
definition q_replay_lsn :: string where
  "q_replay_lsn = ''select coalesce(pg_last_wal_replay_lsn()::text,'' @ [char_of (39::nat), char_of (39::nat)] @ '')''"
definition squoted :: "string \<Rightarrow> string" where "squoted s = [char_of (39::nat)] @ s @ [char_of (39::nat)]"
definition q_synchronous :: string where
  "q_synchronous = ''select count(*) from pg_stat_replication where state='' @ squoted ''streaming'' @
     '' and sync_state in ('' @ squoted ''sync'' @ '','' @ squoted ''quorum'' @ '')''"

definition pv_observe_replay ::
  "(string \<Rightarrow> (('w, 'z) sys_scheme, string) comp) \<Rightarrow> string \<Rightarrow> (('w, 'z) sys_scheme, string option) comp" where
  "pv_observe_replay psql target =
     bnd (psql q_recovery) (\<lambda>recovery.
     bnd (psql q_replay_lsn) (\<lambda>replay.
     if recovery \<in> {''t'', ''f''} \<and> replay \<noteq> []
     then bnd (lift_res (pv_lsn_value replay)) (\<lambda>r.
          bnd (lift_res (pv_lsn_value target)) (\<lambda>g.
          ret (if g \<le> r then Some replay else None)))
     else ret None))"

definition pv_await_target :: "'w platform \<Rightarrow> pv_config \<Rightarrow> (string \<Rightarrow> (('w, 'z) sys_scheme, string) comp) \<Rightarrow> string \<Rightarrow>
    (('w, 'z) sys_scheme, string) comp" where
  "pv_await_target P cfg psql target =
     poll_for P (pv_platform_timeout_seconds cfg)
       (\<lambda>u. bnd (pv_observe_replay psql target) (\<lambda>found. ret (found, u)))
       (\<lambda>_. throw (pv_err 503 ''standby-replay-stale'' ''standby did not replay the fenced primary target''))
       ()"

text \<open>The responses both drivers return.\<close>

definition pv_prepare_response :: "string \<Rightarrow> string \<Rightarrow> json \<Rightarrow> dict" where
  "pv_prepare_response target replay candidate =
     [(''operationId'', candidate), (''status'', JStr ''READY_FOR_APPLICATION_PROMOTION''),
      (''activeFenced'', JBool True), (''oldWriterTerminated'', JBool True),
      (''targetCapturedByProvider'', JBool True), (''databasePromoted'', JBool True),
      (''standbyReplayAtOrAfterTarget'', JBool True), (''indexerHeadMatchesL1'', JBool True),
      (''stableDatabaseEndpointRouted'', JBool True), (''standbySignerAuthorityActive'', JBool False),
      (''primaryTargetSource'', JStr ''durable-fenced-wal-checkpoint''),
      (''primaryTargetLsn'', JStr target), (''standbyReplayLsn'', JStr replay),
      (''checkpointAgeSeconds'', JInt 0)]"

definition pv_commit_response :: "pv_config \<Rightarrow> string \<Rightarrow> dict" where
  "pv_commit_response cfg operation_id =
     [(''operationId'', JStr operation_id), (''writerRouteCommitted'', JBool True),
      (''writerCoordinatorId'', JStr (pv_standby_coordinator_id cfg)),
      (''oldWriterRouteRemoved'', JBool True), (''stableDatabaseEndpointRouted'', JBool True),
      (''signerAuthorityActivatedAfterFence'', JBool True)]"

section \<open>Docker\<close>

record docker_settings =
  dk_project :: string
  dk_network :: string
  dk_active_service :: string
  dk_standby_service :: string
  dk_primary_db_service :: string
  dk_standby_db_service :: string
  dk_signer_service :: string
  dk_database_alias :: string
  dk_application_alias :: string
  dk_pg_user :: string
  dk_pg_database :: string
  dk_pg_data :: string

definition docker_settings_from_environment :: "environ \<Rightarrow> exn + docker_settings" where
  "docker_settings_from_environment env =
     rbind (pv_safe_value env pv_safe_id ''DOCKER_COMPOSE_PROJECT'') (\<lambda>project.
     rbind (pv_safe_value env pv_safe_id ''DOCKER_FAILOVER_NETWORK'') (\<lambda>network.
     rbind (pv_safe_value env pv_safe_resource ''DOCKER_ACTIVE_SERVICE'') (\<lambda>active.
     rbind (pv_safe_value env pv_safe_resource ''DOCKER_STANDBY_SERVICE'') (\<lambda>standby.
     rbind (pv_safe_value env pv_safe_resource ''DOCKER_PRIMARY_DB_SERVICE'') (\<lambda>primary.
     rbind (pv_safe_value env pv_safe_resource ''DOCKER_STANDBY_DB_SERVICE'') (\<lambda>standby_db.
     rbind (pv_safe_value env pv_safe_resource ''DOCKER_SIGNER_SERVICE'') (\<lambda>signer.
     rbind (pv_safe_value env pv_safe_resource ''DOCKER_DATABASE_ALIAS'') (\<lambda>dbalias.
     rbind (pv_safe_value env pv_safe_resource ''DOCKER_APPLICATION_ALIAS'') (\<lambda>appalias.
     rbind (pv_safe_value env pv_safe_resource ''FAILOVER_PGUSER'') (\<lambda>user.
     rbind (pv_safe_value env pv_safe_resource ''FAILOVER_PGDATABASE'') (\<lambda>db.
     Inr \<lparr>dk_project = project, dk_network = network, dk_active_service = active,
       dk_standby_service = standby, dk_primary_db_service = primary, dk_standby_db_service = standby_db,
       dk_signer_service = signer, dk_database_alias = dbalias, dk_application_alias = appalias,
       dk_pg_user = user, dk_pg_database = db,
       dk_pg_data = env_get env ''FAILOVER_PGDATA'' ''/var/lib/postgresql/data''\<rparr>)))))))))))"

definition failure_text :: "proc \<Rightarrow> string" where
  "failure_text p = py_take 500 (py_strip (if stderr p \<noteq> [] then stderr p else stdout p))"

definition docker_run :: "'w platform \<Rightarrow> bool \<Rightarrow> nat \<Rightarrow> string list \<Rightarrow> (('w, 'z) sys_scheme, string) comp" where
  "docker_run P tolerate timeout args =
     bnd (run_process P (''docker'' # args) timeout) (\<lambda>completed.
     seqc (raise_if (returncode completed \<noteq> 0 \<and> \<not> tolerate)
            (pv_err 503 ''docker-operation-failed'' (''fixed Docker operation failed: '' @ failure_text completed)))
          (ret (py_strip (stdout completed))))"

definition docker_container :: "'w platform \<Rightarrow> docker_settings \<Rightarrow> string \<Rightarrow> (('w, 'z) sys_scheme, string) comp" where
  "docker_container P st service =
     bnd (docker_run P False 30
       [''ps'', ''-aq'', ''--filter'', ''label=com.docker.compose.project='' @ dk_project st,
        ''--filter'', ''label=com.docker.compose.service='' @ service]) (\<lambda>out.
     case py_splitlines out of
       [v] \<Rightarrow> if rep_match is_lower_hex 12 64 v then ret v
              else throw (pv_err 503 ''docker-target-ambiguous'' (''expected exactly one fixed Compose service: '' @ service))
     | _ \<Rightarrow> throw (pv_err 503 ''docker-target-ambiguous'' (''expected exactly one fixed Compose service: '' @ service)))"

definition inspect_args :: "string \<Rightarrow> string list" where
  "inspect_args container = [''inspect'', ''--format'', ''{{.State.Running}}'', container]"

definition docker_running :: "'w platform \<Rightarrow> string \<Rightarrow> (('w, 'z) sys_scheme, bool) comp" where
  "docker_running P container =
     bnd (docker_run P False 30 (inspect_args container)) (\<lambda>out. ret (out = ''true''))"

definition docker_stop :: "'w platform \<Rightarrow> string \<Rightarrow> (('w, 'z) sys_scheme, unit) comp" where
  "docker_stop P container =
     bnd (docker_running P container) (\<lambda>up.
     seqc (whenc up (bnd (docker_run P False 20 [''stop'', ''--time'', ''10'', container]) (\<lambda>_. ret ())))
     (bnd (docker_running P container) (\<lambda>still.
      raise_if still (pv_err 503 ''docker-fence-failed'' ''container remained running after fence''))))"

definition docker_exec :: "'w platform \<Rightarrow> string option \<Rightarrow> string \<Rightarrow> string list \<Rightarrow> (('w, 'z) sys_scheme, string) comp" where
  "docker_exec P user container command =
     docker_run P False 30
       ([''exec''] @ (case user of Some u \<Rightarrow> if u = [] then [] else [''--user'', u] | None \<Rightarrow> []) @ container # command)"

definition psql_command :: "string \<Rightarrow> string \<Rightarrow> string \<Rightarrow> string list" where
  "psql_command user db query =
     [''psql'', ''-U'', user, ''-d'', db, ''--set'', ''ON_ERROR_STOP=1'', ''-tAc'', query]"

definition docker_psql :: "'w platform \<Rightarrow> docker_settings \<Rightarrow> string \<Rightarrow> string \<Rightarrow> (('w, 'z) sys_scheme, string) comp" where
  "docker_psql P st container query =
     bnd (docker_exec P None container (psql_command (dk_pg_user st) (dk_pg_database st) query))
       (\<lambda>out. ret (py_strip out))"

definition docker_disconnect :: "'w platform \<Rightarrow> docker_settings \<Rightarrow> string \<Rightarrow> (('w, 'z) sys_scheme, unit) comp" where
  "docker_disconnect P st container =
     bnd (docker_run P True 30 [''network'', ''disconnect'', ''-f'', dk_network st, container]) (\<lambda>_. ret ())"

definition docker_route_alias :: "'w platform \<Rightarrow> docker_settings \<Rightarrow> string \<Rightarrow> string \<Rightarrow> (('w, 'z) sys_scheme, unit) comp" where
  "docker_route_alias P st container alias =
     seqc (docker_disconnect P st container)
     (bnd (docker_run P False 30 [''network'', ''connect'', ''--alias'', alias, dk_network st, container]) (\<lambda>_. ret ()))"

definition promote_command :: "string \<Rightarrow> string list" where
  "promote_command data = [''pg_ctl'', ''-D'', data, ''promote'', ''-w'']"

text \<open>
  The fenced target: a retry reuses the recorded one; otherwise the primary must still answer, the
  standby must be streaming synchronously, and the flushed position is checkpointed before use.
\<close>

definition capture_target ::
  "(string \<Rightarrow> (('w, 'z) sys_scheme, string) comp) \<Rightarrow> (string \<Rightarrow> (('w, 'z) sys_scheme, unit) comp) \<Rightarrow>
   (('w, 'z) sys_scheme, string) comp" where
  "capture_target psql checkpoint =
     bnd (psql q_synchronous) (\<lambda>synchronous.
     seqc (raise_if (\<not> all_digits synchronous \<or> digits_val synchronous < 1)
            (pv_err 503 ''standby-not-synchronous'' ''standby was not synchronously streaming at the fence''))
     (bnd (psql q_flush_lsn) (\<lambda>target.
      bnd (lift_res (pv_lsn_value target)) (\<lambda>_.
      seqc (checkpoint target) (ret target)))))"

definition docker_prepare ::
  "'w platform \<Rightarrow> pv_config \<Rightarrow> docker_settings \<Rightarrow> dict \<Rightarrow> string \<Rightarrow>
   (string \<Rightarrow> (('w, 'z) sys_scheme, unit) comp) \<Rightarrow> (('w, 'z) sys_scheme, dict) comp" where
  "docker_prepare P cfg st request existing_target checkpoint =
     bnd (docker_container P st (dk_active_service st)) (\<lambda>active.
     bnd (docker_container P st (dk_standby_service st)) (\<lambda>standby.
     bnd (docker_container P st (dk_primary_db_service st)) (\<lambda>primary.
     bnd (docker_container P st (dk_standby_db_service st)) (\<lambda>standby_db.
     bnd (docker_container P st (dk_signer_service st)) (\<lambda>signer.
     seqc (docker_stop P active)
     (bnd (docker_running P signer) (\<lambda>signer_up.
     seqc (raise_if signer_up
            (pv_err 503 ''signer-enabled-too-early'' ''standby signer authority is active before fencing''))
     (bnd (if existing_target \<noteq> [] then ret existing_target
           else bnd (docker_running P primary) (\<lambda>primary_up.
                seqc (raise_if (\<not> primary_up)
                       (pv_err 503 ''primary-target-unavailable'' ''primary stopped before its durable target was captured''))
                (capture_target (docker_psql P st primary) checkpoint))) (\<lambda>target.
     bnd (pv_await_target P cfg (docker_psql P st standby_db) target) (\<lambda>replay.
     seqc (docker_stop P primary)
     (bnd (docker_psql P st standby_db q_recovery) (\<lambda>recovering.
     seqc (whenc (recovering = ''t'')
            (bnd (docker_exec P (Some ''postgres'') standby_db (promote_command (dk_pg_data st))) (\<lambda>_. ret ())))
     (bnd (docker_psql P st standby_db q_recovery) (\<lambda>after_promote.
     seqc (raise_if (after_promote \<noteq> ''f'')
            (pv_err 503 ''database-promotion-failed'' ''standby remained in recovery''))
     (seqc (docker_disconnect P st primary)
     (seqc (docker_route_alias P st standby_db (dk_database_alias st))
     (seqc (pv_verify_indexer P cfg)
     (ret (pv_prepare_response target replay (jget request ''candidateId''))))))))))))))))))))"

definition docker_commit ::
  "'w platform \<Rightarrow> pv_config \<Rightarrow> docker_settings \<Rightarrow> string \<Rightarrow> string \<Rightarrow> (('w, 'z) sys_scheme, dict) comp" where
  "docker_commit P cfg st operation_id owner_hash =
     bnd (docker_container P st (dk_active_service st)) (\<lambda>active.
     bnd (docker_container P st (dk_standby_service st)) (\<lambda>standby.
     bnd (docker_container P st (dk_signer_service st)) (\<lambda>signer.
     seqc (docker_stop P active)
     (seqc (docker_disconnect P st active)
     (seqc (docker_route_alias P st standby (dk_application_alias st))
     (bnd (docker_running P signer) (\<lambda>signer_up.
     seqc (whenc (\<not> signer_up) (bnd (docker_run P False 30 [''start'', signer]) (\<lambda>_. ret ())))
     (bnd (docker_running P signer) (\<lambda>started.
     seqc (raise_if (\<not> started)
            (pv_err 503 ''signer-activation-failed'' ''post-fence signer boundary did not activate''))
     (seqc (pv_verify_signer_authority P cfg)
     (ret (pv_commit_response cfg operation_id))))))))))))"

section \<open>Kubernetes\<close>

record kube_settings =
  kb_namespace :: string
  kb_active_deployment :: string
  kb_standby_deployment :: string
  kb_primary_db_pod :: string
  kb_standby_db_pod :: string
  kb_primary_db_statefulset :: string
  kb_postgres_container :: string
  kb_database_service :: string
  kb_application_service :: string
  kb_signer_deployment :: string
  kb_route_scope_label_key :: string
  kb_route_scope_label_value :: string
  kb_route_label_key :: string
  kb_standby_route_value :: string
  kb_pg_user :: string
  kb_pg_database :: string
  kb_pg_data :: string

definition kube_settings_from_environment :: "environ \<Rightarrow> exn + kube_settings" where
  "kube_settings_from_environment env =
     rbind (pv_safe_value env pv_safe_resource ''K8S_FAILOVER_NAMESPACE'') (\<lambda>namespace.
     rbind (pv_safe_value env pv_safe_resource ''K8S_ACTIVE_DEPLOYMENT'') (\<lambda>active.
     rbind (pv_safe_value env pv_safe_resource ''K8S_STANDBY_DEPLOYMENT'') (\<lambda>standby.
     rbind (pv_safe_value env pv_safe_resource ''K8S_PRIMARY_DB_POD'') (\<lambda>primary.
     rbind (pv_safe_value env pv_safe_resource ''K8S_STANDBY_DB_POD'') (\<lambda>standby_db.
     rbind (pv_safe_value env pv_safe_resource ''K8S_PRIMARY_DB_STATEFULSET'') (\<lambda>sset.
     rbind (pv_safe_value env pv_safe_resource ''K8S_POSTGRES_CONTAINER'') (\<lambda>pgc.
     rbind (pv_safe_value env pv_safe_resource ''K8S_DATABASE_SERVICE'') (\<lambda>dbs.
     rbind (pv_safe_value env pv_safe_resource ''K8S_APPLICATION_SERVICE'') (\<lambda>apps.
     rbind (pv_safe_value env pv_safe_resource ''K8S_SIGNER_DEPLOYMENT'') (\<lambda>signer.
     rbind (pv_safe_value env pv_safe_label_key ''K8S_ROUTE_SCOPE_LABEL_KEY'') (\<lambda>sk.
     rbind (pv_safe_value env pv_safe_resource ''K8S_ROUTE_SCOPE_LABEL_VALUE'') (\<lambda>sv.
     rbind (pv_safe_value env pv_safe_label_key ''K8S_ROUTE_LABEL_KEY'') (\<lambda>rk.
     rbind (pv_safe_value env pv_safe_resource ''K8S_STANDBY_ROUTE_VALUE'') (\<lambda>rv.
     rbind (pv_safe_value env pv_safe_resource ''FAILOVER_PGUSER'') (\<lambda>user.
     rbind (pv_safe_value env pv_safe_resource ''FAILOVER_PGDATABASE'') (\<lambda>db.
     Inr \<lparr>kb_namespace = namespace, kb_active_deployment = active, kb_standby_deployment = standby,
       kb_primary_db_pod = primary, kb_standby_db_pod = standby_db, kb_primary_db_statefulset = sset,
       kb_postgres_container = pgc, kb_database_service = dbs, kb_application_service = apps,
       kb_signer_deployment = signer, kb_route_scope_label_key = sk, kb_route_scope_label_value = sv,
       kb_route_label_key = rk, kb_standby_route_value = rv, kb_pg_user = user, kb_pg_database = db,
       kb_pg_data = env_get env ''FAILOVER_PGDATA'' ''/var/lib/postgresql/data''\<rparr>))))))))))))))))"

definition kube_run :: "'w platform \<Rightarrow> kube_settings \<Rightarrow> string list \<Rightarrow> (('w, 'z) sys_scheme, string) comp" where
  "kube_run P st args =
     bnd (run_process P ([''kubectl'', ''--namespace'', kb_namespace st] @ args) 30) (\<lambda>completed.
     seqc (raise_if (returncode completed \<noteq> 0)
            (pv_err 503 ''kubernetes-operation-failed'' (''fixed Kubernetes operation failed: '' @ failure_text completed)))
          (ret (py_strip (stdout completed))))"

definition kube_get_json :: "'w platform \<Rightarrow> kube_settings \<Rightarrow> string \<Rightarrow> (('w, 'z) sys_scheme, json) comp" where
  "kube_get_json P st kind_name =
     bnd (kube_run P st [''get'', kind_name, ''-o'', ''json'']) (\<lambda>out.
     case loads False out of
       Inl _ \<Rightarrow> throw ValueErr
     | Inr value \<Rightarrow>
         seqc (raise_if (\<not> is_dict value)
                (pv_err 503 ''kubernetes-response-invalid'' ''Kubernetes returned a non-object''))
              (ret value))"

definition observed_replicas :: "string \<Rightarrow> json \<Rightarrow> exn + int" where
  "observed_replicas kind value =
     rbind (attr_get value ''status'' (JObj [])) (\<lambda>status.
     rbind (attr_get status (if kind = ''deployment'' then ''availableReplicas'' else ''readyReplicas'') (JInt 0)) (\<lambda>n.
     int_or_zero n))"

definition kube_scale_workload :: "'w platform \<Rightarrow> pv_config \<Rightarrow> kube_settings \<Rightarrow> string \<Rightarrow> string \<Rightarrow> int \<Rightarrow>
    (('w, 'z) sys_scheme, unit) comp" where
  "kube_scale_workload P cfg st kind name replicas =
     seqc (raise_if (kind \<notin> {''deployment'', ''statefulset''})
            (invalid_config ''provider attempted to scale an unapproved workload kind''))
     (bnd (kube_run P st [''scale'', kind @ ''/'' @ name, ''--replicas='' @ int_str replicas]) (\<lambda>_.
      poll_for P (pv_platform_timeout_seconds cfg)
        (\<lambda>u. bnd (kube_get_json P st (kind @ ''/'' @ name)) (\<lambda>value.
             bnd (lift_res (observed_replicas kind value)) (\<lambda>observed.
             ret (if observed = replicas then Some () else None, u))))
        (\<lambda>_. throw (pv_err 503 ''kubernetes-scale-timeout''
               (kind @ '' did not reach '' @ int_str replicas @ '' replicas'')))
        ()))"

definition kube_scale :: "'w platform \<Rightarrow> pv_config \<Rightarrow> kube_settings \<Rightarrow> string \<Rightarrow> int \<Rightarrow> (('w, 'z) sys_scheme, unit) comp" where
  "kube_scale P cfg st deployment replicas = kube_scale_workload P cfg st ''deployment'' deployment replicas"

definition kube_exec_pg :: "'w platform \<Rightarrow> kube_settings \<Rightarrow> string \<Rightarrow> string list \<Rightarrow> (('w, 'z) sys_scheme, string) comp" where
  "kube_exec_pg P st pod command =
     kube_run P st ([''exec'', ''pod/'' @ pod, ''-c'', kb_postgres_container st, ''--''] @ command)"

definition kube_psql :: "'w platform \<Rightarrow> kube_settings \<Rightarrow> string \<Rightarrow> string \<Rightarrow> (('w, 'z) sys_scheme, string) comp" where
  "kube_psql P st pod query =
     bnd (kube_exec_pg P st pod (psql_command (kb_pg_user st) (kb_pg_database st) query)) (\<lambda>out. ret (py_strip out))"

definition route_selector :: "kube_settings \<Rightarrow> dict" where
  "route_selector st =
     dputs [(kb_route_scope_label_key st, JStr (kb_route_scope_label_value st)),
            (kb_route_label_key st, JStr (kb_standby_route_value st))] []"

definition kube_patch_route :: "'w platform \<Rightarrow> kube_settings \<Rightarrow> string \<Rightarrow> (('w, 'z) sys_scheme, unit) comp" where
  "kube_patch_route P st service =
     (let selector = JObj (route_selector st);
          patch = jprint True (JObj [(''spec'', JObj [(''selector'', selector)])])
      in bnd (kube_run P st [''patch'', ''service/'' @ service, ''--type=merge'', ''-p'', patch]) (\<lambda>_.
         bnd (kube_get_json P st (''service/'' @ service)) (\<lambda>value.
         bnd (lift_res (rbind (attr_get value ''spec'' (JObj [])) (\<lambda>spec. attr_get spec ''selector'' JNull))) (\<lambda>got.
         raise_if (\<not> py_eq got selector)
           (pv_err 503 ''kubernetes-route-failed'' ''stable Service selector did not switch exactly'')))))"

definition kube_prepare ::
  "'w platform \<Rightarrow> pv_config \<Rightarrow> kube_settings \<Rightarrow> dict \<Rightarrow> string \<Rightarrow>
   (string \<Rightarrow> (('w, 'z) sys_scheme, unit) comp) \<Rightarrow> (('w, 'z) sys_scheme, dict) comp" where
  "kube_prepare P cfg st request existing_target checkpoint =
     seqc (kube_scale P cfg st (kb_active_deployment st) 0)
     (bnd (kube_get_json P st (''deployment/'' @ kb_signer_deployment st)) (\<lambda>signer.
     bnd (lift_res (rbind (attr_get signer ''spec'' (JObj [])) (\<lambda>spec.
                    rbind (attr_get spec ''replicas'' (JInt 0)) int_or_zero))) (\<lambda>signers.
     seqc (raise_if (signers \<noteq> 0)
            (pv_err 503 ''signer-enabled-too-early'' ''standby signer authority is active before fencing''))
     (bnd (if existing_target \<noteq> [] then ret existing_target
           else capture_target (kube_psql P st (kb_primary_db_pod st)) checkpoint) (\<lambda>target.
     bnd (pv_await_target P cfg (kube_psql P st (kb_standby_db_pod st)) target) (\<lambda>replay.
     seqc (kube_scale_workload P cfg st ''statefulset'' (kb_primary_db_statefulset st) 0)
     (bnd (kube_psql P st (kb_standby_db_pod st) q_recovery) (\<lambda>recovering.
     seqc (whenc (recovering = ''t'')
            (bnd (kube_exec_pg P st (kb_standby_db_pod st) (promote_command (kb_pg_data st))) (\<lambda>_. ret ())))
     (bnd (kube_psql P st (kb_standby_db_pod st) q_recovery) (\<lambda>after_promote.
     seqc (raise_if (after_promote \<noteq> ''f'')
            (pv_err 503 ''database-promotion-failed'' ''standby remained in recovery''))
     (seqc (kube_patch_route P st (kb_database_service st))
     (seqc (pv_verify_indexer P cfg)
     (ret (pv_prepare_response target replay (jget request ''candidateId'')))))))))))))))"

definition kube_commit ::
  "'w platform \<Rightarrow> pv_config \<Rightarrow> kube_settings \<Rightarrow> string \<Rightarrow> string \<Rightarrow> (('w, 'z) sys_scheme, dict) comp" where
  "kube_commit P cfg st operation_id owner_hash =
     seqc (kube_scale P cfg st (kb_active_deployment st) 0)
     (seqc (kube_patch_route P st (kb_application_service st))
     (seqc (kube_scale P cfg st (kb_signer_deployment st) 1)
     (seqc (pv_verify_signer_authority P cfg)
     (ret (pv_commit_response cfg operation_id)))))"

end
