(* ===== verification/Failover_Provider.thy ===== *)
theory Failover_Provider
  imports Failover_Drivers
begin

text \<open>
  The provider of \<open>failover-provider/provider.py\<close>: its durable operation table, authentication, the
  idempotent prepare and commit operations over a driver, status, and the HTTP handler. The lock
  \<open>operation_lock\<close> makes prepare and commit atomic with respect to each other, so each is one
  computation over the state.
\<close>

section \<open>State\<close>

text \<open>
  \<open>self.state\<close> is the loaded document \<open>pv_doc\<close> with the table \<open>pv_ops\<close> under \<open>operations\<close>. A key of
  the table is whatever JSON value \<open>candidateId\<close> was, compared as Python compares dictionary keys.
  \<open>pv_disk\<close> is the content of the state file.
\<close>

type_synonym op_table = "(json \<times> json) list"

record 'w pv_state = "'w sys" +
  pv_doc :: dict
  pv_ops :: op_table
  pv_disk :: "string option"

definition ops_get :: "op_table \<Rightarrow> json \<Rightarrow> json" where
  "ops_get ops k = (case List.find (\<lambda>kv. py_eq (fst kv) k) ops of Some kv \<Rightarrow> snd kv | None \<Rightarrow> JNull)"

fun ops_put :: "json \<Rightarrow> json \<Rightarrow> op_table \<Rightarrow> op_table" where
  "ops_put k v [] = [(k, v)]"
| "ops_put k v ((k', v') # ops) = (if py_eq k' k then (k', v) # ops else (k', v') # ops_put k v ops)"

section \<open>The state file\<close>

text \<open>
  \<open>json.dumps(..., sort_keys=True)\<close> compares the keys of one object, so a table with both text and
  number keys cannot be written; number keys are written as their text.
\<close>

fun is_number :: "json \<Rightarrow> bool" where
  "is_number (JInt i) = True"
| "is_number (JFloat r) = True"
| "is_number _ = False"

definition ops_sortable :: "op_table \<Rightarrow> bool" where
  "ops_sortable ops \<longleftrightarrow> list_all (\<lambda>kv. is_str (fst kv)) ops \<or> list_all (\<lambda>kv. is_number (fst kv)) ops"

definition state_json :: "dict \<Rightarrow> op_table \<Rightarrow> json" where
  "state_json doc ops = JObj (dput ''operations'' (JObj (map (\<lambda>kv. (py_str (fst kv), snd kv)) ops)) doc)"

definition state_bytes :: "dict \<Rightarrow> op_table \<Rightarrow> string" where
  "state_bytes doc ops = dumps True (state_json doc ops) @ newline"

text \<open>The file is replaced atomically: it holds the old content or the new one.\<close>

definition pv_save :: "('w pv_state, unit) comp" where
  "pv_save = (\<lambda>s.
     if ops_sortable (pv_ops s)
     then (let b = state_bytes (pv_doc s) (pv_ops s)
           in (Inr (), s\<lparr>trace := EvSave b # trace s, pv_disk := Some b\<rparr>))
     else (Inl TypeErr, s))"

definition pv_load_json :: "files \<Rightarrow> string \<Rightarrow> exn + dict \<times> op_table" where
  "pv_load_json fs path =
     (if \<not> path_exists fs path then Inr ([(''schemaVersion'', JInt 1), (''operations'', JObj [])], [])
      else
        rbind (check (\<not> is_symlink fs path \<and> is_file fs path)
                (HttpErr 500 ''invalid-state'' ''provider state must be a regular file'')) (\<lambda>_.
        rbind (read_text fs path) (\<lambda>text.
        case loads False text of
          Inl _ \<Rightarrow> Inl ValueErr
        | Inr (JObj doc) \<Rightarrow>
            (case jget doc ''operations'' of
               JObj ops \<Rightarrow>
                 rbind (check (eq_int (jget doc ''schemaVersion'') 1)
                         (HttpErr 500 ''invalid-state'' ''provider state schema is invalid'')) (\<lambda>_.
                 Inr (doc, map (\<lambda>(k, v). (JStr k, v)) ops))
             | _ \<Rightarrow> Inl (HttpErr 500 ''invalid-state'' ''provider state schema is invalid''))
        | Inr _ \<Rightarrow> Inl AttributeErr)))"

section \<open>Authentication\<close>

text \<open>\<open>hmac.compare_digest\<close> on text refuses anything but ASCII.\<close>

definition compare_digest :: "string \<Rightarrow> string \<Rightarrow> exn + bool" where
  "compare_digest a b = (if list_all is_ascii a \<and> list_all is_ascii b then Inr (a = b) else Inl TypeErr)"

definition presented :: "string option \<Rightarrow> string \<Rightarrow> exn + bool" where
  "presented given expected =
     (case given of None \<Rightarrow> Inr False | Some [] \<Rightarrow> Inr False | Some g \<Rightarrow> compare_digest g expected)"

definition pv_authenticate :: "pv_config \<Rightarrow> string option \<Rightarrow> string option \<Rightarrow> exn + unit" where
  "pv_authenticate cfg authorization approval =
     rbind (presented authorization (''Bearer '' @ pv_provider_token cfg)) (\<lambda>a.
     rbind (check a (HttpErr 401 ''unauthorized'' ''provider bearer is invalid'')) (\<lambda>_.
     rbind (presented approval (pv_approval_token cfg)) (\<lambda>b.
     check b (HttpErr 403 ''approval-required'' ''incident approval token is invalid''))))"

section \<open>Drivers\<close>

record 'w pv_driver =
  drv_prepare :: "dict \<Rightarrow> string \<Rightarrow> (string \<Rightarrow> ('w pv_state, unit) comp) \<Rightarrow> ('w pv_state, dict) comp"
  drv_commit :: "string \<Rightarrow> string \<Rightarrow> ('w pv_state, dict) comp"

definition docker_driver :: "'w platform \<Rightarrow> pv_config \<Rightarrow> docker_settings \<Rightarrow> 'w pv_driver" where
  "docker_driver P cfg st =
     \<lparr>drv_prepare = docker_prepare P cfg st, drv_commit = docker_commit P cfg st\<rparr>"

definition kube_driver :: "'w platform \<Rightarrow> pv_config \<Rightarrow> kube_settings \<Rightarrow> 'w pv_driver" where
  "kube_driver P cfg st =
     \<lparr>drv_prepare = kube_prepare P cfg st, drv_commit = kube_commit P cfg st\<rparr>"

definition pv_build_driver :: "'w platform \<Rightarrow> environ \<Rightarrow> pv_config \<Rightarrow> exn + 'w pv_driver" where
  "pv_build_driver P env cfg =
     (if pv_platform_kind cfg = ''docker''
      then rbind (docker_settings_from_environment env) (\<lambda>st. Inr (docker_driver P cfg st))
      else rbind (kube_settings_from_environment env) (\<lambda>st. Inr (kube_driver P cfg st)))"

section \<open>Prepare\<close>

definition hash_text :: "string \<Rightarrow> string" where
  "hash_text s = sha256_hex s"

definition prepare_fields :: "string list" where
  "prepare_fields = [''candidateId'', ''activeCoordinatorId'', ''standbyCoordinatorId'', ''failedWitnessCount'']"

definition pv_check_prepare :: "pv_config \<Rightarrow> string \<Rightarrow> dict \<Rightarrow> exn + unit" where
  "pv_check_prepare cfg key request =
     rbind (check (pv_safe_id key)
             (HttpErr 400 ''invalid-idempotency-key'' ''Idempotency-Key must be a safe 8-200 character value'')) (\<lambda>_.
     rbind (check (same_keys request prepare_fields)
             (HttpErr 400 ''invalid-request'' ''prepare request fields differ from the provider contract'')) (\<lambda>_.
     rbind (check (pv_safe_id (py_str (jget request ''candidateId'')))
             (HttpErr 400 ''invalid-request'' ''candidateId is invalid'')) (\<lambda>_.
     rbind (check (eq_str (jget request ''activeCoordinatorId'') (pv_active_coordinator_id cfg) \<and>
                   eq_str (jget request ''standbyCoordinatorId'') (pv_standby_coordinator_id cfg))
             (HttpErr 409 ''topology-mismatch'' ''request coordinator IDs differ from the fixed topology'')) (\<lambda>_.
     check (is_int (jget request ''failedWitnessCount''))
       (HttpErr 400 ''invalid-request'' ''failedWitnessCount must be an integer'')))))"

text \<open>\<open>operations.get(id)\<close>, read as a dictionary when it is truthy.\<close>

definition get_operation :: "json \<Rightarrow> ('w pv_state, dict option) comp" where
  "get_operation k =
     bnd (gets (\<lambda>s. ops_get (pv_ops s) k)) (\<lambda>v.
     if \<not> truthy v then ret None
     else case v of JObj d \<Rightarrow> ret (Some d) | _ \<Rightarrow> throw AttributeErr)"

text \<open>\<open>operation[field] = value\<close> on the entry of the table the local variable refers to.\<close>

definition set_fields :: "json \<Rightarrow> dict \<Rightarrow> ('w pv_state, unit) comp" where
  "set_fields k kvs = modify (\<lambda>s.
     s\<lparr>pv_ops := ops_put k
         (JObj (dputs kvs (case ops_get (pv_ops s) k of JObj d \<Rightarrow> d | _ \<Rightarrow> []))) (pv_ops s)\<rparr>)"

definition pv_checkpoint :: "'w platform \<Rightarrow> json \<Rightarrow> string \<Rightarrow> ('w pv_state, unit) comp" where
  "pv_checkpoint P k target =
     seqc (set_fields k [(''primaryTargetLsn'', JStr target)])
     (bnd (wall_ms P) (\<lambda>now.
      seqc (set_fields k [(''targetCapturedAtUnixMs'', JInt now)]) pv_save))"

definition idempotency_conflict :: "string \<Rightarrow> exn" where
  "idempotency_conflict m = HttpErr 409 ''idempotency-conflict'' m"

text \<open>The recorded target, which only the checkpoint writes and writes as text.\<close>

definition recorded_target :: "dict \<Rightarrow> string" where
  "recorded_target op = (case jget op ''primaryTargetLsn'' of JStr t \<Rightarrow> t | _ \<Rightarrow> [])"

definition pv_run_prepare ::
  "'w platform \<Rightarrow> pv_config \<Rightarrow> 'w pv_driver \<Rightarrow> json \<Rightarrow> dict \<Rightarrow> ('w pv_state, json) comp" where
  "pv_run_prepare P cfg D k request =
     seqc (pv_verify_witness_failures P cfg request)
     (seqc (pv_verify_standby P cfg (py_str (jget request ''standbyCoordinatorId'')))
     (bnd (gets (\<lambda>s. case ops_get (pv_ops s) k of JObj d \<Rightarrow> recorded_target d | _ \<Rightarrow> [])) (\<lambda>existing.
     bnd (drv_prepare D request existing (pv_checkpoint P k)) (\<lambda>response.
     seqc (raise_if (\<not> py_eq (jget response ''operationId'') k)
            (HttpErr 503 ''driver-contract-error'' ''platform driver returned the wrong operation ID''))
     (seqc (set_fields k
             [(''prepareResponse'', JObj response),
              (''prepareResponseSha256'', JStr (pv_canonical_hash (JObj response))),
              (''phase'', JStr ''PREPARED'')])
     (seqc pv_save (ret (JObj response))))))))"

definition pv_prepare ::
  "'w platform \<Rightarrow> pv_config \<Rightarrow> 'w pv_driver \<Rightarrow> string \<Rightarrow> dict \<Rightarrow> ('w pv_state, json) comp" where
  "pv_prepare P cfg D key request =
     seqc (lift_res (pv_check_prepare cfg key request))
     (let k = jget request ''candidateId'';
          request_hash = pv_canonical_hash (JObj request);
          key_hash = hash_text key
      in bnd (get_operation k) (\<lambda>found.
         case found of
           Some op \<Rightarrow>
             seqc (raise_if (\<not> eq_str (jget op ''prepareKeySha256'') key_hash \<or>
                             \<not> eq_str (jget op ''prepareRequestSha256'') request_hash)
                    (idempotency_conflict ''candidate or key was reused with changed input''))
             (if truthy (jget op ''prepareResponse'') then ret (jget op ''prepareResponse'')
              else pv_run_prepare P cfg D k request)
         | None \<Rightarrow>
             bnd (wall_ms P) (\<lambda>now.
             seqc (modify (\<lambda>s. s\<lparr>pv_ops := ops_put k
                     (JObj [(''candidateId'', k), (''prepareKeySha256'', JStr key_hash),
                            (''prepareRequestSha256'', JStr request_hash),
                            (''phase'', JStr ''PREPARING''), (''createdAtUnixMs'', JInt now)]) (pv_ops s)\<rparr>))
             (seqc pv_save (pv_run_prepare P cfg D k request)))))"

section \<open>Commit\<close>

definition pv_check_commit :: "string \<Rightarrow> string \<Rightarrow> dict \<Rightarrow> exn + unit" where
  "pv_check_commit operation_id key request =
     rbind (check (pv_safe_id operation_id \<and> pv_safe_id key)
             (HttpErr 400 ''invalid-idempotency-key'' ''operation and idempotency key must be safe IDs'')) (\<lambda>_.
     check (same_keys request [''ownerResponseSha256''] \<and>
            hex64 (py_str (jget request ''ownerResponseSha256'')))
       (HttpErr 400 ''invalid-request'' ''commit requires the exact ownerResponseSha256''))"

text \<open>\<open>-(-ms // 1000)\<close>: whole seconds, rounded up.\<close>

definition rto_seconds :: "int \<Rightarrow> int" where
  "rto_seconds elapsed_ms = - ((- elapsed_ms) div 1000)"

definition committed_response :: "dict \<Rightarrow> int \<Rightarrow> json \<Rightarrow> int \<Rightarrow> dict" where
  "committed_response response elapsed captured now =
     dputs [(''rtoSeconds'', JInt (rto_seconds elapsed)),
            (''targetCapturedAtUnixMs'', captured), (''committedAtUnixMs'', JInt now)] response"

definition pv_run_commit ::
  "'w platform \<Rightarrow> 'w pv_driver \<Rightarrow> string \<Rightarrow> dict \<Rightarrow> ('w pv_state, json) comp" where
  "pv_run_commit P D operation_id request =
     bnd (drv_commit D operation_id (py_str (jget request ''ownerResponseSha256''))) (\<lambda>response.
     seqc (raise_if (\<not> py_eq (jget response ''operationId'') (JStr operation_id))
            (HttpErr 503 ''driver-contract-error'' ''platform driver returned the wrong operation ID''))
     (bnd (wall_ms P) (\<lambda>committed_at.
      bnd (gets (\<lambda>s. case ops_get (pv_ops s) (JStr operation_id) of
                       JObj d \<Rightarrow> jget d ''targetCapturedAtUnixMs'' | _ \<Rightarrow> JNull)) (\<lambda>captured_at.
      seqc (raise_if (\<not> is_int captured_at)
             (HttpErr 503 ''checkpoint-missing'' ''prepared operation has no durable target capture time''))
      (let elapsed = max 0 (committed_at - the (num_of captured_at));
           response' = committed_response response elapsed captured_at committed_at
       in seqc (set_fields (JStr operation_id)
             [(''commitResponse'', JObj response'),
              (''commitResponseSha256'', JStr (pv_canonical_hash (JObj response'))),
              (''phase'', JStr ''COMMITTED''), (''committedAtUnixMs'', JInt committed_at)])
          (seqc pv_save (ret (JObj response'))))))))"

definition pv_commit ::
  "'w platform \<Rightarrow> 'w pv_driver \<Rightarrow> string \<Rightarrow> string \<Rightarrow> dict \<Rightarrow> ('w pv_state, json) comp" where
  "pv_commit P D operation_id key request =
     seqc (lift_res (pv_check_commit operation_id key request))
     (bnd (get_operation (JStr operation_id)) (\<lambda>found.
      case found of
        None \<Rightarrow> throw (HttpErr 409 ''not-prepared'' ''operation has no durable prepared boundary'')
      | Some op \<Rightarrow>
          seqc (raise_if (jget op ''phase'' \<notin> {JStr ''PREPARED'', JStr ''COMMITTED''})
                 (HttpErr 409 ''not-prepared'' ''operation has no durable prepared boundary''))
          (let key_hash = hash_text key; request_hash = pv_canonical_hash (JObj request)
           in if truthy (jget op ''commitKeySha256'')
              then seqc (raise_if (\<not> eq_str (jget op ''commitKeySha256'') key_hash \<or>
                                   \<not> eq_str (jget op ''commitRequestSha256'') request_hash)
                          (idempotency_conflict ''commit key was reused with changed input''))
                   (if truthy (jget op ''commitResponse'') then ret (jget op ''commitResponse'')
                    else pv_run_commit P D operation_id request)
              else seqc (set_fields (JStr operation_id)
                           [(''commitKeySha256'', JStr key_hash), (''commitRequestSha256'', JStr request_hash),
                            (''ownerResponseSha256'', jget request ''ownerResponseSha256'')])
                   (seqc pv_save (pv_run_commit P D operation_id request)))))"

section \<open>Status\<close>

definition pv_status :: "string \<Rightarrow> ('w pv_state, json) comp" where
  "pv_status operation_id =
     seqc (raise_if (\<not> pv_safe_id operation_id)
            (HttpErr 400 ''invalid-request'' ''operation ID must be a safe 8-200 character value''))
     (bnd (get_operation (JStr operation_id)) (\<lambda>found.
      case found of
        None \<Rightarrow> throw (HttpErr 404 ''not-found'' ''failover operation is unknown'')
      | Some op \<Rightarrow>
          bnd (if truthy (jget op ''commitResponse'')
               then lift_res (attr_get (jget op ''commitResponse'') ''rtoSeconds'' JNull) else ret JNull) (\<lambda>rto.
          ret (JObj [(''operationId'', JStr operation_id), (''phase'', jget op ''phase''),
                (''createdAtUnixMs'', jget op ''createdAtUnixMs''),
                (''targetCapturedAtUnixMs'', jget op ''targetCapturedAtUnixMs''),
                (''committedAtUnixMs'', jget op ''committedAtUnixMs''), (''rtoSeconds'', rto)]))))"

section \<open>HTTP\<close>

definition error_body :: "string \<Rightarrow> string \<Rightarrow> json" where
  "error_body c m = JObj [(''code'', JStr c), (''message'', JStr m)]"

definition failover_prefix :: string where "failover_prefix = ''/v1/failovers/''"

definition match_status_path :: "string \<Rightarrow> string option" where
  "match_status_path p =
     (if starts_with failover_prefix p \<and> pv_safe_id (drop (length failover_prefix) p)
      then Some (drop (length failover_prefix) p) else None)"

definition match_commit_path :: "string \<Rightarrow> string option" where
  "match_commit_path p =
     (if ends_with ''/commit'' p then match_status_path (take (length p - length ''/commit'') p) else None)"

definition pv_route_post ::
  "'w platform \<Rightarrow> pv_config \<Rightarrow> 'w pv_driver \<Rightarrow> inbound \<Rightarrow> ('w pv_state, json) comp" where
  "pv_route_post P cfg D rq =
     bnd (lift_res (py_int (case in_header rq ''Content-Length'' of Some v \<Rightarrow> v | None \<Rightarrow> ''0''))) (\<lambda>len.
     seqc (raise_if (len < 2 \<or> int pv_max_body_bytes < len)
            (HttpErr 400 ''invalid-body'' ''JSON body size is invalid''))
     (seqc (raise_if (content_type (in_header rq ''Content-Type'') \<noteq> ''application/json'')
             (HttpErr 400 ''invalid-content-type'' ''Content-Type must be application/json''))
     (case loads False (take (nat len) (in_body rq)) of
        Inl _ \<Rightarrow> throw ValueErr
      | Inr (JObj value) \<Rightarrow>
          seqc (lift_res (pv_authenticate cfg (in_header rq ''Authorization'')
                 (in_header rq ''X-Zkdeal-Failover-Approval'')))
          (let key = (case in_header rq ''Idempotency-Key'' of Some k \<Rightarrow> k | None \<Rightarrow> [])
           in if in_path rq = ''/v1/failovers'' then pv_prepare P cfg D key value
              else case match_commit_path (in_path rq) of
                     None \<Rightarrow> throw (HttpErr 404 ''not-found'' ''route not found'')
                   | Some operation_id \<Rightarrow> pv_commit P D operation_id key value)
      | Inr _ \<Rightarrow> throw (HttpErr 400 ''invalid-body'' ''JSON body must be an object''))))"

definition error_response :: "exn \<Rightarrow> nat \<times> json" where
  "error_response e = (case e of
       HttpErr status c m \<Rightarrow> (status, error_body c m)
     | ValueErr \<Rightarrow> (400, error_body ''invalid-json'' ''request JSON is invalid'')
     | _ \<Rightarrow> (500, error_body ''internal-error'' ''provider operation failed closed''))"

definition pv_do_POST ::
  "'w platform \<Rightarrow> pv_config \<Rightarrow> 'w pv_driver \<Rightarrow> inbound \<Rightarrow> 'w pv_state \<Rightarrow> (nat \<times> json) \<times> 'w pv_state" where
  "pv_do_POST P cfg D rq s =
     (case pv_route_post P cfg D rq s of
        (Inr v, t) \<Rightarrow> ((200, v), t)
      | (Inl e, t) \<Rightarrow> (error_response e, t))"

text \<open>\<open>do_GET\<close> catches only \<open>ProviderError\<close>: any other exception leaves no response.\<close>

definition pv_do_GET :: "pv_config \<Rightarrow> inbound \<Rightarrow> 'w pv_state \<Rightarrow> (nat \<times> json) option \<times> 'w pv_state" where
  "pv_do_GET cfg rq s =
     (if in_path rq = ''/health''
      then (Some (200, JObj [(''status'', JStr ''ok''), (''platform'', JStr (pv_platform_kind cfg))]), s)
      else if in_path rq = ''/ready''
      then (Some (200, JObj [(''ready'', JBool True), (''stateDurable'', JBool True)]), s)
      else if in_path rq = ''/capabilities''
      then (Some (200, JObj [(''schemaVersion'', JInt 1), (''contract'', JStr ''failover-provider-v1''),
              (''platform'', JStr (pv_platform_kind cfg)),
              (''witnessIndependence'', JStr ''dns-address-disjoint-and-provider-rechecked''),
              (''durableIdempotency'', JBool True), (''measuredRtoSeconds'', JBool True)]), s)
      else case match_status_path (in_path rq) of
             None \<Rightarrow> (Some (404, error_body ''not-found'' ''route not found''), s)
           | Some operation_id \<Rightarrow>
               (case seqc (lift_res (pv_authenticate cfg (in_header rq ''Authorization'')
                       (in_header rq ''X-Zkdeal-Failover-Approval''))) (pv_status operation_id) s of
                  (Inr v, t) \<Rightarrow> (Some (200, v), t)
                | (Inl (HttpErr status c m), t) \<Rightarrow> (Some (status, error_body c m), t)
                | (Inl _, t) \<Rightarrow> (None, t)))"

text \<open>Starting the service: the configuration, the driver, and the state read from the file.\<close>

definition pv_start ::
  "'w platform \<Rightarrow> bool \<Rightarrow> environ \<Rightarrow> files \<Rightarrow> exn + (pv_config \<times> 'w pv_driver \<times> dict \<times> op_table)" where
  "pv_start P dockerenv env fs =
     rbind (pv_require_container dockerenv env) (\<lambda>_.
     rbind (pv_config_from_environment env fs) (\<lambda>cfg.
     rbind (pv_build_driver P env cfg) (\<lambda>D.
     rbind (pv_load_json fs (pv_state_path cfg)) (\<lambda>(doc, ops).
     Inr (cfg, D, doc, ops)))))"

end
