(* ===== verification/Failover_Safety.thy ===== *)
theory Failover_Safety
  imports Failover_Drivers
begin

text \<open>
  What the two failover drivers promise about the platform: the events that show a workload stopped
  and the standby caught up, the guard of the promotion and signer-activation commands, and the
  content of the responses.
\<close>

section \<open>Events of the Docker driver\<close>

text \<open>A command that ran and succeeded with the given (stripped) output.\<close>

definition answered :: "string list \<Rightarrow> string \<Rightarrow> event \<Rightarrow> bool" where
  "answered cmd out e \<longleftrightarrow>
     (\<exists>pr. e = EvRun cmd (Some pr) \<and> returncode pr = 0 \<and> py_strip (stdout pr) = out)"

definition docker_ps_args :: "docker_settings \<Rightarrow> string \<Rightarrow> string list" where
  "docker_ps_args st service =
     [''ps'', ''-aq'', ''--filter'', ''label=com.docker.compose.project='' @ dk_project st,
      ''--filter'', ''label=com.docker.compose.service='' @ service]"

text \<open>The event resolves the Compose service to the container \<open>c\<close>, the only one listed.\<close>

definition dk_resolved :: "docker_settings \<Rightarrow> string \<Rightarrow> string \<Rightarrow> event \<Rightarrow> bool" where
  "dk_resolved st service c e \<longleftrightarrow>
     (\<exists>out. answered (''docker'' # docker_ps_args st service) out e \<and> py_splitlines out = [c])"

definition dk_stopped :: "string \<Rightarrow> event \<Rightarrow> bool" where
  "dk_stopped c e \<longleftrightarrow> (\<exists>out. answered (''docker'' # inspect_args c) out e \<and> out \<noteq> ''true'')"

definition dk_fenced :: "docker_settings \<Rightarrow> string \<Rightarrow> event list \<Rightarrow> bool" where
  "dk_fenced st service tr \<longleftrightarrow> (\<exists>c. list_ex (dk_resolved st service c) tr \<and> list_ex (dk_stopped c) tr)"

definition dk_psql_cmd :: "docker_settings \<Rightarrow> string \<Rightarrow> string \<Rightarrow> string list" where
  "dk_psql_cmd st c query =
     [''docker'', ''exec'', c] @ psql_command (dk_pg_user st) (dk_pg_database st) query"

definition reached :: "string \<Rightarrow> string \<Rightarrow> bool" where
  "reached replay target \<longleftrightarrow> (\<exists>r g. pv_lsn_value replay = Inr r \<and> pv_lsn_value target = Inr g \<and> g \<le> r)"

definition dk_caught_up :: "docker_settings \<Rightarrow> string \<Rightarrow> string \<Rightarrow> event \<Rightarrow> bool" where
  "dk_caught_up st c target e \<longleftrightarrow>
     (\<exists>out. answered (dk_psql_cmd st c q_replay_lsn) out e \<and> reached (py_strip out) target)"

text \<open>The target is the recorded one, or the flushed position the primary just reported.\<close>

definition dk_target_known :: "docker_settings \<Rightarrow> string \<Rightarrow> string \<Rightarrow> event list \<Rightarrow> bool" where
  "dk_target_known st existing target tr \<longleftrightarrow>
     existing \<noteq> [] \<and> target = existing \<or>
     (\<exists>c out. list_ex (dk_resolved st (dk_primary_db_service st) c) tr \<and>
        list_ex (answered (dk_psql_cmd st c q_flush_lsn) out) tr \<and> target = py_strip out)"

definition dk_may_promote :: "docker_settings \<Rightarrow> string \<Rightarrow> string \<Rightarrow> event list \<Rightarrow> bool" where
  "dk_may_promote st existing c tr \<longleftrightarrow>
     dk_fenced st (dk_active_service st) tr \<and> dk_fenced st (dk_primary_db_service st) tr \<and>
     list_ex (dk_resolved st (dk_standby_db_service st) c) tr \<and>
     (\<exists>target. dk_target_known st existing target tr \<and> list_ex (dk_caught_up st c target) tr)"

definition dk_promotes :: "docker_settings \<Rightarrow> string \<Rightarrow> string list \<Rightarrow> bool" where
  "dk_promotes st c cmd \<longleftrightarrow>
     cmd = [''docker'', ''exec'', ''--user'', ''postgres'', c] @ promote_command (dk_pg_data st)"

definition dk_starts :: "string \<Rightarrow> string list \<Rightarrow> bool" where
  "dk_starts c cmd \<longleftrightarrow> cmd = [''docker'', ''start'', c]"

section \<open>Docker commands under a guard\<close>

lemma gov_docker_run:
  assumes "p (''docker'' # args) \<Longrightarrow> \<forall>tr. shows_all F tr \<longrightarrow> G tr"
    and "\<And>pr. returncode pr = 0 \<or> tol \<Longrightarrow>
          \<forall>B\<in>F' (py_strip (stdout pr)). B \<in> F \<or> B (EvRun (''docker'' # args) (Some pr))"
  shows "gov p G tr0 F (docker_run P tol t args) F'"
proof -
  have 1: "gov p G tr0 F (run_process P (''docker'' # args) t)
      (\<lambda>pr. if returncode pr = 0 \<or> tol then F' (py_strip (stdout pr)) else {})"
    using assms by (intro gov_run) (auto split: if_splits)
  show ?thesis
    unfolding docker_run_def
    by (rule gov_bnd [OF 1], rule gov_seqc [where Fx = "\<lambda>_. F' (py_strip (stdout x))" for x],
        rule gov_raise_if) (auto intro: gov_ret)
qed

lemma gov_docker_container:
  assumes "\<not> p (''docker'' # docker_ps_args st service)"
  shows "gov p G tr0 F (docker_container P st service) (\<lambda>c. insert (dk_resolved st service c) F)"
  unfolding docker_container_def
  apply (rule gov_bnd [where Fx = "\<lambda>out. insert (answered (''docker'' # docker_ps_args st service) out) F"])
   apply (rule gov_docker_run)
  using assms apply (simp add: docker_ps_args_def)
   apply (auto simp: answered_def docker_ps_args_def)[1]
  subgoal for out
    apply (cases "\<exists>v. py_splitlines out = [v]")
     apply clarsimp
     apply (intro conjI impI gov_throw)
     apply (simp add: gov_def wp)
     apply (auto simp: since_def shows_all_def dk_resolved_def list_ex_iff)[1]
    apply (auto intro: gov_throw split: list.splits)
    done
  done

lemma gov_docker_running:
  assumes "\<not> p (''docker'' # inspect_args c)"
  shows "gov p G tr0 F (docker_running P c) (\<lambda>up. if up then F else insert (dk_stopped c) F)"
  unfolding docker_running_def
  apply (rule gov_bnd [where Fx = "\<lambda>out. if out = ''true'' then F else insert (dk_stopped c) F"])
   apply (rule gov_docker_run)
  using assms apply simp
   apply (auto simp: dk_stopped_def answered_def)[1]
  apply (auto intro: gov_ret)
  done

lemma quiet_docker_run [quiet_intro]:
  "\<not> p (''docker'' # args) \<Longrightarrow> quiet p (docker_run P tol t args)"
  unfolding docker_run_def by (intro quiet_intro) simp

lemma gov_docker_stop:
  assumes "\<not> p (''docker'' # inspect_args c)" and "\<not> p [''docker'', ''stop'', ''--time'', ''10'', c]"
  shows "gov p G tr0 F (docker_stop P c) (\<lambda>_. insert (dk_stopped c) F)"
  unfolding docker_stop_def
  apply (rule gov_bnd, rule gov_quiet)
   apply (simp add: docker_running_def quiet_intro assms)
  apply (rule gov_seqc, rule gov_quiet)
   apply (intro quiet_intro) apply (simp add: assms)
  apply (rule gov_bnd, rule gov_docker_running, simp add: assms)
  apply (rule gov_raise_if) apply simp
  done

lemma gov_docker_psql:
  assumes "\<not> p (dk_psql_cmd st c q)"
  shows "gov p G tr0 F (docker_psql P st c q)
    (\<lambda>out. insert (\<lambda>e. \<exists>raw. answered (dk_psql_cmd st c q) raw e \<and> py_strip raw = out) F)"
  unfolding docker_psql_def docker_exec_def
  apply (rule gov_bnd [where Fx = "\<lambda>raw. insert (answered (dk_psql_cmd st c q) raw) F"])
   apply (rule gov_docker_run)
  using assms apply (simp add: dk_psql_cmd_def)
   apply (auto simp: answered_def dk_psql_cmd_def)[1]
  apply (simp add: gov_def wp)
  apply (auto simp: since_def shows_all_def list_ex_iff)
  done

section \<open>Waiting for the standby\<close>

lemma gov_await_target:
  assumes psql: "\<And>q F. q \<in> {q_recovery, q_replay_lsn} \<Longrightarrow> gov p G tr0 F (psql q) (\<lambda>out. insert (A q out) F)"
  shows "gov p G tr0 F (pv_await_target P cfg psql target)
    (\<lambda>_. insert (\<lambda>e. \<exists>out. A q_replay_lsn out e \<and> reached out target) F)"
proof -
  let ?R = "insert (\<lambda>e. \<exists>out. A q_replay_lsn out e \<and> reached out target) F"
  have "gov p G tr0 F (pv_observe_replay psql target) (\<lambda>x. case x of Some r \<Rightarrow> ?R | None \<Rightarrow> F)"
    unfolding pv_observe_replay_def
    apply (rule gov_bnd, rule psql, simp)
    apply (rule gov_bnd, rule psql, simp)
    apply (simp add: gov_def wp split: sum.splits)
    apply (auto simp: since_def shows_all_def list_ex_iff reached_def)
    done
  then show ?thesis
    unfolding pv_await_target_def
    by (intro gov_poll_for gov_throw gov_bnd gov_ret) auto
qed

section \<open>Docker: promotion only behind the fence\<close>

lemma quiet_request_json [quiet_intro]: "quiet p (pv_request_json P u t a)"
  unfolding pv_request_json_def by (intro quiet_intro)

lemma quiet_verify_indexer [quiet_intro]: "quiet p (pv_verify_indexer P cfg)"
  unfolding pv_verify_indexer_def by (intro quiet_intro) (auto intro: quiet_intro)

lemma not_promotes [simp]:
  "\<not> dk_promotes st d (''docker'' # docker_ps_args st' service)"
  "\<not> dk_promotes st d (''docker'' # inspect_args c)"
  "\<not> dk_promotes st d [''docker'', ''stop'', ''--time'', ''10'', c]"
  "\<not> dk_promotes st d (dk_psql_cmd st' c q)"
  "\<not> dk_promotes st d (''docker'' # ''network'' # args)"
  by (simp_all add: dk_promotes_def docker_ps_args_def inspect_args_def dk_psql_cmd_def psql_command_def
      promote_command_def)

lemma quiet_docker_psql: "\<not> p (dk_psql_cmd st c q) \<Longrightarrow> quiet p (docker_psql P st c q)"
  unfolding docker_psql_def docker_exec_def by (intro quiet_intro) (simp add: dk_psql_cmd_def)

lemma gov_capture_target:
  assumes "\<And>q F. q \<in> {q_synchronous, q_flush_lsn} \<Longrightarrow> gov p G tr0 F (psql q) (\<lambda>out. insert (A q out) F)"
    and "\<And>t. quiet p (checkpoint t)"
  shows "gov p G tr0 F (capture_target psql checkpoint) (\<lambda>target. insert (A q_flush_lsn target) F)"
  unfolding capture_target_def
  apply (rule gov_bnd, rule assms, simp)
  subgoal for synchronous
    apply (rule gov_seqc [where Fx = "\<lambda>_. F"], rule gov_raise_if, blast)
    apply (rule gov_bnd, rule assms, simp)
    apply (rule gov_bnd, rule gov_quiet, intro quiet_intro)
    apply (rule gov_seqc, rule gov_quiet, rule assms)
    apply (rule gov_ret, simp)
    done
  done

lemma gov_choose_target:
  assumes "\<And>t. quiet (dk_promotes st d) (checkpoint t)"
  shows "gov (dk_promotes st d) G tr0 F
    (if existing \<noteq> [] then ret existing
     else bnd (docker_running P primary) (\<lambda>primary_up.
          seqc (raise_if (\<not> primary_up) e) (capture_target (docker_psql P st primary) checkpoint)))
    (\<lambda>target. if existing \<noteq> [] \<and> target = existing then F
       else insert (\<lambda>e. \<exists>raw. answered (dk_psql_cmd st primary q_flush_lsn) raw e \<and> py_strip raw = target) F)"
  apply (rule gov_if)
   apply (rule gov_ret, simp)
  apply (rule gov_bnd, rule gov_quiet)
   apply (simp add: docker_running_def quiet_intro)
  apply (rule gov_seqc, rule gov_quiet, intro quiet_intro)
  apply (rule gov_post)
   apply (rule gov_capture_target)
    apply (rule gov_docker_psql, simp)
   apply (rule assms)
  apply simp
  done

lemma shows_all_insert [simp]: "shows_all (insert B F) tr \<longleftrightarrow> list_ex B tr \<and> shows_all F tr"
  by (auto simp: shows_all_def)

lemma gov_promote:
  assumes "\<forall>tr. shows_all F tr \<longrightarrow> dk_may_promote st existing c tr \<and> shows_all E tr"
    and "\<And>tr. dk_may_promote st existing d tr \<Longrightarrow> shows_all E tr \<Longrightarrow> G tr"
  shows "gov (dk_promotes st d) G tr0 F
    (docker_exec P (Some ''postgres'') c (promote_command (dk_pg_data st))) (\<lambda>_. {})"
  unfolding docker_exec_def
  apply (rule gov_docker_run)
  using assms apply (simp add: dk_promotes_def)
  apply simp
  done

lemma dk_may_promoteI:
  assumes "list_ex (dk_resolved st (dk_active_service st) a) tr" "list_ex (dk_stopped a) tr"
    and "list_ex (dk_resolved st (dk_primary_db_service st) b) tr" "list_ex (dk_stopped b) tr"
    and "list_ex (dk_resolved st (dk_standby_db_service st) c) tr"
    and "list_ex (\<lambda>e. \<exists>out. (\<exists>raw. answered (dk_psql_cmd st c q_replay_lsn) raw e \<and> py_strip raw = out) \<and>
           reached out target) tr"
    and "existing \<noteq> [] \<and> target = existing \<or>
         list_ex (\<lambda>e. \<exists>raw. answered (dk_psql_cmd st b q_flush_lsn) raw e \<and> py_strip raw = target) tr"
  shows "dk_may_promote st existing c tr"
proof -
  have "list_ex (dk_caught_up st c target) tr"
    using assms(6) unfolding dk_caught_up_def list_ex_iff by blast
  moreover have "dk_target_known st existing target tr"
    using assms(3,7) unfolding dk_target_known_def list_ex_iff by blast
  ultimately show ?thesis
    using assms(1-5) unfolding dk_may_promote_def dk_fenced_def by blast
qed

lemma quiet_docker_rest:
  "quiet (dk_promotes st d) (docker_disconnect P st c)"
  "quiet (dk_promotes st d) (docker_route_alias P st c alias)"
  by (simp_all add: docker_disconnect_def docker_route_alias_def quiet_intro)

lemma gov_whenc: "gov p G tr0 F m (\<lambda>_. F') \<Longrightarrow> F' \<subseteq> F \<Longrightarrow> gov p G tr0 F (whenc c m) (\<lambda>_. F')"
  unfolding whenc_def by (simp add: gov_ret)

lemma docker_prepare_gov:
  assumes chk: "\<And>t. quiet (dk_promotes st d) (checkpoint t)"
    and G: "\<And>tr. dk_may_promote st existing d tr \<Longrightarrow> shows_all E tr \<Longrightarrow> G tr"
  shows "gov (dk_promotes st d) G tr0 E
           (docker_prepare P cfg st request existing checkpoint) (\<lambda>_. {})"
  unfolding docker_prepare_def
  apply (rule gov_bnd, rule gov_docker_container, simp)
  apply (rule gov_bnd, rule gov_docker_container, simp)
  apply (rule gov_bnd, rule gov_docker_container, simp)
  apply (rule gov_bnd, rule gov_docker_container, simp)
  apply (rule gov_bnd, rule gov_docker_container, simp)
  apply (rule gov_seqc, rule gov_docker_stop, simp, simp)
  apply (rule gov_bnd, rule gov_quiet, simp add: docker_running_def quiet_intro)
  apply (rule gov_seqc, rule gov_quiet, intro quiet_intro)
  apply (rule gov_bnd, rule gov_choose_target, rule chk)
  apply (rule gov_bnd, rule gov_await_target, rule gov_docker_psql, simp)
  apply (rule gov_seqc, rule gov_docker_stop, simp, simp)
  apply (rule gov_bnd, rule gov_quiet, rule quiet_docker_psql, simp)
  apply (rule gov_seqc, rule gov_whenc, rule gov_bnd,
      rule gov_promote [where existing = existing and E = E])
      apply (intro allI impI)
      apply (simp only: shows_all_insert split: if_split_asm; elim conjE)
       apply (rule conjI, rule dk_may_promoteI, assumption, assumption, assumption, assumption, assumption, assumption, simp, rule TrueI)
      apply (rule conjI, rule dk_may_promoteI, assumption, assumption, assumption, assumption, assumption, assumption, simp, rule TrueI)
     apply (erule (1) G)
    apply (rule gov_ret, simp, simp)
  apply (rule gov_quiet_post)
   apply (intro quiet_intro quiet_docker_psql quiet_docker_rest)
   apply simp
  apply simp
  done

section \<open>Docker: signer activation only behind the fence\<close>

text \<open>At commit the active coordinator is observed stopped before the signer is started.\<close>

definition dk_may_start :: "docker_settings \<Rightarrow> string \<Rightarrow> event list \<Rightarrow> bool" where
  "dk_may_start st c tr \<longleftrightarrow>
     dk_fenced st (dk_active_service st) tr \<and> list_ex (dk_resolved st (dk_signer_service st) c) tr"

lemma not_starts [simp]:
  "\<not> dk_starts d (''docker'' # docker_ps_args st' service)"
  "\<not> dk_starts d (''docker'' # inspect_args c)"
  "\<not> dk_starts d [''docker'', ''stop'', ''--time'', ''10'', c]"
  "\<not> dk_starts d (''docker'' # ''network'' # args)"
  by (simp_all add: dk_starts_def docker_ps_args_def inspect_args_def)

lemma quiet_docker_routing:
  "(\<And>args. \<not> p (''docker'' # ''network'' # args)) \<Longrightarrow> quiet p (docker_disconnect P st c)"
  "(\<And>args. \<not> p (''docker'' # ''network'' # args)) \<Longrightarrow> quiet p (docker_route_alias P st c alias)"
  by (simp_all add: docker_disconnect_def docker_route_alias_def quiet_intro)

lemma quiet_signer_pass [quiet_intro]: "quiet p (pv_signer_pass P cfg urls seen)"
  by (induction urls arbitrary: seen) (auto intro!: quiet_intro split: prod.splits)

lemma quiet_verify_signer [quiet_intro]: "quiet p (pv_verify_signer_authority P cfg)"
  unfolding pv_verify_signer_authority_def
  by (auto intro!: quiet_intro simp: Let_def split: prod.splits)

lemma docker_commit_gov:
  assumes G: "\<And>tr. dk_may_start st d tr \<Longrightarrow> shows_all E tr \<Longrightarrow> G tr"
  shows "gov (dk_starts d) G tr0 E
     (docker_commit P cfg st operation_id owner_hash) (\<lambda>_. {})"
  unfolding docker_commit_def
  apply (rule gov_bnd, rule gov_docker_container, simp)
  apply (rule gov_bnd, rule gov_docker_container, simp)
  apply (rule gov_bnd, rule gov_docker_container, simp)
  apply (rule gov_seqc, rule gov_docker_stop, simp, simp)
  apply (rule gov_seqc, rule gov_quiet, rule quiet_docker_routing, simp)
  apply (rule gov_seqc, rule gov_quiet, rule quiet_docker_routing, simp)
  apply (rule gov_bnd, rule gov_quiet, simp add: docker_running_def quiet_intro)
  apply (rule gov_seqc, rule gov_whenc, rule gov_bnd, rule gov_docker_run [where F' = "\<lambda>_. {}"])
      apply (intro allI impI G)
       apply (auto simp: dk_may_start_def dk_fenced_def dk_starts_def)[2]
     apply simp
    apply (rule gov_ret, simp, simp)
  apply (rule gov_quiet_post)
   apply (intro quiet_intro)
   apply (simp add: docker_running_def quiet_intro)
  apply simp
  done

section \<open>Kubernetes: events\<close>

definition kubectl :: "kube_settings \<Rightarrow> string list \<Rightarrow> string list" where
  "kubectl st args = [''kubectl'', ''--namespace'', kb_namespace st] @ args"

text \<open>The event reports the object \<open>v\<close> for the named resource.\<close>

definition kb_got :: "kube_settings \<Rightarrow> string \<Rightarrow> json \<Rightarrow> event \<Rightarrow> bool" where
  "kb_got st kind_name v e \<longleftrightarrow>
     (\<exists>out. answered (kubectl st [''get'', kind_name, ''-o'', ''json'']) out e \<and> loads False out = Inr v)"

definition kb_scaled :: "kube_settings \<Rightarrow> string \<Rightarrow> string \<Rightarrow> int \<Rightarrow> event \<Rightarrow> bool" where
  "kb_scaled st kind name n e \<longleftrightarrow>
     (\<exists>v. kb_got st (kind @ ''/'' @ name) v e \<and> observed_replicas kind v = Inr n)"

definition kb_psql_cmd :: "kube_settings \<Rightarrow> string \<Rightarrow> string \<Rightarrow> string list" where
  "kb_psql_cmd st pod query =
     kubectl st ([''exec'', ''pod/'' @ pod, ''-c'', kb_postgres_container st, ''--''] @
                 psql_command (kb_pg_user st) (kb_pg_database st) query)"

definition kb_caught_up :: "kube_settings \<Rightarrow> string \<Rightarrow> event \<Rightarrow> bool" where
  "kb_caught_up st target e \<longleftrightarrow>
     (\<exists>out. answered (kb_psql_cmd st (kb_standby_db_pod st) q_replay_lsn) out e \<and> reached (py_strip out) target)"

definition kb_target_known :: "kube_settings \<Rightarrow> string \<Rightarrow> string \<Rightarrow> event list \<Rightarrow> bool" where
  "kb_target_known st existing target tr \<longleftrightarrow>
     existing \<noteq> [] \<and> target = existing \<or>
     (\<exists>out. list_ex (answered (kb_psql_cmd st (kb_primary_db_pod st) q_flush_lsn) out) tr \<and> target = py_strip out)"

definition kb_may_promote :: "kube_settings \<Rightarrow> string \<Rightarrow> event list \<Rightarrow> bool" where
  "kb_may_promote st existing tr \<longleftrightarrow>
     list_ex (kb_scaled st ''deployment'' (kb_active_deployment st) 0) tr \<and>
     list_ex (kb_scaled st ''statefulset'' (kb_primary_db_statefulset st) 0) tr \<and>
     (\<exists>target. kb_target_known st existing target tr \<and> list_ex (kb_caught_up st target) tr)"

definition kb_promotes :: "kube_settings \<Rightarrow> string list \<Rightarrow> bool" where
  "kb_promotes st cmd \<longleftrightarrow>
     cmd = kubectl st ([''exec'', ''pod/'' @ kb_standby_db_pod st, ''-c'', kb_postgres_container st, ''--''] @
                       promote_command (kb_pg_data st))"

text \<open>The command that gives the signer authority to sign: its deployment is scaled up.\<close>

definition kb_starts :: "kube_settings \<Rightarrow> string list \<Rightarrow> bool" where
  "kb_starts st cmd \<longleftrightarrow>
     cmd = kubectl st [''scale'', ''deployment/'' @ kb_signer_deployment st, ''--replicas=1'']"

definition kb_may_start :: "kube_settings \<Rightarrow> event list \<Rightarrow> bool" where
  "kb_may_start st tr \<longleftrightarrow> list_ex (kb_scaled st ''deployment'' (kb_active_deployment st) 0) tr"

section \<open>Kubernetes commands under a guard\<close>

lemma gov_kube_run:
  assumes "p (kubectl st args) \<Longrightarrow> \<forall>tr. shows_all F tr \<longrightarrow> G tr"
    and "\<And>pr. returncode pr = 0 \<Longrightarrow>
          \<forall>B\<in>F' (py_strip (stdout pr)). B \<in> F \<or> B (EvRun (kubectl st args) (Some pr))"
  shows "gov p G tr0 F (kube_run P st args) F'"
proof -
  have 1: "gov p G tr0 F (run_process P (kubectl st args) 30)
      (\<lambda>pr. if returncode pr = 0 then F' (py_strip (stdout pr)) else {})"
    using assms by (intro gov_run) (auto split: if_splits)
  show ?thesis
    unfolding kube_run_def
    by (rule gov_bnd [OF 1 [unfolded kubectl_def]], rule gov_seqc [where Fx = "\<lambda>_. F' (py_strip (stdout x))" for x],
        rule gov_raise_if) (auto intro: gov_ret)
qed

lemma quiet_kube_run: "\<not> p (kubectl st args) \<Longrightarrow> quiet p (kube_run P st args)"
  unfolding kube_run_def kubectl_def by (intro quiet_intro) simp

lemma gov_kube_get:
  assumes "\<not> p (kubectl st [''get'', k, ''-o'', ''json''])"
  shows "gov p G tr0 F (kube_get_json P st k) (\<lambda>v. insert (kb_got st k v) F)"
  unfolding kube_get_json_def
  apply (rule gov_bnd [where Fx = "\<lambda>out. insert (answered (kubectl st [''get'', k, ''-o'', ''json'']) out) F"])
   apply (rule gov_kube_run)
  using assms apply simp
   apply (auto simp: answered_def)[1]
  subgoal for out
    apply (cases "loads False out")
     apply (simp add: gov_throw)
    apply (simp add: gov_def wp)
    apply (auto simp: since_def shows_all_def kb_got_def list_ex_iff)
    done
  done

lemma quiet_kube_get: "\<not> p (kubectl st [''get'', k, ''-o'', ''json'']) \<Longrightarrow> quiet p (kube_get_json P st k)"
  unfolding kube_get_json_def
  by (intro quiet_intro quiet_kube_run) (auto intro: quiet_intro split: sum.splits)

lemma gov_scale_workload:
  assumes "\<not> p (kubectl st [''get'', kind @ ''/'' @ name, ''-o'', ''json''])"
    and "p (kubectl st [''scale'', kind @ ''/'' @ name, ''--replicas='' @ int_str n]) \<Longrightarrow>
           \<forall>tr. shows_all F tr \<longrightarrow> G tr"
  shows "gov p G tr0 F (kube_scale_workload P cfg st kind name n) (\<lambda>_. insert (kb_scaled st kind name n) F)"
  unfolding kube_scale_workload_def
  apply (rule gov_seqc [where Fx = "\<lambda>_. F"], rule gov_raise_if, blast)
  apply (rule gov_bnd [where Fx = "\<lambda>_. F"], rule gov_kube_run, rule assms, simp, simp)
  apply (rule gov_poll_for)
   apply (rule gov_bnd, rule gov_kube_get, rule assms)
   apply (simp add: gov_def wp split: sum.splits)
   apply (auto simp: since_def shows_all_def list_ex_iff kb_scaled_def)[1]
  apply (rule gov_throw)
  done

lemma gov_kube_psql:
  assumes "\<not> p (kb_psql_cmd st pod q)"
  shows "gov p G tr0 F (kube_psql P st pod q)
    (\<lambda>out. insert (\<lambda>e. \<exists>raw. answered (kb_psql_cmd st pod q) raw e \<and> py_strip raw = out) F)"
  unfolding kube_psql_def kube_exec_pg_def
  apply (rule gov_bnd [where Fx = "\<lambda>raw. insert (answered (kb_psql_cmd st pod q) raw) F"])
   apply (rule gov_kube_run)
  using assms apply (simp add: kb_psql_cmd_def)
   apply (auto simp: answered_def kb_psql_cmd_def)[1]
  apply (simp add: gov_def wp)
  apply (auto simp: since_def shows_all_def list_ex_iff)
  done

lemma quiet_kube_psql: "\<not> p (kb_psql_cmd st pod q) \<Longrightarrow> quiet p (kube_psql P st pod q)"
  unfolding kube_psql_def kube_exec_pg_def
  by (intro quiet_intro quiet_kube_run) (simp add: kb_psql_cmd_def)

lemma kb_commands_differ [simp]:
  "\<not> kb_promotes st (kubectl st (''get'' # args))"
  "\<not> kb_promotes st (kubectl st (''scale'' # args))"
  "\<not> kb_promotes st (kubectl st (''patch'' # args))"
  "\<not> kb_promotes st (kb_psql_cmd st pod q)"
  "\<not> kb_starts st (kubectl st (''get'' # args))"
  "\<not> kb_starts st (kubectl st (''patch'' # args))"
  "kb_starts st (kubectl st [''scale'', d, ''--replicas=0'']) = False"
  by (simp_all add: kb_promotes_def kb_starts_def kubectl_def kb_psql_cmd_def psql_command_def promote_command_def)

lemma quiet_patch_route:
  "(\<And>args. \<not> p (kubectl st (''get'' # args))) \<Longrightarrow> (\<And>args. \<not> p (kubectl st (''patch'' # args))) \<Longrightarrow>
   quiet p (kube_patch_route P st service)"
  unfolding kube_patch_route_def Let_def
  by (intro quiet_intro quiet_kube_run quiet_kube_get) simp_all

section \<open>Kubernetes: promotion and signer activation only behind the fence\<close>

lemma int_str_replicas: "int_str 0 = ''0''" "int_str 1 = ''1''"
  by (simp_all add: int_str_def nat_str.simps digit_char_def) (simp_all add: char_of_def bit_iff_odd)

lemma kb_may_promoteI:
  assumes "list_ex (kb_scaled st ''deployment'' (kb_active_deployment st) 0) tr"
    and "list_ex (kb_scaled st ''statefulset'' (kb_primary_db_statefulset st) 0) tr"
    and "list_ex (\<lambda>e. \<exists>out. (\<exists>raw. answered (kb_psql_cmd st (kb_standby_db_pod st) q_replay_lsn) raw e \<and>
           py_strip raw = out) \<and> reached out target) tr"
    and "existing \<noteq> [] \<and> target = existing \<or>
         list_ex (\<lambda>e. \<exists>raw. answered (kb_psql_cmd st (kb_primary_db_pod st) q_flush_lsn) raw e \<and>
           py_strip raw = target) tr"
  shows "kb_may_promote st existing tr"
proof -
  have "list_ex (kb_caught_up st target) tr"
    using assms(3) unfolding kb_caught_up_def list_ex_iff by blast
  moreover have "kb_target_known st existing target tr"
    using assms(4) unfolding kb_target_known_def list_ex_iff by blast
  ultimately show ?thesis
    using assms(1,2) unfolding kb_may_promote_def by blast
qed

lemma gov_kube_choose_target:
  assumes "\<And>t. quiet (kb_promotes st) (checkpoint t)"
  shows "gov (kb_promotes st) G tr0 F
    (if existing \<noteq> [] then ret existing else capture_target (kube_psql P st pod) checkpoint)
    (\<lambda>target. if existing \<noteq> [] \<and> target = existing then F
       else insert (\<lambda>e. \<exists>raw. answered (kb_psql_cmd st pod q_flush_lsn) raw e \<and> py_strip raw = target) F)"
  apply (rule gov_if)
   apply (rule gov_ret, simp)
  apply (rule gov_post, rule gov_capture_target, rule gov_kube_psql, simp)
   apply (rule assms)
  apply simp
  done

lemma gov_kube_promote:
  assumes "\<forall>tr. shows_all F tr \<longrightarrow> G tr"
  shows "gov p G tr0 F (kube_exec_pg P st c cmd) (\<lambda>_. {})"
  unfolding kube_exec_pg_def by (rule gov_kube_run) (use assms in simp_all)

lemma kube_prepare_gov:
  assumes chk: "\<And>t. quiet (kb_promotes st) (checkpoint t)"
    and G: "\<And>tr. kb_may_promote st existing tr \<Longrightarrow> shows_all E tr \<Longrightarrow> G tr"
  shows "gov (kb_promotes st) G tr0 E
           (kube_prepare P cfg st request existing checkpoint) (\<lambda>_. {})"
  unfolding kube_prepare_def kube_scale_def
  apply (rule gov_seqc, rule gov_scale_workload, simp, simp)
  apply (rule gov_bnd, rule gov_quiet, rule quiet_kube_get, simp)
  apply (rule gov_bnd, rule gov_quiet, intro quiet_intro)
  apply (rule gov_seqc, rule gov_quiet, intro quiet_intro)
  apply (rule gov_bnd, rule gov_kube_choose_target, rule chk)
  apply (rule gov_bnd, rule gov_await_target, rule gov_kube_psql, simp)
  apply (rule gov_seqc, rule gov_scale_workload, simp, simp)
  apply (rule gov_bnd, rule gov_quiet, rule quiet_kube_psql, simp)
  apply (rule gov_seqc, rule gov_whenc, rule gov_bnd, rule gov_kube_promote)
     apply (intro allI impI)
     apply (simp only: shows_all_insert split: if_split_asm; elim conjE)
      apply (rule G, rule kb_may_promoteI, assumption, assumption, assumption, simp, assumption)
     apply (rule G, rule kb_may_promoteI, assumption, assumption, assumption, simp, assumption)
    apply (rule gov_ret, simp, simp)
  apply (rule gov_quiet_post)
   apply (intro quiet_intro quiet_kube_psql quiet_patch_route)
     apply simp_all
  done

lemma kube_commit_gov:
  assumes G: "\<And>tr. kb_may_start st tr \<Longrightarrow> shows_all E tr \<Longrightarrow> G tr"
  shows "gov (kb_starts st) G tr0 E
     (kube_commit P cfg st operation_id owner_hash) (\<lambda>_. {})"
  unfolding kube_commit_def kube_scale_def
  apply (rule gov_seqc, rule gov_scale_workload, simp, simp add: int_str_replicas)
  apply (rule gov_seqc, rule gov_quiet, rule quiet_patch_route, simp, simp)
  apply (rule gov_seqc, rule gov_scale_workload, simp, intro allI impI G)
     apply (simp_all add: kb_may_start_def)
  apply (rule gov_quiet_post, intro quiet_intro, simp)
  done

end
