(* ===== verification/Failover_Contract.thy ===== *)
theory Failover_Contract
  imports Failover_Provider Failover_Safety
begin

text \<open>
  The contract between the provider and its driver, as a locale, and the proof that the Docker and
  the Kubernetes driver meet it. A driver touches the provider's own state only through the
  checkpoint it is handed, its loops end, and its responses have the promised content.
\<close>

section \<open>Operations that leave the provider's own state alone\<close>

text \<open>A framed predicate does not look at the surroundings, the clock or the trace.\<close>

definition framed :: "(('w, 'z) sys_scheme \<Rightarrow> bool) \<Rightarrow> bool" where
  "framed I \<longleftrightarrow> (\<forall>s w m tr. I s \<longrightarrow> I (s\<lparr>outside := w, mono := m, trace := tr\<rparr>))"

lemma framedD: "framed I \<Longrightarrow> I s \<Longrightarrow> I (s\<lparr>outside := w, mono := m, trace := tr\<rparr>)"
  by (simp add: framed_def)

lemma keeps_prims [keeps_intro]:
  assumes "framed I"
  shows "keeps I (run_process P cmd t)" "keeps I (http_exchange P rq t)" "keeps I (getaddrinfo P h n)"
    "keeps I (wall_ms P)" "keeps I monotonic" "keeps I (sleep_seconds P k)"
proof -
  have frame: "I s \<Longrightarrow> I (s\<lparr>outside := w, mono := m, trace := tr\<rparr>)" for s w m tr
    using assms by (rule framedD)
  have frame2: "I s \<Longrightarrow> I (s\<lparr>outside := w, mono := m\<rparr>)" for s w m
    using frame [where s = s and tr = "trace s"] by simp
  show "keeps I (run_process P cmd t)" "keeps I (http_exchange P rq t)" "keeps I (getaddrinfo P h n)"
    "keeps I (wall_ms P)" "keeps I monotonic" "keeps I (sleep_seconds P k)"
    using frame frame2
    by (simp_all add: keeps_def run_process_def http_exchange_def getaddrinfo_def wall_ms_def monotonic_def
        gets_def sleep_seconds_def split: prod.splits)
qed

lemma keeps_poll_for [keeps_intro]:
  "framed I \<Longrightarrow> (\<And>b. keeps I (body b)) \<Longrightarrow> (\<And>b. keeps I (late b)) \<Longrightarrow> keeps I (poll_for P n body late b)"
  unfolding poll_for_def by (intro keeps_intro)

text \<open>The three facts about an operation of the platform side: it keeps frames, moves on, and ends.\<close>

definition tame :: "(('w, 'z) sys_scheme, 'a) comp \<Rightarrow> bool" where
  "tame m \<longleftrightarrow> (\<forall>I. framed I \<longrightarrow> keeps I m) \<and> advances m \<and> fuelled m"

named_theorems tame_intro "operations that only touch the platform, and end"

lemma tameI: "(\<And>I. framed I \<Longrightarrow> keeps I m) \<Longrightarrow> advances m \<Longrightarrow> fuelled m \<Longrightarrow> tame m"
  by (simp add: tame_def)

lemma tameD:
  "tame m \<Longrightarrow> framed I \<Longrightarrow> keeps I m" "tame m \<Longrightarrow> advances m" "tame m \<Longrightarrow> fuelled m"
  by (simp_all add: tame_def)

lemma tame_bnd [tame_intro]: "tame m \<Longrightarrow> (\<And>x. tame (f x)) \<Longrightarrow> tame (bnd m f)"
  by (simp add: tame_def keeps_bnd advances_bnd fuelled_bnd)

lemma tame_seqc [tame_intro]: "tame m \<Longrightarrow> tame n \<Longrightarrow> tame (seqc m n)"
  by (simp add: tame_def keeps_seqc advances_seqc fuelled_seqc)

lemma tame_pure [tame_intro]:
  "tame (ret x)" "e \<noteq> OutOfFuel \<Longrightarrow> tame (throw e)" "tame (gets f)" "r \<noteq> Inl OutOfFuel \<Longrightarrow> tame (lift_res r)"
  "e \<noteq> OutOfFuel \<Longrightarrow> tame (raise_if c e)"
  by (simp_all add: tame_def keeps_intro advances_intro fuelled_pure)

lemma tame_if [tame_intro]: "tame m \<Longrightarrow> tame n \<Longrightarrow> tame (if c then m else n)"
  by simp

lemma tame_whenc [tame_intro]: "tame m \<Longrightarrow> tame (whenc c m)"
  by (simp add: tame_def keeps_whenc advances_whenc fuelled_whenc)

lemma tame_for_each [tame_intro]: "(\<And>x. tame (f x)) \<Longrightarrow> tame (for_each xs f)"
  by (simp add: tame_def keeps_for_each advances_for_each fuelled_for_each)

lemma tame_poll_for [tame_intro]:
  "(\<And>b. tame (body b)) \<Longrightarrow> (\<And>b. tame (late b)) \<Longrightarrow> tame (poll_for P n body late b)"
  by (simp add: tame_def keeps_poll_for poll_for_intros fuelled_poll_for)

lemma tame_prims [tame_intro]:
  "tame (run_process P cmd t)" "tame (http_exchange P rq t)" "tame (getaddrinfo P h n)"
  "tame (wall_ms P)" "tame monotonic" "tame (sleep_seconds P k)"
  by (simp_all add: tame_def keeps_prims advances_prims fuelled_prims)

section \<open>The platform side is tame\<close>

lemma pv_err_not_fuel [simp]: "pv_err st c m \<noteq> OutOfFuel" "invalid_config m \<noteq> OutOfFuel"
  by (simp_all add: pv_err_def invalid_config_def)

lemma lsn_not_fuel [simp]: "pv_lsn_value v \<noteq> Inl OutOfFuel"
  by (auto simp: pv_lsn_value_def rbind_eq_Inl split: option.splits)

lemma tame_request_json [tame_intro]: "tame (pv_request_json P u t a)"
  unfolding pv_request_json_def by (intro tame_intro)

lemma tame_verify_indexer [tame_intro]: "tame (pv_verify_indexer P cfg)"
  unfolding pv_verify_indexer_def by (auto intro!: tame_intro split: prod.splits)

lemma tame_signer_pass [tame_intro]: "tame (pv_signer_pass P cfg urls seen)"
  by (induction urls arbitrary: seen) (auto intro!: tame_intro split: prod.splits)

lemma tame_verify_signer [tame_intro]: "tame (pv_verify_signer_authority P cfg)"
  unfolding pv_verify_signer_authority_def by (auto intro!: tame_intro simp: Let_def split: prod.splits)

lemma tame_await_target [tame_intro]: "(\<And>q. tame (psql q)) \<Longrightarrow> tame (pv_await_target P cfg psql target)"
  unfolding pv_await_target_def pv_observe_replay_def by (auto intro!: tame_intro)

lemma tame_docker_run [tame_intro]: "tame (docker_run P tol t args)"
  unfolding docker_run_def by (auto intro!: tame_intro)

lemma tame_docker [tame_intro]:
  "tame (docker_container P st service)" "tame (docker_running P c)" "tame (docker_stop P c)"
  "tame (docker_exec P user c cmd)" "tame (docker_psql P st c q)" "tame (docker_disconnect P st c)"
  "tame (docker_route_alias P st c alias)"
  unfolding docker_container_def docker_running_def docker_stop_def docker_exec_def docker_psql_def
    docker_disconnect_def docker_route_alias_def
  by (auto intro!: tame_intro split: list.splits)

lemma tame_docker_commit [tame_intro]: "tame (docker_commit P cfg st oid h)"
  unfolding docker_commit_def by (auto intro!: tame_intro)

lemma tame_kube_run [tame_intro]: "tame (kube_run P st args)"
  unfolding kube_run_def by (auto intro!: tame_intro)

lemma attr_get_not_fuel [simp]: "attr_get v k d \<noteq> Inl OutOfFuel"
  by (cases v) simp_all

lemma json_int_not_fuel [simp]: "json_int v \<noteq> Inl OutOfFuel" "int_or_zero v \<noteq> Inl OutOfFuel"
proof -
  have f: "float_trunc r \<noteq> Inl OutOfFuel" for r
    by (simp add: float_trunc_def Let_def split: prod.splits option.splits)
  have p: "py_int s \<noteq> Inl OutOfFuel" for s
    by (auto simp: py_int_def Let_def split: list.splits option.splits)
  show "json_int v \<noteq> Inl OutOfFuel" by (cases v) (simp_all add: f p)
  then show "int_or_zero v \<noteq> Inl OutOfFuel" by (simp add: int_or_zero_def)
qed

lemma rbind_not_fuel: "r \<noteq> Inl OutOfFuel \<Longrightarrow> (\<And>x. f x \<noteq> Inl OutOfFuel) \<Longrightarrow> rbind r f \<noteq> Inl OutOfFuel"
  by (simp add: rbind_eq_Inl)

lemma tame_kube [tame_intro]:
  "tame (kube_get_json P st k)" "tame (kube_exec_pg P st pod cmd)" "tame (kube_psql P st pod q)"
  unfolding kube_get_json_def kube_exec_pg_def kube_psql_def
  by (auto intro!: tame_intro split: sum.splits)

lemma tame_kube_more [tame_intro]:
  "tame (kube_scale_workload P cfg st kind name n)" "tame (kube_patch_route P st service)"
  unfolding kube_scale_workload_def kube_patch_route_def Let_def observed_replicas_def
  by (intro tame_intro rbind_not_fuel; simp)+

lemma tame_kube_commit [tame_intro]: "tame (kube_commit P cfg st oid h)"
  unfolding kube_commit_def kube_scale_def by (intro tame_intro)

section \<open>What a driver promises\<close>

text \<open>
  The content of a successful preparation: the standby has replayed the fenced target, the answer
  is for this candidate, and every boundary the promotion controller asks about is stated.
\<close>

definition prepared_ok :: "dict \<Rightarrow> dict \<Rightarrow> bool" where
  "prepared_ok request r \<longleftrightarrow>
     (\<exists>target replay. r = pv_prepare_response target replay (jget request ''candidateId'') \<and> reached replay target)"

definition response_target :: "dict \<Rightarrow> string" where
  "response_target r = (case jget r ''primaryTargetLsn'' of JStr t \<Rightarrow> t | _ \<Rightarrow> [])"

lemma response_target_prepare [simp]: "response_target (pv_prepare_response target replay c) = target"
  by (simp add: response_target_def pv_prepare_response_def jget_def)

text \<open>
  \<open>prepare_target\<close>: without a recorded target the checkpoint has run on the target of the response,
  so whatever the checkpoint establishes holds at the end.
\<close>

locale failover_driver =
  fixes D :: "'w pv_driver" and cfg :: pv_config
  assumes prepare_frame: "framed I \<Longrightarrow> (\<And>t. lsn_pattern t \<Longrightarrow> keeps I (chk t)) \<Longrightarrow> keeps I (drv_prepare D rq ex chk)"
    and prepare_result: "wp (drv_prepare D rq ex chk) (\<lambda>r _. prepared_ok rq r) (\<lambda>_ _. True) s"
    and prepare_target: "(\<And>t. framed (R t)) \<Longrightarrow> (\<And>t s. wp (chk t) (\<lambda>_. R t) (\<lambda>_ _. True) s) \<Longrightarrow>
      wp (drv_prepare D rq [] chk) (\<lambda>r. R (response_target r)) (\<lambda>_ _. True) s"
    and prepare_ends: "(\<And>t. fuelled (chk t)) \<Longrightarrow> fuelled (drv_prepare D rq ex chk)"
    and commit_tame: "tame (drv_commit D oid h)"
    and commit_result: "wp (drv_commit D oid h) (\<lambda>r _. r = pv_commit_response cfg oid) (\<lambda>_ _. True) s"

section \<open>The drivers meet the contract\<close>

lemma wp_step:
  assumes "tame m" "framed I" "I s" and "\<And>x t. I t \<Longrightarrow> wp (f x) Q (\<lambda>_ _. True) t"
  shows "wp (bnd m f) Q (\<lambda>_ _. True) s"
proof -
  have "wp m (\<lambda>_. I) (\<lambda>_ _. True) s"
    using keepsD [OF tameD(1) [OF assms(1,2)] assms(3)] by (auto intro: wpI)
  then show ?thesis unfolding wp_bnd by (rule wp_mono) (auto intro: assms(4))
qed

lemma wp_step_seqc:
  assumes "tame m" "framed I" "I s" and "\<And>t. I t \<Longrightarrow> wp n Q (\<lambda>_ _. True) t"
  shows "wp (seqc m n) Q (\<lambda>_ _. True) s"
  unfolding seqc_def by (rule wp_step [OF assms(1-3)]) (rule assms(4))

lemma wp_any:
  assumes "\<And>x t. wp (f x) Q (\<lambda>_ _. True) t"
  shows "wp (bnd m f) Q (\<lambda>_ _. True) s"
  unfolding wp_bnd by (rule wpI) (simp_all add: assms)

lemma wp_any_seqc: "(\<And>t. wp n Q (\<lambda>_ _. True) t) \<Longrightarrow> wp (seqc m n) Q (\<lambda>_ _. True) s"
  unfolding seqc_def by (rule wp_any)

lemma wp_await_target:
  assumes "\<And>q. tame (psql q)" "framed I" "I s"
  shows "wp (pv_await_target P cfg psql target) (\<lambda>replay t. reached replay target \<and> I t) (\<lambda>_ _. True) s"
proof -
  have "wp (pv_observe_replay psql target) (\<lambda>x _. case x of Some r \<Rightarrow> reached r target | None \<Rightarrow> True)
      (\<lambda>_ _. True) t" for t
    unfolding pv_observe_replay_def
    by (intro wp_any) (auto simp: wp reached_def split: sum.splits)
  then have "wp (bnd (pv_observe_replay psql target) (\<lambda>found. ret (found, b)))
      (\<lambda>x _. case fst x of Some r \<Rightarrow> reached r target | None \<Rightarrow> True) (\<lambda>_ _. True) t" for b t
    unfolding wp_bnd by (rule wp_mono) (simp_all add: wp_ret)
  then have "wp (pv_await_target P cfg psql target) (\<lambda>replay t. reached replay target) (\<lambda>_ _. True) s"
    unfolding pv_await_target_def by (rule wp_poll_result) (simp add: wp_throw)
  moreover have "wp (pv_await_target P cfg psql target) (\<lambda>replay. I) (\<lambda>_ _. True) s"
    using keepsD [OF tameD(1) [OF tame_await_target [of psql, OF assms(1)] assms(2)] assms(3)]
    by (auto intro: wpI)
  ultimately show ?thesis by (rule wp_mono [OF wp_conj]) auto
qed

lemma wp_capture_target:
  assumes "\<And>t. framed (R t)" "\<And>t s. wp (chk t) (\<lambda>_. R t) (\<lambda>_ _. True) s"
  shows "wp (capture_target psql chk) R (\<lambda>_ _. True) s"
  unfolding capture_target_def
  apply (rule wp_any, rule wp_any_seqc, rule wp_any, rule wp_any)
  apply (subst wp_seqc, rule wp_mono [OF assms(2)])
   apply (simp_all add: wp_ret)
  done

text \<open>The common second half: a chosen target, the wait, and the tame rest of the operation.\<close>

definition prepare_post :: "dict \<Rightarrow> string \<Rightarrow> (string \<Rightarrow> 'w pv_state \<Rightarrow> bool) \<Rightarrow> dict \<Rightarrow> 'w pv_state \<Rightarrow> bool" where
  "prepare_post rq ex R r s \<longleftrightarrow>
     (\<exists>target replay. r = pv_prepare_response target replay (jget rq ''candidateId'') \<and>
        reached replay target \<and> (ex = [] \<longrightarrow> R target s))"

lemma framed_imp: "framed I \<Longrightarrow> framed (\<lambda>s. b \<longrightarrow> I s)"
  by (simp add: framed_def)

lemma docker_prepare_post:
  assumes R: "\<And>t. framed (R t)" and chk: "\<And>t s. wp (chk t) (\<lambda>_. R t) (\<lambda>_ _. True) s"
  shows "wp (docker_prepare P cfg st rq ex chk) (prepare_post rq ex R) (\<lambda>_ _. True) s"
proof -
  have choose: "wp (if ex \<noteq> [] then ret ex
     else bnd (docker_running P primary) (\<lambda>primary_up.
          seqc (raise_if (\<not> primary_up) e) (capture_target (docker_psql P st primary) chk)))
     (\<lambda>target t. ex = [] \<longrightarrow> R target t) (\<lambda>_ _. True) s" for primary e s
    apply (subst wp_if, cases "ex \<noteq> []"; simp only: if_True if_False simp_thms)
     apply (simp add: wp_ret)
    apply (rule wp_any, rule wp_any_seqc, rule wp_capture_target [OF R chk])
    done
  show ?thesis
    unfolding docker_prepare_def
    apply (rule wp_any)+
    apply (rule wp_any_seqc)
    apply (rule wp_any)
    apply (rule wp_any_seqc)
    apply (subst wp_bnd, rule wp_mono [OF choose])
     apply (subst wp_bnd, rule wp_mono [OF wp_await_target], intro tame_intro, rule framed_imp, rule R, assumption)
      apply (erule conjE)
      apply (rule wp_step_seqc, rule tame_intro, rule framed_imp, rule R, assumption)
      apply (rule wp_step, rule tame_intro, rule framed_imp, rule R, assumption)
      apply (rule wp_step_seqc, intro tame_intro, rule framed_imp, rule R, assumption)
      apply (rule wp_step, rule tame_intro, rule framed_imp, rule R, assumption)
      apply (rule wp_step_seqc, intro tame_intro, simp, rule framed_imp, rule R, assumption)
      apply (rule wp_step_seqc, rule tame_intro, rule framed_imp, rule R, assumption)
      apply (rule wp_step_seqc, rule tame_intro, rule framed_imp, rule R, assumption)
      apply (rule wp_step_seqc, rule tame_intro, rule framed_imp, rule R, assumption)
      apply (simp add: wp_ret prepare_post_def, blast)
     apply simp_all
    done
qed

lemma kube_prepare_post:
  assumes R: "\<And>t. framed (R t)" and chk: "\<And>t s. wp (chk t) (\<lambda>_. R t) (\<lambda>_ _. True) s"
  shows "wp (kube_prepare P cfg st rq ex chk) (prepare_post rq ex R) (\<lambda>_ _. True) s"
proof -
  have choose: "wp (if ex \<noteq> [] then ret ex else capture_target (kube_psql P st pod) chk)
     (\<lambda>target t. ex = [] \<longrightarrow> R target t) (\<lambda>_ _. True) s" for pod s
    apply (subst wp_if, cases "ex \<noteq> []"; simp only: if_True if_False simp_thms)
     apply (simp add: wp_ret)
    apply (rule wp_capture_target [OF R chk])
    done
  show ?thesis
    unfolding kube_prepare_def
    apply (rule wp_any_seqc)
    apply (rule wp_any)+
    apply (rule wp_any_seqc)
    apply (subst wp_bnd, rule wp_mono [OF choose])
     apply (subst wp_bnd, rule wp_mono [OF wp_await_target], intro tame_intro, rule framed_imp, rule R, assumption)
      apply (erule conjE)
      apply (rule wp_step_seqc, rule tame_intro, rule framed_imp, rule R, assumption)
      apply (rule wp_step, rule tame_intro, rule framed_imp, rule R, assumption)
      apply (rule wp_step_seqc, intro tame_intro, rule framed_imp, rule R, assumption)
      apply (rule wp_step, rule tame_intro, rule framed_imp, rule R, assumption)
      apply (rule wp_step_seqc, intro tame_intro, simp, rule framed_imp, rule R, assumption)
      apply (rule wp_step_seqc, rule tame_intro, rule framed_imp, rule R, assumption)
      apply (rule wp_step_seqc, rule tame_intro, rule framed_imp, rule R, assumption)
      apply (simp add: wp_ret prepare_post_def, blast)
     apply simp_all
    done
qed

lemma keeps_capture_target [keeps_intro]:
  assumes I: "framed I" and psql: "\<And>q. tame (psql q)" and chk: "\<And>t. lsn_pattern t \<Longrightarrow> keeps I (chk t)"
  shows "keeps I (capture_target psql chk)"
proof -
  have "keeps I (bnd (lift_res (pv_lsn_value t)) (\<lambda>_. seqc (chk t) (ret t)))" for t
    using chk [of t] pv_lsn_value_Inr [of t]
    by (cases "pv_lsn_value t") (auto simp: lift_res_def bnd_def keeps_def seqc_def ret_def split: prod.splits sum.splits)
  then show ?thesis
    unfolding capture_target_def
    by (intro keeps_bnd [OF tameD(1) [OF psql I]] keeps_seqc keeps_raise_if)
qed

lemma fuelled_capture_target [fuelled_intro]:
  "(\<And>q. tame (psql q)) \<Longrightarrow> (\<And>t. fuelled (chk t)) \<Longrightarrow> fuelled (capture_target psql chk)"
  unfolding capture_target_def by (auto intro!: fuelled_intro dest: tameD(3))

lemma keeps_tame: "framed I \<Longrightarrow> tame m \<Longrightarrow> keeps I m"
  by (rule tameD(1))

lemma docker_prepare_keeps:
  assumes "framed I" and chk: "\<And>t. lsn_pattern t \<Longrightarrow> keeps I (chk t)"
  shows "keeps I (docker_prepare P cfg st rq ex chk)"
  unfolding docker_prepare_def
  by (intro keeps_bnd keeps_seqc keeps_if keeps_capture_target)
    ((rule chk, assumption) | rule keeps_tame [OF assms(1)] assms(1) | (intro tame_intro; simp))+

lemma kube_prepare_keeps:
  assumes "framed I" and chk: "\<And>t. lsn_pattern t \<Longrightarrow> keeps I (chk t)"
  shows "keeps I (kube_prepare P cfg st rq ex chk)"
  unfolding kube_prepare_def kube_scale_def
  by (intro keeps_bnd keeps_seqc keeps_if keeps_capture_target)
    ((rule chk, assumption) | rule keeps_tame [OF assms(1)] assms(1) | (intro tame_intro rbind_not_fuel; simp))+

lemma docker_prepare_fuelled:
  assumes chk: "\<And>t. fuelled (chk t)"
  shows "fuelled (docker_prepare P cfg st rq ex chk)"
  unfolding docker_prepare_def
  by (intro fuelled_bnd fuelled_seqc fuelled_if fuelled_capture_target)
    (rule chk | rule tameD(3) | (intro tame_intro; simp))+

lemma kube_prepare_fuelled:
  assumes chk: "\<And>t. fuelled (chk t)"
  shows "fuelled (kube_prepare P cfg st rq ex chk)"
  unfolding kube_prepare_def kube_scale_def
  by (intro fuelled_bnd fuelled_seqc fuelled_if fuelled_capture_target)
    (rule chk | rule tameD(3) | (intro tame_intro rbind_not_fuel; simp))+

lemma commit_results:
  "wp (docker_commit P cfg st oid h) (\<lambda>r _. r = pv_commit_response cfg oid) (\<lambda>_ _. True) s"
  "wp (kube_commit P cfg kst oid h) (\<lambda>r _. r = pv_commit_response cfg oid) (\<lambda>_ _. True) s"
  unfolding docker_commit_def kube_commit_def
  by (intro wp_any wp_any_seqc; simp add: wp_ret)+

interpretation docker: failover_driver "docker_driver P cfg st" cfg for P cfg st
  apply unfold_locales
       apply (simp_all add: docker_driver_def docker_prepare_fuelled tame_docker_commit
        commit_results)
    apply (rule docker_prepare_keeps; blast)
   apply (rule wp_mono [OF docker_prepare_post [where R = "\<lambda>_ _. True"]])
      apply (auto simp: framed_def wp_def prepare_post_def prepared_ok_def split: prod.splits sum.splits)[4]
  apply (rule wp_mono [OF docker_prepare_post])
     apply (auto simp: prepare_post_def)
  done

interpretation kube: failover_driver "kube_driver P cfg st" cfg for P cfg st
  apply unfold_locales
       apply (simp_all add: kube_driver_def kube_prepare_fuelled tame_kube_commit
        commit_results)
    apply (rule kube_prepare_keeps; blast)
   apply (rule wp_mono [OF kube_prepare_post [where R = "\<lambda>_ _. True"]])
      apply (auto simp: framed_def wp_def prepare_post_def prepared_ok_def split: prod.splits sum.splits)[4]
  apply (rule wp_mono [OF kube_prepare_post])
     apply (auto simp: prepare_post_def)
  done

lemma built_driver: "pv_build_driver P env cfg = Inr D \<Longrightarrow> failover_driver D cfg"
  unfolding pv_build_driver_def
  using docker.failover_driver_axioms kube.failover_driver_axioms by (auto split: if_splits)

end
