(* ===== verification/Failover_Lifecycle.thy ===== *)
theory Failover_Lifecycle
  imports Failover_Contract
begin

text \<open>
  The life of a failover operation: what holds of every recorded operation, how an operation may
  change from one request to the next, and that the state file always agrees with the memory, so
  that a restart changes nothing. The provider's lemmas are proved once for any driver that meets
  the contract.
\<close>

section \<open>Tables keyed by text\<close>

lemma ops_get_put_text:
  "ops_get (ops_put k v ops) (JStr oid) = (if k = JStr oid then v else ops_get ops (JStr oid))"
  by (induction k v ops rule: ops_put.induct) (auto simp: ops_get_def)

lemma ops_put_text: "ops_put (JStr oid) v ops = dput (JStr oid) v ops"
  by (induction ops) auto

lemma ops_get_text: "ops_get ops (JStr oid) = (case map_of ops (JStr oid) of Some v \<Rightarrow> v | None \<Rightarrow> JNull)"
  by (induction ops) (auto simp: ops_get_def)

lemma ops_put_put_text: "ops_put (JStr oid) v (ops_put (JStr oid) w ops) = ops_put (JStr oid) v ops"
  unfolding ops_put_text by (induction ops) auto

lemma dput_set: "set (dput k v d) \<subseteq> insert (k, v) (set d)"
  by (induction d) auto

lemma ops_get_in: "ops_get ops (JStr oid) = v \<Longrightarrow> v \<noteq> JNull \<Longrightarrow> (JStr oid, v) \<in> set ops"
  by (auto simp: ops_get_text split: option.splits dest: map_of_SomeD)

lemma ops_get_mem: "distinct (map fst ops) \<Longrightarrow> (JStr oid, v) \<in> set ops \<Longrightarrow> ops_get ops (JStr oid) = v"
  by (simp add: ops_get_text)

lemma jget_dput [simp]: "jget (dput k v d) k' = (if k' = k then v else jget d k')"
  by (simp add: jget_def)

lemma plain_dput: "plain_json (JObj d) \<Longrightarrow> plain_text k \<Longrightarrow> plain_json v \<Longrightarrow> plain_json (JObj (dput k v d))"
  using dput_set [of k v d] by (auto simp: list_all_iff)

lemma plain_jget: "plain_json (JObj d) \<Longrightarrow> plain_json (jget d k)"
  by (auto simp: jget_def list_all_iff split: option.splits dest: map_of_SomeD)

section \<open>Printable values\<close>

lemma lower_alnum_plain: "is_lower_alnum c \<Longrightarrow> 32 \<le> code c \<and> code c < 127"
  by (auto simp: class_defs)

lemma rep_match_plain:
  "rep_match p lo hi s \<Longrightarrow> (\<And>c. p c \<Longrightarrow> 32 \<le> code c \<and> code c < 127) \<Longrightarrow> plain_text s"
  by (auto simp: rep_match_def plain_text_def list_all_iff)

lemma safe_id_plain: "pv_safe_id s \<Longrightarrow> plain_text s"
proof (cases s)
  case (Cons c t)
  assume "pv_safe_id s"
  with Cons have c: "is_lower_alnum c" and t: "rep_match (plus_of is_lower_alnum ''._:-'') 7 199 t"
    by (simp_all add: pv_safe_id_def)
  have "plain_text t"
    by (rule rep_match_plain [OF t]) (auto simp: plus_of_def dest: lower_alnum_plain, simp_all add: code_def)
  with Cons c show ?thesis by (simp add: plain_text_simps lower_alnum_plain)
qed (simp add: plain_text_simps)

lemma hex64_plain: "hex64 s \<Longrightarrow> plain_text s"
  unfolding hex64_def by (erule rep_match_plain) (auto simp: class_defs)

lemma lsn_plain: "lsn_pattern s \<Longrightarrow> plain_text s"
proof -
  assume "lsn_pattern s"
  then obtain a b where ab: "split_once (CHR ''/'') s = Some (a, b)" "list_all is_hex a" "list_all is_hex b"
    by (auto simp: lsn_pattern_def split: option.splits)
  have "split_once c u = Some (x, y) \<Longrightarrow> u = x @ c # y" for c u x y
    by (induction u arbitrary: x) (auto split: if_splits option.splits)
  then have "s = a @ CHR ''/'' # b" using ab(1) by blast
  moreover have "plain_text u" if "list_all is_hex u" for u
    using that unfolding plain_text_def by (rule list.pred_mono_strong) (auto simp: class_defs)
  ultimately show ?thesis
    using ab(2,3) by (simp add: plain_text_def) (simp add: code_def)
qed

lemma reached_plain: "reached r t \<Longrightarrow> plain_text r \<and> plain_text t"
  unfolding reached_def using pv_lsn_value_Inr lsn_plain by blast

section \<open>A recorded operation\<close>

text \<open>
  What holds of every entry of the table: a target has its capture time, a response is recorded from
  the prepared phase on, the commit response exactly in the committed phase, and commit input is
  recorded before the driver commits.
\<close>

definition phase_of :: "dict \<Rightarrow> json" where
  "phase_of d = jget d ''phase''"

definition ready_flags :: "string list" where
  "ready_flags = [''activeFenced'', ''oldWriterTerminated'', ''targetCapturedByProvider'', ''databasePromoted'',
     ''standbyReplayAtOrAfterTarget'', ''indexerHeadMatchesL1'', ''stableDatabaseEndpointRouted'']"

text \<open>The content of a prepare response for the candidate \<open>c\<close>.\<close>

definition ready_response :: "json \<Rightarrow> dict \<Rightarrow> bool" where
  "ready_response c r \<longleftrightarrow>
     jget r ''operationId'' = c \<and> list_all (\<lambda>f. jget r f = JBool True) ready_flags \<and>
     jget r ''status'' = JStr ''READY_FOR_APPLICATION_PROMOTION'' \<and>
     jget r ''primaryTargetSource'' = JStr ''durable-fenced-wal-checkpoint'' \<and>
     jget r ''standbySignerAuthorityActive'' = JBool False \<and> jget r ''checkpointAgeSeconds'' = JInt 0 \<and>
     (\<exists>target replay. jget r ''primaryTargetLsn'' = JStr target \<and> jget r ''standbyReplayLsn'' = JStr replay \<and>
        reached replay target)"

definition op_ok :: "dict \<Rightarrow> bool" where
  "op_ok d \<longleftrightarrow>
     plain_json (JObj d) \<and> is_str (jget d ''candidateId'') \<and>
     (phase_of d \<noteq> JStr ''PREPARING'' \<longrightarrow>
        (\<exists>r. jget d ''prepareResponse'' = JObj r \<and> ready_response (jget d ''candidateId'') r)) \<and>
     phase_of d \<in> {JStr ''PREPARING'', JStr ''PREPARED'', JStr ''COMMITTED''} \<and>
     (recorded_target d \<noteq> [] \<longrightarrow> is_int (jget d ''targetCapturedAtUnixMs'')) \<and>
     (phase_of d = JStr ''PREPARING'' \<longrightarrow>
        \<not> truthy (jget d ''prepareResponse'') \<and> \<not> truthy (jget d ''commitKeySha256'')) \<and>
     (phase_of d \<noteq> JStr ''PREPARING'' \<longrightarrow>
        truthy (jget d ''prepareResponse'') \<and> is_int (jget d ''targetCapturedAtUnixMs'')) \<and>
     (truthy (jget d ''commitResponse'') \<longleftrightarrow> phase_of d = JStr ''COMMITTED'') \<and>
     (phase_of d = JStr ''COMMITTED'' \<longrightarrow> truthy (jget d ''commitKeySha256''))"

text \<open>
  How an entry may change: the input it was prepared with never, the prepare response never once
  prepared, the commit input never once recorded, and nothing at all once committed.
\<close>

definition evolves :: "dict \<Rightarrow> dict \<Rightarrow> bool" where
  "evolves d d' \<longleftrightarrow>
     same_value (jget d ''prepareKeySha256'') (jget d' ''prepareKeySha256'') \<and>
     same_value (jget d ''prepareRequestSha256'') (jget d' ''prepareRequestSha256'') \<and>
     (phase_of d \<noteq> JStr ''PREPARING'' \<longrightarrow>
        phase_of d' \<noteq> JStr ''PREPARING'' \<and> same_value (jget d ''prepareResponse'') (jget d' ''prepareResponse'')) \<and>
     (truthy (jget d ''commitKeySha256'') \<longrightarrow>
        same_value (jget d ''commitKeySha256'') (jget d' ''commitKeySha256'') \<and>
        same_value (jget d ''commitRequestSha256'') (jget d' ''commitRequestSha256'')) \<and>
     (phase_of d = JStr ''COMMITTED'' \<longrightarrow> same_value (JObj d) (JObj d'))"

lemma evolves_refl [simp]: "evolves d d"
  by (simp add: evolves_def)

lemma evolves_trans:
  assumes "evolves d1 d2" "evolves d2 d3"
    and "distinct (map fst d1)" "distinct (map fst d2)" "distinct (map fst d3)"
  shows "evolves d1 d3"
proof -
  have "phase_of d2 = JStr ''COMMITTED''" if "phase_of d1 = JStr ''COMMITTED''"
    using that assms same_value_jget [of d1 d2 "''phase''"]
    by (auto simp: evolves_def phase_of_def same_value_str)
  moreover have "truthy (jget d2 ''commitKeySha256'')" if "truthy (jget d1 ''commitKeySha256'')"
    using that assms(1) truthy_same by (auto simp: evolves_def)
  ultimately show ?thesis
    using assms(1,2) unfolding evolves_def by (meson same_value_trans)
qed

lemma evolves_jsort: "distinct (map fst d) \<Longrightarrow> jsort (JObj d) = JObj d' \<Longrightarrow> evolves d d'"
  unfolding evolves_def phase_of_def same_value_def
  by (simp add: jget_jsort del: jsort.simps) (metis jsort_idem)

lemma ready_response_jsort:
  assumes r: "ready_response (JStr c) r" and d: "distinct (map fst r)" and j: "jsort (JObj r) = JObj r'"
  shows "ready_response (JStr c) r'"
  using r unfolding ready_response_def jget_jsort [OF d j] by simp

lemma op_ok_jsort:
  assumes "op_ok d" and e: "jsort (JObj d) = JObj d'"
  shows "op_ok d'"
proof -
  have d: "distinct (map fst d)" using assms(1) by (simp add: op_ok_def)
  have "plain_json (JObj d')" using plain_jsort [of "JObj d"] assms by (simp add: op_ok_def)
  moreover have "recorded_target d' = recorded_target d"
    unfolding recorded_target_def jget_jsort [OF d e] by (cases "jget d ''primaryTargetLsn''") simp_all
  moreover have "\<exists>r'. jget d' ''prepareResponse'' = JObj r' \<and> ready_response (jget d' ''candidateId'') r'"
    if "phase_of d' \<noteq> JStr ''PREPARING''"
  proof -
    have "phase_of d \<noteq> JStr ''PREPARING''" using that by (simp add: phase_of_def jget_jsort [OF d e])
    then obtain r c where r: "jget d ''prepareResponse'' = JObj r" "ready_response (jget d ''candidateId'') r"
        "jget d ''candidateId'' = JStr c"
      using assms(1) unfolding op_ok_def by (metis is_str.elims(2))
    obtain r' where r': "jsort (JObj r) = JObj r'" by simp
    have "plain_json (JObj r)" using plain_jget [of d "''prepareResponse''"] r(1) assms(1) by (simp add: op_ok_def)
    then have "distinct (map fst r)" by simp
    with r r' ready_response_jsort show ?thesis by (simp add: jget_jsort [OF d e] del: jsort.simps(2))
  qed
  ultimately show ?thesis
    using assms(1) by (simp add: op_ok_def phase_of_def jget_jsort [OF d e])
qed

section \<open>The state of the provider\<close>

abbreviation entry :: "'w pv_state \<Rightarrow> string \<Rightarrow> json" where
  "entry s oid \<equiv> ops_get (pv_ops s) (JStr oid)"

definition fresh_doc :: dict where
  "fresh_doc = [(''schemaVersion'', JInt 1), (''operations'', JObj [])]"

definition table_ok :: "op_table \<Rightarrow> bool" where
  "table_ok ops \<longleftrightarrow>
     distinct (map fst ops) \<and>
     (\<forall>kv\<in>set ops. \<exists>oid d. kv = (JStr oid, JObj d) \<and> plain_text oid \<and> op_ok d \<and> jget d ''candidateId'' = JStr oid)"

text \<open>The file, when there is one, is the memory; before the first write the memory is the fresh document.\<close>

definition synced :: "'w pv_state \<Rightarrow> bool" where
  "synced s \<longleftrightarrow>
     pv_disk s = Some (state_bytes (pv_doc s) (pv_ops s)) \<or>
     pv_disk s = None \<and> pv_doc s = fresh_doc \<and> pv_ops s = []"

definition state_ok :: "'w pv_state \<Rightarrow> bool" where
  "state_ok s \<longleftrightarrow> plain_json (JObj (pv_doc s)) \<and> eq_int (jget (pv_doc s) ''schemaVersion'') 1 \<and>
     table_ok (pv_ops s) \<and> synced s"

text \<open>What a request may do to the state it started from.\<close>

definition follows :: "'w pv_state \<Rightarrow> 'w pv_state \<Rightarrow> bool" where
  "follows s0 s \<longleftrightarrow> state_ok s \<and>
     (\<forall>oid d. entry s0 oid = JObj d \<longrightarrow> (\<exists>d'. entry s oid = JObj d' \<and> evolves d d'))"

lemma follows_refl: "state_ok s \<Longrightarrow> follows s s"
  by (simp add: follows_def)

lemma table_entry: "table_ok ops \<Longrightarrow> ops_get ops (JStr oid) = JObj d \<Longrightarrow>
   op_ok d \<and> plain_text oid \<and> jget d ''candidateId'' = JStr oid"
  unfolding table_ok_def using ops_get_in [of ops oid "JObj d"] by force

lemma table_entry_cases:
  assumes "table_ok ops"
  obtains "ops_get ops (JStr oid) = JNull" | d where "ops_get ops (JStr oid) = JObj d" "op_ok d"
  using assms ops_get_in [of ops oid "ops_get ops (JStr oid)"] unfolding table_ok_def by fastforce

lemma op_ok_nonempty: "op_ok d \<Longrightarrow> d \<noteq> []"
  by (auto simp: op_ok_def phase_of_def jget_def)

lemma op_ok_distinct: "op_ok d \<Longrightarrow> distinct (map fst d)"
  by (simp add: op_ok_def)

lemma follows_trans:
  assumes "state_ok s0" "follows s0 s1" "follows s1 s2"
  shows "follows s0 s2"
  unfolding follows_def
proof (intro conjI allI impI)
  show "state_ok s2" using assms by (simp add: follows_def)
  fix oid d
  assume e0: "entry s0 oid = JObj d"
  then obtain d1 where e1: "entry s1 oid = JObj d1" "evolves d d1"
    using assms(2) by (auto simp: follows_def)
  then obtain d2 where e2: "entry s2 oid = JObj d2" "evolves d1 d2"
    using assms(3) by (auto simp: follows_def)
  have "distinct (map fst d)" "distinct (map fst d1)" "distinct (map fst d2)"
    using assms e0 e1 e2 op_ok_distinct table_entry unfolding follows_def state_ok_def by metis+
  with e1 e2 evolves_trans show "\<exists>d'. entry s2 oid = JObj d' \<and> evolves d d'" by metis
qed

text \<open>A written table: \<open>set_fields\<close> or a new entry, then \<open>save\<close>.\<close>

definition saved :: "'w pv_state \<Rightarrow> 'w pv_state" where
  "saved s = (let b = state_bytes (pv_doc s) (pv_ops s) in s\<lparr>trace := EvSave b # trace s, pv_disk := Some b\<rparr>)"

lemma saved_simps [simp]:
  "pv_ops (saved s) = pv_ops s" "pv_doc (saved s) = pv_doc s" "mono (saved s) = mono s" "outside (saved s) = outside s"
  by (simp_all add: saved_def Let_def)

lemma table_sortable: "table_ok ops \<Longrightarrow> ops_sortable ops"
  by (auto simp: table_ok_def ops_sortable_def list_all_iff)

lemma save_text: "table_ok (pv_ops s) \<Longrightarrow> pv_save s = (Inr (), saved s)"
  using table_sortable by (simp add: pv_save_def saved_def Let_def)

lemma table_put:
  assumes "table_ok ops" "op_ok d" "plain_text oid" "jget d ''candidateId'' = JStr oid"
  shows "table_ok (ops_put (JStr oid) (JObj d) ops)"
proof -
  have "distinct (map fst (ops_put (JStr oid) (JObj d) ops))"
    using assms(1) by (simp add: ops_put_text table_ok_def)
  moreover have "set (ops_put (JStr oid) (JObj d) ops) \<subseteq> insert (JStr oid, JObj d) (set ops)"
    unfolding ops_put_text by (rule dput_set)
  ultimately show ?thesis using assms unfolding table_ok_def by blast
qed

text \<open>Writing back a later version of an entry, or a first one, follows.\<close>

lemma follows_put:
  assumes "state_ok s0" and "follows s0 s" and "op_ok d'" and "plain_text oid" and "jget d' ''candidateId'' = JStr oid"
    and "entry s oid = JObj d \<and> evolves d d' \<or> entry s oid = JNull"
    and ops: "pv_ops t = ops_put (JStr oid) (JObj d') (pv_ops s)" and "pv_doc t = pv_doc s"
  shows "follows s0 (saved t)"
  unfolding follows_def
proof (intro conjI allI impI)
  show "state_ok (saved t)"
    using assms table_put by (auto simp: follows_def state_ok_def synced_def saved_def Let_def)
  fix k e
  assume "entry s0 k = JObj e"
  then obtain e1 where e1: "entry s k = JObj e1" "evolves e e1"
    using assms(2) by (auto simp: follows_def)
  show "\<exists>d'. entry (saved t) k = JObj d' \<and> evolves e d'"
  proof (cases "k = oid")
    case True
    with e1 assms(6) have "e1 = d" "evolves d d'" by auto
    moreover have "distinct (map fst e)" "distinct (map fst d)" "distinct (map fst d')"
      using assms(1-3) \<open>entry s0 k = JObj e\<close> e1 \<open>e1 = d\<close> op_ok_distinct table_entry
      unfolding follows_def state_ok_def by metis+
    ultimately show ?thesis using True e1 evolves_trans by (auto simp: ops ops_get_put_text)
  next
    case False
    with e1 show ?thesis by (simp add: ops ops_get_put_text)
  qed
qed

lemma framed_follows [simp]: "framed (follows s0)" "framed (\<lambda>s. follows s0 s \<and> Q (pv_ops s))"
  by (simp_all add: framed_def follows_def state_ok_def synced_def)

section \<open>The checkpoint\<close>

definition captured :: "string \<Rightarrow> op_table \<Rightarrow> bool" where
  "captured oid ops \<longleftrightarrow> (\<exists>d. ops_get ops (JStr oid) = JObj d \<and> is_int (jget d ''targetCapturedAtUnixMs''))"

definition preparing :: "string \<Rightarrow> dict \<Rightarrow> op_table \<Rightarrow> bool" where
  "preparing oid d0 ops \<longleftrightarrow>
     (\<exists>d. ops_get ops (JStr oid) = JObj d \<and> phase_of d = JStr ''PREPARING'' \<and> evolves d0 d)"

lemma set_fields_text:
  assumes "entry s oid = JObj d"
  shows "set_fields (JStr oid) kvs s = (Inr (), s\<lparr>pv_ops := ops_put (JStr oid) (JObj (dputs kvs d)) (pv_ops s)\<rparr>)"
  using assms by (simp add: set_fields_def modify_def)

lemma checkpoint_text:
  assumes "entry s oid = JObj d" and "p_wall P (outside s) = (now, dt, w)"
  shows "pv_checkpoint P (JStr oid) target s = pv_save (s\<lparr>outside := w, mono := mono s + dt,
    pv_ops := ops_put (JStr oid) (JObj (dput ''targetCapturedAtUnixMs'' (JInt now)
      (dput ''primaryTargetLsn'' (JStr target) d))) (pv_ops s)\<rparr>)"
  using assms
  by (simp add: pv_checkpoint_def seqc_def bnd_def set_fields_text wall_ms_def modify_def
      ops_get_put_text ops_put_put_text set_fields_def)

lemma plain_names [simp]:
  "plain_text ''primaryTargetLsn''" "plain_text ''targetCapturedAtUnixMs''" "plain_text ''phase''"
  "plain_text ''PREPARED''" "plain_text ''PREPARING''" "plain_text ''COMMITTED''" "plain_text ''prepareResponse''"
  "plain_text ''prepareResponseSha256''" "plain_text ''candidateId''" "plain_text ''prepareKeySha256''"
  "plain_text ''prepareRequestSha256''" "plain_text ''createdAtUnixMs''" "plain_text ''commitKeySha256''"
  "plain_text ''commitRequestSha256''" "plain_text ''ownerResponseSha256''" "plain_text ''commitResponse''"
  "plain_text ''commitResponseSha256''" "plain_text ''committedAtUnixMs''" "plain_text ''rtoSeconds''"
  by (simp_all add: plain_text_simps code_def)

lemma checkpoint_follows:
  assumes "state_ok s0" "follows s0 s" "preparing oid d0 (pv_ops s)" "plain_text target"
    and "pv_checkpoint P (JStr oid) target s = (r, t)"
  shows "follows s0 t \<and> preparing oid d0 (pv_ops t) \<and> captured oid (pv_ops t)"
proof -
  obtain d where d: "entry s oid = JObj d" "phase_of d = JStr ''PREPARING''" "evolves d0 d"
    using assms(3) unfolding preparing_def by blast
  obtain now dt w where wall: "p_wall P (outside s) = (now, dt, w)" by (metis prod_cases3)
  let ?d = "dput ''targetCapturedAtUnixMs'' (JInt now) (dput ''primaryTargetLsn'' (JStr target) d)"
  let ?t = "s\<lparr>outside := w, mono := mono s + dt, pv_ops := ops_put (JStr oid) (JObj ?d) (pv_ops s)\<rparr>"
  have ok: "op_ok d" "plain_text oid" "table_ok (pv_ops s)" "jget d ''candidateId'' = JStr oid"
    using assms(2) d(1) table_entry unfolding follows_def state_ok_def by blast+
  then have "plain_json (JObj ?d)"
    using assms(4) by (intro plain_dput) (simp_all add: op_ok_def)
  with ok d have ok': "op_ok ?d" by (simp add: op_ok_def phase_of_def recorded_target_def)
  have ev: "evolves d ?d" using d(2) by (simp add: evolves_def phase_of_def)
  have ev0: "evolves d0 ?d" using d(2,3) by (simp add: evolves_def phase_of_def)
  have "table_ok (pv_ops ?t)" using table_put ok ok' by simp
  from checkpoint_text [OF d(1) wall, of target] save_text [OF this] have t: "t = saved ?t"
    using assms(5) by (simp only:) (simp only: prod.inject)
  have "follows s0 (saved ?t)"
    by (rule follows_put [OF assms(1,2) ok' ok(2)]) (use d(1) ev ok(4) in auto)
  with t ok' d(2) ev0 show ?thesis
    by (simp add: preparing_def captured_def ops_get_put_text phase_of_def)
qed

lemma wp_set_fields [wp]:
  "wp (set_fields k kvs) Q E s =
     Q () (s\<lparr>pv_ops := ops_put k
         (JObj (dputs kvs (case ops_get (pv_ops s) k of JObj d \<Rightarrow> d | _ \<Rightarrow> []))) (pv_ops s)\<rparr>)"
  by (simp add: set_fields_def wp_modify)

lemma wp_save [wp]: "wp pv_save Q E s = (if ops_sortable (pv_ops s) then Q () (saved s) else E TypeErr s)"
  by (simp add: wp_def pv_save_def saved_def Let_def)

lemma wp_wall [wp]:
  "wp (wall_ms P) Q E s = (case p_wall P (outside s) of (ms, dt, w) \<Rightarrow> Q ms (s\<lparr>outside := w, mono := mono s + dt\<rparr>))"
  by (simp add: wp_def wall_ms_def split: prod.splits)

lemma checkpoint_captures: "wp (pv_checkpoint P (JStr oid) t) (\<lambda>_ s. captured oid (pv_ops s)) (\<lambda>_ _. True) s"
  unfolding pv_checkpoint_def by (simp add: wp captured_def ops_get_put_text split: prod.splits)

section \<open>The provider over any driver\<close>

lemma hash_plain [simp]: "plain_text (sha256_hex s)" "plain_text (hash_text s)" "plain_text (pv_canonical_hash v)"
  by (simp_all add: hex64_plain hash_text_def pv_canonical_hash_def)

lemma response_names_plain [simp]:
  "plain_text ''operationId''" "plain_text ''status''" "plain_text ''READY_FOR_APPLICATION_PROMOTION''"
  "plain_text ''activeFenced''" "plain_text ''oldWriterTerminated''" "plain_text ''targetCapturedByProvider''"
  "plain_text ''databasePromoted''" "plain_text ''standbyReplayAtOrAfterTarget''" "plain_text ''indexerHeadMatchesL1''"
  "plain_text ''stableDatabaseEndpointRouted''" "plain_text ''standbySignerAuthorityActive''"
  "plain_text ''primaryTargetSource''" "plain_text ''durable-fenced-wal-checkpoint''"
  "plain_text ''standbyReplayLsn''" "plain_text ''checkpointAgeSeconds''" "plain_text ''writerRouteCommitted''"
  "plain_text ''writerCoordinatorId''" "plain_text ''oldWriterRouteRemoved''"
  "plain_text ''signerAuthorityActivatedAfterFence''"
  by (simp_all add: plain_text_simps code_def)

lemma prepared_plain: "prepared_ok rq r \<Longrightarrow> plain_json (jget rq ''candidateId'') \<Longrightarrow> plain_json (JObj r)"
  unfolding prepared_ok_def pv_prepare_response_def by (auto dest!: reached_plain)

lemma prepared_ready: "prepared_ok rq r \<Longrightarrow> ready_response (jget rq ''candidateId'') r"
  unfolding prepared_ok_def pv_prepare_response_def ready_response_def ready_flags_def by (auto simp: jget_def)

lemma prepared_facts:
  "prepared_ok rq r \<Longrightarrow> jget r ''operationId'' = jget rq ''candidateId'' \<and> r \<noteq> []"
  unfolding prepared_ok_def pv_prepare_response_def by (auto simp: jget_def)

lemma wp_tame_bnd:
  assumes "tame m" "framed I" "I s" and "\<And>x t. I t \<Longrightarrow> wp (f x) Q E t" and "\<And>e t. I t \<Longrightarrow> E e t"
  shows "wp (bnd m f) Q E s"
proof -
  have "wp m (\<lambda>_. I) (\<lambda>_. I) s"
    using keepsD [OF tameD(1) [OF assms(1,2)] assms(3)] by (auto intro: wpI)
  then show ?thesis unfolding wp_bnd by (rule wp_mono) (auto intro: assms(4,5))
qed

lemma wp_tame_seqc:
  assumes "tame m" "framed I" "I s" and "\<And>t. I t \<Longrightarrow> wp n Q E t" and "\<And>e t. I t \<Longrightarrow> E e t"
  shows "wp (seqc m n) Q E s"
  unfolding seqc_def by (rule wp_tame_bnd [OF assms(1-3)]) (auto intro: assms(4,5))

lemma host_not_fuel [simp]: "host_and_port u \<noteq> Inl OutOfFuel"
  by (auto simp: host_and_port_def rbind_eq_Inl urlsplit_def url_port_def Let_def split: if_splits option.splits prod.splits)

lemma tame_witness_addresses [tame_intro]: "tame (pv_witness_addresses P urls)"
  by (induction urls) (auto intro!: tame_intro split: prod.splits option.splits list.splits)

lemma tame_verify_witnesses [tame_intro]: "tame (pv_verify_witness_failures P cfg rq)"
  unfolding pv_verify_witness_failures_def pv_witness_networks_def pv_observe_failed_def Let_def
  by (auto intro!: tame_intro split: prod.splits)

lemma tame_verify_standby [tame_intro]: "tame (pv_verify_standby P cfg c)"
  unfolding pv_verify_standby_def by (auto intro!: tame_intro split: prod.splits)

text \<open>The last step of a preparation: the response is written down.\<close>

lemma prepared_written:
  assumes "state_ok s0" "jget rq ''candidateId'' = JStr oid" "prepared_ok rq r" "follows s0 t"
    "preparing oid d0 (pv_ops t)" "captured oid (pv_ops t)"
  shows "let u = t\<lparr>pv_ops := ops_put (JStr oid) (JObj (dputs
        [(''prepareResponse'', JObj r), (''prepareResponseSha256'', JStr (pv_canonical_hash (JObj r))),
         (''phase'', JStr ''PREPARED'')] (case entry t oid of JObj d \<Rightarrow> d | _ \<Rightarrow> []))) (pv_ops t)\<rparr>
    in ops_sortable (pv_ops u) \<and> follows s0 (saved u) \<and>
       (\<exists>d. entry (saved u) oid = JObj d \<and> phase_of d = JStr ''PREPARED'' \<and>
            jget d ''prepareResponse'' = JObj r \<and> evolves d0 d)"
proof -
  obtain d where d: "entry t oid = JObj d" "phase_of d = JStr ''PREPARING''" "evolves d0 d"
    using assms(5) unfolding preparing_def by blast
  have c: "is_int (jget d ''targetCapturedAtUnixMs'')" using assms(6) d(1) by (simp add: captured_def)
  let ?d = "dput ''phase'' (JStr ''PREPARED'') (dput ''prepareResponseSha256'' (JStr (pv_canonical_hash (JObj r)))
      (dput ''prepareResponse'' (JObj r) d))"
  let ?u = "t\<lparr>pv_ops := ops_put (JStr oid) (JObj ?d) (pv_ops t)\<rparr>"
  have ok: "op_ok d" "plain_text oid" "table_ok (pv_ops t)" "jget d ''candidateId'' = JStr oid"
    using assms(4) d(1) table_entry unfolding follows_def state_ok_def by blast+
  have pr: "plain_json (JObj r)" by (rule prepared_plain [OF assms(3)]) (simp add: assms(2) ok(2))
  have pd: "plain_json (JObj d)" using ok(1) by (simp add: op_ok_def)
  have "plain_json (JObj ?d)" by (intro plain_dput pd pr) simp_all
  then have ok': "op_ok ?d"
    using ok(1,4) d(2) c prepared_facts [OF assms(3)] prepared_ready [OF assms(3)] assms(2)
    by (simp add: op_ok_def phase_of_def recorded_target_def)
  have ev: "evolves d ?d" using d(2) by (simp add: evolves_def phase_of_def)
  have ev0: "evolves d0 ?d" using d(2,3) by (simp add: evolves_def phase_of_def)
  have "table_ok (pv_ops ?u)" using table_put ok ok' by simp
  moreover have "follows s0 (saved ?u)"
    by (rule follows_put [OF assms(1,4) ok' ok(2)]) (use d(1) ev ok(4) in auto)
  ultimately show ?thesis
    using d ev0 table_sortable by (simp add: Let_def ops_get_put_text phase_of_def)
qed

context failover_driver
begin

text \<open>A preparation that runs: the entry is captured, then prepared with the response returned.\<close>

lemma driver_prepare_follows:
  assumes "state_ok s0" "follows s0 s" "preparing oid d0 (pv_ops s)"
    and "ex = [] \<or> captured oid (pv_ops s)" and "jget rq ''candidateId'' = JStr oid"
  shows "wp (drv_prepare D rq ex (pv_checkpoint P (JStr oid)))
    (\<lambda>r t. prepared_ok rq r \<and> follows s0 t \<and> preparing oid d0 (pv_ops t) \<and> captured oid (pv_ops t))
    (\<lambda>_ t. follows s0 t) s"
proof -
  let ?I = "\<lambda>t. follows s0 t \<and> preparing oid d0 (pv_ops t)"
  have chk: "keeps ?I (pv_checkpoint P (JStr oid) u)" if "lsn_pattern u" for u
    unfolding keeps_def using checkpoint_follows [OF assms(1) _ _ lsn_plain [OF that]]
    by (metis prod.collapse)
  have I: "keeps ?I (drv_prepare D rq ex (pv_checkpoint P (JStr oid)))"
    by (rule prepare_frame [OF _ chk]) simp
  have "wp (drv_prepare D rq ex (pv_checkpoint P (JStr oid))) (\<lambda>_ t. captured oid (pv_ops t)) (\<lambda>_ _. True) s"
  proof (cases "ex = []")
    case True
    then show ?thesis
      using prepare_target [of "\<lambda>_ t. captured oid (pv_ops t)", OF _ checkpoint_captures]
      by (simp add: framed_def)
  next
    case False
    let ?J = "\<lambda>t. ?I t \<and> captured oid (pv_ops t)"
    have "keeps ?J (pv_checkpoint P (JStr oid) u)" if "lsn_pattern u" for u
      unfolding keeps_def using checkpoint_follows [OF assms(1) _ _ lsn_plain [OF that]]
      by (metis prod.collapse)
    then have "keeps ?J (drv_prepare D rq ex (pv_checkpoint P (JStr oid)))"
      by (intro prepare_frame) (simp_all add: framed_def follows_def state_ok_def synced_def)
    then show ?thesis using False assms by (auto intro!: wpI dest: keepsD)
  qed
  from wp_conj [OF this prepare_result [of rq ex "pv_checkpoint P (JStr oid)" s]] I assms(2,3)
  show ?thesis
    by (auto simp: wp_def keeps_def split: prod.splits sum.splits)
qed

lemma run_prepare_follows:
  assumes "state_ok s0" "follows s0 s" "preparing oid d0 (pv_ops s)" and k: "jget rq ''candidateId'' = JStr oid"
  shows "wp (pv_run_prepare P cfg D (JStr oid) rq)
    (\<lambda>v t. follows s0 t \<and> (\<exists>r d. v = JObj r \<and> prepared_ok rq r \<and> entry t oid = JObj d \<and>
             phase_of d = JStr ''PREPARED'' \<and> jget d ''prepareResponse'' = v \<and> evolves d0 d))
    (\<lambda>_ t. follows s0 t) s"
proof -
  let ?I = "\<lambda>t. follows s0 t \<and> preparing oid d0 (pv_ops t)"
  have driver: "wp (drv_prepare D rq (case entry t oid of JObj d \<Rightarrow> recorded_target d | _ \<Rightarrow> []) (pv_checkpoint P (JStr oid)))
    (\<lambda>r t. prepared_ok rq r \<and> follows s0 t \<and> preparing oid d0 (pv_ops t) \<and> captured oid (pv_ops t))
    (\<lambda>_ t. follows s0 t) t" if "?I t" for t
  proof (rule driver_prepare_follows [OF assms(1) _ _ _ k])
    show "(case entry t oid of JObj d \<Rightarrow> recorded_target d | _ \<Rightarrow> []) = [] \<or> captured oid (pv_ops t)"
      using that table_entry [of "pv_ops t" oid]
      by (auto simp: captured_def follows_def state_ok_def op_ok_def split: json.splits)
  qed (use that in auto)
  show ?thesis
    unfolding pv_run_prepare_def
    apply (rule wp_tame_seqc [where I = ?I, OF tame_verify_witnesses])
       apply (simp_all add: assms)
    apply (rule wp_tame_seqc [where I = ?I, OF tame_verify_standby])
       apply (simp_all)
    apply (simp only: wp_bnd wp_gets)
    apply (rule wp_mono [OF driver])
      apply simp_all
    apply (erule conjE)+
    apply (frule prepared_facts)
    subgoal for t u r v
      using prepared_written [OF assms(1) k, of r v d0] by (simp add: wp k Let_def)
    done
qed

end

section \<open>Prepare and commit\<close>

lemma candidate_text:
  "pv_safe_id (py_str v) \<Longrightarrow> \<not> is_number v \<Longrightarrow> \<exists>oid. v = JStr oid \<and> pv_safe_id oid"
  by (cases v) (auto simp: pv_safe_id_def class_defs split: if_splits)

lemma wp_get_operation:
  assumes "table_ok (pv_ops s)"
  shows "wp (get_operation (JStr oid)) Q E s =
    (case entry s oid of JObj d \<Rightarrow> Q (Some d) s | _ \<Rightarrow> Q None s)"
  using assms op_ok_nonempty
  by (rule_tac oid = oid in table_entry_cases [of "pv_ops s"]) (auto simp: get_operation_def wp)

lemma hash_text_truthy [simp]: "hash_text k \<noteq> []"
  by (metis hash_text_def length_0_conv length_sha256_hex zero_neq_numeral)

definition prepared_as :: "'w pv_state \<Rightarrow> string \<Rightarrow> string \<Rightarrow> dict \<Rightarrow> json \<Rightarrow> bool" where
  "prepared_as s oid key rq v \<longleftrightarrow> (\<exists>d. entry s oid = JObj d \<and> phase_of d \<noteq> JStr ''PREPARING'' \<and>
     jget d ''prepareResponse'' = v \<and> jget d ''prepareKeySha256'' = JStr (hash_text key) \<and>
     jget d ''prepareRequestSha256'' = JStr (pv_canonical_hash (JObj rq)))"

definition committed_as :: "'w pv_state \<Rightarrow> string \<Rightarrow> string \<Rightarrow> dict \<Rightarrow> json \<Rightarrow> bool" where
  "committed_as s oid key rq v \<longleftrightarrow> (\<exists>d. entry s oid = JObj d \<and> phase_of d = JStr ''COMMITTED'' \<and>
     jget d ''commitResponse'' = v \<and> jget d ''commitKeySha256'' = JStr (hash_text key) \<and>
     jget d ''commitRequestSha256'' = JStr (pv_canonical_hash (JObj rq)))"

text \<open>The first write of a new operation.\<close>

lemma new_operation:
  assumes "state_ok s0" "follows s0 s" "entry s oid = JNull" "plain_text oid"
    and u: "u = s\<lparr>outside := w, mono := m, pv_ops := ops_put (JStr oid)
        (JObj [(''candidateId'', JStr oid), (''prepareKeySha256'', JStr (hash_text key)),
               (''prepareRequestSha256'', JStr (pv_canonical_hash (JObj rq))),
               (''phase'', JStr ''PREPARING''), (''createdAtUnixMs'', JInt now)]) (pv_ops s)\<rparr>"
  shows "ops_sortable (pv_ops u) \<and> follows s0 (saved u) \<and>
     (\<exists>d. entry (saved u) oid = JObj d \<and> phase_of d = JStr ''PREPARING'' \<and>
          jget d ''prepareKeySha256'' = JStr (hash_text key) \<and>
          jget d ''prepareRequestSha256'' = JStr (pv_canonical_hash (JObj rq)))"
proof -
  let ?d = "[(''candidateId'', JStr oid), (''prepareKeySha256'', JStr (hash_text key)),
               (''prepareRequestSha256'', JStr (pv_canonical_hash (JObj rq))),
               (''phase'', JStr ''PREPARING''), (''createdAtUnixMs'', JInt now)]"
  have ok: "op_ok ?d"
    using assms(4) by (simp add: op_ok_def phase_of_def jget_def recorded_target_def)
  have "table_ok (pv_ops u)"
    using assms(2,4) table_put [OF _ ok, of "pv_ops s" oid] by (simp add: u follows_def state_ok_def jget_def)
  moreover have "follows s0 (saved u)"
    by (rule follows_put [OF assms(1,2) ok assms(4)]) (use assms in \<open>auto simp: jget_def\<close>)
  ultimately show ?thesis
    using table_sortable by (simp add: u ops_get_put_text phase_of_def jget_def)
qed

text \<open>The last step of a commit: the measured response is written down.\<close>

lemma commit_written:
  assumes s0: "state_ok s0" and s: "follows s0 s" and safe: "plain_text oid"
    and d: "entry s oid = JObj d" "phase_of d = JStr ''PREPARED''" "truthy (jget d ''commitKeySha256'')"
    and r: "plain_json (JObj r)" "r \<noteq> []"
    and d': "d' = dputs [(''commitResponse'', JObj r), (''commitResponseSha256'', JStr (pv_canonical_hash (JObj r))),
         (''phase'', JStr ''COMMITTED''), (''committedAtUnixMs'', JInt now)] d"
    and u: "u = s\<lparr>outside := w, mono := m, pv_ops := ops_put (JStr oid) (JObj d') (pv_ops s)\<rparr>"
  shows "ops_sortable (pv_ops u) \<and> follows s0 (saved u) \<and> entry (saved u) oid = JObj d' \<and>
    phase_of d' = JStr ''COMMITTED''"
proof -
  have ok: "op_ok d" "table_ok (pv_ops s)" "jget d ''candidateId'' = JStr oid"
    using s d(1) table_entry unfolding follows_def state_ok_def by blast+
  have pd: "plain_json (JObj d)" using ok(1) by (simp add: op_ok_def)
  have "plain_json (JObj d')" unfolding d' dputs.simps by (intro plain_dput pd r) simp_all
  then have ok': "op_ok d'"
    using ok(1) d r by (simp add: d' op_ok_def phase_of_def recorded_target_def)
  have ev: "evolves d d'" using d by (simp add: d' evolves_def phase_of_def)
  have c': "jget d' ''candidateId'' = JStr oid" using ok(3) by (simp add: d')
  have "table_ok (pv_ops u)" using table_put [OF ok(2) ok' safe] by (simp add: u d' ok(3))
  moreover have "follows s0 (saved u)"
    by (rule follows_put [OF s0 s ok' safe, where d = d and t = u]) (simp_all add: d(1) ev u c')
  ultimately show ?thesis
    using table_sortable by (simp add: u ops_get_put_text) (simp add: d' phase_of_def)
qed

lemma measured_plain:
  "plain_text oid \<Longrightarrow> plain_text sid \<Longrightarrow> plain_json c \<Longrightarrow> pv_standby_coordinator_id cfg = sid \<Longrightarrow>
   plain_json (JObj (committed_response (pv_commit_response cfg oid) el c now))"
  unfolding committed_response_def dputs.simps pv_commit_response_def by (intro plain_dput) simp_all

lemma commit_response_facts [simp]:
  "jget (pv_commit_response cfg oid) ''operationId'' = JStr oid"
  "committed_response (pv_commit_response cfg oid) el c now \<noteq> []"
  by (simp_all add: pv_commit_response_def jget_def committed_response_def)

context failover_driver
begin

lemma prepare_follows:
  assumes s0: "state_ok s0" and nn: "\<not> is_number (jget rq ''candidateId'')"
  shows "wp (pv_prepare P cfg D key rq)
    (\<lambda>v t. follows s0 t \<and> (\<exists>oid. jget rq ''candidateId'' = JStr oid \<and> prepared_as t oid key rq v))
    (\<lambda>_ t. follows s0 t) s0"
proof (cases "pv_check_prepare cfg key rq")
  case (Inl e)
  then show ?thesis using s0 by (simp add: pv_prepare_def wp follows_refl)
next
  case (Inr u)
  then have "pv_safe_id (py_str (jget rq ''candidateId''))" by (simp add: pv_check_prepare_def)
  then obtain oid where k: "jget rq ''candidateId'' = JStr oid" and safe: "pv_safe_id oid"
    using candidate_text nn by blast
  have table: "table_ok (pv_ops s0)" using s0 by (simp add: state_ok_def)
  have run: "wp (pv_run_prepare P cfg D (JStr oid) rq)
      (\<lambda>v t. follows s0 t \<and> prepared_as t oid key rq v) (\<lambda>_ t. follows s0 t) s"
    if "follows s0 s" "entry s oid = JObj d" "phase_of d = JStr ''PREPARING''"
      "jget d ''prepareKeySha256'' = JStr (hash_text key)"
      "jget d ''prepareRequestSha256'' = JStr (pv_canonical_hash (JObj rq))" for s d
    using that
    by (intro wp_mono [OF run_prepare_follows [OF s0 that(1) _ k, of d]])
      (auto simp: preparing_def prepared_as_def evolves_def same_value_str)
  show ?thesis
  proof (rule table_entry_cases [OF table, of oid])
    assume new: "entry s0 oid = JNull"
    obtain now dt w where wall: "p_wall P (outside s0) = (now, dt, w)" by (metis prod_cases3)
    show ?thesis
      using new_operation [OF s0 follows_refl [OF s0] new safe_id_plain [OF safe] refl,
          where w = w and m = "mono s0 + dt" and key = key and rq = rq and now = now] run
      by (auto simp: pv_prepare_def Let_def Inr k wp wp_get_operation [OF table] new wall)
  next
    fix d
    assume d: "entry s0 oid = JObj d" "op_ok d"
    show ?thesis
    proof (cases "jget d ''prepareKeySha256'' = JStr (hash_text key) \<and>
        jget d ''prepareRequestSha256'' = JStr (pv_canonical_hash (JObj rq))")
      case False
      then show ?thesis
        by (auto simp: pv_prepare_def Let_def Inr k wp wp_get_operation [OF table] d eq_str_def follows_refl [OF s0])
    next
      case True
      have "follows s0 s0" by (rule follows_refl [OF s0])
      moreover have "prepared_as s0 oid key rq (jget d ''prepareResponse'')" if "truthy (jget d ''prepareResponse'')"
        using that d True by (auto simp: prepared_as_def op_ok_def)
      moreover have "wp (pv_run_prepare P cfg D (JStr oid) rq)
          (\<lambda>v t. follows s0 t \<and> prepared_as t oid key rq v) (\<lambda>_ t. follows s0 t) s0"
        if "\<not> truthy (jget d ''prepareResponse'')"
        using that d True by (intro run [OF follows_refl [OF s0] d(1)]) (auto simp: op_ok_def)
      ultimately show ?thesis
        using True by (simp add: pv_prepare_def Let_def Inr k wp wp_get_operation [OF table] d(1) eq_str_def)
    qed
  qed
qed

text \<open>
  The commit response is the driver's with the measured times: whole seconds, rounded up, from the
  recorded capture to the commit, never negative.
\<close>

definition measured :: "string \<Rightarrow> dict \<Rightarrow> json \<Rightarrow> bool" where
  "measured oid d v \<longleftrightarrow>
     (\<exists>now cap. num_of (jget d ''targetCapturedAtUnixMs'') = Some cap \<and>
        v = JObj (committed_response (pv_commit_response cfg oid) (max 0 (now - cap))
              (jget d ''targetCapturedAtUnixMs'') now))"

lemma commit_step:
  assumes s0: "state_ok s0" and s: "follows s0 s" and safe: "plain_text oid"
    and cfg: "plain_text (pv_standby_coordinator_id cfg)"
    and d: "entry s oid = JObj d" "phase_of d = JStr ''PREPARED''"
      "jget d ''commitKeySha256'' = JStr (hash_text key)"
      "jget d ''commitRequestSha256'' = JStr (pv_canonical_hash (JObj rq))"
  shows "wp (pv_run_commit P D oid rq)
    (\<lambda>v t. follows s0 t \<and> committed_as t oid key rq v \<and> measured oid d v) (\<lambda>_ t. follows s0 t) s"
proof -
  let ?I = "\<lambda>t. follows s0 t \<and> pv_ops t = pv_ops s"
  let ?cap = "jget d ''targetCapturedAtUnixMs''"
  have ok: "op_ok d" using s d(1) table_entry unfolding follows_def state_ok_def by blast
  then have cap: "is_int ?cap" using d(2) by (simp add: op_ok_def)
  then obtain c where c: "num_of ?cap = Some c" by (cases ?cap) auto
  have capp: "plain_json ?cap" using ok by (intro plain_jget) (simp add: op_ok_def)
  have driver: "wp (drv_commit D oid h) (\<lambda>r t. r = pv_commit_response cfg oid \<and> ?I t) (\<lambda>_. ?I) s" for h
  proof -
    have "keeps ?I (drv_commit D oid h)" by (rule tameD(1) [OF commit_tame framed_follows(2)])
    then have "wp (drv_commit D oid h) (\<lambda>_. ?I) (\<lambda>_. ?I) s"
      using s by (auto intro!: wpI dest: keepsD)
    from wp_conj [OF commit_result this] show ?thesis by simp
  qed
  show ?thesis
    unfolding pv_run_commit_def Let_def
    apply (simp only: wp_bnd)
    apply (rule wp_mono [OF driver])
     apply (erule conjE)+
    subgoal for r t
    proof -
      assume r: "r = pv_commit_response cfg oid" and t: "follows s0 t" "pv_ops t = pv_ops s"
      obtain now dt w where wall: "p_wall P (outside t) = (now, dt, w)" by (metis prod_cases3)
      have e: "entry t oid = JObj d" using t(2) d(1) by simp
      let ?r = "committed_response (pv_commit_response cfg oid) (max 0 (now - c)) ?cap now"
      have pr: "plain_json (JObj ?r)" by (rule measured_plain [OF safe cfg capp refl])
      have tk: "truthy (jget d ''commitKeySha256'')" using d(3) by simp
      note W = commit_written [OF s0 t(1) safe e d(2) tk pr commit_response_facts(2) refl refl,
          where w = w and m = "mono t + dt" and now = now]
      have m: "measured oid d (JObj ?r)" unfolding measured_def using c by blast
      show ?thesis
        using W d(3,4) e m
        by (simp add: wp wall r cap c committed_as_def)
    qed
    apply simp
    done
qed

end

end
