(* ===== verification/Failover_Steps.thy ===== *)
theory Failover_Steps
  imports Failover_Lifecycle
begin

text \<open>
  Requests and restarts as a step relation over the provider's state, what every step keeps, and
  what that gives the client: answers that are recorded are answered again, byte for byte, whatever
  happened in between.
\<close>

section \<open>A whole commit\<close>

lemma owner_plain: "hex64 (py_str v) \<Longrightarrow> \<not> is_number v \<Longrightarrow> plain_json v"
  by (cases v) (auto simp: hex64_plain dest: hex64_length)

lemma commit_intent:
  assumes s0: "state_ok s0" and safe: "plain_text oid"
    and d: "entry s0 oid = JObj d" "phase_of d = JStr ''PREPARED''" "\<not> truthy (jget d ''commitKeySha256'')"
    and v: "plain_json v" and h: "plain_text kh" "plain_text rh" "kh \<noteq> []"
    and d': "d' = dputs [(''commitKeySha256'', JStr kh), (''commitRequestSha256'', JStr rh), (''ownerResponseSha256'', v)] d"
    and u: "u = s0\<lparr>pv_ops := ops_put (JStr oid) (JObj d') (pv_ops s0)\<rparr>"
  shows "ops_sortable (pv_ops u) \<and> follows s0 (saved u) \<and> entry (saved u) oid = JObj d' \<and>
    phase_of d' = JStr ''PREPARED''"
proof -
  have ok: "op_ok d" "table_ok (pv_ops s0)" "jget d ''candidateId'' = JStr oid"
    using s0 d(1) table_entry unfolding state_ok_def by blast+
  have pd: "plain_json (JObj d)" using ok(1) by (simp add: op_ok_def)
  have "plain_json (JObj d')" unfolding d' dputs.simps by (intro plain_dput pd v) (simp_all add: h)
  then have ok': "op_ok d'"
    using ok(1) d h by (simp add: d' op_ok_def phase_of_def recorded_target_def)
  have ev: "evolves d d'" using d by (simp add: d' evolves_def phase_of_def)
  have c': "jget d' ''candidateId'' = JStr oid" using ok(3) by (simp add: d')
  have "table_ok (pv_ops u)" using table_put [OF ok(2) ok' safe] by (simp add: u d' ok(3))
  moreover have "follows s0 (saved u)"
    by (rule follows_put [OF s0 follows_refl [OF s0] ok' safe, where d = d and t = u]) (simp_all add: d(1) ev u c')
  ultimately show ?thesis
    using table_sortable d(2) by (simp add: u ops_get_put_text) (simp add: d' phase_of_def)
qed

context failover_driver
begin

lemma commit_follows:
  assumes s0: "state_ok s0" and cfg: "plain_text (pv_standby_coordinator_id cfg)"
    and nn: "\<not> is_number (jget rq ''ownerResponseSha256'')"
  shows "wp (pv_commit P D oid key rq) (\<lambda>v t. follows s0 t \<and> committed_as t oid key rq v)
    (\<lambda>_ t. follows s0 t) s0"
proof (cases "pv_check_commit oid key rq")
  case (Inl e)
  then show ?thesis using s0 by (simp add: pv_commit_def wp follows_refl)
next
  case (Inr u)
  then have safe: "plain_text oid" and owner: "plain_json (jget rq ''ownerResponseSha256'')"
    using safe_id_plain owner_plain nn by (auto simp: pv_check_commit_def)
  have table: "table_ok (pv_ops s0)" using s0 by (simp add: state_ok_def)
  have refl0: "follows s0 s0" by (rule follows_refl [OF s0])
  show ?thesis
  proof (rule table_entry_cases [OF table, of oid])
    assume "entry s0 oid = JNull"
    then show ?thesis by (simp add: pv_commit_def Inr wp wp_get_operation [OF table] refl0)
  next
    fix d
    assume d: "entry s0 oid = JObj d" "op_ok d"
    note compute = pv_commit_def Let_def Inr wp wp_get_operation [OF table] d(1) eq_str_def refl0 phase_of_def [symmetric]
    have step: "wp (pv_run_commit P D oid rq) (\<lambda>v t. follows s0 t \<and> committed_as t oid key rq v) (\<lambda>_ t. follows s0 t) s"
      if "follows s0 s" "entry s oid = JObj e" "phase_of e = JStr ''PREPARED''"
        "jget e ''commitKeySha256'' = JStr (hash_text key)"
        "jget e ''commitRequestSha256'' = JStr (pv_canonical_hash (JObj rq))" for s e
      by (rule wp_mono [OF commit_step [OF s0 that(1) safe cfg that(2-5)]]) auto
    consider "phase_of d = JStr ''PREPARING''" | "phase_of d = JStr ''COMMITTED''" | "phase_of d = JStr ''PREPARED''"
      using d(2) by (auto simp: op_ok_def)
    then show ?thesis
    proof cases
      case 1
      then show ?thesis by (simp add: compute)
    next
      case 2
      then have "truthy (jget d ''commitKeySha256'')" "truthy (jget d ''commitResponse'')"
        using d(2) by (simp_all add: op_ok_def)
      with 2 show ?thesis by (simp add: compute) (auto simp: committed_as_def d(1))
    next
      case 3
      show ?thesis
      proof (cases "truthy (jget d ''commitKeySha256'')")
        case True
        have "\<not> truthy (jget d ''commitResponse'')" using 3 d(2) by (simp add: op_ok_def)
        with True 3 step [OF refl0 d(1) 3] show ?thesis by (simp add: compute)
      next
        case False
        note W = commit_intent [OF s0 safe d(1) 3 False owner _ _ _ refl refl,
            where kh = "hash_text key" and rh = "pv_canonical_hash (JObj rq)"]
        have "wp (pv_run_commit P D oid rq) (\<lambda>v t. follows s0 t \<and> committed_as t oid key rq v) (\<lambda>_ t. follows s0 t)
           (saved (s0\<lparr>pv_ops := ops_put (JStr oid) (JObj (dputs [(''commitKeySha256'', JStr (hash_text key)),
             (''commitRequestSha256'', JStr (pv_canonical_hash (JObj rq))),
             (''ownerResponseSha256'', jget rq ''ownerResponseSha256'')] d)) (pv_ops s0)\<rparr>))"
          using W by (intro step) auto
        with False 3 W show ?thesis by (simp add: compute)
      qed
    qed
  qed
qed

end

section \<open>Steps\<close>

text \<open>
  A request whose identifiers are text, as the promotion controller sends them: a numeric
  \<open>candidateId\<close> would become a key that cannot be written beside text keys.
\<close>

definition text_request :: "inbound \<Rightarrow> bool" where
  "text_request rq \<longleftrightarrow>
     (\<forall>n d. loads False (take n (in_body rq)) = Inr (JObj d) \<longrightarrow>
        \<not> is_number (jget d ''candidateId'') \<and> \<not> is_number (jget d ''ownerResponseSha256''))"

definition state_files :: "pv_config \<Rightarrow> string option \<Rightarrow> files" where
  "state_files cfg disk p = (if p = pv_state_path cfg then map_option (FFile 384) disk else None)"

inductive pv_step :: "'w platform \<Rightarrow> pv_config \<Rightarrow> 'w pv_driver \<Rightarrow> 'w pv_state \<Rightarrow> 'w pv_state \<Rightarrow> bool"
  for P cfg D where
    request: "text_request rq \<Longrightarrow> pv_do_POST P cfg D rq s = (answer, t) \<Longrightarrow> pv_step P cfg D s t"
  | restart: "pv_load_json (state_files cfg (pv_disk s)) (pv_state_path cfg) = Inr (doc, ops) \<Longrightarrow>
      pv_step P cfg D s (s\<lparr>outside := w, mono := m, trace := tr, pv_doc := doc, pv_ops := ops\<rparr>)"

inductive_cases pv_stepE: "pv_step P cfg D s t"

definition pv_initial :: "'w pv_state \<Rightarrow> bool" where
  "pv_initial s \<longleftrightarrow> pv_doc s = fresh_doc \<and> pv_ops s = [] \<and> pv_disk s = None"

lemma initial_ok: "pv_initial s \<Longrightarrow> state_ok s"
  by (simp add: pv_initial_def state_ok_def synced_def table_ok_def fresh_doc_def jget_def eq_int_def
      plain_text_simps code_def)

section \<open>Restarts\<close>

lemma dput_same: "map_of d k = Some v \<Longrightarrow> dput k v d = d"
  by (induction d) (auto split: if_splits)

definition table_dict :: "op_table \<Rightarrow> dict" where
  "table_dict ops = map (\<lambda>kv. (py_str (fst kv), snd kv)) ops"

lemma table_dict_facts:
  assumes "table_ok ops"
  shows "plain_json (JObj (table_dict ops))" "jget (table_dict ops) oid = ops_get ops (JStr oid)"
proof -
  have "map_of (table_dict ops) oid = map_of ops (JStr oid)"
    using assms unfolding table_ok_def table_dict_def by (induction ops) auto
  then show "jget (table_dict ops) oid = ops_get ops (JStr oid)"
    by (simp add: jget_def ops_get_text)
  have "inj_on py_str (fst ` set ops)"
  proof (rule inj_onI)
    fix x y
    assume "x \<in> fst ` set ops" "y \<in> fst ` set ops" "py_str x = py_str y"
    moreover have "\<exists>oid. z = JStr oid" if "z \<in> fst ` set ops" for z
      using that assms unfolding table_ok_def by fastforce
    ultimately show "x = y" by (metis py_str.simps(5))
  qed
  then have "distinct (map py_str (map fst ops))"
    using assms by (subst distinct_map) (simp add: table_ok_def)
  then have "distinct (map fst (table_dict ops))" by (simp add: table_dict_def comp_def)
  moreover have "list_all (\<lambda>(k, v). plain_text k \<and> plain_json v) (table_dict ops)"
    using assms by (fastforce simp: table_ok_def table_dict_def list_all_iff op_ok_def)
  ultimately show "plain_json (JObj (table_dict ops))" by simp
qed

lemma state_json_plain:
  "plain_json (JObj doc) \<Longrightarrow> table_ok ops \<Longrightarrow> plain_json (state_json doc ops)"
  unfolding state_json_def
  by (intro plain_dput) (simp_all add: table_dict_facts(1) [unfolded table_dict_def] plain_text_simps code_def
      del: plain_json.simps(4))

lemma state_json_jget:
  "state_json doc ops = JObj D \<Longrightarrow>
   jget D k = (if k = ''operations'' then JObj (table_dict ops) else jget doc k)"
  by (auto simp: state_json_def table_dict_def)

text \<open>Loading what was saved gives the same document and table with their keys in order.\<close>

lemma load_saved:
  assumes plain: "plain_json (JObj doc)" and v: "eq_int (jget doc ''schemaVersion'') 1" and table: "table_ok ops"
  obtains doc' ops' where
    "pv_load_json (state_files cfg (Some (state_bytes doc ops))) (pv_state_path cfg) = Inr (doc', ops')"
    "plain_json (JObj doc')" "eq_int (jget doc' ''schemaVersion'') 1" "table_ok ops'"
    "state_bytes doc' ops' = state_bytes doc ops"
    "\<And>oid. ops_get ops' (JStr oid) = jsort (ops_get ops (JStr oid))"
proof -
  obtain D where D: "state_json doc ops = JObj D" by (simp add: state_json_def)
  obtain D' where D': "jsort (JObj D) = JObj D'" by simp
  have pD: "plain_json (JObj D)" using state_json_plain [OF plain table] D by simp
  then have dD: "distinct (map fst D)" by simp
  obtain E where E: "jsort (JObj (table_dict ops)) = JObj E" by simp
  have pE: "plain_json (JObj E)" using plain_jsort [OF table_dict_facts(1) [OF table]] E by simp
  have get: "jget D' k = (if k = ''operations'' then JObj E else jsort (jget doc k))" for k
    using jget_jsort [OF dD D', of k] state_json_jget [OF D, of k] E by (simp del: jsort.simps)
  have getE: "jget E oid = jsort (ops_get ops (JStr oid))" for oid
    using jget_jsort [of "table_dict ops" E oid] table_dict_facts [OF table] E by (simp del: jsort.simps)
  let ?ops = "map (\<lambda>(k, v). (JStr k, v)) E"
  have getops: "ops_get ?ops (JStr oid) = jget E oid" for oid
    by (simp add: ops_get_text jget_def) (induction E, auto)
  have load: "pv_load_json (state_files cfg (Some (state_bytes doc ops))) (pv_state_path cfg) = Inr (D', ?ops)"
  proof -
    have "state_files cfg (Some (state_bytes doc ops)) (pv_state_path cfg) = Some (FFile 384 (state_bytes doc ops))"
      by (simp add: state_files_def)
    then have "fs_follow (state_files cfg (Some (state_bytes doc ops))) (pv_state_path cfg) =
        Some (FFile 384 (state_bytes doc ops))" "\<not> is_symlink (state_files cfg (Some (state_bytes doc ops))) (pv_state_path cfg)"
      by (simp_all add: fs_follow_def is_symlink_def numeral_eq_Suc)
    moreover have "loads False (state_bytes doc ops) = Inr (JObj D')"
      using loads_dumps_plain [of "state_json doc ops" False] pD D D' by (simp add: state_bytes_def)
    moreover have "utf8_ok (state_bytes doc ops)"
      using read_back_plain [of "state_json doc ops"] pD D by (simp add: state_bytes_def)
    moreover have "eq_int (jget D' ''schemaVersion'') 1"
      using v by (simp add: get) (cases "jget doc ''schemaVersion''"; simp add: eq_int_def)
    ultimately show ?thesis
      by (simp add: pv_load_json_def path_exists_def is_file_def read_text_def read_bytes_def get)
  qed
  have table': "table_ok ?ops"
  proof -
    have "distinct (map fst E)" using pE by simp
    then have "distinct (map fst ?ops)"
      by (simp add: case_prod_beta comp_def distinct_map inj_on_def)
    moreover have "\<exists>oid d. kv = (JStr oid, JObj d) \<and> plain_text oid \<and> op_ok d \<and> jget d ''candidateId'' = JStr oid"
      if "kv \<in> set ?ops" for kv
    proof -
      have "E = sort_key fst (map (\<lambda>(k, v). (k, jsort v)) (table_dict ops))" using E by simp
      with that obtain k0 where k0: "k0 \<in> set ops" "kv = (JStr (py_str (fst k0)), jsort (snd k0))"
        by (auto simp: table_dict_def)
      then obtain oid d where "k0 = (JStr oid, JObj d)" "plain_text oid" "op_ok d" "jget d ''candidateId'' = JStr oid"
        using table unfolding table_ok_def by blast
      moreover obtain d' where "jsort (JObj d) = JObj d'" by simp
      ultimately show ?thesis
        using k0 op_ok_jsort jget_jsort [OF op_ok_distinct] by (simp del: jsort.simps(2))
    qed
    ultimately show ?thesis unfolding table_ok_def by blast
  qed
  have bytes: "state_bytes D' ?ops = state_bytes doc ops"
  proof -
    have "map_of D' ''operations'' = Some (JObj E)"
      using get [of "''operations''"] by (simp add: jget_def split: option.splits)
    moreover have "map (\<lambda>kv. (py_str (fst kv), snd kv)) ?ops = E"
      by (simp add: comp_def case_prod_beta)
    ultimately have "state_json D' ?ops = jsort (state_json doc ops)"
      using D D' by (simp add: state_json_def dput_same del: jsort.simps)
    then show ?thesis by (simp add: state_bytes_def)
  qed
  have "plain_json (JObj D')" using plain_jsort [OF pD] D' by simp
  moreover have "eq_int (jget D' ''schemaVersion'') 1"
    using v by (simp add: get) (cases "jget doc ''schemaVersion''"; simp add: eq_int_def)
  ultimately show ?thesis
    by (intro that [OF load _ _ table' bytes]) (simp_all add: getops getE)
qed

lemma restart_follows:
  assumes "state_ok s" and load: "pv_load_json (state_files cfg (pv_disk s)) (pv_state_path cfg) = Inr (doc, ops)"
  shows "follows s (s\<lparr>outside := w, mono := m, trace := tr, pv_doc := doc, pv_ops := ops\<rparr>)"
proof (cases "pv_disk s")
  case None
  then have "pv_doc s = fresh_doc" "pv_ops s = []" using assms(1) by (simp_all add: state_ok_def synced_def)
  moreover have "doc = fresh_doc" "ops = []"
    using load by (simp_all add: None pv_load_json_def state_files_def path_exists_def fs_follow_def fresh_doc_def
        numeral_eq_Suc)
  ultimately show ?thesis using assms(1) None by (simp add: follows_def state_ok_def synced_def)
next
  case (Some b)
  then have b: "b = state_bytes (pv_doc s) (pv_ops s)" using assms(1) by (simp add: state_ok_def synced_def)
  obtain doc' ops' where l:
    "pv_load_json (state_files cfg (Some (state_bytes (pv_doc s) (pv_ops s)))) (pv_state_path cfg) = Inr (doc', ops')"
    "plain_json (JObj doc')" "eq_int (jget doc' ''schemaVersion'') 1" "table_ok ops'"
    "state_bytes doc' ops' = state_bytes (pv_doc s) (pv_ops s)"
    "\<And>oid. ops_get ops' (JStr oid) = jsort (ops_get (pv_ops s) (JStr oid))"
    using load_saved [of "pv_doc s" "pv_ops s" cfg] assms(1) unfolding state_ok_def by metis
  then have e: "doc = doc'" "ops = ops'" using load Some b by simp_all
  have "\<exists>d'. ops_get ops (JStr oid) = JObj d' \<and> evolves d d'" if "entry s oid = JObj d" for oid d
  proof -
    obtain d' where "jsort (JObj d) = JObj d'" by simp
    moreover have "distinct (map fst d)"
      using that assms(1) table_entry op_ok_distinct unfolding state_ok_def by blast
    ultimately show ?thesis using that evolves_jsort l(6) by (simp add: e(2) del: jsort.simps)
  qed
  with l e Some b show ?thesis by (simp add: follows_def state_ok_def synced_def)
qed

section \<open>Every step follows\<close>

context failover_driver
begin

lemma request_follows:
  assumes s0: "state_ok s0" and cfg: "plain_text (pv_standby_coordinator_id cfg)" and rq: "text_request rq"
    and run: "pv_do_POST P cfg D rq s0 = (answer, t)"
  shows "follows s0 t"
proof -
  have refl0: "follows s0 s0" by (rule follows_refl [OF s0])
  have "wp (pv_route_post P cfg D rq) (\<lambda>_ t. follows s0 t) (\<lambda>_ t. follows s0 t) s0"
  proof (cases "py_int (case in_header rq ''Content-Length'' of Some v \<Rightarrow> v | None \<Rightarrow> ''0'')")
    case (Inl e)
    then show ?thesis by (simp add: pv_route_post_def wp refl0)
  next
    case (Inr len)
    show ?thesis
    proof (cases "loads False (take (nat len) (in_body rq))")
      case (Inl e)
      then show ?thesis using Inr by (simp add: pv_route_post_def wp refl0)
    next
      case body: (Inr v)
      have "wp (pv_prepare P cfg D key d) (\<lambda>_ t. follows s0 t) (\<lambda>_ t. follows s0 t) s0"
           "wp (pv_commit P D oid key d) (\<lambda>_ t. follows s0 t) (\<lambda>_ t. follows s0 t) s0" if "v = JObj d" for d oid key
        using rq body that unfolding text_request_def
        by (auto intro: wp_mono [OF prepare_follows [OF s0]] wp_mono [OF commit_follows [OF s0 cfg]])
      then show ?thesis
        using Inr body
        by (cases v) (auto simp: pv_route_post_def wp refl0 Let_def split: sum.splits option.splits)
    qed
  qed
  with run show ?thesis
    by (auto simp: pv_do_POST_def wp_def split: prod.splits sum.splits)
qed

lemma step_follows:
  "pv_step P cfg D s t \<Longrightarrow> state_ok s \<Longrightarrow> plain_text (pv_standby_coordinator_id cfg) \<Longrightarrow> follows s t"
  by (erule pv_stepE) (auto intro: request_follows restart_follows)

lemma steps_follow:
  "(pv_step P cfg D)\<^sup>*\<^sup>* s t \<Longrightarrow> state_ok s \<Longrightarrow> plain_text (pv_standby_coordinator_id cfg) \<Longrightarrow> follows s t"
proof (induction rule: rtranclp_induct)
  case base
  then show ?case by (simp add: follows_refl)
next
  case (step t u)
  then have "follows s t" "state_ok t" by (simp_all add: follows_def)
  with step show ?case using follows_trans step_follows by metis
qed

end

section \<open>Replays\<close>

lemma prepare_needs_check: "pv_prepare P cfg D key rq s = (Inr v, t) \<Longrightarrow> pv_check_prepare cfg key rq = Inr ()"
  by (cases "pv_check_prepare cfg key rq") (simp_all add: pv_prepare_def seqc_def bnd_def lift_res_def)

lemma commit_needs_check: "pv_commit P D oid key rq s = (Inr v, t) \<Longrightarrow> pv_check_commit oid key rq = Inr ()"
  by (cases "pv_check_commit oid key rq") (simp_all add: pv_commit_def seqc_def bnd_def lift_res_def)

lemma get_operation_text:
  "entry s oid = JObj d \<Longrightarrow> op_ok d \<Longrightarrow> get_operation (JStr oid) s = (Inr (Some d), s)"
  using op_ok_nonempty [of d] by (simp add: get_operation_def bnd_def gets_def ret_def)

lemma prepare_replays:
  assumes ok: "state_ok t" and f: "follows s t" and check: "pv_check_prepare cfg key rq = Inr ()"
    and k: "jget rq ''candidateId'' = JStr oid" and p: "prepared_as s oid key rq v"
  shows "\<exists>v'. pv_prepare P cfg D key rq t = (Inr v', t) \<and> same_value v v'"
proof -
  obtain d where d: "entry s oid = JObj d" "phase_of d \<noteq> JStr ''PREPARING''" "jget d ''prepareResponse'' = v"
    "jget d ''prepareKeySha256'' = JStr (hash_text key)"
    "jget d ''prepareRequestSha256'' = JStr (pv_canonical_hash (JObj rq))"
    using p unfolding prepared_as_def by blast
  then obtain d' where d': "entry t oid = JObj d'" "evolves d d'" using f by (auto simp: follows_def)
  have ok': "op_ok d'" using d'(1) ok table_entry unfolding state_ok_def by blast
  have "same_value v (jget d' ''prepareResponse'')" "truthy (jget d' ''prepareResponse'')"
    "jget d' ''prepareKeySha256'' = JStr (hash_text key)"
    "jget d' ''prepareRequestSha256'' = JStr (pv_canonical_hash (JObj rq))"
    using d d'(2) ok' by (auto simp: evolves_def same_value_str op_ok_def)
  then show ?thesis
    by (simp add: pv_prepare_def Let_def seqc_def bnd_def lift_res_def check k get_operation_text [OF d'(1) ok']
        raise_if_def ret_def eq_str_def)
qed

lemma commit_replays:
  assumes ok: "state_ok t" and f: "follows s t" and check: "pv_check_commit oid key rq = Inr ()"
    and c: "committed_as s oid key rq v" and "state_ok s"
  shows "\<exists>v'. pv_commit P D oid key rq t = (Inr v', t) \<and> same_value v v'"
proof -
  obtain d where d: "entry s oid = JObj d" "phase_of d = JStr ''COMMITTED''" "jget d ''commitResponse'' = v"
    "jget d ''commitKeySha256'' = JStr (hash_text key)"
    "jget d ''commitRequestSha256'' = JStr (pv_canonical_hash (JObj rq))"
    using c unfolding committed_as_def by blast
  then obtain d' where d': "entry t oid = JObj d'" "evolves d d'" using f by (auto simp: follows_def)
  have ok': "op_ok d'" using d'(1) ok table_entry unfolding state_ok_def by blast
  have okd: "op_ok d" using d(1) assms(5) table_entry unfolding state_ok_def by blast
  have same: "same_value (jget d x) (jget d' x)" for x
    using d(2) d'(2) same_value_jget [OF _ op_ok_distinct [OF okd] op_ok_distinct [OF ok']] by (simp add: evolves_def)
  have "same_value v (jget d' ''commitResponse'')" "jget d' ''commitKeySha256'' = JStr (hash_text key)"
    "jget d' ''commitRequestSha256'' = JStr (pv_canonical_hash (JObj rq))" "phase_of d' = JStr ''COMMITTED''"
    using same [of "''commitResponse''"] same [of "''commitKeySha256''"] same [of "''commitRequestSha256''"]
      same [of "''phase''"] d by (simp_all add: same_value_str phase_of_def)
  moreover from this have "truthy (jget d' ''commitResponse'')" using ok' by (simp add: op_ok_def)
  ultimately show ?thesis
    by (simp add: pv_commit_def Let_def seqc_def bnd_def lift_res_def check get_operation_text [OF d'(1) ok']
        raise_if_def ret_def eq_str_def phase_of_def)
qed

lemma same_value_dumps: "same_value v w \<Longrightarrow> dumps a v = dumps a w"
  by (simp add: same_value_def dumps_def)

end
