(* ===== verification/Failover_Example.thy ===== *)
theory Failover_Example
  imports Failover_Steps
begin

text \<open>
  A concrete configuration, a platform that is unreachable, and a table with one committed operation:
  the inputs the properties of the provider are applied to.
\<close>

definition demo_platform :: "unit platform" where
  "demo_platform =
     \<lparr>p_run = (\<lambda>cmd t w. (None, 30000, w)), p_http = (\<lambda>rq t w. (NetFail, 7, w)),
      p_dns = (\<lambda>host port w. (Some [host], 1, w)), p_wall = (\<lambda>w. (1700000000000, 1, w)),
      p_sleep = (\<lambda>w. (0, w)), p_store = (\<lambda>f b w. (True, 0, w))\<rparr>"

definition demo_settings :: docker_settings where
  "demo_settings =
     \<lparr>dk_project = ''zkdeal'', dk_network = ''zkdeal-net'', dk_active_service = ''active'',
      dk_standby_service = ''standby'', dk_primary_db_service = ''pg-primary'',
      dk_standby_db_service = ''pg-standby'', dk_signer_service = ''signer'', dk_database_alias = ''db'',
      dk_application_alias = ''app'', dk_pg_user = ''zk'', dk_pg_database = ''zk'', dk_pg_data = ''/data''\<rparr>"

definition demo_config :: pv_config where
  "demo_config =
     \<lparr>pv_platform_kind = ''docker'', pv_active_health_urls = [''https://a.example'', ''https://b.example''],
      pv_standby_health_url = ''https://s.example'', pv_indexer_freshness_url = ''https://i.example'',
      pv_signer_authority_health_urls = [''https://k.example''], pv_active_coordinator_id = ''coordinator-a'',
      pv_standby_coordinator_id = ''coordinator-b'', pv_provider_token = ''provider-token-0'',
      pv_approval_token = ''approval-token-0'', pv_request_timeout_seconds = 10,
      pv_platform_timeout_seconds = 120, pv_state_path = ''/state.json'', pv_listen_host = ''0.0.0.0'',
      pv_listen_port = 8443, pv_tls_cert_file = Some ''/c'', pv_tls_key_file = Some ''/k'', pv_allow_http = False\<rparr>"

definition demo_driver :: "unit pv_driver" where
  "demo_driver = docker_driver demo_platform demo_config demo_settings"

lemma demo_config_ok: "pv_config_ok demo_config"
  by (simp add: pv_config_ok_def demo_config_def pv_safe_id_def rep_match_def py_len_def class_defs)

section \<open>Requests\<close>

definition demo_id :: string where "demo_id = ''candidate-1''"

definition demo_key :: string where "demo_key = ''candidate-key''"

definition demo_prepare :: dict where
  "demo_prepare =
     [(''candidateId'', JStr demo_id), (''activeCoordinatorId'', JStr ''coordinator-a''),
      (''standbyCoordinatorId'', JStr ''coordinator-b''), (''failedWitnessCount'', JInt 2)]"

definition demo_owner_hash :: string where
  "demo_owner_hash = replicate 64 CHR ''0''"

definition demo_commit :: dict where
  "demo_commit = [(''ownerResponseSha256'', JStr demo_owner_hash)]"

lemma demo_prepare_checked: "pv_check_prepare demo_config demo_key demo_prepare = Inr ()"
  by (simp add: pv_check_prepare_def demo_config_def demo_key_def demo_prepare_def demo_id_def pv_safe_id_def
      rep_match_def class_defs same_keys_def keys_def prepare_fields_def jget_def eq_str_def)

lemma demo_commit_checked: "pv_check_commit demo_id demo_key demo_commit = Inr ()"
  by (simp add: pv_check_commit_def demo_id_def demo_key_def demo_commit_def demo_owner_hash_def pv_safe_id_def
      rep_match_def class_defs same_keys_def keys_def jget_def hex64_def list_all_iff)

section \<open>A committed operation\<close>

definition demo_operation :: dict where
  "demo_operation =
     [(''candidateId'', JStr demo_id), (''prepareKeySha256'', JStr (hash_text demo_key)),
      (''prepareRequestSha256'', JStr (pv_canonical_hash (JObj demo_prepare))),
      (''phase'', JStr ''COMMITTED''), (''createdAtUnixMs'', JInt 1700000000000),
      (''primaryTargetLsn'', JStr ''0/3000060''), (''targetCapturedAtUnixMs'', JInt 1700000001000),
      (''prepareResponse'', JObj (pv_prepare_response ''0/3000060'' ''0/3000060'' (JStr demo_id))),
      (''commitKeySha256'', JStr (hash_text demo_key)),
      (''commitRequestSha256'', JStr (pv_canonical_hash (JObj demo_commit))),
      (''commitResponse'', JObj (committed_response (pv_commit_response demo_config demo_id) 12500
          (JInt 1700000001000) 1700000013500))]"

definition demo_ops :: op_table where
  "demo_ops = [(JStr demo_id, JObj demo_operation)]"

definition demo_state :: "unit pv_state" where
  "demo_state = \<lparr>outside = (), mono = 0, trace = [], pv_doc = fresh_doc, pv_ops = demo_ops,
     pv_disk = Some (state_bytes fresh_doc demo_ops)\<rparr>"

definition demo_start :: "unit pv_state" where
  "demo_start = \<lparr>outside = (), mono = 0, trace = [], pv_doc = fresh_doc, pv_ops = [], pv_disk = None\<rparr>"

lemma demo_reached: "reached ''0/3000060'' ''0/3000060''"
  by (simp add: reached_def pv_lsn_value_def lsn_pattern_def class_defs)

lemma demo_id_plain: "plain_text demo_id" "plain_text ''coordinator-b''" "plain_text ''0/3000060''"
  by (simp_all add: demo_id_def plain_text_simps code_def)

lemma demo_operation_ok: "op_ok demo_operation"
proof -
  have "prepared_ok demo_prepare (pv_prepare_response ''0/3000060'' ''0/3000060'' (JStr demo_id))"
    using demo_reached unfolding prepared_ok_def by (auto simp: demo_prepare_def jget_def)
  from prepared_ready [OF this] prepared_plain [OF this] have
    "ready_response (JStr demo_id) (pv_prepare_response ''0/3000060'' ''0/3000060'' (JStr demo_id))"
    "plain_json (JObj (pv_prepare_response ''0/3000060'' ''0/3000060'' (JStr demo_id)))"
    by (simp_all add: demo_prepare_def jget_def demo_id_plain del: plain_json.simps(4))
  moreover have "plain_json (JObj (committed_response (pv_commit_response demo_config demo_id) 12500
          (JInt 1700000001000) 1700000013500))"
    by (rule measured_plain [OF _ demo_id_plain(2)]) (simp_all add: demo_id_plain demo_config_def)
  ultimately show ?thesis
    by (simp add: op_ok_def demo_operation_def phase_of_def recorded_target_def jget_def demo_id_plain
        pv_prepare_response_def del: plain_json.simps(4)) (simp add: demo_id_plain)
qed

lemma demo_state_ok: "state_ok demo_state"
  using demo_operation_ok
  by (simp add: state_ok_def demo_state_def table_ok_def synced_def demo_ops_def demo_id_plain fresh_doc_def
      jget_def eq_int_def) (simp add: demo_operation_def plain_text_simps code_def)

lemma demo_entry: "entry demo_state demo_id = JObj demo_operation" "demo_operation \<noteq> []"
  by (simp_all add: demo_state_def demo_ops_def ops_get_text) (simp add: demo_operation_def)

end
