(* ===== verification/Failover_Run.thy ===== *)
theory Failover_Run
  imports Failover_Example
begin

text \<open>
  A concrete failover that succeeds: a Docker platform whose containers, databases and services answer
  as a healthy deployment with an unreachable active coordinator would. It shows that the guarded
  commands of the safety properties are reached and gives the inputs of several witnesses.
\<close>

section \<open>The platform\<close>

record live =
  l_active :: bool
  l_primary :: bool
  l_promoted :: bool
  l_signer :: bool

definition live_world :: live where
  "live_world = \<lparr>l_active = True, l_primary = True, l_promoted = False, l_signer = False\<rparr>"

definition live_container :: "string \<Rightarrow> string" where
  "live_container label =
     replicate 12 (if ends_with ''active'' label then CHR ''a'' else if ends_with ''pg-primary'' label then CHR ''c''
       else if ends_with ''pg-standby'' label then CHR ''d'' else if ends_with ''signer'' label then CHR ''e'' else CHR ''b'')"

definition live_up :: "live \<Rightarrow> string \<Rightarrow> bool" where
  "live_up w c =
     (if c = replicate 12 CHR ''a'' then l_active w else if c = replicate 12 CHR ''c'' then l_primary w
      else if c = replicate 12 CHR ''e'' then l_signer w else True)"

definition live_command :: "string list \<Rightarrow> live \<Rightarrow> string \<times> live" where
  "live_command cmd w =
     (let arg = last cmd; verb = cmd ! 1 in
      if verb = ''ps'' then (live_container arg, w)
      else if verb = ''inspect'' then (if live_up w arg then ''true'' else ''false'', w)
      else if verb = ''stop'' then
        ([], if arg = replicate 12 CHR ''a'' then w\<lparr>l_active := False\<rparr> else w\<lparr>l_primary := False\<rparr>)
      else if verb = ''start'' then ([], w\<lparr>l_signer := True\<rparr>)
      else if arg = q_recovery then (if l_promoted w then ''f'' else ''t'', w)
      else if arg = q_synchronous then (''1'', w)
      else if arg = q_flush_lsn \<or> arg = q_replay_lsn then (''0/3000060'', w)
      else if arg = ''-w'' then ([], w\<lparr>l_promoted := True\<rparr>)
      else ([], w))"

text \<open>Every service answers with one object: a standby that refuses writes, and a fresh indexer.\<close>

definition live_object :: dict where
  "live_object =
     [(''acceptingWrites'', JBool False), (''configuredRole'', JStr ''standby''),
      (''coordinatorId'', JStr ''coordinator-b''), (''effectiveRole'', JStr ''standby''),
      (''indexerHeadMatchesL1'', JBool True), (''unresolvedSafetyEvents'', JInt 0)]"

definition live_reply :: http_reply where
  "live_reply = Reply 200 (dumps True (JObj live_object) @ newline)"

definition live_platform :: "live platform" where
  "live_platform =
     \<lparr>p_run = (\<lambda>cmd t w. case live_command cmd w of (out, w') \<Rightarrow>
         (Some \<lparr>returncode = 0, stdout = out, stderr = []\<rparr>, 1, w')),
      p_http = (\<lambda>rq t w. (live_reply, 1, w)),
      p_dns = (\<lambda>host port w. (Some [host], 1, w)), p_wall = (\<lambda>w. (1700000000000, 1, w)),
      p_sleep = (\<lambda>w. (0, w)), p_store = (\<lambda>f b w. (True, 0, w))\<rparr>"

definition live_start :: "live pv_state" where
  "live_start =
     \<lparr>outside = live_world, mono = 0, trace = [], pv_doc = fresh_doc, pv_ops = [], pv_disk = None\<rparr>"

definition text_keys :: "live pv_state \<Rightarrow> bool" where
  "text_keys s \<longleftrightarrow> list_all (\<lambda>kv. is_str (fst kv)) (pv_ops s)"

definition live_driver :: "live pv_driver" where
  "live_driver = docker_driver live_platform demo_config demo_settings"

section \<open>Commands and requests on it\<close>

definition logged :: "live pv_state \<Rightarrow> string list \<Rightarrow> live pv_state" where
  "logged s cmd =
     s\<lparr>outside := snd (live_command cmd (outside s)), mono := mono s + 1,
       trace := EvRun cmd (Some \<lparr>returncode = 0, stdout = fst (live_command cmd (outside s)), stderr = []\<rparr>) # trace s\<rparr>"

definition asked :: "live pv_state \<Rightarrow> string \<Rightarrow> live pv_state" where
  "asked s u = s\<lparr>mono := mono s + 1, trace := EvHttp (pv_get_request u False) live_reply # trace s\<rparr>"

lemma live_state [simp]:
  "outside (logged s cmd) = snd (live_command cmd (outside s))" "pv_ops (logged s cmd) = pv_ops s"
  "outside (asked s u) = outside s" "pv_ops (asked s u) = pv_ops s"
  "outside live_start = live_world" "pv_ops live_start = []"
  "text_keys (logged s cmd) = text_keys s" "text_keys (asked s u) = text_keys s"
  by (simp_all add: logged_def asked_def live_start_def text_keys_def)

lemma live_ran [simp]:
  "list_ex (ran p) (trace (logged s cmd)) \<longleftrightarrow> p cmd \<or> list_ex (ran p) (trace s)"
  "list_ex (ran p) (trace (asked s u)) \<longleftrightarrow> list_ex (ran p) (trace s)"
  by (simp_all add: logged_def asked_def)

lemma live_settings [simp]:
  "dk_active_service demo_settings = ''active''" "dk_standby_service demo_settings = ''standby''"
  "dk_primary_db_service demo_settings = ''pg-primary''" "dk_standby_db_service demo_settings = ''pg-standby''"
  "dk_signer_service demo_settings = ''signer''"
  by (simp_all add: demo_settings_def)

lemma live_run:
  "docker_run live_platform tol t args s =
     (Inr (py_strip (fst (live_command (''docker'' # args) (outside s)))), logged s (''docker'' # args))"
  by (simp add: docker_run_def run_process_def live_platform_def bnd_def seqc_def raise_if_def ret_def logged_def
    split: prod.splits)

lemma live_containers [simp]:
  "live_container ''label=com.docker.compose.service=active'' = ''aaaaaaaaaaaa''"
  "live_container ''label=com.docker.compose.service=standby'' = ''bbbbbbbbbbbb''"
  "live_container ''label=com.docker.compose.service=pg-primary'' = ''cccccccccccc''"
  "live_container ''label=com.docker.compose.service=pg-standby'' = ''dddddddddddd''"
  "live_container ''label=com.docker.compose.service=signer'' = ''eeeeeeeeeeee''"
  by (simp_all add: live_container_def ends_with_def numeral_eq_Suc)

lemma live_find:
  "svc \<in> {''active'', ''standby'', ''pg-primary'', ''pg-standby'', ''signer''} \<Longrightarrow>
   docker_container live_platform st svc s = (Inr (live_container (''label=com.docker.compose.service='' @ svc)),
      logged s (''docker'' # docker_ps_args st svc))"
  by (auto simp: docker_container_def bnd_def live_run live_command_def ret_def docker_ps_args_def
    py_strip_def py_lstrip_def py_rstrip_def rep_match_def class_defs)

lemma live_psargs [simp]: "live_command (''docker'' # docker_ps_args st svc) w =
    (live_container (''label=com.docker.compose.service='' @ svc), w)"
  by (simp add: live_command_def docker_ps_args_def)

lemma live_running [simp]:
  "docker_running live_platform c s = (Inr (live_up (outside s) c), logged s (''docker'' # inspect_args c))"
  by (simp add: docker_running_def bnd_def live_run live_command_def ret_def inspect_args_def
    py_strip_def py_lstrip_def py_rstrip_def class_defs)

lemma live_inspect [simp]: "live_command (''docker'' # inspect_args c) w = (if live_up w c then ''true'' else ''false'', w)"
  by (simp add: live_command_def inspect_args_def)

lemma live_network [simp]:
  "last args \<in> set [''aaaaaaaaaaaa'', ''bbbbbbbbbbbb'', ''cccccccccccc'', ''dddddddddddd''] \<Longrightarrow>
   live_command (''docker'' # ''network'' # args) w = ([], w)"
  by (auto simp: live_command_def q_recovery_def q_flush_lsn_def q_replay_lsn_def q_synchronous_def)

lemma live_stop [simp]:
  "live_command [''docker'', ''stop'', ''--time'', ''10'', c] w =
     ([], if c = ''aaaaaaaaaaaa'' then w\<lparr>l_active := False\<rparr> else w\<lparr>l_primary := False\<rparr>)"
  "live_command [''docker'', ''start'', c] w = ([], w\<lparr>l_signer := True\<rparr>)"
  by (simp_all add: live_command_def numeral_eq_Suc)

lemma live_up_simps [simp]:
  "live_up w ''aaaaaaaaaaaa'' = l_active w" "live_up w ''cccccccccccc'' = l_primary w" "live_up w ''eeeeeeeeeeee'' = l_signer w"
  by (simp_all add: live_up_def numeral_eq_Suc)

lemma poll_for_first:
  assumes "0 < timeout" and "body b s = (Inr (Some r, b'), t)"
  shows "poll_for P timeout body late b s = (Inr r, t)"
  using assms by (simp add: poll_for_def bnd_def monotonic_def gets_def seconds_def ret_def)

lemma live_answer: "pv_read_reply live_reply = (200, live_object)"
proof -
  have p: "plain_json (JObj live_object)" by (simp add: live_object_def plain_text_simps class_defs)
  have "length (dumps True (JObj live_object) @ newline) \<le> pv_max_body_bytes"
    by (simp add: live_object_def dumps_def print_str_plain plain_text_simps print_str_def esc_char_def class_defs
        quote_char_def short_escape_def sort_key_def newline_def int_str_def pv_max_body_bytes_def)
  moreover have "jsort (JObj live_object) = JObj live_object" by (simp add: live_object_def sort_key_def)
  ultimately show ?thesis
    using loads_dumps_plain [OF p, of False] by (simp add: pv_read_reply_def live_reply_def del: jsort.simps)
qed

lemma live_ask: "pv_request_json live_platform u t False s = (Inr (200, live_object), asked s u)"
  using live_answer
  by (simp add: pv_request_json_def http_exchange_def live_platform_def bnd_def ret_def asked_def)

lemma live_signers: "pv_verify_signer_authority live_platform demo_config s = (Inr (), asked s ''https://k.example'')"
  unfolding pv_verify_signer_authority_def
  by (rule poll_for_first) (simp_all add: demo_config_def bnd_def live_ask ret_def)

lemma live_indexer: "pv_verify_indexer live_platform demo_config s = (Inr (), asked s ''https://i.example'')"
  by (simp add: pv_verify_indexer_def bnd_def demo_config_def live_ask live_object_def ret_def raise_if_def
      pv_indexer_fresh_def jget_def is_true_def eq_int_def)

definition live_psql :: "live \<Rightarrow> string \<Rightarrow> string" where
  "live_psql w q = (if q = q_recovery then if l_promoted w then ''f'' else ''t''
     else if q = q_synchronous then ''1'' else ''0/3000060'')"

definition live_queries :: "string set" where
  "live_queries = {q_recovery, q_synchronous, q_flush_lsn, q_replay_lsn}"

lemma live_query [simp]:
  "q_recovery \<in> live_queries" "q_synchronous \<in> live_queries" "q_flush_lsn \<in> live_queries" "q_replay_lsn \<in> live_queries"
  by (simp_all add: live_queries_def)

lemma live_psql_command [simp]: "q \<in> live_queries \<Longrightarrow> live_command (dk_psql_cmd st c q) w = (live_psql w q, w)"
  by (auto simp: live_command_def dk_psql_cmd_def psql_command_def live_psql_def live_queries_def
      q_recovery_def q_synchronous_def q_flush_lsn_def q_replay_lsn_def)

lemma live_psql_run:
  "q \<in> live_queries \<Longrightarrow>
   docker_psql live_platform st c q s = (Inr (live_psql (outside s) q), logged s (dk_psql_cmd st c q))"
proof -
  have strip: "py_strip (live_psql w q) = live_psql w q" for w
    by (simp add: live_psql_def py_strip_def py_lstrip_def py_rstrip_def class_defs)
  assume "q \<in> live_queries"
  then have "live_command (''docker'' # [''exec''] @ [] @ c # psql_command (dk_pg_user st) (dk_pg_database st) q) w = (live_psql w q, w)" for w
    using live_psql_command [of q st c w] by (simp add: dk_psql_cmd_def)
  then show ?thesis
    by (simp add: docker_psql_def docker_exec_def bnd_def live_run ret_def strip dk_psql_cmd_def)
qed

lemma live_psql_values:
  "live_psql w q_recovery = (if l_promoted w then ''f'' else ''t'')" "live_psql w q_synchronous = ''1''"
  "live_psql w q_flush_lsn = ''0/3000060''" "live_psql w q_replay_lsn = ''0/3000060''"
  by (simp_all add: live_psql_def q_recovery_def q_synchronous_def q_flush_lsn_def q_replay_lsn_def)

lemma live_lsn: "\<exists>n. pv_lsn_value ''0/3000060'' = Inr n"
  unfolding pv_lsn_value_Inr by (simp add: lsn_pattern_def class_defs)

lemma live_await: "pv_await_target live_platform demo_config (docker_psql live_platform st c) ''0/3000060'' s =
   (Inr ''0/3000060'', logged (logged s (dk_psql_cmd st c q_recovery)) (dk_psql_cmd st c q_replay_lsn))"
proof -
  obtain n where n: "pv_lsn_value ''0/3000060'' = Inr n" using live_lsn by blast
  show ?thesis
    unfolding pv_await_target_def
    by (rule poll_for_first)
      (simp_all add: demo_config_def pv_observe_replay_def bnd_def live_psql_run live_psql_values n ret_def lift_res_def)
qed

lemma live_promote [simp]:
  "live_command [''docker'', ''exec'', ''--user'', ''postgres'', c, ''pg_ctl'', ''-D'', d, ''promote'', ''-w''] w =
     ([], w\<lparr>l_promoted := True\<rparr>)"
  by (simp add: live_command_def q_recovery_def q_synchronous_def q_flush_lsn_def q_replay_lsn_def)

section \<open>The operations succeed\<close>

lemma live_prepare:
  fixes s :: "live pv_state"
  assumes chk: "\<And>t s. text_keys s \<Longrightarrow> chk t s = (Inr (), f t s)"
    and f: "\<And>t s. outside (f t s) = outside s" "\<And>t s p. list_ex (ran p) (trace (f t s)) = list_ex (ran p) (trace s)"
    and s: "outside s = live_world" "text_keys s"
  shows "\<exists>t. docker_prepare live_platform demo_config demo_settings demo_prepare [] chk s =
      (Inr (pv_prepare_response ''0/3000060'' ''0/3000060'' (JStr demo_id)), t) \<and>
    list_ex (ran (dk_promotes demo_settings ''dddddddddddd'')) (trace t)"
proof -
  obtain n where n: "pv_lsn_value ''0/3000060'' = Inr n" using live_lsn by blast
  have c: "jget demo_prepare ''candidateId'' = JStr demo_id" by (simp add: demo_prepare_def jget_def)
  show ?thesis
    apply (simp add: docker_prepare_def bnd_def seqc_def live_find)
    apply (simp add: docker_stop_def docker_disconnect_def docker_route_alias_def bnd_def seqc_def live_run
      whenc_def ret_def raise_if_def live_psql_run live_psql_values capture_target_def n lift_res_def live_await
      live_indexer docker_exec_def promote_command_def digits_val_def all_digits_def class_defs c chk f s live_world_def)
    apply (simp add: dk_promotes_def promote_command_def)
    done
qed

lemma live_commit:
  "outside (s :: live pv_state) = live_world \<Longrightarrow>
   \<exists>t. docker_commit live_platform demo_config demo_settings demo_id h s =
      (Inr (pv_commit_response demo_config demo_id), t) \<and> pv_ops t = pv_ops s \<and>
    list_ex (ran (dk_starts ''eeeeeeeeeeee'')) (trace t)"
  apply (simp add: docker_commit_def bnd_def seqc_def live_find)
  apply (simp add: docker_stop_def docker_disconnect_def docker_route_alias_def bnd_def seqc_def live_run whenc_def
      ret_def raise_if_def live_signers live_world_def)
  apply (simp add: dk_starts_def)
  done

section \<open>Through the provider\<close>

lemma text_keys_put: "list_all (\<lambda>kv. is_str (fst kv)) ops \<Longrightarrow> list_all (\<lambda>kv. is_str (fst kv)) (ops_put (JStr k) v ops)"
  by (induction "JStr k" v ops rule: ops_put.induct) auto

lemma text_keys_save: "text_keys s \<Longrightarrow> pv_save s = (Inr (), saved s)"
  by (simp add: text_keys_def pv_save_def ops_sortable_def saved_def Let_def)

lemma live_checkpoint:
  assumes "text_keys s"
  shows "pv_checkpoint live_platform (JStr oid) t s = (Inr (), snd (pv_checkpoint live_platform (JStr oid) t s))"
  using assms
  by (simp add: pv_checkpoint_def seqc_def bnd_def set_fields_def modify_def wall_ms_def live_platform_def
      text_keys_save text_keys_def text_keys_put)

lemma framed_text_keys: "framed text_keys"
  by (simp add: framed_def text_keys_def)

lemma checkpoint_text_keys: "keeps text_keys (pv_checkpoint P (JStr oid) t)"
proof -
  have "keeps text_keys pv_save" by (simp add: keeps_def pv_save_def text_keys_def Let_def)
  moreover have "keeps text_keys (set_fields (JStr oid) kvs)" for kvs
    by (simp add: keeps_def set_fields_def modify_def text_keys_def text_keys_put)
  ultimately show ?thesis unfolding pv_checkpoint_def by (intro keeps_intro framed_text_keys)
qed

lemma live_checkpoint_frame:
  "outside (snd (pv_checkpoint live_platform k t s)) = outside s"
  "list_ex (ran p) (trace (snd (pv_checkpoint live_platform k t s))) = list_ex (ran p) (trace s)"
  by (simp_all add: pv_checkpoint_def seqc_def bnd_def set_fields_def modify_def wall_ms_def live_platform_def
      pv_save_def Let_def)

lemma live_hosts:
  "host_and_port ''https://a.example'' = Inr (''a.example'', 443)"
  "host_and_port ''https://b.example'' = Inr (''b.example'', 443)"
  by code_simp+

lemma live_config [simp]:
  "pv_active_health_urls demo_config = [''https://a.example'', ''https://b.example'']"
  "pv_standby_health_url demo_config = ''https://s.example''" "pv_allow_http demo_config = False"
  by (simp_all add: demo_config_def)

lemma live_dns: "getaddrinfo live_platform h n s =
    (Inr (Some [h]), s\<lparr>mono := mono s + 1, trace := EvDns h (Some [h]) # trace s\<rparr>)"
  by (simp add: getaddrinfo_def live_platform_def)

lemma live_witnesses:
  "\<exists>t. pv_verify_witness_failures live_platform demo_config demo_prepare (s :: live pv_state) = (Inr (), t) \<and> outside t = outside s \<and>
     pv_ops t = pv_ops s"
  by (simp add: pv_verify_witness_failures_def pv_witness_networks_def bnd_def seqc_def
      live_hosts live_dns ret_def lift_res_def raise_if_def pv_observe_failed_def live_ask live_object_def pv_active_healthy_def
      jget_def eq_str_def demo_prepare_def is_true_def eq_int_def)

lemma live_standby: "pv_verify_standby live_platform demo_config ''coordinator-b'' s = (Inr (), asked s ''https://s.example'')"
  by (simp add: pv_verify_standby_def bnd_def live_ask live_object_def raise_if_def ret_def pv_standby_safe_def jget_def
      eq_str_def is_false_def)

text \<open>The whole \<open>prepare\<close> answers and has promoted the standby database on the way.\<close>

lemma live_run_prepare:
  fixes s :: "live pv_state"
  assumes s: "outside s = live_world" "text_keys s" "ops_get (pv_ops s) (JStr demo_id) = JObj d" "recorded_target d = []"
  shows "\<exists>t. pv_run_prepare live_platform demo_config live_driver (JStr demo_id) demo_prepare s =
      (Inr (JObj (pv_prepare_response ''0/3000060'' ''0/3000060'' (JStr demo_id))), t) \<and>
    list_ex (ran (dk_promotes demo_settings ''dddddddddddd'')) (trace t)"
proof -
  let ?r = "pv_prepare_response ''0/3000060'' ''0/3000060'' (JStr demo_id)"
  let ?chk = "pv_checkpoint live_platform (JStr demo_id)"
  obtain t1 where t1: "pv_verify_witness_failures live_platform demo_config demo_prepare s = (Inr (), t1)"
    "outside t1 = outside s" "pv_ops t1 = pv_ops s"
    using live_witnesses by blast
  define t2 where "t2 = asked t1 ''https://s.example''"
  have t2: "outside t2 = live_world" "text_keys t2" "ops_get (pv_ops t2) (JStr demo_id) = JObj d"
    using t1 s by (simp_all add: t2_def text_keys_def)
  have "\<exists>t. docker_prepare live_platform demo_config demo_settings demo_prepare [] ?chk t2 = (Inr ?r, t) \<and>
      list_ex (ran (dk_promotes demo_settings ''dddddddddddd'')) (trace t)"
    by (rule live_prepare [where f = "\<lambda>t s. snd (?chk t s)", OF live_checkpoint live_checkpoint_frame(1,2) t2(1,2)])
  then obtain t3 where t3: "docker_prepare live_platform demo_config demo_settings demo_prepare [] ?chk t2 = (Inr ?r, t3)"
    "list_ex (ran (dk_promotes demo_settings ''dddddddddddd'')) (trace t3)" by blast
  have "keeps text_keys (docker_prepare live_platform demo_config demo_settings demo_prepare [] ?chk)"
    by (rule docker.prepare_frame [of text_keys ?chk live_platform demo_config demo_settings,
          unfolded docker_driver_def pv_driver.simps], rule framed_text_keys, rule checkpoint_text_keys)
  from keepsD [OF this t2(2) t3(1)] have keys: "text_keys t3" .
  have standby: "py_str (jget demo_prepare ''standbyCoordinatorId'') = ''coordinator-b''"
    by (simp add: demo_prepare_def jget_def)
  have oid: "jget ?r ''operationId'' = JStr demo_id" by (simp add: pv_prepare_response_def jget_def)
  show ?thesis
    using t1 t2 t3 keys s(3,4)
    by (simp add: pv_run_prepare_def seqc_def bnd_def standby live_standby t2_def [symmetric] gets_def
        live_driver_def docker_driver_def oid raise_if_def ret_def set_fields_def modify_def text_keys_save text_keys_def
        text_keys_put saved_def Let_def)
qed

lemma live_answers_prepare:
  "\<exists>t. pv_prepare live_platform demo_config live_driver demo_key demo_prepare live_start =
      (Inr (JObj (pv_prepare_response ''0/3000060'' ''0/3000060'' (JStr demo_id))), t) \<and>
    list_ex (ran (dk_promotes demo_settings ''dddddddddddd'')) (trace t)"
proof -
  define d where "d = [(''candidateId'', JStr demo_id), (''prepareKeySha256'', JStr (hash_text demo_key)),
      (''prepareRequestSha256'', JStr (pv_canonical_hash (JObj demo_prepare))),
      (''phase'', JStr ''PREPARING''), (''createdAtUnixMs'', JInt 1700000000000)]"
  define s where "s = live_start\<lparr>mono := mono live_start + 1, pv_ops := [(JStr demo_id, JObj d)]\<rparr>"
  have keys: "text_keys s" by (simp add: s_def text_keys_def)
  have c: "jget demo_prepare ''candidateId'' = JStr demo_id" by (simp add: demo_prepare_def jget_def)
  have none: "get_operation (JStr demo_id) live_start = (Inr None, live_start)"
    by (simp add: get_operation_def bnd_def gets_def ret_def ops_get_def)
  have "\<exists>t. pv_run_prepare live_platform demo_config live_driver (JStr demo_id) demo_prepare (saved s) =
      (Inr (JObj (pv_prepare_response ''0/3000060'' ''0/3000060'' (JStr demo_id))), t) \<and>
    list_ex (ran (dk_promotes demo_settings ''dddddddddddd'')) (trace t)"
    by (rule live_run_prepare [where d = d])
      (simp_all add: s_def saved_def Let_def text_keys_def ops_get_def d_def recorded_target_def jget_def)
  moreover have "pv_prepare live_platform demo_config live_driver demo_key demo_prepare live_start =
      pv_run_prepare live_platform demo_config live_driver (JStr demo_id) demo_prepare (saved s)"
    using text_keys_save [OF keys]
    by (simp add: pv_prepare_def Let_def c seqc_def bnd_def lift_res_def demo_prepare_checked none wall_ms_def
        live_platform_def modify_def s_def [symmetric] d_def [symmetric]) (simp add: s_def d_def live_platform_def)
  ultimately show ?thesis by simp
qed

lemma live_answers_commit:
  assumes "outside s = live_world" "text_keys s" "ops_get (pv_ops s) (JStr demo_id) = JObj d"
    and "jget d ''targetCapturedAtUnixMs'' = JInt 1700000000000"
  shows "\<exists>t. pv_run_commit live_platform live_driver demo_id demo_commit s =
      (Inr (JObj (committed_response (pv_commit_response demo_config demo_id) 0 (JInt 1700000000000) 1700000000000)), t)"
proof -
  obtain t where t: "docker_commit live_platform demo_config demo_settings demo_id
      (py_str (jget demo_commit ''ownerResponseSha256'')) s = (Inr (pv_commit_response demo_config demo_id), t)"
    "pv_ops t = pv_ops s"
    using live_commit [OF assms(1)] by blast
  have "jget (pv_commit_response demo_config demo_id) ''operationId'' = JStr demo_id"
    by (simp add: pv_commit_response_def jget_def)
  then show ?thesis
    using t assms
    by (simp add: pv_run_commit_def bnd_def seqc_def live_driver_def docker_driver_def raise_if_def ret_def wall_ms_def
        live_platform_def gets_def Let_def set_fields_def modify_def text_keys_save text_keys_def text_keys_put)
qed

end
