(* ===== verification/Failover_Properties.thy ===== *)
theory Failover_Properties
  imports Failover_Run
begin

text \<open>
  The properties of the failover provider, over both drivers: what must have been observed before a
  database is promoted or a signer started, exactly-once answers, durable state, and the handler's
  refusals.
\<close>

section \<open>Witness observations\<close>

text \<open>The event shows the witness \<open>u\<close> answering anything but a fresh active writer.\<close>

definition witness_down :: "pv_config \<Rightarrow> string \<Rightarrow> string \<Rightarrow> event \<Rightarrow> bool" where
  "witness_down cfg active_id u e \<longleftrightarrow>
     (\<exists>reply. e = EvHttp (pv_get_request u (pv_allow_http cfg)) reply \<and>
        \<not> (fst (pv_read_reply reply) = 200 \<and> pv_active_healthy (snd (pv_read_reply reply)) active_id))"

lemma gov_observe_failed:
  "gov p G tr0 F (pv_observe_failed P cfg active_id u) (\<lambda>_. insert (witness_down cfg active_id u) F)"
  unfolding pv_observe_failed_def pv_request_json_def
  apply (rule gov_bnd [where Fx = "\<lambda>x. if fst x = 200 \<and> pv_active_healthy (snd x) active_id then F
      else insert (witness_down cfg active_id u) F"])
   apply (rule gov_bnd [where Fx = "\<lambda>r. if fst (pv_read_reply r) = 200 \<and> pv_active_healthy (snd (pv_read_reply r)) active_id
      then F else insert (witness_down cfg active_id u) F"])
    apply (rule gov_http)
    apply (auto simp: witness_down_def)[1]
   apply (rule gov_ret, simp)
  apply (auto intro!: gov_raise_if split: prod.splits)
  done

lemma quiet_witness_addresses [quiet_intro]: "quiet p (pv_witness_addresses P urls)"
  by (induction urls) (auto intro!: quiet_intro split: prod.splits option.splits list.splits)

lemma gov_verify_witnesses:
  "gov p G tr0 F (pv_verify_witness_failures P cfg rq)
     (\<lambda>_. F \<union> witness_down cfg (py_str (jget rq ''activeCoordinatorId'')) ` set (pv_active_health_urls cfg))"
  unfolding pv_verify_witness_failures_def pv_witness_networks_def Let_def
  apply (rule gov_bnd, rule gov_quiet, intro quiet_intro)
  apply (rule gov_seqc, rule gov_for_each, rule gov_observe_failed)
  apply (rule gov_raise_if, simp)
  done

lemma quiet_verify_standby [quiet_intro]: "quiet p (pv_verify_standby P cfg c)"
  unfolding pv_verify_standby_def by (auto intro!: quiet_intro split: prod.splits)

lemma quiet_provider [quiet_intro]:
  "quiet p pv_save" "quiet p (set_fields k kvs)" "quiet p (get_operation k)" "quiet p (pv_checkpoint P k t)"
proof -
  show save: "quiet p pv_save" by (auto simp: quiet_def pv_save_def Let_def)
  have set: "quiet p (set_fields k kvs)" for k kvs by (simp add: quiet_def set_fields_def modify_def)
  show "quiet p (set_fields k kvs)" by (rule set)
  show "quiet p (get_operation k)"
    unfolding get_operation_def by (auto intro!: quiet_intro split: json.splits)
  show "quiet p (pv_checkpoint P k t)"
    unfolding pv_checkpoint_def by (intro quiet_intro save set)
qed




lemma gov_snd:
  assumes "gov p G (trace s) {} m F'"
  shows "\<exists>new. trace (snd (m s)) = new @ trace s \<and> guarded (ran p) G new"
  using gov_guarded [OF assms] by (metis prod.collapse)

section \<open>Nothing is promoted or started before its fence\<close>




lemma commit_gov:
  assumes driver: "\<And>h F. gov p G tr0 {} (drv_commit D oid h) (\<lambda>_. {})"
  shows "gov p G tr0 {} (pv_commit P D oid key rq) (\<lambda>_. {})"
proof -
  have run: "gov p G tr0 {} (pv_run_commit P D oid rq) (\<lambda>_. {})"
    unfolding pv_run_commit_def Let_def
    by (rule gov_bnd, rule driver, rule gov_quiet, intro quiet_intro)
  show ?thesis
    unfolding pv_commit_def Let_def
    by (auto intro!: gov_seqc [OF gov_quiet] gov_bnd [OF gov_quiet] gov_if gov_ret gov_throw quiet_intro run
        split: option.splits)
qed

text \<open>
  C3. In every run of \<open>commit\<close>, with either driver, the signer is started only after the active
  coordinator was observed stopped (Docker) or at zero replicas (Kubernetes).
\<close>

theorem signer_starts_behind_fence:
  "(\<exists>new. trace (snd (pv_commit P (docker_driver P cfg st) oid key request s)) = new @ trace s \<and>
      guarded (ran (dk_starts c)) (dk_may_start st c) new) \<and>
   (\<exists>new. trace (snd (pv_commit P (kube_driver P cfg kst) oid key request s)) = new @ trace s \<and>
      guarded (ran (kb_starts kst)) (kb_may_start kst) new)"
proof
  show "\<exists>new. trace (snd (pv_commit P (docker_driver P cfg st) oid key request s)) = new @ trace s \<and>
      guarded (ran (dk_starts c)) (dk_may_start st c) new"
    by (rule gov_snd, rule commit_gov) (simp add: docker_driver_def docker_commit_gov)
  show "\<exists>new. trace (snd (pv_commit P (kube_driver P cfg kst) oid key request s)) = new @ trace s \<and>
      guarded (ran (kb_starts kst)) (kb_may_start kst) new"
    by (rule gov_snd, rule commit_gov) (simp add: kube_driver_def kube_commit_gov)
qed

section \<open>No command before the witnesses agree\<close>

text \<open>Once the events are shown, everything later comes after them.\<close>

lemma gov_settled:
  assumes "advances m" and "W \<subseteq> F"
  shows "gov p (shows_all W) tr0 F m (\<lambda>_. F)"
proof -
  have "since tr0 p (shows_all W) F t" if s: "since tr0 p (shows_all W) F s" and m: "m s = (r, t)" for s t r
  proof -
    obtain old where old: "trace s = old @ tr0" "guarded (ran p) (shows_all W) old" "shows_all F old"
      using s unfolding since_def by blast
    obtain new where new: "trace t = new @ trace s"
      using advancesD [OF assms(1) m] by (auto simp: extends_def)
    have all: "shows_all W (xs @ old)" for xs
      using old(3) assms(2) shows_all_append shows_all_mono by blast
    have "guarded (ran p) (shows_all W) (xs @ old)" for xs
      by (induction xs) (simp_all add: old(2) all)
    with new old show ?thesis unfolding since_def using shows_all_append [OF old(3)] by auto
  qed
  note all = this
  have "since tr0 p (shows_all W) {} t" if "since tr0 p (shows_all W) F s" "m s = (r, t)" for s t r
    by (rule since_mono [OF all [OF that]]) simp
  with all show ?thesis
    unfolding gov_def by (auto intro!: wpI)
qed

lemma advances_tame: "tame m \<Longrightarrow> advances m"
  by (rule tameD(2))

lemma advances_state [advances_intro]:
  "advances (set_fields k kvs)" "advances pv_save" "advances (get_operation k)" "advances (pv_checkpoint P k t)"
proof -
  show set: "advances (set_fields k kvs)" for k kvs
    by (simp add: set_fields_def advances_def modify_def extends_def)
  show save: "advances pv_save" by (auto simp: advances_def pv_save_def extends_def Let_def)
  show "advances (get_operation k)"
    unfolding get_operation_def by (auto intro!: advances_intro split: json.splits)
  show "advances (pv_checkpoint P k t)"
    unfolding pv_checkpoint_def by (intro advances_intro set save)
qed

lemma advances_capture_target:
  assumes psql: "\<And>q. tame (psql q)" and chk: "\<And>t. advances (chk t)"
  shows "advances (capture_target psql chk)"
  unfolding capture_target_def
  by (intro advances_intro chk advances_tame [OF psql])

lemma advances_docker_prepare:
  assumes chk: "\<And>t. advances (chk t)"
  shows "advances (docker_prepare P cfg st rq ex chk)"
  unfolding docker_prepare_def
  by (intro advances_bnd advances_seqc advances_if advances_capture_target)
    (rule chk | rule tameD(2) | (intro tame_intro; simp))+

lemma advances_kube_prepare:
  assumes chk: "\<And>t. advances (chk t)"
  shows "advances (kube_prepare P cfg st rq ex chk)"
  unfolding kube_prepare_def kube_scale_def
  by (intro advances_bnd advances_seqc advances_if advances_capture_target)
    (rule chk | rule tameD(2) | (intro tame_intro rbind_not_fuel; simp))+

text \<open>The standby's health answer that lets a preparation go on.\<close>

definition standby_safe :: "pv_config \<Rightarrow> event \<Rightarrow> bool" where
  "standby_safe cfg e \<longleftrightarrow>
     (\<exists>reply. e = EvHttp (pv_get_request (pv_standby_health_url cfg) (pv_allow_http cfg)) reply \<and>
        fst (pv_read_reply reply) = 200 \<and>
        pv_standby_safe (snd (pv_read_reply reply)) (pv_standby_coordinator_id cfg))"

lemma gov_verify_standby:
  "gov p G tr0 F (pv_verify_standby P cfg (pv_standby_coordinator_id cfg)) (\<lambda>_. insert (standby_safe cfg) F)"
  unfolding pv_verify_standby_def pv_request_json_def
  apply (rule gov_bnd [where Fx = "\<lambda>x. if fst x = 200 \<and> pv_standby_safe (snd x) (pv_standby_coordinator_id cfg)
      then insert (standby_safe cfg) F else F"])
   apply (rule gov_bnd [where Fx = "\<lambda>r. if fst (pv_read_reply r) = 200 \<and>
        pv_standby_safe (snd (pv_read_reply r)) (pv_standby_coordinator_id cfg)
      then insert (standby_safe cfg) F else F"])
    apply (rule gov_http)
    apply (auto simp: standby_safe_def)[1]
   apply (rule gov_ret, simp)
  apply (auto intro!: gov_raise_if split: prod.splits)
  done

abbreviation failover_evidence :: "pv_config \<Rightarrow> (event \<Rightarrow> bool) set" where
  "failover_evidence cfg \<equiv>
     insert (standby_safe cfg)
       (witness_down cfg (pv_active_coordinator_id cfg) ` set (pv_active_health_urls cfg))"

lemma prepare_evidence:
  assumes driver: "\<And>ex. advances (drv_prepare D rq ex (pv_checkpoint P (jget rq ''candidateId'')))"
  shows "gov (\<lambda>_. True) (shows_all (failover_evidence cfg)) tr0 {} (pv_prepare P cfg D key rq) (\<lambda>_. {})"
proof (cases "pv_check_prepare cfg key rq")
  case (Inl e)
  then show ?thesis by (simp add: gov_def pv_prepare_def wp)
next
  case (Inr u)
  then have ids: "py_str (jget rq ''activeCoordinatorId'') = pv_active_coordinator_id cfg"
      "py_str (jget rq ''standbyCoordinatorId'') = pv_standby_coordinator_id cfg"
    by (simp_all add: pv_check_prepare_def eq_str_def)
  have run: "gov (\<lambda>_. True) (shows_all (failover_evidence cfg)) tr0 {}
      (pv_run_prepare P cfg D (jget rq ''candidateId'') rq) (\<lambda>_. {})"
    unfolding pv_run_prepare_def ids
    apply (rule gov_seqc, rule gov_verify_witnesses)
    apply (rule gov_seqc, rule gov_verify_standby)
    apply (rule gov_bnd, rule gov_quiet, intro quiet_intro)
    apply (rule gov_bnd, rule gov_settled, rule driver)
     apply (simp add: ids image_subset_iff)
    apply (rule gov_post, rule gov_settled, intro advances_intro)
     apply (simp_all add: ids image_subset_iff)
    done
  show ?thesis
    unfolding pv_prepare_def Let_def
    apply (rule gov_seqc, rule gov_quiet, intro quiet_intro)
    apply (rule gov_bnd, rule gov_quiet, intro quiet_intro)
    apply (auto intro!: gov_seqc [OF gov_quiet] gov_bnd [OF gov_quiet] gov_if gov_ret quiet_intro quiet_modify
        run split: option.splits)
    done
qed

text \<open>
  C4. \<open>prepare\<close> runs no platform command at all before every configured witness has failed to show a
  fresh active writer and the standby has answered as a signerless, write-refusing standby; so one
  dissenting witness means no side effect, with either driver.
\<close>

theorem no_command_before_evidence:
  "(\<exists>new. trace (snd (pv_prepare P cfg (docker_driver P cfg st) key request s)) = new @ trace s \<and>
      guarded (ran (\<lambda>_. True)) (shows_all (failover_evidence cfg)) new) \<and>
   (\<exists>new. trace (snd (pv_prepare P cfg (kube_driver P cfg kst) key request s)) = new @ trace s \<and>
      guarded (ran (\<lambda>_. True)) (shows_all (failover_evidence cfg)) new)"
proof
  show "\<exists>new. trace (snd (pv_prepare P cfg (docker_driver P cfg st) key request s)) = new @ trace s \<and>
      guarded (ran (\<lambda>_. True)) (shows_all (failover_evidence cfg)) new"
    by (rule gov_snd, rule prepare_evidence)
      (simp add: docker_driver_def advances_docker_prepare advances_state)
  show "\<exists>new. trace (snd (pv_prepare P cfg (kube_driver P cfg kst) key request s)) = new @ trace s \<and>
      guarded (ran (\<lambda>_. True)) (shows_all (failover_evidence cfg)) new"
    by (rule gov_snd, rule prepare_evidence)
      (simp add: kube_driver_def advances_kube_prepare advances_state)
qed

section \<open>Answers are given once\<close>

text \<open>The drivers of \<open>build_driver\<close>.\<close>

definition shipped_driver :: "'w platform \<Rightarrow> pv_config \<Rightarrow> 'w pv_driver \<Rightarrow> bool" where
  "shipped_driver P cfg D \<longleftrightarrow> (\<exists>st. D = docker_driver P cfg st) \<or> (\<exists>st. D = kube_driver P cfg st)"






lemma demo_shipped: "shipped_driver demo_platform demo_config demo_driver"
  unfolding shipped_driver_def demo_driver_def by blast









text \<open>
  C8. A restart changes nothing: loading the saved file of a well-formed state succeeds, prints back
  to the same file, and gives every operation the same values.
\<close>

theorem restart_restores_state:
  assumes "state_ok s" "pv_disk s = Some b"
  shows "\<exists>doc ops. pv_load_json (state_files cfg (pv_disk s)) (pv_state_path cfg) = Inr (doc, ops) \<and>
     state_bytes doc ops = b \<and> (\<forall>oid. ops_get ops (JStr oid) = jsort (ops_get (pv_ops s) (JStr oid)))"
proof -
  have b: "b = state_bytes (pv_doc s) (pv_ops s)" using assms by (auto simp: state_ok_def synced_def)
  show ?thesis
    using load_saved [of "pv_doc s" "pv_ops s" cfg] assms unfolding state_ok_def b by metis
qed

theorem restart_restores_state_witness:
  "\<exists>doc ops. pv_load_json (state_files demo_config (pv_disk demo_state)) (pv_state_path demo_config) = Inr (doc, ops) \<and>
     state_bytes doc ops = state_bytes fresh_doc demo_ops \<and>
     (\<forall>oid. ops_get ops (JStr oid) = jsort (ops_get (pv_ops demo_state) (JStr oid)))"
  by (rule restart_restores_state [OF demo_state_ok]) (simp add: demo_state_def)

section \<open>Refusals\<close>

text \<open>
  Reusing a candidate with another key or another request is refused with 409 and changes
  nothing: no command runs, no time passes, nothing is written.
\<close>

theorem changed_prepare_conflicts:
  assumes "entry s oid = JObj op" "op \<noteq> []" "jget request ''candidateId'' = JStr oid"
    and "pv_check_prepare cfg key request = Inr ()"
    and "jget op ''prepareKeySha256'' \<noteq> JStr (sha256_hex key) \<or>
         jget op ''prepareRequestSha256'' \<noteq> JStr (pv_canonical_hash (JObj request))"
  shows "pv_prepare P cfg D key request s =
     (Inl (HttpErr 409 ''idempotency-conflict'' ''candidate or key was reused with changed input''), s)"
  using assms
  by (auto simp: pv_prepare_def Let_def seqc_def bnd_def lift_res_def get_operation_def gets_def ret_def
      raise_if_def throw_def eq_str_def hash_text_def idempotency_conflict_def)

theorem changed_prepare_conflicts_witness:
  "pv_prepare demo_platform demo_config demo_driver demo_key demo_prepare
       (demo_state\<lparr>pv_ops := [(JStr demo_id, JObj [(''prepareKeySha256'', JStr ''another'')])]\<rparr>) =
     (Inl (HttpErr 409 ''idempotency-conflict'' ''candidate or key was reused with changed input''),
      demo_state\<lparr>pv_ops := [(JStr demo_id, JObj [(''prepareKeySha256'', JStr ''another'')])]\<rparr>)"
proof (rule changed_prepare_conflicts [OF _ _ _ demo_prepare_checked])
  show "jget [(''prepareKeySha256'', JStr ''another'')] ''prepareKeySha256'' \<noteq> JStr (sha256_hex demo_key) \<or>
      jget [(''prepareKeySha256'', JStr ''another'')] ''prepareRequestSha256'' \<noteq>
        JStr (pv_canonical_hash (JObj demo_prepare))"
    by (simp add: jget_def)
qed (simp_all add: ops_get_text demo_prepare_def jget_def)

lemma authenticate_errors:
  "pv_authenticate cfg a b = Inl e \<Longrightarrow>
   e \<in> {HttpErr 401 ''unauthorized'' ''provider bearer is invalid'',
        HttpErr 403 ''approval-required'' ''incident approval token is invalid'', TypeErr}"
  by (auto simp: pv_authenticate_def rbind_eq_Inl presented_def compare_digest_def
      split: option.splits list.splits if_splits)

lemma py_int_error: "py_int v = Inl e \<Longrightarrow> e = ValueErr"
  by (auto simp: py_int_def Let_def split: option.splits list.splits if_splits)

text \<open>
  C9. A request without both tokens is never answered 200 and leaves the state, the clock and the
  platform untouched, whatever its path and body.
\<close>

theorem unauthenticated_post_is_inert:
  assumes "pv_authenticate cfg (in_header rq ''Authorization'') (in_header rq ''X-Zkdeal-Failover-Approval'') = Inl e"
  shows "snd (pv_do_POST P cfg D rq s) = s \<and> fst (fst (pv_do_POST P cfg D rq s)) \<noteq> 200"
proof -
  have "\<exists>e'. pv_route_post P cfg D rq s = (Inl e', s) \<and> fst (error_response e') \<noteq> 200"
  proof (cases "py_int (case in_header rq ''Content-Length'' of Some v \<Rightarrow> v | None \<Rightarrow> ''0'')")
    case (Inl a)
    moreover from Inl have "a = ValueErr" by (rule py_int_error)
    ultimately show ?thesis
      by (simp add: pv_route_post_def bnd_def lift_res_def error_response_def)
  next
    case (Inr len)
    then show ?thesis
      using authenticate_errors [OF assms]
      by (auto simp: pv_route_post_def seqc_def bnd_def lift_res_def raise_if_def throw_def ret_def assms
          error_response_def split: sum.splits json.splits)
  qed
  then show ?thesis by (auto simp: pv_do_POST_def)
qed

theorem unauthenticated_post_is_inert_witness:
  "snd (pv_do_POST demo_platform demo_config demo_driver
        \<lparr>in_path = ''/v1/failovers'', in_header = (\<lambda>_. None), in_body = ''{}''\<rparr> demo_state) = demo_state \<and>
   fst (fst (pv_do_POST demo_platform demo_config demo_driver
        \<lparr>in_path = ''/v1/failovers'', in_header = (\<lambda>_. None), in_body = ''{}''\<rparr> demo_state)) \<noteq> 200"
  by (rule unauthenticated_post_is_inert) (simp add: pv_authenticate_def presented_def)

section \<open>Every request ends\<close>

lemma fuelled_state [fuelled_intro]:
  "fuelled (set_fields k kvs)" "fuelled pv_save" "fuelled (get_operation k)" "fuelled (pv_checkpoint P k t)"
proof -
  show set: "fuelled (set_fields k kvs)" for k kvs by (simp add: set_fields_def fuelled_intro)
  show save: "fuelled pv_save" by (simp add: fuelled_def pv_save_def Let_def)
  show "fuelled (get_operation k)"
    unfolding get_operation_def by (auto intro!: fuelled_intro split: json.splits)
  show "fuelled (pv_checkpoint P k t)"
    unfolding pv_checkpoint_def by (intro fuelled_intro set save)
qed

lemma checks_not_fuel [simp]:
  "pv_check_prepare cfg key rq \<noteq> Inl OutOfFuel" "pv_check_commit oid key rq \<noteq> Inl OutOfFuel"
  "pv_authenticate cfg a b \<noteq> Inl OutOfFuel" "py_int v \<noteq> Inl OutOfFuel"
  using authenticate_errors [of cfg a b] py_int_error [of v]
  by (auto simp: pv_check_prepare_def pv_check_commit_def rbind_eq_Inl)

lemma fuelled_prepare:
  assumes "\<And>ex chk. (\<And>t. fuelled (chk t)) \<Longrightarrow> fuelled (drv_prepare D rq ex chk)"
  shows "fuelled (pv_prepare P cfg D key rq)"
proof -
  have run: "fuelled (pv_run_prepare P cfg D k rq)" for k
    unfolding pv_run_prepare_def by (intro fuelled_intro assms tameD(3) [OF tame_verify_witnesses] tameD(3) [OF tame_verify_standby]) simp_all
  show ?thesis
    unfolding pv_prepare_def Let_def idempotency_conflict_def
    by (auto intro!: fuelled_intro run split: option.splits)
qed

lemma fuelled_commit:
  assumes "\<And>h. fuelled (drv_commit D oid h)"
  shows "fuelled (pv_commit P D oid key rq)"
proof -
  have run: "fuelled (pv_run_commit P D oid rq)"
    unfolding pv_run_commit_def Let_def by (intro fuelled_intro assms) simp_all
  show ?thesis
    unfolding pv_commit_def Let_def idempotency_conflict_def
    by (auto intro!: fuelled_intro run split: option.splits)
qed

lemma shipped_fuelled:
  assumes "shipped_driver P cfg D"
  shows "(\<And>t. fuelled (chk t)) \<Longrightarrow> fuelled (drv_prepare D rq ex chk)" "fuelled (drv_commit D oid h)"
  using assms unfolding shipped_driver_def
  by (auto intro: docker.prepare_ends kube.prepare_ends tameD(3) [OF docker.commit_tame] tameD(3) [OF kube.commit_tame])

lemma fuelled_route:
  assumes "shipped_driver P cfg D"
  shows "fuelled (pv_route_post P cfg D rq)"
  unfolding pv_route_post_def Let_def
  by (auto intro!: fuelled_intro fuelled_prepare fuelled_commit shipped_fuelled [OF assms]
      split: sum.splits json.splits option.splits)

text \<open>
  C10. Every POST ends: the loops that wait for replay, for replica counts and for the signer roles
  stop within their deadline whatever the platform answers, so the fuel of the model never runs out.
\<close>

theorem every_post_ends:
  assumes "shipped_driver P cfg D"
  shows "fst (pv_route_post P cfg D rq s) \<noteq> Inl OutOfFuel"
  using fuelled_route [OF assms] by (simp add: fuelled_def)

theorem every_post_ends_witness:
  "fst (pv_route_post demo_platform demo_config demo_driver
        \<lparr>in_path = ''/v1/failovers'', in_header = (\<lambda>_. None), in_body = ''{}''\<rparr> demo_state) \<noteq> Inl OutOfFuel"
  by (rule every_post_ends [OF demo_shipped])

section \<open>The measured recovery time\<close>


end
