(* ===== verification/Promotion_Properties.thy ===== *)
theory Promotion_Properties
  imports Promotion_Safety Failover_Properties
begin

text \<open>
  The properties of the promotion controller, alone and against the failover provider.
\<close>

section \<open>A concrete controller\<close>

definition demo_controller :: pc_config where
  "demo_controller =
     \<lparr>pc_active_health_urls = [''https://a.example'', ''https://b.example''],
      pc_standby_health_url = ''https://s.example'', pc_failover_provider_url = ''https://p.example/v1/failovers'',
      pc_promotion_endpoint = ''https://o.example/promote'', pc_active_coordinator_id = ''coordinator-a'',
      pc_standby_coordinator_id = ''coordinator-b'', pc_candidate_id = demo_id,
      pc_provider_token = ''provider-token-0'', pc_approval_token = ''approval-token-0'',
      pc_principal_token = ''principal-token-0'', pc_failure_threshold = 3, pc_poll_seconds = 10,
      pc_max_monitor_cycles = 5, pc_max_rto_seconds = 300, pc_max_checkpoint_age_seconds = 30,
      pc_request_timeout_seconds = 10, pc_state_path = ''/tmp/state.json'', pc_armed = True, pc_allow_http = False\<rparr>"

definition demo_watch :: "unit pc_state" where
  "demo_watch = \<lparr>outside = (), mono = 0, trace = [], pc_file = None\<rparr>"

section \<open>Order\<close>

text \<open>
  C12. The controller asks the provider to promote only when it is armed, after every active witness
  failed at least the threshold number of times in a row with no healthy observation in between, and
  after the standby answered as a signerless standby; it promotes at the owner only after a provider
  answer that proves the fence; and it commits the route only with the hash of an owner answer that
  proves the promotion.
\<close>

theorem promotion_in_order:
  "(\<exists>new. trace (snd (pc_run fuel P cfg s)) = new @ trace s \<and>
      guarded (sends (pc_prepare_request cfg)) (\<lambda>tr. pc_armed cfg \<and> outage_seen cfg tr \<and> standby_seen cfg tr) new) \<and>
   (\<exists>new. trace (snd (pc_run fuel P cfg s)) = new @ trace s \<and>
      guarded (sends (pc_owner_request cfg)) (prepared_seen cfg) new) \<and>
   (\<exists>new. trace (snd (pc_run fuel P cfg s)) = new @ trace s \<and>
      guarded (sends (pc_commit_request cfg (pc_candidate_id cfg) h))
        (\<lambda>tr. prepared_seen cfg tr \<and> (\<exists>h'. owner_seen cfg h' tr \<and>
           pc_commit_request cfg (pc_candidate_id cfg) h' = pc_commit_request cfg (pc_candidate_id cfg) h)) new)"
proof (intro conjI)
  have self: "sends rq (EvHttp rq' r) \<longleftrightarrow> rq' = rq" for rq rq' r by (auto simp: sends_def)
  note differ = requests_differ [of cfg] requests_differ [of cfg, symmetric]
  show "\<exists>new. trace (snd (pc_run fuel P cfg s)) = new @ trace s \<and>
      guarded (sends (pc_prepare_request cfg)) (\<lambda>tr. pc_armed cfg \<and> outage_seen cfg tr \<and> standby_seen cfg tr) new"
    by (rule pc_run_governed) (auto simp: self differ outage_seen_def seen_append)
  show "\<exists>new. trace (snd (pc_run fuel P cfg s)) = new @ trace s \<and>
      guarded (sends (pc_owner_request cfg)) (prepared_seen cfg) new"
    by (rule pc_run_governed) (auto simp: self differ seen_append)
  show "\<exists>new. trace (snd (pc_run fuel P cfg s)) = new @ trace s \<and>
      guarded (sends (pc_commit_request cfg (pc_candidate_id cfg) h))
        (\<lambda>tr. prepared_seen cfg tr \<and> (\<exists>h'. owner_seen cfg h' tr \<and>
           pc_commit_request cfg (pc_candidate_id cfg) h' = pc_commit_request cfg (pc_candidate_id cfg) h)) new"
    by (rule pc_run_governed) (auto simp: self differ intro: seen_append)
qed

section \<open>The monitor ends\<close>

lemma fuelled_pc_ask [fuelled_intro]: "fuelled (pc_request_json P t rq)"
proof -
  have "pc_read_reply u r \<noteq> Inl OutOfFuel" for u r
    by (auto simp: pc_read_reply_def split: http_reply.splits sum.splits json.splits)
  then show ?thesis unfolding pc_request_json_def by (intro fuelled_intro) auto
qed

lemma fuelled_pc_emit [fuelled_intro]: "fuelled (pc_emit P cfg status kvs)"
  unfolding pc_emit_def pc_atomic_json_def by (intro fuelled_intro)

lemma fuelled_pc_cycle [fuelled_intro]:
  "fuelled (pc_observe_all P cfg urls)" "fuelled (pc_count_cycle P cfg cycle k first healthy failed)"
proof -
  have observe: "fuelled (pc_observe P cfg u)" for u
    unfolding pc_observe_def by (intro fuelled_intro)
  show "fuelled (pc_observe_all P cfg urls)"
    by (induction urls) (auto intro!: fuelled_intro observe split: prod.splits)
  show "fuelled (pc_count_cycle P cfg cycle k first healthy failed)"
    unfolding pc_count_cycle_def by (intro fuelled_intro)
qed

lemma fuelled_pc_monitor:
  "0 < n \<Longrightarrow> pc_max_monitor_cycles cfg \<noteq> 0 \<Longrightarrow> pc_max_monitor_cycles cfg \<le> cycle + n \<Longrightarrow>
   fuelled (pc_monitor n P cfg cycle k first)"
proof (induction n arbitrary: cycle k first)
  case (Suc n)
  have next_turn: "fuelled (if c then ret (Some f)
      else if pc_max_monitor_cycles cfg \<noteq> 0 \<and> pc_max_monitor_cycles cfg \<le> Suc cycle
      then seqc (pc_emit P cfg st kvs) (ret None)
      else seqc (sleep_seconds P (pc_poll_seconds cfg)) (pc_monitor n P cfg (Suc cycle) k' f))" for c st kvs k' f
  proof (cases "n = 0")
    case True
    then show ?thesis using Suc.prems by (simp add: fuelled_intro)
  next
    case False
    with Suc show ?thesis by (intro fuelled_intro) simp_all
  qed
  show ?case
    unfolding pc_monitor.simps by (auto intro!: fuelled_intro next_turn split: prod.splits)
qed simp

lemma fuelled_pc_promote [fuelled_intro]: "fuelled (pc_promote P cfg first)"
proof -
  have check: "check c e \<noteq> Inl OutOfFuel" if "e \<noteq> OutOfFuel" for c e using that by (simp add: check_def)
  have proves: "rmap (pc_prove who d) fs \<noteq> Inl OutOfFuel" for who d fs
    by (induction fs) (auto simp: rbind_eq_Inl pc_prove_def)
  have lsn: "pc_lsn_value v \<noteq> Inl OutOfFuel" for v
    by (auto simp: pc_lsn_value_def rbind_eq_Inl split: option.splits)
  have "pc_validate_prepare cfg d \<noteq> Inl OutOfFuel" for d
    unfolding pc_validate_prepare_def Let_def using proves lsn by (auto simp: rbind_eq_Inl)
  moreover have "pc_validate_owner_promotion d \<noteq> Inl OutOfFuel" for d
    unfolding pc_validate_owner_promotion_def using proves by (auto simp: rbind_eq_Inl simp del: rmap.simps)
  moreover have "rmap (\<lambda>fv. check (py_eq (jget d (fst fv)) (snd fv)) (ToolErr (m fv))) kvs \<noteq> Inl OutOfFuel" for d m kvs
    by (induction kvs) (auto simp: rbind_eq_Inl)
  then have "pc_validate_commit cfg oid d \<noteq> Inl OutOfFuel" for oid d
    unfolding pc_validate_commit_def by (auto simp: rbind_eq_Inl)
  ultimately show ?thesis
    unfolding pc_promote_def Let_def by (intro fuelled_intro) auto
qed

text \<open>
  C13. With a monitor window of \<open>MAX_MONITOR_CYCLES\<close> cycles the run ends within that many cycles,
  whatever the witnesses, the provider and the owner answer.
\<close>

theorem bounded_run_ends:
  assumes "pc_max_monitor_cycles cfg \<noteq> 0" and "pc_max_monitor_cycles cfg \<le> fuel"
  shows "fst (pc_run fuel P cfg s) \<noteq> Inl OutOfFuel"
proof -
  have "fuelled (pc_monitor fuel P cfg 0 0 0)" by (rule fuelled_pc_monitor) (use assms in auto)
  then have "fuelled (pc_run fuel P cfg)"
    unfolding pc_run_def by (intro fuelled_intro) (auto intro!: fuelled_intro split: option.splits)
  then show ?thesis by (simp add: fuelled_def)
qed

theorem bounded_run_ends_witness:
  "fst (pc_run 5 demo_platform demo_controller demo_watch) \<noteq> Inl OutOfFuel"
  by (rule bounded_run_ends) (simp_all add: demo_controller_def)

section \<open>A sustained outage is recognised\<close>









section \<open>A witness that answers with other bytes\<close>





section \<open>The provider's answers pass the controller's checks\<close>







lemma live_shipped: "shipped_driver live_platform demo_config live_driver"
  unfolding shipped_driver_def live_driver_def by blast


lemma fresh_commit_answer:
  assumes "shipped_driver P cfg D"
  shows "wp (pv_run_commit P D oid request)
    (\<lambda>v _. \<exists>el c now. v = JObj (committed_response (pv_commit_response cfg oid) el c now) \<and> is_int c) (\<lambda>_ _. True) s"
proof -
  have driver: "wp (drv_commit D oid h) (\<lambda>r _. r = pv_commit_response cfg oid) (\<lambda>_ _. True) s" for h s
    using assms commit_results unfolding shipped_driver_def docker_driver_def kube_driver_def by auto
  show ?thesis
    unfolding pv_run_commit_def
    apply (rule iffD2 [OF wp_bnd])
    apply (rule wp_mono [OF driver])
     apply (rule wp_any_seqc, rule wp_any, rule wp_any)
     apply (auto simp: wp_seqc wp_raise_if wp_ret wp_set_fields wp_save Let_def)
    done
qed

lemma committed_is_valid:
  assumes "jsort (JObj (committed_response (pv_commit_response cfg oid) el c now)) = JObj r"
    and "pc_standby_coordinator_id pc = pv_standby_coordinator_id cfg"
  shows "pc_validate_commit pc oid r = Inr ()"
proof -
  let ?r = "committed_response (pv_commit_response cfg oid) el c now"
  have "distinct (map fst ?r)"
    unfolding committed_response_def pv_commit_response_def by (rule distinct_dputs) simp
  from jget_jsort [OF this assms(1)]
  have "jget r f = jsort (jget ?r f)" for f .
  then show ?thesis
    by (simp add: pc_validate_commit_def pc_commit_expected_def assms(2) committed_response_def
        pv_commit_response_def jget_def)
qed

text \<open>
  C17. The answer of a commit that runs the driver, sent as JSON, passes the controller's check of the
  commit, when both name the same standby coordinator; by C5 later answers repeat it.
\<close>

theorem provider_commit_is_accepted:
  assumes "shipped_driver P cfg D" "plain_text (pv_standby_coordinator_id cfg)" "pv_safe_id oid"
    and "pc_standby_coordinator_id pc = pv_standby_coordinator_id cfg"
    and "pv_run_commit P D oid request s = (Inr v, t)"
    and "length (dumps True v @ newline) \<le> pc_max_response_bytes"
  shows "\<exists>d. pc_read_reply u (Reply 200 (dumps True v @ newline)) = Inr d \<and> pc_validate_commit pc oid d = Inr ()"
proof -
  from wp_Inr [OF fresh_commit_answer [OF assms(1)] assms(5)] obtain el c now where
    v: "v = JObj (committed_response (pv_commit_response cfg oid) el c now)" "is_int c" by blast
  have "plain_json c" using v(2) by (cases c) auto
  then have "plain_json v"
    unfolding v(1) by (intro measured_plain [OF safe_id_plain [OF assms(3)] assms(2)]) simp_all
  then have reads: "loads False (dumps True v @ newline) = Inr (jsort v)" "utf8_ok (dumps True v @ newline)"
    by (simp_all add: loads_dumps_plain read_back_plain)
  obtain r where r: "jsort v = JObj r" using v(1) by simp
  have "pc_validate_commit pc oid r = Inr ()" by (rule committed_is_valid [OF r [unfolded v(1)] assms(4)])
  moreover have "pc_read_reply u (Reply 200 (dumps True v @ newline)) = Inr r"
    using reads assms(6) r by (simp add: pc_read_reply_def)
  ultimately show ?thesis by blast
qed

theorem provider_commit_is_accepted_witness:
  "\<exists>d. pc_read_reply ''https://p.example/v1/failovers'' (Reply 200 (dumps True
        (JObj (committed_response (pv_commit_response demo_config demo_id) 0 (JInt 1700000000000) 1700000000000)) @ newline)) = Inr d \<and>
     pc_validate_commit demo_controller demo_id d = Inr ()"
proof -
  define s where "s = live_start\<lparr>pv_ops := [(JStr demo_id, JObj [(''targetCapturedAtUnixMs'', JInt 1700000000000)])]\<rparr>"
  have "\<exists>t. pv_run_commit live_platform live_driver demo_id demo_commit s =
      (Inr (JObj (committed_response (pv_commit_response demo_config demo_id) 0 (JInt 1700000000000) 1700000000000)), t)"
    by (rule live_answers_commit [where d = "[(''targetCapturedAtUnixMs'', JInt 1700000000000)]"])
      (simp_all add: s_def text_keys_def ops_get_def jget_def)
  then obtain t where t: "pv_run_commit live_platform live_driver demo_id demo_commit s =
      (Inr (JObj (committed_response (pv_commit_response demo_config demo_id) 0 (JInt 1700000000000) 1700000000000)), t)"
    by blast
  have fits: "length (dumps True (JObj (committed_response (pv_commit_response demo_config demo_id) 0
      (JInt 1700000000000) 1700000000000)) @ newline) \<le> pc_max_response_bytes"
    by (simp add: committed_response_def pv_commit_response_def demo_config_def demo_id_def dumps_def print_str_plain
        plain_text_simps print_str_def esc_char_def class_defs quote_char_def short_escape_def sort_key_def newline_def
        int_str_def pc_max_response_bytes_def rto_seconds_def nat_str.simps)
  show ?thesis
    by (rule provider_commit_is_accepted [OF live_shipped _ _ _ t fits])
      (simp_all add: demo_config_def demo_controller_def demo_id_def plain_text_simps class_defs pv_safe_id_def rep_match_def)
qed

end
