(* ===== verification/Control.thy ===== *)
theory Control
  imports HttpServer
begin

text \<open>
  What the two control services, \<open>fault-control/fault_control.py\<close> and
  \<open>backup-restore-control/backup_restore_control.py\<close>, share: \<open>ControlError\<close>, canonical bytes and
  strict documents, identifier patterns, mounted secrets, the write-once files of their journals
  and the request and answer handling of their HTTP handlers. The two source files repeat these
  helpers word for word except for the texts that are arguments here.
\<close>

section \<open>Errors and limits\<close>

definition control_error :: "string \<Rightarrow> exn" where
  "control_error m = HttpErr 400 ''INVALID_REQUEST'' m"

definition config_error :: "string \<Rightarrow> exn" where
  "config_error m = HttpErr 503 ''CONFIGURATION_ERROR'' m"

definition max_request_bytes :: nat where "max_request_bytes = 65536"
definition max_response_bytes :: nat where "max_response_bytes = 1048576"
definition max_target_response_bytes :: nat where "max_target_response_bytes = 4194304"

section \<open>Patterns\<close>

definition ctl_token :: "string \<Rightarrow> bool" where
  "ctl_token s \<longleftrightarrow> starts_with ''sha256:'' s \<and> hex64 (drop 7 s)"

definition ctl_candidate :: "string \<Rightarrow> bool" where
  "ctl_candidate s \<longleftrightarrow> head_rep_match is_lower_alnum (plus_of is_lower_alnum ''._-'') 7 79 s"

definition ctl_idempotency :: "string \<Rightarrow> bool" where
  "ctl_idempotency s \<longleftrightarrow> rep_match (plus_of is_alnum ''._:-'') 8 200 s"

definition ctl_correlation :: "string \<Rightarrow> bool" where
  "ctl_correlation s \<longleftrightarrow> rep_match (plus_of is_alnum ''._:-'') 8 128 s"

text \<open>The repository part of an image reference has no \<open>@\<close>, so the pattern splits at the first one.\<close>

definition ctl_oci_digest :: "string \<Rightarrow> bool" where
  "ctl_oci_digest s \<longleftrightarrow>
     (case split_once (CHR ''@'') s of
        None \<Rightarrow> False
      | Some (repository, digest) \<Rightarrow>
          repository \<noteq> [] \<and> is_lower_alnum (hd repository) \<and>
          list_all (plus_of is_lower_alnum ''._/-'') repository \<and> ctl_token digest)"

definition ctl_host :: "string \<Rightarrow> bool" where
  "ctl_host s \<longleftrightarrow> rep_match (plus_of is_alnum ''.-'') 1 253 s"

definition ctl_ephemeral_token :: "string \<Rightarrow> bool" where
  "ctl_ephemeral_token s \<longleftrightarrow> starts_with ''eph_'' s \<and> rep_match (plus_of is_alnum ''_-'') 28 120 (drop 4 s)"

text \<open>\<open><prefix>-[0-9a-f]{40}\<close>.\<close>

definition operation_name :: "string \<Rightarrow> string \<Rightarrow> bool" where
  "operation_name prefix s \<longleftrightarrow>
     starts_with (prefix @ ''-'') s \<and> rep_match is_lower_hex 40 40 (drop (length prefix + 1) s)"

section \<open>The clock as text\<close>

text \<open>
  \<open>datetime.now(timezone.utc).isoformat(timespec="milliseconds")\<close> with \<open>Z\<close>: the civil date of a day
  count since 1970 in the Gregorian calendar.
\<close>

definition pad :: "nat \<Rightarrow> nat \<Rightarrow> string" where
  "pad n v = replicate (n - length (nat_str v)) (CHR ''0'') @ nat_str v"

definition civil_date :: "int \<Rightarrow> int \<times> int \<times> int" where
  "civil_date days =
     (let z = days + 719468;
          era = z div 146097;
          doe = z mod 146097;
          yoe = (doe - doe div 1460 + doe div 36524 - doe div 146096) div 365;
          doy = doe - (365 * yoe + yoe div 4 - yoe div 100);
          mp = (5 * doy + 2) div 153;
          d = doy - (153 * mp + 2) div 5 + 1;
          m = (if mp < 10 then mp + 3 else mp - 9)
      in (yoe + era * 400 + (if m \<le> 2 then 1 else 0), m, d))"

definition utc_text :: "int \<Rightarrow> string" where
  "utc_text ms =
     (let days = ms div 86400000; r = ms mod 86400000
      in case civil_date days of (y, m, d) \<Rightarrow>
         pad 4 (nat y) @ ''-'' @ pad 2 (nat m) @ ''-'' @ pad 2 (nat d) @ ''T'' @
         pad 2 (nat (r div 3600000)) @ '':'' @ pad 2 (nat (r div 60000 mod 60)) @ '':'' @
         pad 2 (nat (r div 1000 mod 60)) @ ''.'' @ pad 3 (nat (r mod 1000)) @ ''Z'')"

definition utc_now :: "'w platform \<Rightarrow> (('w, 'z) sys_scheme, string) comp" where
  "utc_now P = bnd (wall_ms P) (\<lambda>ms. ret (utc_text ms))"

section \<open>Documents\<close>

definition strict_object :: "string \<Rightarrow> string \<Rightarrow> nat \<Rightarrow> exn + dict" where
  "strict_object raw label maximum =
     rbind (check (length raw \<le> maximum)
             (HttpErr 413 ''DOCUMENT_TOO_LARGE'' (label @ '' exceeds '' @ nat_str maximum @ '' bytes''))) (\<lambda>_.
     case loads True raw of
       Inl (Dup k) \<Rightarrow> Inl (control_error (label @ '' contains duplicate key '' @ py_repr_str k))
     | Inl _ \<Rightarrow> Inl (control_error (label @ '' is not strict UTF-8 JSON''))
     | Inr (JObj d) \<Rightarrow> Inr d
     | Inr _ \<Rightarrow> Inl (control_error (label @ '' must contain an object'')))"

definition exact_keys :: "dict \<Rightarrow> string list \<Rightarrow> string \<Rightarrow> exn + unit" where
  "exact_keys d expected label =
     check (same_keys d expected)
       (control_error (label @ '' keys differ; missing='' @
          py_repr_strs (sort (List.filter (\<lambda>k. k \<notin> set (keys d)) expected)) @ '', extra='' @
          py_repr_strs (sort (List.filter (\<lambda>k. k \<notin> set expected) (keys d)))))"

definition bounded_int :: "json \<Rightarrow> string \<Rightarrow> int \<Rightarrow> int \<Rightarrow> exn + int" where
  "bounded_int v label lo hi =
     (case v of
        JInt i \<Rightarrow>
          (if lo \<le> i \<and> i \<le> hi then Inr i
           else Inl (control_error (label @ '' must be an integer from '' @ int_str lo @ '' through '' @ int_str hi)))
      | _ \<Rightarrow> Inl (control_error (label @ '' must be an integer from '' @ int_str lo @ '' through '' @ int_str hi)))"

text \<open>\<open>v in {...}\<close> for a set of strings: lists and objects cannot be hashed.\<close>

fun hashable :: "json \<Rightarrow> bool" where
  "hashable (JArr xs) = False"
| "hashable (JObj d) = False"
| "hashable v = True"

definition member_of :: "json \<Rightarrow> string list \<Rightarrow> exn + bool" where
  "member_of v ws = (if hashable v then Inr (v \<in> set (map JStr ws)) else Inl TypeErr)"

text \<open>\<open>isinstance(v, str) and <pattern>.fullmatch(v)\<close>, else the error.\<close>

definition text_matching :: "(string \<Rightarrow> bool) \<Rightarrow> json \<Rightarrow> exn \<Rightarrow> exn + string" where
  "text_matching pattern v e =
     (case v of JStr s \<Rightarrow> if pattern s then Inr s else Inl e | _ \<Rightarrow> Inl e)"

definition object_of :: "json \<Rightarrow> exn \<Rightarrow> exn + dict" where
  "object_of v e = (case v of JObj d \<Rightarrow> Inr d | _ \<Rightarrow> Inl e)"

lemma text_matching_Inr: "text_matching p v e = Inr s \<longleftrightarrow> v = JStr s \<and> p s"
  by (auto simp: text_matching_def split: json.splits)

lemma object_of_Inr: "object_of v e = Inr d \<longleftrightarrow> v = JObj d"
  by (auto simp: object_of_def split: json.splits)

lemma member_of_Inr: "member_of v ws = Inr b \<longleftrightarrow> hashable v \<and> b = (v \<in> set (map JStr ws))"
  by (auto simp: member_of_def)

lemma bounded_int_Inr: "bounded_int v label lo hi = Inr i \<longleftrightarrow> v = JInt i \<and> lo \<le> i \<and> i \<le> hi"
  by (auto simp: bounded_int_def split: json.splits)

lemma case_sum_Inr: "(case r of Inl e \<Rightarrow> Inl (f e) | Inr x \<Rightarrow> g x) = Inr y \<longleftrightarrow> (\<exists>x. r = Inr x \<and> g x = Inr y)"
  by (cases r) auto

lemmas result_simps = text_matching_Inr object_of_Inr member_of_Inr bounded_int_Inr case_sum_Inr

section \<open>Mounted secrets and fixed endpoints\<close>

text \<open>
  \<open>least\<close> and \<open>short\<close> are the minimal length and its message, which differ between the services.
\<close>

definition read_secret :: "files \<Rightarrow> nat \<Rightarrow> string \<Rightarrow> string \<Rightarrow> string \<Rightarrow> string \<Rightarrow> bool \<Rightarrow> exn + string" where
  "read_secret fs least short path expected label ephemeral =
     rbind (check (\<not> is_symlink fs path \<and> is_file fs path)
             (config_error (label @ '' is absent, not regular, or a symlink''))) (\<lambda>_.
     rbind (check (file_mode fs path mod 64 = 0)
             (config_error (label @ '' must have mode 0600 or stricter''))) (\<lambda>_.
     rbind (read_bytes fs path) (\<lambda>raw.
     rbind (check (length raw \<le> 4096) (config_error (label @ '' exceeds 4096 bytes''))) (\<lambda>_.
     rbind (check (utf8_ok raw) (config_error (label @ '' is not UTF-8''))) (\<lambda>_.
     let token = py_strip raw
     in rbind (check (least \<le> py_len token \<and> \<not> list_ex is_space token) (config_error (label @ short))) (\<lambda>_.
        rbind (check (ephemeral \<longrightarrow> ctl_ephemeral_token token)
                (config_error (label @ '' must contain an enclave-scoped eph_ token''))) (\<lambda>_.
        rbind (check (hex64 expected \<and> sha256_hex token = expected)
                (config_error (label @ '' differs from the topology hash''))) (\<lambda>_.
        Inr token))))))))"

text \<open>
  \<open>not_bounded\<close> and \<open>outside\<close> are the messages of the service.
\<close>

definition fixed_url :: "json \<Rightarrow> string list \<Rightarrow> string \<Rightarrow> string \<Rightarrow> string \<Rightarrow> exn + string" where
  "fixed_url v allowed_hosts label not_bounded outside_text =
     rbind (text_matching (\<lambda>s. py_len s \<le> 512) v (config_error (label @ not_bounded))) (\<lambda>value.
     case urlsplit value of
       Inl _ \<Rightarrow> Inl (config_error (label @ '' is malformed''))
     | Inr parsed \<Rightarrow>
         rbind (check (u_scheme parsed \<in> {''http'', ''https''} \<and> hostname parsed \<noteq> [] \<and>
                       username parsed = [] \<and> password parsed = [] \<and> u_query parsed = [] \<and>
                       u_fragment parsed = [] \<and> u_path parsed \<in> {[], ''/''} \<and>
                       hostname parsed \<in> set allowed_hosts)
                 (config_error (label @ outside_text))) (\<lambda>_.
         Inr (origin (u_scheme parsed) (u_netloc parsed))))"

section \<open>Write-once files\<close>

record 'w ctl_state = "'w sys" +
  ctl_disk :: files

text \<open>
  Paths as \<open>pathlib\<close> writes them: empty and \<open>.\<close> parts dropped. Creating a file exclusively fails when
  anything is there; when the content cannot be written out the file is unlinked again.
\<close>

definition py_path :: "string \<Rightarrow> string" where
  "py_path s =
     (let body = join_with ''/'' (List.filter (\<lambda>p. p \<noteq> [] \<and> p \<noteq> ''.'') (py_split (CHR ''/'') s));
          full = (if starts_with ''/'' s then CHR ''/'' # body else body)
      in if full = [] then ''.'' else full)"

definition path_join :: "string \<Rightarrow> string \<Rightarrow> string" where
  "path_join root name = (if root = ''/'' then ''/'' @ name else root @ ''/'' @ name)"

definition store_file :: "'w platform \<Rightarrow> string \<Rightarrow> string \<Rightarrow> ('w ctl_state, unit) comp" where
  "store_file P path payload = (\<lambda>s. case p_store P path payload (outside s) of (ok, dt, w) \<Rightarrow>
     if ok
     then (Inr (), s\<lparr>outside := w, mono := mono s + dt, trace := EvWrite path payload # trace s,
                    ctl_disk := (ctl_disk s)(path \<mapsto> FFile 384 payload)\<rparr>)
     else (Inl OsErr, s\<lparr>outside := w, mono := mono s + dt\<rparr>))"

definition durable_create :: "'w platform \<Rightarrow> string \<Rightarrow> string \<Rightarrow> string \<Rightarrow> dict \<Rightarrow> ('w ctl_state, string) comp" where
  "durable_create P what root name value =
     (let payload = canonical_bytes (JObj value); path = path_join root name in
      bnd (gets (\<lambda>s. ctl_disk s path)) (\<lambda>node.
      seqc (raise_if (node \<noteq> None) (HttpErr 409 ''JOURNAL_CONFLICT'' (what @ name)))
      (seqc (store_file P path payload) (ret (sha256_hex payload)))))"

definition read_record :: "exn \<Rightarrow> string \<Rightarrow> ('w ctl_state, dict) comp" where
  "read_record missing path =
     bnd (gets ctl_disk) (\<lambda>fs.
     seqc (raise_if (is_symlink fs path \<or> \<not> is_file fs path) missing)
     (lift_res (rbind (read_bytes fs path) (\<lambda>raw. strict_object raw ''journal record'' max_response_bytes))))"

text \<open>\<open>Journal.__init__\<close>: the directory is real and a probe file can be created in it and removed.\<close>

definition journal_init :: "'w platform \<Rightarrow> string \<Rightarrow> string \<Rightarrow> string \<Rightarrow> ('w ctl_state, unit) comp" where
  "journal_init P variable what root =
     bnd (gets ctl_disk) (\<lambda>fs.
     seqc (raise_if (is_symlink fs root \<or> \<not> is_dir fs root) (config_error (variable @ '' is absent or unsafe'')))
     (seqc (raise_if (fs (path_join root ''.write-probe'') \<noteq> None) (config_error (what @ '' is not writable'')))
     (bnd (\<lambda>s. case p_store P (path_join root ''.write-probe'') [] (outside s) of (ok, dt, w) \<Rightarrow>
             (Inr ok, s\<lparr>outside := w, mono := mono s + dt\<rparr>)) (\<lambda>ok.
      raise_if (\<not> ok) (config_error (what @ '' is not writable''))))))"

section \<open>HTTP\<close>

record http_answer =
  an_status :: nat
  an_body :: string
  an_replay :: bool

definition control_body :: "string \<Rightarrow> string \<Rightarrow> json" where
  "control_body c m = JObj [(''error'', JObj [(''code'', JStr c), (''message'', JStr m)])]"

definition send_json :: "nat \<Rightarrow> json \<Rightarrow> bool \<Rightarrow> http_answer" where
  "send_json status value replay =
     (let payload = canonical_bytes value
      in if max_response_bytes < length payload
         then \<lparr>an_status = 500,
               an_body = canonical_bytes (control_body ''RESPONSE_TOO_LARGE'' ''response exceeded 1 MiB''),
               an_replay = replay\<rparr>
         else \<lparr>an_status = status, an_body = payload, an_replay = replay\<rparr>)"

definition handle_error :: "exn \<Rightarrow> http_answer" where
  "handle_error e = (case e of
       HttpErr status c m \<Rightarrow> send_json status (control_body c m) False
     | _ \<Rightarrow> send_json 500 (control_body ''INTERNAL_ERROR'' ''control operation failed'') False)"

definition request_body :: "string \<Rightarrow> inbound \<Rightarrow> exn + dict" where
  "request_body chunked rq =
     rbind (check (in_header rq ''transfer-encoding'' \<in> {None, Some []})
             (HttpErr 411 ''CONTENT_LENGTH_REQUIRED'' (chunked @ '' bodies are forbidden''))) (\<lambda>_.
     case py_int (case in_header rq ''content-length'' of Some v \<Rightarrow> v | None \<Rightarrow> ''-1'') of
       Inl _ \<Rightarrow> Inl (HttpErr 411 ''CONTENT_LENGTH_REQUIRED'' ''Content-Length is malformed'')
     | Inr len \<Rightarrow>
         rbind (check (0 \<le> len \<and> len \<le> int max_request_bytes)
                 (HttpErr 413 ''DOCUMENT_TOO_LARGE'' ''Content-Length is absent or too large'')) (\<lambda>_.
         rbind (check (content_type (in_header rq ''content-type'') = ''application/json'')
                 (HttpErr 415 ''UNSUPPORTED_MEDIA_TYPE'' ''content-type must be application/json'')) (\<lambda>_.
         strict_object (take (nat len) (in_body rq)) ''request'' max_request_bytes)))"

text \<open>\<open>Bearer <token>\<close>: the digests of the supplied and the scoped token are compared.\<close>

definition bearer_ok :: "string \<Rightarrow> string option \<Rightarrow> bool" where
  "bearer_ok scoped authorization =
     (let supplied = (case authorization of
            Some a \<Rightarrow> if starts_with ''Bearer '' a then drop 7 a else [] | None \<Rightarrow> [])
      in supplied \<noteq> [] \<and> sha256_hex scoped = sha256_hex supplied)"

end
