(* ===== verification/Fault_Topology.thy ===== *)
theory Fault_Topology
  imports Control
begin

text \<open>
  The hash-bound topology of \<open>fault-control/fault_control.py\<close>: the allowlists, \<open>LoadEndpoint\<close>,
  \<open>Topology\<close> and \<open>load_topology\<close> with every rejection in the order of the code, and what an accepted
  topology guarantees.
\<close>

section \<open>Allowlists\<close>

definition allowed_restart_targets :: "string list" where
  "allowed_restart_targets =
     [''coordinator-active'', ''coordinator-standby'', ''indexer'', ''reconciler'', ''publisher'', ''headless-node'',
      ''prover'', ''prover-agent'', ''postgres-primary'', ''postgres-standby'', ''minio'', ''front-door'', ''rpc-a'', ''rpc-b'']"

definition allowed_pause_targets :: "string list" where
  "allowed_pause_targets =
     [''coordinator-active'', ''indexer'', ''reconciler'', ''publisher'', ''headless-node'', ''prover'', ''prover-agent'']"

definition allowed_load_profiles :: "string list" where
  "allowed_load_profiles = [''rpc'', ''sse'', ''indexer'', ''admission'', ''scheduler'', ''projection'']"

definition allowed_load_methods :: "string list" where
  "allowed_load_methods = [''GET'', ''POST'']"

definition fc_container :: "string \<Rightarrow> bool" where
  "fc_container s \<longleftrightarrow> head_rep_match is_alnum (plus_of is_alnum ''_.-'') 0 127 s"

section \<open>Fixed endpoints\<close>

definition fc_read_secret :: "files \<Rightarrow> string \<Rightarrow> string \<Rightarrow> string \<Rightarrow> bool \<Rightarrow> exn + string" where
  "fc_read_secret fs path expected label ephemeral =
     read_secret fs 24 '' is too short or contains whitespace'' path expected label ephemeral"

definition normalized_url :: "json \<Rightarrow> string list \<Rightarrow> string \<Rightarrow> exn + string" where
  "normalized_url v allowed_hosts label =
     fixed_url v allowed_hosts label '' must be a bounded URL'' '' is outside the fixed target topology''"

definition safe_path :: "json \<Rightarrow> string \<Rightarrow> exn + string" where
  "safe_path v label =
     rbind (text_matching (\<lambda>s. py_len s \<le> 256 \<and> starts_with ''/'' s \<and> backslash \<notin> set s) v
             (config_error (label @ '' must be a bounded absolute path''))) (\<lambda>value.
     rbind (urlsplit value) (\<lambda>parsed.
     rbind (check (u_scheme parsed = [] \<and> u_netloc parsed = [] \<and> u_query parsed = [] \<and> u_fragment parsed = [] \<and>
                   ''..'' \<notin> set (py_split (CHR ''/'') (u_path parsed)))
             (config_error (label @ '' escapes its fixed endpoint''))) (\<lambda>_.
     Inr (u_path parsed))))"

section \<open>Records\<close>

record load_endpoint =
  le_base_url :: string
  le_path :: string
  le_method :: string
  le_body :: "dict option"
  le_token :: "string option"

record fc_topology =
  ft_classification :: string
  ft_candidate_id :: string
  ft_plan_sha256 :: string
  ft_hosted_token :: string
  ft_auth_token_sha256 :: string
  ft_allowed_hosts :: "string list"
  ft_rpc_a :: string
  ft_rpc_b :: string
  ft_docker_socket :: "string option"
  ft_restart_targets :: "(string \<times> string) list"
  ft_partition_network :: "string option"
  ft_partition_targets :: "string list"
  ft_load_profiles :: "(string \<times> load_endpoint list) list"
  ft_request_timeout :: nat
  ft_topology_sha256 :: string

definition fc_binding :: "fc_topology \<Rightarrow> dict" where
  "fc_binding T =
     [(''candidateId'', JStr (ft_candidate_id T)), (''planSha256'', JStr (ft_plan_sha256 T)),
      (''hostedIntegrationToken'', JStr (ft_hosted_token T))]"

section \<open>Loading\<close>

definition topology_document :: "files \<Rightarrow> string \<Rightarrow> string \<Rightarrow> exn + (dict \<times> string)" where
  "topology_document fs path expected =
     rbind (check (\<not> is_symlink fs path \<and> is_file fs path)
             (config_error ''FAULT_CONTROL_TOPOLOGY_FILE is absent or unsafe'')) (\<lambda>_.
     rbind (read_bytes fs path) (\<lambda>raw.
     rbind (check (hex64 expected \<and> sha256_hex raw = expected)
             (config_error ''fault topology differs from FAULT_CONTROL_TOPOLOGY_SHA256'')) (\<lambda>_.
     rbind (strict_object raw ''fault topology'' max_response_bytes) (\<lambda>value.
     rbind (exact_keys value
             [''schemaVersion'', ''classification'', ''candidateId'', ''planSha256'', ''hostedIntegrationToken'',
              ''faultControlTokenSha256'', ''allowedHosts'', ''rpcProviders'', ''docker'', ''loadProfiles'',
              ''requestTimeoutSeconds''] ''fault topology'') (\<lambda>_.
     Inr (value, sha256_hex raw))))))"

definition topology_class :: "dict \<Rightarrow> exn + string" where
  "topology_class value =
     (let e = config_error ''fault topology schema/classification is invalid''
      in rbind (check (eq_int (jget value ''schemaVersion'') 1) e) (\<lambda>_.
         rbind (member_of (jget value ''classification'') [''release-candidate'', ''non-release-fixture'']) (\<lambda>ok.
         rbind (check ok e) (\<lambda>_.
         text_matching (\<lambda>_. True) (jget value ''classification'') e))))"

definition topology_hosts :: "json \<Rightarrow> exn + string list" where
  "topology_hosts v =
     (let e = config_error ''fault topology allowedHosts is invalid''
      in case v of
           JArr hosts \<Rightarrow>
             rbind (check (2 \<le> length hosts \<and> length hosts \<le> 32) e) (\<lambda>_.
             rbind (rmap (\<lambda>h. text_matching ctl_host h e) hosts) (\<lambda>names.
             rbind (check (distinct names) e) (\<lambda>_. Inr names)))
         | _ \<Rightarrow> Inl e)"

definition topology_rpc :: "json \<Rightarrow> string list \<Rightarrow> exn + (string \<times> string)" where
  "topology_rpc v hosts =
     rbind (object_of v (config_error ''fault topology requires exactly rpc-a and rpc-b'')) (\<lambda>providers.
     rbind (check (same_keys providers [''rpc-a'', ''rpc-b''])
             (config_error ''fault topology requires exactly rpc-a and rpc-b'')) (\<lambda>_.
     rbind (normalized_url (jget providers ''rpc-a'') hosts ''rpc-a'') (\<lambda>a.
     rbind (normalized_url (jget providers ''rpc-b'') hosts ''rpc-b'') (\<lambda>b.
     rbind (check (a \<noteq> b) (config_error ''rpc-a and rpc-b must be distinct'')) (\<lambda>_.
     Inr (a, b))))))"

definition topology_restart_targets :: "json \<Rightarrow> string \<Rightarrow> exn + (string \<times> string) list" where
  "topology_restart_targets v prefix =
     (let e = config_error ''restartTargets contains an unreviewed logical target''
      in rbind (object_of v e) (\<lambda>restart.
         rbind (check (set (keys restart) \<subseteq> set allowed_restart_targets) e) (\<lambda>_.
         rmap (\<lambda>kv.
           rbind (text_matching (\<lambda>c. fc_container c \<and> starts_with prefix c) (snd kv)
                   (config_error (''restart target '' @ fst kv @ '' escapes the candidate prefix''))) (\<lambda>c.
           Inr (fst kv, c))) restart)))"

definition topology_partition_network :: "json \<Rightarrow> string \<Rightarrow> exn + string option" where
  "topology_partition_network v prefix =
     (if v = JNull then Inr None
      else rbind (text_matching (\<lambda>c. fc_container c \<and> starts_with prefix c) v
                   (config_error ''partitionNetwork escapes the candidate prefix'')) (\<lambda>c. Inr (Some c)))"

text \<open>
  \<open>set(partition_aliases)\<close> needs hashable items; a repeated alias and an alias that is not a restart
  target are the same rejection.
\<close>

definition topology_partition_targets :: "json \<Rightarrow> (string \<times> string) list \<Rightarrow> exn + string list" where
  "topology_partition_targets v restart_targets =
     (let e = config_error ''partitionTargets must reference fixed restart targets''
      in case v of
           JArr aliases \<Rightarrow>
             rbind (check (length aliases \<le> 8) e) (\<lambda>_.
             rbind (check (list_all hashable aliases) TypeErr) (\<lambda>_.
             rbind (rmap (\<lambda>a. text_matching (\<lambda>s. s \<in> fst ` set restart_targets) a e) aliases) (\<lambda>names.
             rbind (check (distinct names) e) (\<lambda>_. Inr names))))
         | _ \<Rightarrow> Inl e)"

definition topology_docker ::
  "json \<Rightarrow> exn + (string option \<times> (string \<times> string) list \<times> string option \<times> string list)" where
  "topology_docker v =
     rbind (object_of v (config_error ''fault topology docker must be an object'')) (\<lambda>docker.
     rbind (exact_keys docker
             [''socket'', ''containerPrefix'', ''restartTargets'', ''partitionNetwork'', ''partitionTargets'']
             ''fault topology docker'') (\<lambda>_.
     rbind (check (hashable (jget docker ''socket'')) TypeErr) (\<lambda>_.
     rbind (check (jget docker ''socket'' \<in> {JNull, JStr ''/var/run/docker.sock''})
             (config_error ''only the fixed Docker socket is supported'')) (\<lambda>_.
     rbind (text_matching fc_container (jget docker ''containerPrefix'')
             (config_error ''docker containerPrefix is invalid'')) (\<lambda>prefix.
     rbind (topology_restart_targets (jget docker ''restartTargets'') prefix) (\<lambda>restart_targets.
     rbind (topology_partition_network (jget docker ''partitionNetwork'') prefix) (\<lambda>network.
     rbind (topology_partition_targets (jget docker ''partitionTargets'') restart_targets) (\<lambda>aliases.
     rbind (check ((aliases \<noteq> []) = (network \<noteq> None))
             (config_error ''partition network and targets must be configured together'')) (\<lambda>_.
     Inr (str_of (jget docker ''socket''), restart_targets, network, aliases))))))))))"

definition endpoint_method :: "string \<Rightarrow> json \<Rightarrow> json \<Rightarrow> exn + (string \<times> dict option)" where
  "endpoint_method where_text m body =
     (let e = config_error (''load endpoint '' @ where_text @ '' method/body is invalid'')
      in rbind (member_of m allowed_load_methods) (\<lambda>ok.
         rbind (check (ok \<and> \<not> (m = JStr ''GET'' \<and> body \<noteq> JNull) \<and> (body = JNull \<or> is_dict body)) e) (\<lambda>_.
         rbind (check (body = JNull \<or> length (canonical_bytes body) \<le> max_request_bytes)
                 (config_error ''fixed load body is too large'')) (\<lambda>_.
         rbind (text_matching (\<lambda>_. True) m e) (\<lambda>name. Inr (name, dict_of body))))))"

definition endpoint_token :: "files \<Rightarrow> string \<Rightarrow> json \<Rightarrow> json \<Rightarrow> exn + string option" where
  "endpoint_token fs name file hash =
     rbind (check (truthy file = truthy hash) (config_error ''load endpoint token file/hash must be paired'')) (\<lambda>_.
     if \<not> truthy file then Inr None
     else
       (let e = config_error ''load endpoint token binding is malformed''
        in rbind (text_matching (\<lambda>_. True) file e) (\<lambda>f.
           rbind (text_matching (\<lambda>_. True) hash e) (\<lambda>h.
           rbind (fc_read_secret fs f h (''load profile '' @ name @ '' token'') True) (\<lambda>t. Inr (Some t))))))"

definition topology_endpoint :: "files \<Rightarrow> string list \<Rightarrow> string \<Rightarrow> nat \<Rightarrow> json \<Rightarrow> exn + load_endpoint" where
  "topology_endpoint fs hosts name index v =
     rbind (object_of v (config_error ''load endpoint must be an object'')) (\<lambda>endpoint.
     rbind (exact_keys endpoint [''baseUrl'', ''path'', ''method'', ''body'', ''tokenFile'', ''tokenSha256'']
             ''load endpoint'') (\<lambda>_.
     rbind (endpoint_method (name @ ''['' @ nat_str index @ '']'') (jget endpoint ''method'') (jget endpoint ''body'')) (\<lambda>mb.
     rbind (endpoint_token fs name (jget endpoint ''tokenFile'') (jget endpoint ''tokenSha256'')) (\<lambda>token.
     rbind (normalized_url (jget endpoint ''baseUrl'') hosts (''load profile '' @ name @ '' baseUrl'')) (\<lambda>base.
     rbind (safe_path (jget endpoint ''path'') (''load profile '' @ name @ '' path'')) (\<lambda>path.
     Inr \<lparr>le_base_url = base, le_path = path, le_method = fst mb, le_body = snd mb, le_token = token\<rparr>))))))"

definition topology_profile :: "files \<Rightarrow> string list \<Rightarrow> string \<times> json \<Rightarrow> exn + (string \<times> load_endpoint list)" where
  "topology_profile fs hosts kv =
     (let name = fst kv; label = ''load profile '' @ name
      in rbind (object_of (snd kv) (config_error (label @ '' must be an object''))) (\<lambda>raw.
         rbind (exact_keys raw [''endpoints''] label) (\<lambda>_.
         rbind (case jget raw ''endpoints'' of
                  JArr es \<Rightarrow>
                    if 1 \<le> length es \<and> length es \<le> 2 then Inr es
                    else Inl (config_error (label @ '' requires one or two endpoints''))
                | _ \<Rightarrow> Inl (config_error (label @ '' requires one or two endpoints''))) (\<lambda>es.
         rbind (rmap (\<lambda>ie. topology_endpoint fs hosts name (fst ie) (snd ie)) (List.enumerate 0 es)) (\<lambda>endpoints.
         Inr (name, endpoints))))))"

definition topology_profiles :: "files \<Rightarrow> string list \<Rightarrow> string \<Rightarrow> json \<Rightarrow> exn + (string \<times> load_endpoint list) list" where
  "topology_profiles fs hosts classification v =
     (let e = config_error ''loadProfiles contains an unreviewed profile''
      in rbind (object_of v e) (\<lambda>raw.
         rbind (check (set (keys raw) \<subseteq> set allowed_load_profiles) e) (\<lambda>_.
         rbind (check (\<not> (classification = ''release-candidate'' \<and> \<not> same_keys raw allowed_load_profiles))
                 (config_error ''release-candidate loadProfiles must configure all six reviewed profiles'')) (\<lambda>_.
         rmap (topology_profile fs hosts) raw))))"

definition required_restart_targets :: "string list" where
  "required_restart_targets =
     [''coordinator-active'', ''headless-node'', ''prover'', ''indexer'', ''minio'', ''postgres-primary'', ''front-door'']"

definition release_complete ::
  "string \<Rightarrow> string option \<Rightarrow> (string \<times> string) list \<Rightarrow> string option \<Rightarrow> string list \<Rightarrow> exn + unit" where
  "release_complete classification socket restart_targets network aliases =
     (if classification = ''release-candidate''
      then rbind (check (socket \<noteq> None \<and> set required_restart_targets \<subseteq> fst ` set restart_targets)
                   (config_error ''release-candidate topology does not enable every reviewed container fault'')) (\<lambda>_.
           check (network \<noteq> None \<and> aliases \<noteq> [])
             (config_error ''release-candidate topology does not enable the reviewed network partition''))
      else Inr ())"

definition fc_load_topology :: "files \<Rightarrow> string \<Rightarrow> string \<Rightarrow> exn + fc_topology" where
  "fc_load_topology fs path expected =
     rbind (topology_document fs path expected) (\<lambda>(value, observed).
     rbind (topology_class value) (\<lambda>classification.
     rbind (text_matching ctl_candidate (jget value ''candidateId'')
             (config_error ''fault topology candidateId is malformed'')) (\<lambda>candidate_id.
     rbind (text_matching hex64 (jget value ''planSha256'')
             (config_error ''fault topology planSha256 is malformed'')) (\<lambda>plan.
     rbind (text_matching ctl_token (jget value ''hostedIntegrationToken'')
             (config_error ''fault topology hostedIntegrationToken is malformed'')) (\<lambda>hosted.
     rbind (text_matching hex64 (jget value ''faultControlTokenSha256'')
             (config_error ''fault topology scoped token hash is malformed'')) (\<lambda>auth.
     rbind (topology_hosts (jget value ''allowedHosts'')) (\<lambda>hosts.
     rbind (topology_rpc (jget value ''rpcProviders'') hosts) (\<lambda>(rpc_a, rpc_b).
     rbind (topology_docker (jget value ''docker'')) (\<lambda>(socket, restart_targets, network, aliases).
     rbind (topology_profiles fs hosts classification (jget value ''loadProfiles'')) (\<lambda>profiles.
     rbind (bounded_int (jget value ''requestTimeoutSeconds'') ''requestTimeoutSeconds'' 1 30) (\<lambda>timeout.
     rbind (release_complete classification socket restart_targets network aliases) (\<lambda>_.
     Inr \<lparr>ft_classification = classification, ft_candidate_id = candidate_id, ft_plan_sha256 = plan,
       ft_hosted_token = hosted, ft_auth_token_sha256 = auth, ft_allowed_hosts = hosts, ft_rpc_a = rpc_a,
       ft_rpc_b = rpc_b, ft_docker_socket = socket, ft_restart_targets = restart_targets,
       ft_partition_network = network, ft_partition_targets = aliases, ft_load_profiles = profiles,
       ft_request_timeout = nat timeout, ft_topology_sha256 = observed\<rparr>))))))))))))"

end
