(* ===== verification/Fault_Targets.thy ===== *)
theory Fault_Targets
  imports Fault_Topology PyClock
begin

text \<open>
  The calls \<open>fault_control.py\<close> makes to its fixed targets: JSON over HTTP, JSON-RPC, and the Docker
  socket. A Docker request is addressed as \<open>unix:<socket>:<path>\<close>. The operating system's own text at
  the end of a network failure message is not observed.
\<close>

section \<open>JSON targets\<close>

definition target_request ::
  "string \<Rightarrow> string \<Rightarrow> string \<Rightarrow> dict option \<Rightarrow> string option \<Rightarrow> http_request" where
  "target_request base path meth body token =
     \<lparr>rq_method = meth, rq_url = base @ path,
      rq_headers = [(''accept'', ''application/json'')] @
        (if body \<noteq> None then [(''content-type'', ''application/json'')] else []) @
        (if token \<notin> {None, Some []} then [(''authorization'', ''Bearer '' @ the token)] else []),
      rq_body = map_option (\<lambda>d. canonical_bytes (JObj d)) body, rq_verify_tls = True\<rparr>"

text \<open>
  Redirects are not followed, so every status is an answer. An empty body parses to \<open>None\<close>.
\<close>

definition read_target :: "http_reply \<Rightarrow> exn + (nat \<times> json \<times> string)" where
  "read_target r = (case r of
       NetFail \<Rightarrow> Inl (HttpErr 502 ''TARGET_UNAVAILABLE'' ''fixed target request failed: '')
     | Reply status raw \<Rightarrow>
         rbind (check (length raw \<le> max_target_response_bytes)
                 (HttpErr 502 ''TARGET_RESPONSE_TOO_LARGE'' ''fixed target response exceeded 4 MiB'')) (\<lambda>_.
         if raw = [] then Inr (status, JNull, raw)
         else rbind (strict_object raw ''fixed target response'' max_target_response_bytes) (\<lambda>d.
              Inr (status, JObj d, raw))))"

definition http_json ::
  "'w platform \<Rightarrow> string \<Rightarrow> string \<Rightarrow> string \<Rightarrow> dict option \<Rightarrow> nat \<Rightarrow> string option \<Rightarrow>
   (('w, 'z) sys_scheme, (nat \<times> json \<times> string) \<times> ratio) comp" where
  "http_json P base path meth body timeout token =
     bnd monotonic (\<lambda>started.
     bnd (http_exchange P (target_request base path meth body token) timeout) (\<lambda>r.
     bnd monotonic (\<lambda>finished.
     bnd (lift_res (read_target r)) (\<lambda>x. ret (x, elapsed_ms finished started)))))"

definition rpc_body :: "string \<Rightarrow> json list \<Rightarrow> nat \<Rightarrow> dict" where
  "rpc_body meth params request_id =
     [(''jsonrpc'', JStr ''2.0''), (''id'', JInt (int request_id)), (''method'', JStr meth), (''params'', JArr params)]"

definition rpc_result :: "string \<Rightarrow> nat \<Rightarrow> json \<Rightarrow> exn + json" where
  "rpc_result meth status response =
     (case response of
        JObj d \<Rightarrow>
          (if status \<noteq> 200 \<or> jget d ''error'' \<noteq> JNull \<or> \<not> has_key d ''result''
           then Inl (HttpErr 502 ''RPC_CONTROL_FAILED'' (''fixed RPC method '' @ meth @ '' failed''))
           else Inr (jget d ''result''))
      | _ \<Rightarrow> Inl (HttpErr 502 ''RPC_CONTROL_FAILED'' (''fixed RPC method '' @ meth @ '' failed'')))"

definition rpc_json ::
  "'w platform \<Rightarrow> string \<Rightarrow> string \<Rightarrow> json list \<Rightarrow> nat \<Rightarrow> nat \<Rightarrow> (('w, 'z) sys_scheme, json) comp" where
  "rpc_json P base meth params timeout request_id =
     bnd (http_json P base ''/'' ''POST'' (Some (rpc_body meth params request_id)) timeout None) (\<lambda>x.
     lift_res (rpc_result meth (fst (fst x)) (fst (snd (fst x)))))"

section \<open>Docker\<close>

definition docker_target :: "string \<Rightarrow> string \<Rightarrow> string" where
  "docker_target socket path = ''unix:'' @ socket @ '':'' @ path"

definition docker_post :: "string \<Rightarrow> string \<Rightarrow> (string \<times> string) list \<Rightarrow> string \<Rightarrow> http_request" where
  "docker_post socket path headers body =
     \<lparr>rq_method = ''POST'', rq_url = docker_target socket path, rq_headers = headers, rq_body = Some body,
      rq_verify_tls = True\<rparr>"

text \<open>
  \<open>refused status\<close> and \<open>broken\<close> are the errors for a status outside the accepted ones (or an answer over
  1 MiB) and for a connection error.
\<close>

definition docker_answer :: "nat list \<Rightarrow> (nat \<Rightarrow> exn) \<Rightarrow> exn \<Rightarrow> http_reply \<Rightarrow> exn + unit" where
  "docker_answer accepted refused broken r = (case r of
       NetFail \<Rightarrow> Inl broken
     | Reply status raw \<Rightarrow> check (status \<in> set accepted \<and> length raw \<le> max_response_bytes) (refused status))"

definition stop_grace_seconds :: "int \<Rightarrow> int" where
  "stop_grace_seconds timeout = max 1 (min (timeout - 5) (timeout div 2))"

definition docker_restart ::
  "'w platform \<Rightarrow> string \<Rightarrow> string \<Rightarrow> nat \<Rightarrow> (('w, 'z) sys_scheme, unit) comp" where
  "docker_restart P socket container timeout =
     bnd (http_exchange P
           (docker_post socket
             (''/containers/'' @ quote_all container @ ''/restart?t='' @ int_str (stop_grace_seconds (int timeout)))
             [(''Content-Length'', ''0'')] []) timeout) (\<lambda>r.
     lift_res (docker_answer [204]
       (\<lambda>status. HttpErr 502 ''RESTART_FAILED'' (''fixed Docker restart returned HTTP '' @ nat_str status))
       (HttpErr 502 ''RESTART_FAILED'' ''fixed Docker restart failed: '') r))"

text \<open>The accepted statuses of a container verb, and whether it carries a stop grace.\<close>

definition docker_container_actions :: "string \<Rightarrow> (nat list \<times> bool) option" where
  "docker_container_actions = map_of
     [(''restart'', ([204], True)), (''stop'', ([204, 304], True)), (''start'', ([204, 304], False)),
      (''pause'', ([204], False)), (''unpause'', ([204], False))]"

definition container_request :: "string \<Rightarrow> string \<Rightarrow> string \<Rightarrow> bool \<Rightarrow> nat \<Rightarrow> http_request" where
  "container_request socket container action has_grace timeout =
     docker_post socket
       (''/containers/'' @ quote_all container @ ''/'' @ action @
        (if has_grace then ''?t='' @ int_str (stop_grace_seconds (int timeout)) else []))
       [(''Content-Length'', ''0'')] []"

definition docker_container_action ::
  "'w platform \<Rightarrow> string \<Rightarrow> string \<Rightarrow> string \<Rightarrow> nat \<Rightarrow> (('w, 'z) sys_scheme, unit) comp" where
  "docker_container_action P socket container action timeout =
     (case docker_container_actions action of
        None \<Rightarrow> throw (HttpErr 500 ''INTERNAL_ERROR'' ''unreviewed Docker container action'')
      | Some (accepted, has_grace) \<Rightarrow>
          bnd (http_exchange P (container_request socket container action has_grace timeout) timeout) (\<lambda>r.
          lift_res (docker_answer accepted
            (\<lambda>status. HttpErr 502 ''CONTAINER_ACTION_FAILED''
               (''fixed Docker '' @ action @ '' returned HTTP '' @ nat_str status))
            (HttpErr 502 ''CONTAINER_ACTION_FAILED'' (''fixed Docker '' @ action @ '' failed: '')) r)))"

definition network_request :: "string \<Rightarrow> string \<Rightarrow> string \<Rightarrow> string \<Rightarrow> http_request" where
  "network_request socket network endpoint container =
     (let body = canonical_bytes (JObj [(''Container'', JStr container), (''Force'', JBool False)])
      in docker_post socket (''/networks/'' @ quote_all network @ ''/'' @ endpoint)
           [(''Content-Type'', ''application/json''), (''Content-Length'', nat_str (length body))] body)"

definition docker_network_action ::
  "'w platform \<Rightarrow> string \<Rightarrow> string \<Rightarrow> string list \<Rightarrow> string \<Rightarrow> nat \<Rightarrow> (('w, 'z) sys_scheme, unit) comp" where
  "docker_network_action P socket network containers phase timeout =
     seqc (raise_if (phase \<notin> {''start'', ''restore''}) (control_error ''network partition phase is invalid''))
     (let endpoint = (if phase = ''start'' then ''disconnect'' else ''connect'')
      in for_each containers (\<lambda>container.
           bnd (http_exchange P (network_request socket network endpoint container) timeout) (\<lambda>r.
           lift_res (docker_answer [200, 201]
             (\<lambda>status. HttpErr 502 ''NETWORK_ACTION_FAILED''
                (''fixed network '' @ endpoint @ '' returned HTTP '' @ nat_str status))
             (HttpErr 502 ''NETWORK_ACTION_FAILED'' (''fixed network '' @ endpoint @ '' failed: '')) r))))"

end
