(* ===== verification/Journal.thy ===== *)
theory Journal
  imports Control
begin

text \<open>
  The write-once journal both control services run their operations under (class \<open>Journal\<close> of
  \<open>fault_control.py\<close> and of \<open>backup_restore_control.py\<close>): an intent is made durable before the
  operation's callback runs, a closure after it, and a repeated request is answered from the closure.
  The lock of the journal makes an execution one computation over the state.
\<close>

section \<open>One journalled operation\<close>

text \<open>
  What a service computes before it enters the lock. \<open>jo_head\<close> holds the fields intent and closure
  share, \<open>jo_sealed\<close> tells whether the closure names the digest of its intent.
\<close>

record journal_op =
  jo_root :: string
  jo_key_hash :: string
  jo_operation :: string
  jo_digest :: string
  jo_correlation :: string
  jo_head :: dict
  jo_sealed :: bool
  jo_missing :: exn
  jo_reused :: string
  jo_exists :: string

definition intent_name :: "journal_op \<Rightarrow> string" where
  "intent_name J = jo_key_hash J @ ''.intent.json''"

definition closure_file :: "string \<Rightarrow> string" where
  "closure_file operation_id = operation_id @ ''.closure.json''"

definition intent_path :: "journal_op \<Rightarrow> string" where
  "intent_path J = path_join (jo_root J) (intent_name J)"

definition closure_path :: "journal_op \<Rightarrow> string" where
  "closure_path J = path_join (jo_root J) (closure_file (jo_operation J))"

definition intent_record :: "journal_op \<Rightarrow> string \<Rightarrow> dict" where
  "intent_record J started =
     jo_head J @ [(''idempotencyKeySha256'', JStr (jo_key_hash J)), (''requestDigest'', JStr (jo_digest J)),
                  (''correlationId'', JStr (jo_correlation J)), (''startedAt'', JStr started)]"

definition closure_record :: "journal_op \<Rightarrow> dict \<Rightarrow> string \<Rightarrow> dict \<Rightarrow> dict \<Rightarrow> dict" where
  "closure_record J seal completed public private =
     jo_head J @ [(''requestDigest'', JStr (jo_digest J)), (''correlationId'', JStr (jo_correlation J))] @ seal @
     [(''completedAt'', JStr completed), (''publicResult'', JObj public), (''privateResult'', JObj private)]"

text \<open>\<open>d[k]\<close>, and \<open>dict(v)\<close>, which the journals only apply to the objects they wrote.\<close>

definition item :: "dict \<Rightarrow> string \<Rightarrow> exn + json" where
  "item d k = (case map_of d k of Some v \<Rightarrow> Inr v | None \<Rightarrow> Inl KeyErr)"

definition operation_answer :: "string \<Rightarrow> string \<Rightarrow> json \<Rightarrow> dict \<Rightarrow> dict" where
  "operation_answer operation_id digest correlation public =
     dputs [(''operationId'', JStr operation_id), (''closureSha256'', JStr digest), (''correlationId'', correlation)] public"

definition published :: "string \<Rightarrow> dict \<Rightarrow> exn + dict" where
  "published operation_id closure =
     rbind (item closure ''publicResult'') (\<lambda>p.
     rbind (object_of p TypeErr) (\<lambda>public.
     rbind (item closure ''correlationId'') (\<lambda>correlation.
     Inr (operation_answer operation_id (sha256_hex (canonical_bytes (JObj closure))) correlation public))))"

definition intent_seal :: "journal_op \<Rightarrow> ('w ctl_state, dict) comp" where
  "intent_seal J =
     (if jo_sealed J
      then bnd (gets ctl_disk) (\<lambda>fs. lift_res (rbind (read_bytes fs (intent_path J)) (\<lambda>b.
             Inr [(''intentSha256'', JStr (sha256_hex b))])))
      else ret [])"

definition journal_replay :: "journal_op \<Rightarrow> ('w ctl_state, dict \<times> bool) comp" where
  "journal_replay J =
     bnd (read_record (jo_missing J) (intent_path J)) (\<lambda>intent.
     seqc (raise_if (\<not> eq_str (jget intent ''requestDigest'') (jo_digest J) \<or>
                     \<not> eq_str (jget intent ''operationId'') (jo_operation J))
            (HttpErr 409 ''IDEMPOTENCY_CONFLICT'' (jo_reused J)))
     (bnd (gets (\<lambda>s. path_exists (ctl_disk s) (closure_path J))) (\<lambda>closed.
      seqc (raise_if (\<not> closed)
             (HttpErr 409 ''INCOMPLETE_OPERATION'' ''prior operation stopped after durable intent''))
      (bnd (read_record (jo_missing J) (closure_path J)) (\<lambda>closure.
       bnd (lift_res (published (jo_operation J) closure)) (\<lambda>answer. ret (answer, True)))))))"

definition journal_first ::
  "'w platform \<Rightarrow> journal_op \<Rightarrow> ('w ctl_state, dict \<times> dict) comp \<Rightarrow> ('w ctl_state, dict \<times> bool) comp" where
  "journal_first P J callback =
     bnd (utc_now P) (\<lambda>started.
     seqc (durable_create P (jo_exists J) (jo_root J) (intent_name J) (intent_record J started))
     (bnd callback (\<lambda>result.
      bnd (intent_seal J) (\<lambda>seal.
      bnd (utc_now P) (\<lambda>completed.
      bnd (durable_create P (jo_exists J) (jo_root J) (closure_file (jo_operation J))
             (closure_record J seal completed (fst result) (snd result))) (\<lambda>digest.
      ret (operation_answer (jo_operation J) digest (JStr (jo_correlation J)) (fst result), False)))))))"

definition journal_execute ::
  "'w platform \<Rightarrow> journal_op \<Rightarrow> ('w ctl_state, dict \<times> dict) comp \<Rightarrow> ('w ctl_state, dict \<times> bool) comp" where
  "journal_execute P J callback =
     bnd (gets (\<lambda>s. path_exists (ctl_disk s) (intent_path J))) (\<lambda>known.
     if known then journal_replay J else journal_first P J callback)"

section \<open>Effects of the steps\<close>

lemma read_record_run: "read_record e p s = (fst (read_record e p s), s)"
  by (auto simp: read_record_def bnd_def seqc_def gets_def raise_if_def throw_def ret_def lift_res_def
      split: prod.splits sum.splits)

lemma journal_replay_run: "journal_replay J s = (fst (journal_replay J s), s)"
proof -
  have "keeps ((=) s) (journal_replay J)"
    unfolding journal_replay_def read_record_def by (intro keeps_intro)
  then show ?thesis unfolding keeps_def by (metis prod.collapse)
qed

lemma wp_wall_ms [wp]:
  "wp (wall_ms P) Q E s = (case p_wall P (outside s) of (ms, dt, w) \<Rightarrow> Q ms (s\<lparr>outside := w, mono := mono s + dt\<rparr>))"
  by (simp add: wp_def wall_ms_def split: prod.splits)

lemma wp_utc_now [wp]:
  "wp (utc_now P) Q E s =
     (case p_wall P (outside s) of (ms, dt, w) \<Rightarrow> Q (utc_text ms) (s\<lparr>outside := w, mono := mono s + dt\<rparr>))"
  by (simp add: utc_now_def wp split: prod.splits)

lemma wp_store_file [wp]:
  "wp (store_file P path payload) Q E s =
     (case p_store P path payload (outside s) of (ok, dt, w) \<Rightarrow>
        if ok then Q () (s\<lparr>outside := w, mono := mono s + dt, trace := EvWrite path payload # trace s,
                           ctl_disk := (ctl_disk s)(path \<mapsto> FFile 384 payload)\<rparr>)
        else E OsErr (s\<lparr>outside := w, mono := mono s + dt\<rparr>))"
  by (simp add: wp_def store_file_def split: prod.splits)

text \<open>A written file is at its path with its content, was not there before, and nothing else changed.\<close>

definition created :: "string \<Rightarrow> string \<Rightarrow> 'w ctl_state \<Rightarrow> 'w ctl_state \<Rightarrow> bool" where
  "created path payload s t \<longleftrightarrow>
     ctl_disk s path = None \<and> ctl_disk t = (ctl_disk s)(path \<mapsto> FFile 384 payload) \<and>
     trace t = EvWrite path payload # trace s"

definition untouched :: "'w ctl_state \<Rightarrow> 'w ctl_state \<Rightarrow> bool" where
  "untouched s t \<longleftrightarrow> ctl_disk t = ctl_disk s \<and> trace t = trace s"

lemma utc_now_untouched:
  assumes "utc_now P s = (r, t)"
  shows "untouched s t \<and> (\<exists>ms. r = Inr (utc_text ms))"
  using assms by (auto simp: utc_now_def wall_ms_def bnd_def ret_def untouched_def split: prod.splits)

lemma durable_create_run:
  assumes "durable_create P what root name value s = (r, t)"
  shows "case r of
      Inr digest \<Rightarrow> created (path_join root name) (canonical_bytes (JObj value)) s t \<and>
        digest = sha256_hex (canonical_bytes (JObj value))
    | Inl e \<Rightarrow> untouched s t"
  using assms
  by (auto simp: durable_create_def bnd_def seqc_def gets_def raise_if_def throw_def ret_def store_file_def
      Let_def created_def untouched_def split: prod.splits sum.splits if_splits)

lemma durable_create_conflict:
  "ctl_disk s (path_join root name) \<noteq> None \<Longrightarrow>
   durable_create P what root name value s = (Inl (HttpErr 409 ''JOURNAL_CONFLICT'' (what @ name)), s)"
  by (simp add: durable_create_def bnd_def seqc_def gets_def raise_if_def throw_def Let_def)

lemma bnd_run_cases:
  assumes "bnd m f s = (r, t)"
  obtains (raised) e where "m s = (Inl e, t)" and "r = Inl e"
    | (went_on) x u where "m s = (Inr x, u)" and "f x u = (r, t)"
  using assms by (auto simp: bnd_def split: prod.splits sum.splits)

lemma untouched_trans: "untouched s t \<Longrightarrow> untouched t u \<Longrightarrow> untouched s u"
  by (simp add: untouched_def)

lemma created_after: "untouched s t \<Longrightarrow> created p b t u \<Longrightarrow> created p b s u"
  by (simp add: untouched_def created_def)

lemma intent_seal_run:
  assumes "intent_seal J s = (r, t)"
  shows "t = s" and "r = Inr seal \<Longrightarrow> map fst seal = (if jo_sealed J then [''intentSha256''] else []) \<and>
    (\<forall>x\<in>set seal. \<exists>h. snd x = JStr (sha256_hex h))"
  using assms
  by (auto simp: intent_seal_def bnd_def gets_def ret_def lift_res_def split: if_splits prod.splits sum.splits)

text \<open>
  How a first execution can end: nothing left the process; the callback raised after the intent was
  saved; the closure could not be written; or the operation is closed.
\<close>

lemma journal_first_cases:
  assumes "journal_first P J callback s = (r, t)"
  obtains
    (nothing) e where "r = Inl e" and "untouched s t"
  | (interrupted) u started e
      where "created (intent_path J) (canonical_bytes (JObj (intent_record J (utc_text started)))) s u"
      and "callback u = (Inl e, t)" and "r = Inl e"
  | (unclosed) u started v x e
      where "created (intent_path J) (canonical_bytes (JObj (intent_record J (utc_text started)))) s u"
      and "callback u = (Inr x, v)" and "untouched v t" and "r = Inl e"
  | (closed) u started v pub priv seal completed
    where "created (intent_path J) (canonical_bytes (JObj (intent_record J (utc_text started)))) s u"
      and "callback u = (Inr (pub, priv), v)"
      and "fst (intent_seal J v) = Inr seal"
      and "created (closure_path J)
             (canonical_bytes (JObj (closure_record J seal (utc_text completed) pub priv))) v t"
      and "r = Inr (operation_answer (jo_operation J)
             (sha256_hex (canonical_bytes (JObj (closure_record J seal (utc_text completed) pub priv))))
             (JStr (jo_correlation J)) pub, False)"
proof -
  have now: "\<exists>ms. x = utc_text ms" and still: "untouched a b" if "utc_now P a = (Inr x, b)" for a x b
    using utc_now_untouched [OF that] by auto
  from assms obtain started s1 where s1: "utc_now P s = (Inr started, s1)"
    and rest: "seqc (durable_create P (jo_exists J) (jo_root J) (intent_name J) (intent_record J started))
       (bnd callback (\<lambda>result. bnd (intent_seal J) (\<lambda>seal. bnd (utc_now P) (\<lambda>completed.
        bnd (durable_create P (jo_exists J) (jo_root J) (closure_file (jo_operation J))
               (closure_record J seal completed (fst result) (snd result))) (\<lambda>digest.
        ret (operation_answer (jo_operation J) digest (JStr (jo_correlation J)) (fst result), False)))))) s1 = (r, t)"
    using utc_now_untouched unfolding journal_first_def by (elim bnd_run_cases) blast+
  obtain a where a: "started = utc_text a" using now [OF s1] by blast
  from rest show thesis unfolding seqc_def
  proof (cases rule: bnd_run_cases)
    case (raised e)
    with durable_create_run [OF raised(1)] still [OF s1] show ?thesis
      by - (rule nothing, auto intro: untouched_trans)
  next
    case (went_on d u)
    with durable_create_run [OF went_on(1)] created_after [OF still [OF s1]]
    have u: "created (intent_path J) (canonical_bytes (JObj (intent_record J (utc_text a)))) s u"
      by (simp add: intent_path_def a)
    from went_on(2) show ?thesis
    proof (cases rule: bnd_run_cases)
      case raised
      with u show ?thesis by - (rule interrupted, auto)
    next
      case cb: (went_on result v)
      from cb(2) show ?thesis
      proof (cases rule: bnd_run_cases)
        case (raised e)
        with u cb(1) intent_seal_run(1) [OF raised(1)] show ?thesis
          by - (rule unclosed, auto simp: untouched_def)
      next
        case seal: (went_on seal v')
        then have v': "v' = v" and sl: "fst (intent_seal J v) = Inr seal"
          using intent_seal_run(1) [OF seal(1)] by auto
        from seal(2) show ?thesis
        proof (cases rule: bnd_run_cases)
          case (raised e)
          then show ?thesis using utc_now_untouched [OF raised(1)] by auto
        next
          case clk: (went_on completed w)
          then have w: "untouched v w" using still v' by blast
          obtain b where ms: "completed = utc_text b"
            using now [OF clk(1)] by blast
          from clk(2) show ?thesis
          proof (cases rule: bnd_run_cases)
            case (raised e)
            have "untouched v t" using durable_create_run [OF raised(1)] w by (auto intro: untouched_trans)
            with u cb(1) raised(2) show ?thesis by - (rule unclosed)
          next
            case (went_on digest x)
            with durable_create_run [OF went_on(1)] u cb(1) w sl ms created_after [OF w] show ?thesis
              by (cases result) (auto simp: ret_def closure_path_def intro!: closed)
          qed
        qed
      qed
    qed
  qed
qed

end
