(* ===== verification/Journal_Laws.thy ===== *)
theory Journal_Laws
  imports Journal
begin

text \<open>
  What the journal promises: nothing leaves the process before the intent is durable, no record is
  ever rewritten, a closed operation is answered again with the same bytes and without effects, and a
  changed or an interrupted request is refused. The locale \<open>journalled\<close> states what an operation's
  callback has to keep for that.
\<close>

section \<open>Well-formed operations\<close>

definition record_fields :: "string list" where
  "record_fields = [''idempotencyKeySha256'', ''requestDigest'', ''correlationId'', ''startedAt'',
     ''intentSha256'', ''completedAt'', ''publicResult'', ''privateResult'']"

definition journal_wf :: "journal_op \<Rightarrow> bool" where
  "journal_wf J \<longleftrightarrow>
     wf_json (JObj (jo_head J)) \<and> list_all (\<lambda>k. k \<notin> fst ` set (jo_head J)) record_fields \<and>
     map_of (jo_head J) ''operationId'' = Some (JStr (jo_operation J)) \<and>
     utf8_ok (jo_key_hash J) \<and> utf8_ok (jo_digest J) \<and> utf8_ok (jo_correlation J)"

definition seal_ok :: "dict \<Rightarrow> bool" where
  "seal_ok seal \<longleftrightarrow> seal = [] \<or> (\<exists>h. seal = [(''intentSha256'', JStr (sha256_hex h))])"

definition results_wf :: "dict \<Rightarrow> dict \<Rightarrow> bool" where
  "results_wf pub priv \<longleftrightarrow> wf_json (JObj pub) \<and> wf_json (JObj priv)"

lemma nat_str_ascii: "list_all is_ascii (nat_str n)"
  using nat_str_digits [of n] by (rule list_all_mono') (simp add: class_defs)

lemma utc_text_ascii: "list_all is_ascii (utc_text ms)"
  by (auto simp: utc_text_def pad_def Let_def nat_str_ascii list_all_append split: prod.splits)
    (auto simp: list_all_iff class_defs)

lemma utf8_sha256 [simp]: "utf8_ok (sha256_hex s)"
  using hex64_sha256 [of s] unfolding hex64_def rep_match_def
  by (intro utf8_ok_ascii) (auto elim!: list_all_mono' simp: class_defs)

lemma utf8_utc [simp]: "utf8_ok (utc_text ms)"
  by (rule utf8_ok_ascii [OF utc_text_ascii])

lemma path_join_inject [simp]: "path_join root a = path_join root b \<longleftrightarrow> a = b"
  by (simp add: path_join_def)

lemma ctl_correlation_ascii: "ctl_correlation s \<Longrightarrow> utf8_ok s"
  unfolding ctl_correlation_def rep_match_def
  by (intro utf8_ok_ascii) (auto elim!: list_all_mono' simp: class_defs)

lemma field_names_utf8 [simp]:
  "utf8_ok ''idempotencyKeySha256''" "utf8_ok ''requestDigest''" "utf8_ok ''correlationId''" "utf8_ok ''startedAt''"
  "utf8_ok ''intentSha256''" "utf8_ok ''completedAt''" "utf8_ok ''publicResult''" "utf8_ok ''privateResult''"
  by (simp_all add: utf8_ok_ascii_Cons code_def)

lemma head_fields:
  assumes "journal_wf J"
  shows "distinct (map fst (jo_head J))" and "list_all (\<lambda>(k, v). utf8_ok k \<and> wf_json v) (jo_head J)"
    and "list_all (\<lambda>k. k \<notin> fst ` set (jo_head J)) record_fields"
    and "list_all (\<lambda>k. map_of (jo_head J) k = None) record_fields"
    and "utf8_ok (jo_key_hash J)" "utf8_ok (jo_digest J)" "utf8_ok (jo_correlation J)"
    and "map_of (jo_head J) ''operationId'' = Some (JStr (jo_operation J))"
  using assms by (auto simp only: journal_wf_def wf_json.simps map_of_eq_None_iff list_all_iff)

lemma intent_wf: "journal_wf J \<Longrightarrow> wf_json (JObj (intent_record J (utc_text ms)))"
  using head_fields [of J] by (simp add: intent_record_def record_fields_def)

lemma closure_wf:
  "journal_wf J \<Longrightarrow> seal_ok seal \<Longrightarrow> results_wf pub priv \<Longrightarrow>
   wf_json (JObj (closure_record J seal (utc_text ms) pub priv))"
  using head_fields [of J] unfolding seal_ok_def
  by (elim disjE exE) (simp_all add: closure_record_def record_fields_def results_wf_def)

lemma intent_fields:
  assumes "journal_wf J"
  shows "map_of (intent_record J x) ''requestDigest'' = Some (JStr (jo_digest J))"
    and "map_of (intent_record J x) ''operationId'' = Some (JStr (jo_operation J))"
  using head_fields [OF assms] by (simp_all add: intent_record_def record_fields_def map_add_def)

lemma closure_fields:
  assumes "journal_wf J" and "seal_ok seal"
  shows "map_of (closure_record J seal x pub priv) ''publicResult'' = Some (JObj pub)"
    and "map_of (closure_record J seal x pub priv) ''correlationId'' = Some (JStr (jo_correlation J))"
  using head_fields [OF assms(1)] assms(2) unfolding seal_ok_def
  by (elim disjE exE; simp add: closure_record_def record_fields_def map_add_def)+

section \<open>Records read back\<close>

definition holds_record :: "string \<Rightarrow> dict \<Rightarrow> 'w ctl_state \<Rightarrow> bool" where
  "holds_record path value s \<longleftrightarrow> ctl_disk s path = Some (FFile 384 (canonical_bytes (JObj value)))"

lemma holds_record_exists: "holds_record path value s \<Longrightarrow> path_exists (ctl_disk s) path"
  by (simp add: holds_record_def path_exists_def fs_follow_def numeral_eq_Suc)

lemma read_record_back:
  assumes "holds_record path value s" and "wf_json (JObj value)"
    and "length (canonical_bytes (JObj value)) \<le> max_response_bytes"
  obtains d where "read_record e path s = (Inr d, s)" and "jsort (JObj value) = JObj d"
proof
  let ?d = "sort_key fst (map (\<lambda>(k, v). (k, jsort v)) value)"
  show "jsort (JObj value) = JObj ?d" by simp
  have "fs_follow (ctl_disk s) path = Some (FFile 384 (canonical_bytes (JObj value)))"
    using assms(1) by (simp add: holds_record_def fs_follow_def numeral_eq_Suc)
  then show "read_record e path s = (Inr ?d, s)"
    using assms loads_canonical [OF assms(2), of True]
    by (simp add: read_record_def bnd_def seqc_def gets_def raise_if_def ret_def lift_res_def is_symlink_def
        is_file_def read_bytes_def strict_object_def holds_record_def)
qed

lemma distinct_answer: "distinct (map fst pub) \<Longrightarrow> distinct (map fst (operation_answer op h c pub))"
  unfolding operation_answer_def by (rule distinct_dputs)

text \<open>The answer of an operation does not depend on the order its results are read back in.\<close>

lemma operation_answer_same:
  assumes "distinct (map fst pub)" and "jsort (JObj pub) = JObj pub'"
  shows "same_value (JObj (operation_answer op h c pub')) (JObj (operation_answer op h c pub))"
  unfolding same_value_def operation_answer_def
proof (rule jsort_obj_cong)
  have d: "distinct (map fst pub')" using assms by (rule jsort_obj_self)
  then show "distinct (map fst (dputs [(''operationId'', JStr op), (''closureSha256'', JStr h), (''correlationId'', c)] pub'))"
    by (rule distinct_dputs)
  show "distinct (map fst (dputs [(''operationId'', JStr op), (''closureSha256'', JStr h), (''correlationId'', c)] pub))"
    using assms(1) by (rule distinct_dputs)
  show "map_option jsort (map_of (dputs [(''operationId'', JStr op), (''closureSha256'', JStr h), (''correlationId'', c)] pub') k)
      = map_option jsort (map_of (dputs [(''operationId'', JStr op), (''closureSha256'', JStr h), (''correlationId'', c)] pub) k)" for k
    using map_of_jsort [OF assms, of k] by (simp add: option.map_comp comp_def)
qed

lemma same_canonical: "same_value v w \<Longrightarrow> canonical_bytes v = canonical_bytes w"
  unfolding same_value_def by (metis canonical_jsort)

lemma same_value_dputs:
  assumes "same_value (JObj a) (JObj b)" and "distinct (map fst a)" and "distinct (map fst b)"
    and "distinct (map fst kvs)"
  shows "same_value (JObj (dputs kvs a)) (JObj (dputs kvs b))"
  unfolding same_value_def
proof (rule jsort_obj_cong)
  show "distinct (map fst (dputs kvs a))" "distinct (map fst (dputs kvs b))"
    using assms(2,3) by (auto intro: distinct_dputs)
  show "map_option jsort (map_of (dputs kvs a) k) = map_option jsort (map_of (dputs kvs b) k)" for k
  proof -
    obtain d where d: "jsort (JObj a) = JObj d" "jsort (JObj b) = JObj d"
      using assms(1) by (simp add: same_value_def)
    from map_of_jsort [OF assms(2) d(1), of k] map_of_jsort [OF assms(3) d(2), of k]
    show ?thesis using assms(4) by (auto simp: map_of_dputs split: option.splits)
  qed
qed

definition first_answer :: "journal_op \<Rightarrow> dict \<Rightarrow> dict \<Rightarrow> dict" where
  "first_answer J closure pub =
     operation_answer (jo_operation J) (sha256_hex (canonical_bytes (JObj closure))) (JStr (jo_correlation J)) pub"

lemma published_back:
  assumes "journal_wf J" and "seal_ok seal" and "results_wf pub priv"
    and "jsort (JObj (closure_record J seal (utc_text ms) pub priv)) = JObj d"
  obtains ans where "published (jo_operation J) d = Inr ans" and "distinct (map fst ans)"
    and "same_value (JObj ans) (JObj (first_answer J (closure_record J seal (utc_text ms) pub priv) pub))"
proof -
  let ?c = "closure_record J seal (utc_text ms) pub priv"
  have keys: "distinct (map fst ?c)" using closure_wf [OF assms(1,2,3)] by simp
  obtain pub' where pub': "jsort (JObj pub) = JObj pub'" by simp
  have "map_of d ''publicResult'' = Some (JObj pub')" "map_of d ''correlationId'' = Some (JStr (jo_correlation J))"
    using map_of_jsort [OF keys assms(4)] closure_fields [OF assms(1,2)] pub' by simp_all
  moreover have "canonical_bytes (JObj d) = canonical_bytes (JObj ?c)"
    unfolding assms(4) [symmetric] by (rule canonical_jsort)
  ultimately have "published (jo_operation J) d = Inr (operation_answer (jo_operation J)
      (sha256_hex (canonical_bytes (JObj ?c))) (JStr (jo_correlation J)) pub')"
    by (simp add: published_def item_def object_of_def)
  then show thesis
    using operation_answer_same [OF _ pub'] distinct_answer [OF jsort_obj_self [OF _ pub']] assms(3)
    by (intro that) (auto simp: first_answer_def results_wf_def)
qed

section \<open>The outcomes of a repeated request\<close>

definition small :: "dict \<Rightarrow> bool" where
  "small d \<longleftrightarrow> length (canonical_bytes (JObj d)) \<le> max_response_bytes"

definition readable :: "'w ctl_state \<Rightarrow> string \<Rightarrow> bool" where
  "readable s p \<longleftrightarrow> (\<forall>m c. ctl_disk s p = Some (FFile m c) \<longrightarrow> length c \<le> max_response_bytes)"

lemma intent_back:
  assumes "journal_wf J" and "holds_record (intent_path J) (intent_record J (utc_text ms)) s"
    and "small (intent_record J (utc_text ms))"
  obtains d where "read_record e (intent_path J) s = (Inr d, s)"
    and "jget d ''requestDigest'' = JStr (jo_digest J)" and "jget d ''operationId'' = JStr (jo_operation J)"
proof -
  obtain d where d: "read_record e (intent_path J) s = (Inr d, s)" "jsort (JObj (intent_record J (utc_text ms))) = JObj d"
    by (rule read_record_back [OF assms(2) intent_wf [OF assms(1)]]) (use assms(3) in \<open>simp add: small_def\<close>)
  have "distinct (map fst (intent_record J (utc_text ms)))" using intent_wf [OF assms(1)] by simp
  from jget_jsort [OF this d(2)] have "jget d ''requestDigest'' = JStr (jo_digest J)"
    "jget d ''operationId'' = JStr (jo_operation J)"
    using intent_fields [OF assms(1)] by (simp_all add: jget_def)
  with d(1) show thesis by (rule that)
qed

lemma replay_closed:
  assumes "journal_wf J" and "seal_ok seal" and "results_wf pub priv"
    and "holds_record (intent_path J) (intent_record J (utc_text ms)) s"
    and "holds_record (closure_path J) (closure_record J seal (utc_text ms') pub priv) s"
    and "small (intent_record J (utc_text ms))" and "small (closure_record J seal (utc_text ms') pub priv)"
  obtains ans where "journal_execute P J callback s = (Inr (ans, True), s)" and "distinct (map fst ans)"
    and "same_value (JObj ans) (JObj (first_answer J (closure_record J seal (utc_text ms') pub priv) pub))"
proof -
  obtain i where i: "read_record (jo_missing J) (intent_path J) s = (Inr i, s)"
    "jget i ''requestDigest'' = JStr (jo_digest J)" "jget i ''operationId'' = JStr (jo_operation J)"
    using intent_back [OF assms(1,4,6)] by metis
  obtain c where c: "read_record (jo_missing J) (closure_path J) s = (Inr c, s)"
    "jsort (JObj (closure_record J seal (utc_text ms') pub priv)) = JObj c"
    by (rule read_record_back [OF assms(5) closure_wf [OF assms(1-3)]]) (use assms(7) in \<open>simp add: small_def\<close>)
  obtain ans where ans: "published (jo_operation J) c = Inr ans" "distinct (map fst ans)"
    "same_value (JObj ans) (JObj (first_answer J (closure_record J seal (utc_text ms') pub priv) pub))"
    by (rule published_back [OF assms(1-3) c(2)])
  have "journal_execute P J callback s = (Inr (ans, True), s)"
    using holds_record_exists [OF assms(4)] holds_record_exists [OF assms(5)] i c ans
    by (simp add: journal_execute_def journal_replay_def bnd_def seqc_def gets_def raise_if_def ret_def
        lift_res_def eq_str_def)
  with ans(2,3) show thesis by (intro that)
qed

lemma replay_incomplete:
  assumes "journal_wf J" and "holds_record (intent_path J) (intent_record J (utc_text ms)) s"
    and "small (intent_record J (utc_text ms))" and "\<not> path_exists (ctl_disk s) (closure_path J)"
  shows "journal_execute P J callback s =
    (Inl (HttpErr 409 ''INCOMPLETE_OPERATION'' ''prior operation stopped after durable intent''), s)"
proof -
  obtain i where "read_record (jo_missing J) (intent_path J) s = (Inr i, s)"
    "jget i ''requestDigest'' = JStr (jo_digest J)" "jget i ''operationId'' = JStr (jo_operation J)"
    using intent_back [OF assms(1-3)] by metis
  then show ?thesis
    using holds_record_exists [OF assms(2)] assms(4)
    by (simp add: journal_execute_def journal_replay_def bnd_def seqc_def gets_def raise_if_def throw_def ret_def
        eq_str_def)
qed

text \<open>A key whose intent was saved for another request, under whatever operation.\<close>

lemma replay_other:
  assumes "holds_record (intent_path J) i s" and "wf_json (JObj i)" and "small i"
    and "jget i ''requestDigest'' \<noteq> JStr (jo_digest J)"
  shows "journal_execute P J callback s = (Inl (HttpErr 409 ''IDEMPOTENCY_CONFLICT'' (jo_reused J)), s)"
proof -
  obtain d where d: "read_record (jo_missing J) (intent_path J) s = (Inr d, s)" "jsort (JObj i) = JObj d"
    by (rule read_record_back [OF assms(1,2)]) (use assms(3) in \<open>simp add: small_def\<close>)
  have "distinct (map fst i)" using assms(2) by simp
  from jget_jsort [OF this d(2)] have "jget d ''requestDigest'' = jsort (jget i ''requestDigest'')" .
  then have "\<not> eq_str (jget d ''requestDigest'') (jo_digest J)"
    using assms(4) by (cases "jget i ''requestDigest''") (auto simp: eq_str_def)
  then show ?thesis
    using holds_record_exists [OF assms(1)] d(1)
    by (simp add: journal_execute_def journal_replay_def bnd_def seqc_def gets_def raise_if_def throw_def)
qed

lemma replay_changed:
  assumes "journal_wf J'" and "holds_record (intent_path J) (intent_record J' (utc_text ms)) s"
    and "small (intent_record J' (utc_text ms))" and "jo_digest J' \<noteq> jo_digest J"
  shows "journal_execute P J callback s = (Inl (HttpErr 409 ''IDEMPOTENCY_CONFLICT'' (jo_reused J)), s)"
  using assms(2) intent_wf [OF assms(1)] assms(3)
  by (rule replay_other) (use intent_fields [OF assms(1)] assms(4) in \<open>simp add: jget_def\<close>)

section \<open>Running a fallible prefix\<close>

lemma bnd_lift_Inr: "bnd (lift_res (Inr x)) f = f x"
  by (simp add: bnd_def lift_res_def)

lemma bnd_lift_Inl: "bnd (lift_res (Inl e)) f = throw e"
  by (simp add: bnd_def lift_res_def throw_def)

lemma seqc_lift: "seqc (lift_res (Inr x)) m = m" "seqc (lift_res (Inl e)) m = throw e"
  by (simp_all add: seqc_def bnd_lift_Inr bnd_lift_Inl)

lemma seqc_raise_if: "seqc (raise_if c e) m = (if c then throw e else m)"
  by (auto simp: seqc_def raise_if_def bnd_def ret_def throw_def)

lemma bnd_throw: "bnd (throw e) f = throw e"
  by (simp add: bnd_def throw_def)

lemmas run_simps = bnd_lift_Inr bnd_lift_Inl seqc_lift seqc_raise_if bnd_throw

section \<open>Journalled services\<close>

text \<open>
  A service runs requests under the journal: \<open>op x\<close> and \<open>run x\<close> are the journal entry and the callback of
  the request \<open>x\<close>. Of a valid request the callback only moves time and the trace forward and leaves the records of the
  journal alone; entries of different digests have different closures.
\<close>

locale journalled =
  fixes P :: "'w platform"
    and op :: "'x \<Rightarrow> journal_op"
    and run :: "'x \<Rightarrow> ('w ctl_state, dict \<times> dict) comp"
    and valid :: "'x \<Rightarrow> bool"
    and records :: "string set"
  assumes run_advances: "valid x \<Longrightarrow> advances (run x)"
    and run_spares: "valid x \<Longrightarrow> p \<in> records \<Longrightarrow> keeps (\<lambda>s. ctl_disk s p = v) (run x)"
    and op_records: "valid x \<Longrightarrow> intent_path (op x) \<in> records" "valid x \<Longrightarrow> closure_path (op x) \<in> records"
    and op_paths: "valid x \<Longrightarrow> valid y \<Longrightarrow> intent_path (op x) \<noteq> closure_path (op y)"
    and op_wf: "valid x \<Longrightarrow> journal_wf (op x)"
begin

abbreviation execute :: "'x \<Rightarrow> ('w ctl_state, dict \<times> bool) comp" where
  "execute x \<equiv> journal_execute P (op x) (run x)"

lemma execute_cases:
  assumes "execute x s = (r, t)"
  obtains (known) "path_exists (ctl_disk s) (intent_path (op x))" and "t = s" and "journal_replay (op x) s = (r, t)"
    | (first_time) "\<not> path_exists (ctl_disk s) (intent_path (op x))" and "journal_first P (op x) (run x) s = (r, t)"
  using assms journal_replay_run [of "op x" s]
  by (auto simp: journal_execute_def bnd_def gets_def split: if_splits)

text \<open>Whatever the outcome, the first event of an execution is the write of its intent.\<close>

lemma intent_first:
  assumes "execute x s = (r, t)" and v: "valid x"
  shows "trace t = trace s \<or> (\<exists>later started. trace t =
    later @ EvWrite (intent_path (op x)) (canonical_bytes (JObj (intent_record (op x) started))) # trace s)"
  using assms(1)
proof (cases rule: execute_cases)
  case first_time
  have grows: "\<exists>new. trace v = new @ trace u" if "run x u = (q, v)" for u v q
    using advancesD [OF run_advances [OF v] that] by (simp add: extends_def)
  from first_time(2) show ?thesis
  proof (cases rule: journal_first_cases)
    case (interrupted u started e)
    with grows [OF interrupted(2)] show ?thesis by (auto simp: created_def)
  next
    case (unclosed u started v x e)
    with grows [OF unclosed(2)] show ?thesis by (auto simp: created_def untouched_def)
  next
    case (closed u started v pub priv seal completed)
    then obtain new where "trace v = new @ trace u" using grows by blast
    with closed have "trace t = (EvWrite (closure_path (op x)) (canonical_bytes (JObj
        (closure_record (op x) seal (utc_text completed) pub priv))) # new) @
        EvWrite (intent_path (op x)) (canonical_bytes (JObj (intent_record (op x) (utc_text started)))) # trace s"
      by (simp add: created_def)
    then show ?thesis by blast
  qed (simp add: untouched_def)
qed simp

text \<open>No record is rewritten, and an execution adds no record but its own two.\<close>

lemma run_same: "valid x \<Longrightarrow> p \<in> records \<Longrightarrow> run x u = (q, v) \<Longrightarrow> ctl_disk v p = ctl_disk u p"
  using keepsD [OF run_spares [of x p "ctl_disk u p"]] by blast

lemma write_once:
  assumes "execute x s = (r, t)" and "p \<in> records" and v: "valid x"
  shows "ctl_disk t p = ctl_disk s p \<or> ctl_disk s p = None \<and> p \<in> {intent_path (op x), closure_path (op x)}"
  using assms(1)
proof (cases rule: execute_cases)
  case first_time
  from first_time(2) show ?thesis
  proof (cases rule: journal_first_cases)
    case (interrupted u started e)
    with run_same [OF v assms(2) interrupted(2)] show ?thesis by (auto simp: created_def)
  next
    case (unclosed u started v x e)
    with run_same [OF v assms(2) unclosed(2)] show ?thesis by (auto simp: created_def untouched_def)
  next
    case (closed u started v pub priv seal completed)
    with run_same [OF v assms(2) closed(2)] show ?thesis by (auto simp: created_def split: if_splits)
  qed (simp add: untouched_def)
qed simp

text \<open>A closed execution leaves both records, and from then on is answered with the same bytes.\<close>

lemma closed_records:
  assumes "execute x s = (Inr (ans, False), t)" and v: "valid x"
  obtains ms ms' seal pub priv u v where "run x u = (Inr (pub, priv), v)" and "seal_ok seal"
    and "holds_record (intent_path (op x)) (intent_record (op x) (utc_text ms)) t"
    and "holds_record (closure_path (op x)) (closure_record (op x) seal (utc_text ms') pub priv) t"
    and "ans = first_answer (op x) (closure_record (op x) seal (utc_text ms') pub priv) pub"
  using assms(1)
proof (cases rule: execute_cases)
  case known
  then show ?thesis
    by (auto simp: journal_replay_def bnd_def seqc_def ret_def split: prod.splits sum.splits)
next
  case first_time
  from first_time(2) show ?thesis
  proof (cases rule: journal_first_cases)
    case (closed u ms v pub priv seal ms')
    have "seal_ok seal"
    proof -
      obtain q w where "intent_seal (op x) v = (q, w)" by fastforce
      with closed(3) show ?thesis
        by (auto simp: intent_seal_def bnd_def gets_def ret_def lift_res_def seal_ok_def
            split: if_splits sum.splits)
    qed
    moreover have "ctl_disk v (intent_path (op x)) = ctl_disk u (intent_path (op x))"
      by (rule run_same [OF v op_records(1) [OF v] closed(2)])
    then have "holds_record (intent_path (op x)) (intent_record (op x) (utc_text ms)) t"
      using closed(1,4) op_paths [OF v v] by (simp add: created_def holds_record_def)
    moreover have "holds_record (closure_path (op x)) (closure_record (op x) seal (utc_text ms') pub priv) t"
      using closed(4) by (simp add: created_def holds_record_def)
    ultimately show ?thesis using closed(2,5) that by (simp add: first_answer_def)
  qed simp_all
qed

text \<open>A record the service can read again: nothing larger than the limit of \<open>read_record\<close>.\<close>

lemma answered_again:
  assumes first: "execute x s = (Inr (ans, False), t)" and v: "valid x"
    and kept: "\<forall>p\<in>{intent_path (op x), closure_path (op x)}. ctl_disk u p = ctl_disk t p \<and> readable t p"
    and wf: "\<And>w pub priv v. run x w = (Inr (pub, priv), v) \<Longrightarrow> results_wf pub priv"
  obtains ans' where "execute x u = (Inr (ans', True), u)" and "same_value (JObj ans') (JObj ans)"
    and "distinct (map fst ans')" and "distinct (map fst ans)"
proof -
  obtain ms ms' seal pub priv w v where c: "run x w = (Inr (pub, priv), v)" "seal_ok seal"
    "holds_record (intent_path (op x)) (intent_record (op x) (utc_text ms)) t"
    "holds_record (closure_path (op x)) (closure_record (op x) seal (utc_text ms') pub priv) t"
    "ans = first_answer (op x) (closure_record (op x) seal (utc_text ms') pub priv) pub"
    by (rule closed_records [OF first v])
  from c(3,4) kept have
    "holds_record (intent_path (op x)) (intent_record (op x) (utc_text ms)) u"
    "holds_record (closure_path (op x)) (closure_record (op x) seal (utc_text ms') pub priv) u"
    "small (intent_record (op x) (utc_text ms))" "small (closure_record (op x) seal (utc_text ms') pub priv)"
    by (auto simp: holds_record_def readable_def small_def)
  from replay_closed [OF op_wf [OF v] c(2) wf [OF c(1)] this] obtain ans' where
    "journal_execute P (op x) (run x) u = (Inr (ans', True), u)" "same_value (JObj ans') (JObj ans)"
    "distinct (map fst ans')"
    using c(5) by metis
  moreover have "distinct (map fst ans)"
    using wf [OF c(1)] unfolding c(5) first_answer_def by (intro distinct_answer) (simp add: results_wf_def)
  ultimately show thesis using that [of ans'] by simp
qed

text \<open>An execution that fails after it acted has left its intent, and can never run again under that key.\<close>

lemma failed_intent:
  assumes "execute x s = (Inl e, t)" and v: "valid x" and acted: "trace t \<noteq> trace s"
  shows "\<exists>ms. holds_record (intent_path (op x)) (intent_record (op x) (utc_text ms)) t"
  using assms(1)
proof (cases rule: execute_cases)
  case known
  with acted show ?thesis by simp
next
  case first_time
  from first_time(2) show ?thesis
  proof (cases rule: journal_first_cases)
    case (interrupted w started e')
    with run_same [OF v op_records(1) [OF v] interrupted(2)] show ?thesis
      by (auto simp: created_def holds_record_def)
  next
    case (unclosed w started u y e')
    with run_same [OF v op_records(1) [OF v] unclosed(2)] show ?thesis
      by (auto simp: created_def holds_record_def untouched_def)
  qed (use acted in \<open>auto simp: untouched_def\<close>)
qed

lemma never_run_again:
  assumes failed: "execute x s = (Inl e, t)" and v: "valid x" and acted: "trace t \<noteq> trace s"
    and kept: "ctl_disk u (intent_path (op x)) = ctl_disk t (intent_path (op x))"
    and still_open: "\<not> path_exists (ctl_disk u) (closure_path (op x))"
    and r: "readable t (intent_path (op x))"
  shows "execute x u =
    (Inl (HttpErr 409 ''INCOMPLETE_OPERATION'' ''prior operation stopped after durable intent''), u)"
proof -
  obtain ms where "holds_record (intent_path (op x)) (intent_record (op x) (utc_text ms)) t"
    using failed_intent [OF failed v acted] by blast
  with kept r have "holds_record (intent_path (op x)) (intent_record (op x) (utc_text ms)) u"
    "small (intent_record (op x) (utc_text ms))"
    by (auto simp: holds_record_def readable_def small_def)
  from replay_incomplete [OF op_wf [OF v] this still_open] show ?thesis by simp
qed

text \<open>A key that was used for another request is refused without effects.\<close>

lemma changed_refused:
  assumes "intent_path (op x) = intent_path (op y)" and "jo_digest (op y) \<noteq> jo_digest (op x)"
    and "execute y s = (Inr (ans, False), t)" and v: "valid x" "valid y"
    and "ctl_disk u (intent_path (op x)) = ctl_disk t (intent_path (op x))" and "readable t (intent_path (op x))"
  shows "execute x u = (Inl (HttpErr 409 ''IDEMPOTENCY_CONFLICT'' (jo_reused (op x))), u)"
proof -
  obtain ms where "holds_record (intent_path (op y)) (intent_record (op y) (utc_text ms)) t"
    by (rule closed_records [OF assms(3) v(2)])
  with assms have "holds_record (intent_path (op x)) (intent_record (op y) (utc_text ms)) u"
    "small (intent_record (op y) (utc_text ms))"
    by (auto simp: holds_record_def readable_def small_def)
  from replay_changed [OF op_wf [OF v(2)] this assms(2)] show ?thesis by simp
qed

end

end
