(* ===== verification/Fault_Controller.thy ===== *)
theory Fault_Controller
  imports Fault_Targets Journal_Laws
begin

text \<open>
  The \<open>Controller\<close> of \<open>fault-control/fault_control.py\<close>: authentication, candidate binding, the reviewed
  fault actions and the bounded load, each run under the journal. A callback of the source is a value
  of \<open>fault_op\<close> that \<open>fc_apply\<close> carries out.
\<close>

section \<open>State\<close>

record fc_controller =
  fk_topology :: fc_topology
  fk_token :: string
  fk_root :: string
  fk_binding_digest :: string
  fk_receipt :: dict

text \<open>\<open>binding != self.topology.binding\<close> is Python's equality of dictionaries.\<close>

definition fc_authenticate :: "fc_controller \<Rightarrow> string option \<Rightarrow> exn + unit" where
  "fc_authenticate K authorization =
     check (bearer_ok (fk_token K) authorization)
       (HttpErr 401 ''UNAUTHORIZED'' ''fault-control scoped bearer token required'')"

definition fc_validate_binding :: "fc_controller \<Rightarrow> dict \<Rightarrow> exn + unit" where
  "fc_validate_binding K body =
     check (is_dict (jget body ''binding'') \<and> py_eq (jget body ''binding'') (JObj (fc_binding (fk_topology K))))
       (HttpErr 409 ''CANDIDATE_BINDING_MISMATCH'' ''request binding differs from the exact candidate plan'')"

definition fault_actions :: "string list" where
  "fault_actions =
     [''l1-reorg'', ''rpc-disagreement'', ''rpc-provider-control'', ''coordinator-terminate'', ''service-pause'',
      ''headless-restart'', ''prover-restart'', ''indexer-rollback'', ''object-store-restart'', ''database-restart'',
      ''network-partition'', ''sse-disconnect'']"

definition fc_capabilities :: "fc_controller \<Rightarrow> dict" where
  "fc_capabilities K =
     (let T = fk_topology K; r = fk_receipt K in
     [(''schemaVersion'', JInt 1), (''service'', JStr ''zkdeal-fault-control''),
      (''classification'', JStr (ft_classification T)), (''candidateId'', JStr (ft_candidate_id T)),
      (''planSha256'', JStr (ft_plan_sha256 T)), (''hostedIntegrationToken'', JStr (ft_hosted_token T)),
      (''topologySha256'', JStr (ft_topology_sha256 T)), (''scopedBearer'', JStr ''fault_control''),
      (''candidateDescriptorSha256'', jget r ''candidateDescriptorSha256''),
      (''topologyReceiptSha256'', jget r ''topologyReceiptSha256''), (''platform'', jget r ''platform''),
      (''adapterImage'', jget r ''adapterImage''), (''adapterSourceSha256'', jget r ''adapterSourceSha256''),
      (''faultActions'', JArr (map JStr fault_actions)), (''loadProfiles'', JArr (map JStr allowed_load_profiles)),
      (''restartTargets'', JArr (map JStr (sort (map fst (ft_restart_targets T))))),
      (''requestControlledUrls'', JBool False), (''requestControlledCommands'', JBool False),
      (''requestControlledTargetBodies'', JBool False), (''durableWriteOnceJournal'', JBool True)])"

definition fc_with_receipt :: "fc_controller \<Rightarrow> dict \<Rightarrow> dict" where
  "fc_with_receipt K result = dputs (fk_receipt K) result"

section \<open>Blocks\<close>

definition hex_text :: "nat \<Rightarrow> nat \<Rightarrow> string \<Rightarrow> bool" where
  "hex_text lo hi s \<longleftrightarrow> starts_with ''0x'' s \<and> rep_match is_hex lo hi (drop 2 s)"

definition block_ok :: "json \<Rightarrow> exn + (string \<times> string)" where
  "block_ok block =
     (let e = HttpErr 502 ''RPC_CONTROL_FAILED'' ''fixed RPC omitted the latest block hash or timestamp''
      in rbind (object_of block e) (\<lambda>b.
         rbind (text_matching (hex_text 64 64) (jget b ''hash'') e) (\<lambda>h.
         rbind (text_matching (hex_text 1 16) (jget b ''timestamp'') e) (\<lambda>t. Inr (h, t)))))"

definition fc_block ::
  "'w platform \<Rightarrow> fc_topology \<Rightarrow> string \<Rightarrow> nat \<Rightarrow> (('w, 'z) sys_scheme, string \<times> string) comp" where
  "fc_block P T base request_id =
     bnd (rpc_json P base ''eth_getBlockByNumber'' [JStr ''latest'', JBool False] (ft_request_timeout T) request_id) (\<lambda>block.
     lift_res (block_ok block))"

definition fc_block_hash ::
  "'w platform \<Rightarrow> fc_topology \<Rightarrow> string \<Rightarrow> nat \<Rightarrow> (('w, 'z) sys_scheme, string) comp" where
  "fc_block_hash P T base request_id = bnd (fc_block P T base request_id) (\<lambda>b. ret (to_lower (fst b)))"

text \<open>\<open>int(s, 16)\<close> of text the patterns above accepted, and of the end of an operation id.\<close>

definition hex_after_0x :: "string \<Rightarrow> nat" where
  "hex_after_0x s = hex_val (drop 2 s)"

definition operation_number :: "string \<Rightarrow> nat" where
  "operation_number operation_id = hex_val (drop (length operation_id - 6) operation_id)"

definition fc_mine ::
  "'w platform \<Rightarrow> fc_topology \<Rightarrow> string \<Rightarrow> nat \<Rightarrow> nat \<Rightarrow> nat \<Rightarrow> nat option \<Rightarrow> (('w, 'z) sys_scheme, unit) comp" where
  "fc_mine P T base blocks base_fee request_id start_timestamp =
     (let t = ft_request_timeout T
      in seqc (rpc_json P base ''anvil_setNextBlockBaseFeePerGas'' [JStr (''0x'' @ hex_str base_fee)] t request_id)
         (for_each [0..<blocks] (\<lambda>offset.
           seqc (case start_timestamp of
                   None \<Rightarrow> ret ()
                 | Some ts \<Rightarrow>
                     seqc (rpc_json P base ''evm_setNextBlockTimestamp'' [JInt (int (ts + offset))] t
                            (request_id + 500 + offset)) (ret ()))
           (seqc (rpc_json P base ''evm_mine'' [] t (request_id + offset + 1)) (ret ())))))"

definition fc_prior_closure ::
  "fc_controller \<Rightarrow> string \<Rightarrow> string \<Rightarrow> ('w ctl_state, dict) comp" where
  "fc_prior_closure K operation_id expected_action =
     seqc (raise_if (\<not> operation_name ''fc'' operation_id) (control_error ''preparedOperationId is malformed''))
     (bnd (read_record (HttpErr 409 ''INCOMPLETE_OPERATION'' ''journal record is absent or unsafe'')
             (path_join (fk_root K) (closure_file operation_id))) (\<lambda>closure.
      seqc (raise_if (\<not> eq_str (jget closure ''action'') expected_action \<or>
                      \<not> eq_str (jget closure ''bindingDigest'') (fk_binding_digest K))
             (HttpErr 409 ''CANDIDATE_BINDING_MISMATCH'' ''prepared operation belongs to another action or candidate''))
      (ret closure)))"

section \<open>Reorganisation\<close>

definition rpc_failed :: "string \<Rightarrow> exn" where
  "rpc_failed m = HttpErr 502 ''RPC_CONTROL_FAILED'' m"

definition snapshot_ok :: "string \<Rightarrow> json \<Rightarrow> ('s, unit) comp" where
  "snapshot_ok label v =
     raise_if (case v of JStr s \<Rightarrow> 128 < py_len s | _ \<Rightarrow> True)
       (rpc_failed (''fixed RPC '' @ label @ '' returned an invalid snapshot id''))"

definition fc_reorg_prepare ::
  "'w platform \<Rightarrow> fc_controller \<Rightarrow> nat \<Rightarrow> string \<Rightarrow> ('w ctl_state, dict \<times> dict) comp" where
  "fc_reorg_prepare P K depth operation_id =
     (let T = fk_topology K; a = ft_rpc_a T; b = ft_rpc_b T; t = ft_request_timeout T
      in bnd (rpc_json P a ''evm_snapshot'' [] t 10) (\<lambda>snapshot_a.
         bnd (rpc_json P b ''evm_snapshot'' [] t 11) (\<lambda>snapshot_b.
         seqc (snapshot_ok ''rpc-a'' snapshot_a)
         (seqc (snapshot_ok ''rpc-b'' snapshot_b)
         (bnd (fc_block P T a 12) (\<lambda>before_a.
          bnd (fc_block P T b 13) (\<lambda>before_b.
          seqc (raise_if (to_lower (fst before_a) \<noteq> to_lower (fst before_b))
                 (HttpErr 409 ''PRECONDITION_FAILED'' ''RPC providers did not agree before the reorg branch''))
          (let fee = 1000 + operation_number operation_id; ts = hex_after_0x (snd before_a) + 1
           in seqc (fc_mine P T a depth fee 20 (Some ts))
              (seqc (fc_mine P T b depth fee 60 (Some ts))
              (bnd (fc_block_hash P T a 100) (\<lambda>previous.
               bnd (fc_block_hash P T b 101) (\<lambda>other.
               seqc (raise_if (previous \<noteq> other)
                      (rpc_failed ''RPC providers diverged while mining the reorg branch''))
               (ret ([(''phase'', JStr ''PREPARED''), (''depth'', JInt (int depth)),
                      (''previousBlockHash'', JStr previous), (''candidateId'', JStr (ft_candidate_id T))],
                     [(''snapshotA'', snapshot_a), (''snapshotB'', snapshot_b),
                      (''previousBlockHash'', JStr previous), (''depth'', JInt (int depth))]))))))))))))))"

definition fc_revert ::
  "'w platform \<Rightarrow> fc_topology \<Rightarrow> exn \<Rightarrow> string \<Rightarrow> json \<Rightarrow> nat \<Rightarrow> ('w ctl_state, unit) comp" where
  "fc_revert P T e base snapshot request_id =
     bnd (rpc_json P base ''evm_revert'' [snapshot] (ft_request_timeout T) request_id) (\<lambda>done.
     raise_if (\<not> is_true done) e)"

definition fc_reorg_replace ::
  "'w platform \<Rightarrow> fc_controller \<Rightarrow> nat \<Rightarrow> string \<Rightarrow> string \<Rightarrow> ('w ctl_state, dict \<times> dict) comp" where
  "fc_reorg_replace P K depth prepared operation_id =
     (let T = fk_topology K; a = ft_rpc_a T; b = ft_rpc_b T
      in bnd (fc_prior_closure K prepared ''fault:l1-reorg'') (\<lambda>closure.
         bnd (lift_res (object_of (jget closure ''privateResult'')
                (HttpErr 409 ''IDEMPOTENCY_CONFLICT'' ''prepared reorg depth differs''))) (\<lambda>private.
         seqc (raise_if (\<not> eq_int (jget private ''depth'') (int depth))
                (HttpErr 409 ''IDEMPOTENCY_CONFLICT'' ''prepared reorg depth differs''))
         (seqc (fc_revert P T (rpc_failed ''fixed RPC rpc-a did not revert the prepared branch'') a (jget private ''snapshotA'') 110)
         (seqc (fc_revert P T (rpc_failed ''fixed RPC rpc-b did not revert the prepared branch'') b (jget private ''snapshotB'') 111)
         (bnd (fc_block P T a 112) (\<lambda>now.
          let fee = 2000000 + operation_number operation_id; ts = hex_after_0x (snd now) + 1
          in seqc (fc_mine P T a depth fee 120 (Some ts))
             (seqc (fc_mine P T b depth fee 160 (Some ts))
             (bnd (fc_block_hash P T a 200) (\<lambda>canonical.
              bnd (lift_res (item private ''previousBlockHash'')) (\<lambda>prev.
              let previous = py_str prev
              in bnd (fc_block_hash P T b 201) (\<lambda>other.
                 seqc (raise_if (canonical \<noteq> other)
                        (rpc_failed ''RPC providers did not converge on the replacement branch''))
                 (seqc (raise_if (canonical = previous)
                         (rpc_failed ''reorg replacement did not change the canonical hash''))
                 (ret ([(''phase'', JStr ''REPLACED''), (''rollbackDepth'', JInt (int depth)),
                        (''previousBlockHash'', JStr previous), (''canonicalBlockHash'', JStr canonical),
                        (''candidateId'', JStr (ft_candidate_id T))], [])))))))))))))))"

section \<open>Disagreement\<close>

definition fc_disagree_start ::
  "'w platform \<Rightarrow> fc_controller \<Rightarrow> string \<Rightarrow> ('w ctl_state, dict \<times> dict) comp" where
  "fc_disagree_start P K operation_id =
     (let T = fk_topology K; a = ft_rpc_a T; b = ft_rpc_b T; t = ft_request_timeout T
      in bnd (rpc_json P a ''evm_snapshot'' [] t 300) (\<lambda>snapshot_a.
         bnd (rpc_json P b ''evm_snapshot'' [] t 301) (\<lambda>snapshot_b.
         bnd (fc_block_hash P T a 302) (\<lambda>before_a.
         bnd (fc_block_hash P T b 303) (\<lambda>before_b.
         seqc (raise_if (before_a \<noteq> before_b)
                (HttpErr 409 ''PRECONDITION_FAILED'' ''RPC providers did not agree before fault injection''))
         (seqc (fc_mine P T a 1 (3000 + operation_number operation_id) 310 None)
         (seqc (fc_mine P T b 1 (9000 + operation_number operation_id) 320 None)
         (bnd (fc_block_hash P T a 330) (\<lambda>disagree_a.
          bnd (fc_block_hash P T b 331) (\<lambda>disagree_b.
          seqc (raise_if (disagree_a = disagree_b) (rpc_failed ''RPC fault failed to create disagreement''))
          (ret ([(''phase'', JStr ''DISAGREEING''), (''agreedBeforeA'', JStr before_a), (''agreedBeforeB'', JStr before_b),
                 (''disagreeA'', JStr disagree_a), (''disagreeB'', JStr disagree_b),
                 (''candidateId'', JStr (ft_candidate_id T))],
                [(''snapshotA'', snapshot_a), (''snapshotB'', snapshot_b)]))))))))))))"

definition fc_disagree_restore ::
  "'w platform \<Rightarrow> fc_controller \<Rightarrow> string \<Rightarrow> string \<Rightarrow> ('w ctl_state, dict \<times> dict) comp" where
  "fc_disagree_restore P K prepared operation_id =
     (let T = fk_topology K; a = ft_rpc_a T; b = ft_rpc_b T;
          e = rpc_failed ''RPC provider did not restore its snapshot'';
          fee = 15000 + operation_number operation_id
      in bnd (fc_prior_closure K prepared ''fault:rpc-disagreement'') (\<lambda>closure.
         bnd (lift_res (object_of (jget closure ''privateResult'')
                (HttpErr 409 ''INCOMPLETE_OPERATION'' ''prepared RPC fault is incomplete''))) (\<lambda>private.
         seqc (fc_revert P T e a (jget private ''snapshotA'') 340)
         (seqc (fc_revert P T e b (jget private ''snapshotB'') 341)
         (seqc (fc_mine P T a 1 fee 350 None)
         (seqc (fc_mine P T b 1 fee 360 None)
         (bnd (fc_block_hash P T a 370) (\<lambda>restored_a.
          bnd (fc_block_hash P T b 371) (\<lambda>restored_b.
          seqc (raise_if (restored_a \<noteq> restored_b) (rpc_failed ''RPC providers did not converge after restore''))
          (ret ([(''phase'', JStr ''RESTORED''), (''restoredA'', JStr restored_a), (''restoredB'', JStr restored_b),
                 (''candidateId'', JStr (ft_candidate_id T))], [])))))))))))"

section \<open>Containers and networks\<close>

definition restart_target :: "fc_topology \<Rightarrow> string \<Rightarrow> string option" where
  "restart_target T name = map_of (ft_restart_targets T) name"

definition container_receipt :: "string \<Rightarrow> string \<Rightarrow> string \<Rightarrow> string \<Rightarrow> string \<Rightarrow> string" where
  "container_receipt operation_id fault_action docker_action target container =
     sha256_hex (canonical_bytes (JObj
       [(''operationId'', JStr operation_id), (''action'', JStr fault_action), (''dockerAction'', JStr docker_action),
        (''logicalTarget'', JStr target), (''containerId'', JStr container)]))"

definition fc_container_action ::
  "'w platform \<Rightarrow> fc_topology \<Rightarrow> string \<Rightarrow> string \<Rightarrow> string \<Rightarrow> string \<Rightarrow> ('w ctl_state, dict \<times> dict) comp" where
  "fc_container_action P T target docker_action fault_action operation_id =
     (case (ft_docker_socket T, restart_target T target) of
        (Some socket, Some container) \<Rightarrow>
          seqc (docker_container_action P socket container docker_action (ft_request_timeout T))
          (ret ([(''action'', JStr fault_action), (''applied'', JBool True), (''logicalTarget'', JStr target),
                 (''dockerAction'', JStr docker_action), (''containerId'', JStr container),
                 (''candidateId'', JStr (ft_candidate_id T)),
                 (''platformReceipt'', JStr (container_receipt operation_id fault_action docker_action target container))],
                []))
      | _ \<Rightarrow> throw (HttpErr 503 ''CONTROL_DISABLED'' (fault_action @ '' is disabled by the fixed topology'')))"

text \<open>The prepared operation may be any value; only text that names an operation gets past the check.\<close>

definition fc_indexer_rollback ::
  "'w platform \<Rightarrow> fc_controller \<Rightarrow> json \<Rightarrow> string \<Rightarrow> ('w ctl_state, dict \<times> dict) comp" where
  "fc_indexer_rollback P K prepared operation_id =
     (let e = HttpErr 409 ''PRECONDITION_FAILED'' ''indexer rollback requires a completed replacement reorg''
      in bnd (fc_prior_closure K (py_str prepared) ''fault:l1-reorg'') (\<lambda>closure.
         bnd (lift_res (object_of (jget closure ''publicResult'') e)) (\<lambda>public.
         seqc (raise_if (\<not> eq_str (jget public ''phase'') ''REPLACED'') e)
         (bnd (fc_container_action P (fk_topology K) ''indexer'' ''restart'' ''indexer-rollback'' operation_id) (\<lambda>r.
          ret (dputs [(''rollbackApplied'', JBool True), (''rollbackDepth'', jget public ''rollbackDepth'')] (fst r), snd r))))))"

text \<open>\<open>self.topology.restart_targets[alias]\<close> for every alias, which a loaded topology always has.\<close>

definition partition_containers :: "fc_topology \<Rightarrow> exn + string list" where
  "partition_containers T =
     rmap (\<lambda>alias. case restart_target T alias of Some c \<Rightarrow> Inr c | None \<Rightarrow> Inl KeyErr) (ft_partition_targets T)"

definition fc_network_partition ::
  "'w platform \<Rightarrow> fc_topology \<Rightarrow> string \<Rightarrow> string \<Rightarrow> ('w ctl_state, dict \<times> dict) comp" where
  "fc_network_partition P T phase operation_id =
     (case (ft_docker_socket T, ft_partition_network T) of
        (Some socket, Some network) \<Rightarrow>
          seqc (raise_if (ft_partition_targets T = [])
                 (HttpErr 503 ''CONTROL_DISABLED'' ''network partition is disabled by the fixed topology''))
          (bnd (lift_res (partition_containers T)) (\<lambda>containers.
           seqc (docker_network_action P socket network containers phase (ft_request_timeout T))
           (let targets = JArr (map JStr (ft_partition_targets T))
            in ret ([(''action'', JStr ''network-partition''),
                     (''phase'', JStr (if phase = ''start'' then ''PARTITIONED'' else ''RESTORED'')),
                     (''logicalTargets'', targets), (''candidateId'', JStr (ft_candidate_id T)),
                     (''platformReceipt'', JStr (sha256_hex (canonical_bytes (JObj
                        [(''operationId'', JStr operation_id), (''phase'', JStr phase), (''logicalTargets'', targets)]))))],
                    []))))
      | _ \<Rightarrow> throw (HttpErr 503 ''CONTROL_DISABLED'' ''network partition is disabled by the fixed topology''))"

text \<open>\<open>_restart\<close>, which no action of the service calls.\<close>

definition fc_restart ::
  "'w platform \<Rightarrow> fc_topology \<Rightarrow> string \<Rightarrow> string \<Rightarrow> ('w ctl_state, dict \<times> dict) comp" where
  "fc_restart P T target operation_id =
     (case ft_docker_socket T of
        None \<Rightarrow> throw (HttpErr 503 ''CONTROL_DISABLED'' ''Docker restart control is disabled'')
      | Some socket \<Rightarrow>
          (case restart_target T target of
             None \<Rightarrow> throw KeyErr
           | Some container \<Rightarrow>
               seqc (docker_restart P socket container (ft_request_timeout T))
               (ret ([(''restarted'', JBool True), (''target'', JStr target), (''candidateId'', JStr (ft_candidate_id T)),
                      (''restartReceipt'', JStr (sha256_hex (canonical_bytes (JObj
                         [(''operationId'', JStr operation_id), (''target'', JStr target)]))))], []))))"

section \<open>Load\<close>

text \<open>
  One worker asks every endpoint of the profile and merges what it saw under the lock. The pool keeps
  up to \<open>concurrency\<close> workers in flight; which of them finish before a wait returns is the
  scheduler's choice, an argument here: \<open>sched n\<close> workers, at least one, at the wait with \<open>n\<close> turns
  left. Workers in flight are carried out one after the other, and all of them are, even when one
  raised, because leaving the pool waits for them.
\<close>

record load_totals =
  lt_latencies :: "ratio list"
  lt_counts :: "(string \<times> nat) list"
  lt_mismatches :: nat
  lt_completed :: nat

definition no_load :: load_totals where
  "no_load = \<lparr>lt_latencies = [], lt_counts = [], lt_mismatches = 0, lt_completed = 0\<rparr>"

definition load_one ::
  "'w platform \<Rightarrow> nat \<Rightarrow> load_endpoint list \<Rightarrow> ('w ctl_state, (nat \<times> string \<times> ratio) list) comp" where
  "load_one P timeout endpoints =
     foldr (\<lambda>ep rest.
       bnd (http_json P (le_base_url ep) (le_path ep) (le_method ep) (le_body ep) timeout (le_token ep)) (\<lambda>x.
       bnd rest (\<lambda>xs. ret ((fst (fst x), sha256_hex (snd (snd (fst x))), snd x) # xs)))) endpoints (ret [])"

definition count_status :: "(string \<times> nat) list \<Rightarrow> nat \<Rightarrow> (string \<times> nat) list" where
  "count_status counts status =
     dput (nat_str status) (Suc (case map_of counts (nat_str status) of Some n \<Rightarrow> n | None \<Rightarrow> 0)) counts"

definition load_merge :: "(nat \<times> string \<times> ratio) list \<Rightarrow> load_totals \<Rightarrow> load_totals" where
  "load_merge seen t =
     t\<lparr>lt_completed := Suc (lt_completed t),
       lt_latencies := lt_latencies t @ map (snd \<circ> snd) seen,
       lt_counts := foldl count_status (lt_counts t) (map fst seen),
       lt_mismatches := lt_mismatches t +
         (if 1 < card (set (map (\<lambda>x. (fst x, fst (snd x))) seen)) then 1 else 0)\<rparr>"

definition attempt :: "('s, 'a) comp \<Rightarrow> ('s, exn + 'a) comp" where
  "attempt m = (\<lambda>s. case m s of (r, t) \<Rightarrow> (Inr r, t))"

primrec load_batch ::
  "nat \<Rightarrow> 'w platform \<Rightarrow> nat \<Rightarrow> load_endpoint list \<Rightarrow> load_totals \<Rightarrow> ('w ctl_state, load_totals \<times> exn option) comp" where
  "load_batch 0 P timeout endpoints t = ret (t, None)"
| "load_batch (Suc n) P timeout endpoints t =
     bnd (attempt (load_one P timeout endpoints)) (\<lambda>r. case r of
         Inr seen \<Rightarrow> load_batch n P timeout endpoints (load_merge seen t)
       | Inl e \<Rightarrow> bnd (load_batch n P timeout endpoints t) (\<lambda>x. ret (fst x, Some e)))"

primrec load_loop ::
  "nat \<Rightarrow> (nat \<Rightarrow> nat) \<Rightarrow> 'w platform \<Rightarrow> nat \<Rightarrow> load_endpoint list \<Rightarrow> nat \<Rightarrow> nat \<Rightarrow> nat \<Rightarrow> nat \<Rightarrow> nat \<Rightarrow> nat \<Rightarrow>
   load_totals \<Rightarrow> ('w ctl_state, load_totals) comp" where
  "load_loop 0 sched P timeout endpoints limit concurrency duration started sent flying t = throw OutOfFuel"
| "load_loop (Suc n) sched P timeout endpoints limit concurrency duration started sent flying t =
     bnd monotonic (\<lambda>now.
     if sent < limit \<and> elapsed_below now started duration then
       (let more = min (concurrency - flying) (limit - sent);
            pending = flying + more;
            finished = max 1 (min (sched n) pending)
        in bnd (load_batch finished P timeout endpoints t) (\<lambda>x.
           case snd x of
             Some e \<Rightarrow> bnd (load_batch (pending - finished) P timeout endpoints (fst x)) (\<lambda>_. throw e)
           | None \<Rightarrow> load_loop n sched P timeout endpoints limit concurrency duration started
                       (sent + more) (pending - finished) (fst x)))
     else bnd (load_batch flying P timeout endpoints t) (\<lambda>x.
          case snd x of Some e \<Rightarrow> throw e | None \<Rightarrow> ret (fst x)))"

definition p99_thousandths :: "ratio list \<Rightarrow> nat" where
  "p99_thousandths latencies =
     (let ordered = foldr (\<lambda>x ys. takeWhile (\<lambda>y. \<not> ratio_le x y) ys @ [x] @ dropWhile (\<lambda>y. \<not> ratio_le x y) ys) latencies [];
          rank = min (length ordered - 1) (p99_rank (length ordered))
      in if ordered = [] then 0 else ratio_thousandths (ordered ! rank))"

definition load_result ::
  "fc_topology \<Rightarrow> string \<Rightarrow> nat \<Rightarrow> nat \<Rightarrow> nat \<Rightarrow> load_totals \<Rightarrow> dict" where
  "load_result T profile concurrency duration elapsed t =
     [(''profile'', JStr profile), (''requests'', JInt (int (lt_completed t))),
      (''durationSeconds'', thousandths_json (max 1 elapsed)),
      (''configuredDurationSeconds'', JInt (int duration)), (''concurrency'', JInt (int concurrency)),
      (''p99LatencyMs'', thousandths_json (p99_thousandths (lt_latencies t))),
      (''mismatches'', JInt (int (lt_mismatches t))),
      (''statusCounts'', JObj (map (\<lambda>(k, n). (k, JInt (int n))) (sort_key fst (lt_counts t)))),
      (''backpressureObserved'', JBool (list_ex (\<lambda>(k, n). k = ''429'' \<or> k = ''503'') (lt_counts t))),
      (''candidateId'', JStr (ft_candidate_id T))]"

definition fc_load ::
  "(nat \<Rightarrow> nat) \<Rightarrow> 'w platform \<Rightarrow> fc_topology \<Rightarrow> string \<Rightarrow> nat \<Rightarrow> nat \<Rightarrow> nat \<Rightarrow> ('w ctl_state, dict \<times> dict) comp" where
  "fc_load sched P T profile limit concurrency duration =
     (case map_of (ft_load_profiles T) profile of
        None \<Rightarrow> throw KeyErr
      | Some endpoints \<Rightarrow>
          bnd monotonic (\<lambda>started.
          bnd (load_loop (Suc limit) sched P (ft_request_timeout T) endpoints limit concurrency duration started 0 0 no_load) (\<lambda>t.
          bnd monotonic (\<lambda>finished.
          ret (load_result T profile concurrency duration (elapsed_thousandths finished started) t, [])))))"

section \<open>The reviewed actions\<close>

datatype fault_op =
    ReorgPrepare nat
  | ReorgReplace nat string
  | DisagreeStart
  | DisagreeRestore string
  | ContainerOp string string string
  | IndexerRollback json
  | Partition string
  | Load string nat nat nat

text \<open>\<open>phase not in {...}\<close>, then the prepared operation: absent for the first phase, text for the second.\<close>

definition two_phases :: "json \<Rightarrow> string list \<Rightarrow> exn \<Rightarrow> exn + string" where
  "two_phases v phases e =
     rbind (member_of v phases) (\<lambda>ok. rbind (check ok e) (\<lambda>_. text_matching (\<lambda>_. True) v e))"

definition prepared_for :: "bool \<Rightarrow> json \<Rightarrow> exn \<Rightarrow> exn + string" where
  "prepared_for first prepared e =
     (if first then rbind (check (prepared = JNull) e) (\<lambda>_. Inr []) else text_matching (\<lambda>_. True) prepared e)"

definition restart_map :: "string \<Rightarrow> string option" where
  "restart_map = map_of
     [(''headless-restart'', ''headless-node''), (''prover-restart'', ''prover''), (''object-store-restart'', ''minio''),
      (''database-restart'', ''postgres-primary''), (''sse-disconnect'', ''front-door'')]"

definition plain_fault :: "string \<Rightarrow> dict \<Rightarrow> exn + fault_op" where
  "plain_fault action parameters =
     rbind (exact_keys parameters
             (if action = ''indexer-rollback'' then [''preparedOperationId'']
              else if action = ''network-partition'' then [''phase''] else [])
             (action @ '' parameters'')) (\<lambda>_.
     if action = ''coordinator-terminate'' then Inr (ContainerOp ''coordinator-active'' ''stop'' action)
     else case restart_map action of
            Some target \<Rightarrow> Inr (ContainerOp target ''restart'' action)
          | None \<Rightarrow>
              if action = ''indexer-rollback'' then Inr (IndexerRollback (jget parameters ''preparedOperationId''))
              else if action = ''network-partition'' then
                rbind (two_phases (jget parameters ''phase'') [''start'', ''restore'']
                        (control_error ''network-partition phase is invalid'')) (\<lambda>phase. Inr (Partition phase))
              else Inl (HttpErr 503 ''CONTROL_DISABLED'' ''fault action is not implemented''))"

definition fc_fault_callback :: "string \<Rightarrow> dict \<Rightarrow> exn + fault_op" where
  "fc_fault_callback action parameters =
     (if action = ''l1-reorg'' then
        rbind (exact_keys parameters [''phase'', ''depth'', ''preparedOperationId''] ''l1-reorg parameters'') (\<lambda>_.
        rbind (two_phases (jget parameters ''phase'') [''prepare'', ''replace'']
                (control_error ''l1-reorg phase is invalid'')) (\<lambda>phase.
        rbind (bounded_int (jget parameters ''depth'') ''reorg depth'' 1 64) (\<lambda>depth.
        rbind (prepared_for (phase = ''prepare'') (jget parameters ''preparedOperationId'')
                (control_error ''preparedOperationId does not match the l1-reorg phase'')) (\<lambda>prepared.
        Inr (if phase = ''prepare'' then ReorgPrepare (nat depth) else ReorgReplace (nat depth) prepared)))))
      else if action = ''rpc-disagreement'' then
        rbind (exact_keys parameters [''phase'', ''preparedOperationId''] ''rpc-disagreement parameters'') (\<lambda>_.
        rbind (two_phases (jget parameters ''phase'') [''start'', ''restore'']
                (control_error ''rpc-disagreement phase is invalid'')) (\<lambda>phase.
        rbind (prepared_for (phase = ''start'') (jget parameters ''preparedOperationId'')
                (control_error ''preparedOperationId does not match the disagreement phase'')) (\<lambda>prepared.
        Inr (if phase = ''start'' then DisagreeStart else DisagreeRestore prepared))))
      else if action = ''rpc-provider-control'' then
        rbind (exact_keys parameters [''provider'', ''phase''] ''rpc-provider-control parameters'') (\<lambda>_.
        rbind (two_phases (jget parameters ''provider'') [''rpc-a'', ''rpc-b'']
                (control_error ''rpc-provider-control provider must be rpc-a or rpc-b'')) (\<lambda>provider.
        rbind (two_phases (jget parameters ''phase'') [''stop'', ''start'']
                (control_error ''rpc-provider-control phase must be stop or start'')) (\<lambda>phase.
        Inr (ContainerOp provider phase ''rpc-provider-control''))))
      else if action = ''service-pause'' then
        rbind (exact_keys parameters [''target'', ''phase''] ''service-pause parameters'') (\<lambda>_.
        rbind (two_phases (jget parameters ''target'') allowed_pause_targets
                (control_error ''service-pause target is not a reviewed pausable service'')) (\<lambda>target.
        rbind (two_phases (jget parameters ''phase'') [''pause'', ''unpause'']
                (control_error ''service-pause phase must be pause or unpause'')) (\<lambda>phase.
        Inr (ContainerOp target phase ''service-pause''))))
      else plain_fault action parameters)"

definition fc_apply ::
  "(nat \<Rightarrow> nat) \<Rightarrow> 'w platform \<Rightarrow> fc_controller \<Rightarrow> fault_op \<Rightarrow> string \<Rightarrow> ('w ctl_state, dict \<times> dict) comp" where
  "fc_apply sched P K op operation_id =
     (case op of
        ReorgPrepare depth \<Rightarrow> fc_reorg_prepare P K depth operation_id
      | ReorgReplace depth prepared \<Rightarrow> fc_reorg_replace P K depth prepared operation_id
      | DisagreeStart \<Rightarrow> fc_disagree_start P K operation_id
      | DisagreeRestore prepared \<Rightarrow> fc_disagree_restore P K prepared operation_id
      | ContainerOp target docker_action fault_action \<Rightarrow>
          fc_container_action P (fk_topology K) target docker_action fault_action operation_id
      | IndexerRollback prepared \<Rightarrow> fc_indexer_rollback P K prepared operation_id
      | Partition phase \<Rightarrow> fc_network_partition P (fk_topology K) phase operation_id
      | Load profile limit concurrency duration \<Rightarrow> fc_load sched P (fk_topology K) profile limit concurrency duration)"

section \<open>Journalled execution\<close>

definition fc_request_digest :: "fc_controller \<Rightarrow> string \<Rightarrow> dict \<Rightarrow> string \<Rightarrow> string" where
  "fc_request_digest K action body correlation_id =
     sha256_hex (canonical_bytes (JObj
       [(''action'', JStr action), (''bindingDigest'', JStr (fk_binding_digest K)), (''body'', JObj body),
        (''correlationId'', JStr correlation_id)]))"

definition fc_operation_id :: "string \<Rightarrow> string" where
  "fc_operation_id digest = ''fc-'' @ take 40 digest"

definition fc_journal_op :: "fc_controller \<Rightarrow> string \<Rightarrow> dict \<Rightarrow> string \<Rightarrow> string \<Rightarrow> journal_op" where
  "fc_journal_op K action body key correlation_id =
     (let digest = fc_request_digest K action body correlation_id; operation_id = fc_operation_id digest
      in \<lparr>jo_root = fk_root K, jo_key_hash = sha256_hex key, jo_operation = operation_id, jo_digest = digest,
          jo_correlation = correlation_id,
          jo_head = [(''schemaVersion'', JInt 1), (''service'', JStr ''zkdeal-fault-control''),
             (''operationId'', JStr operation_id), (''action'', JStr action),
             (''bindingDigest'', JStr (fk_binding_digest K))],
          jo_sealed = True,
          jo_missing = HttpErr 409 ''INCOMPLETE_OPERATION'' ''journal record is absent or unsafe'',
          jo_reused = ''idempotency key was already used with changed input'',
          jo_exists = ''write-once journal record already exists: ''\<rparr>)"

definition fc_journal_execute ::
  "(nat \<Rightarrow> nat) \<Rightarrow> 'w platform \<Rightarrow> fc_controller \<Rightarrow> string \<Rightarrow> dict \<Rightarrow> string \<Rightarrow> string \<Rightarrow> fault_op \<Rightarrow>
   ('w ctl_state, dict \<times> bool) comp" where
  "fc_journal_execute sched P K action body key correlation_id op =
     seqc (raise_if (\<not> ctl_idempotency key) (control_error ''Idempotency-Key is malformed''))
     (let J = fc_journal_op K action body key correlation_id
      in journal_execute P J (fc_apply sched P K op (jo_operation J)))"

definition fc_closure :: "fc_controller \<Rightarrow> string \<Rightarrow> ('w ctl_state, dict) comp" where
  "fc_closure K operation_id =
     seqc (raise_if (\<not> operation_name ''fc'' operation_id) (control_error ''operationId is malformed''))
     (bnd (read_record (HttpErr 409 ''INCOMPLETE_OPERATION'' ''journal record is absent or unsafe'')
             (path_join (fk_root K) (closure_file operation_id))) (\<lambda>closure.
      lift_res (rbind (published operation_id closure) (\<lambda>result.
        rbind (item closure ''action'') (\<lambda>action. Inr (dput ''action'' action result))))))"

text \<open>What \<open>execute\<close> makes of a request: the journalled action and its operation, or an error.\<close>

definition fc_plan_fault :: "dict \<Rightarrow> exn + (string \<times> fault_op)" where
  "fc_plan_fault body =
     (let e = control_error ''fault action is not in the reviewed enum''
      in rbind (exact_keys body [''schemaVersion'', ''binding'', ''action'', ''parameters''] ''fault request'') (\<lambda>_.
         rbind (check (eq_int (jget body ''schemaVersion'') 1) e) (\<lambda>_.
         rbind (text_matching (\<lambda>a. a \<in> set fault_actions) (jget body ''action'') e) (\<lambda>action.
         rbind (object_of (jget body ''parameters'') (control_error ''fault parameters must be an object'')) (\<lambda>parameters.
         rbind (fc_fault_callback action parameters) (\<lambda>op.
         Inr (''fault:'' @ action, op)))))))"

definition fc_plan_load :: "fc_topology \<Rightarrow> dict \<Rightarrow> exn + (string \<times> fault_op)" where
  "fc_plan_load T body =
     (let e = control_error ''load profile is not in the candidate allowlist''
      in rbind (exact_keys body [''schemaVersion'', ''binding'', ''profile'', ''requests'', ''concurrency'', ''durationSeconds'']
                 ''load request'') (\<lambda>_.
         rbind (check (eq_int (jget body ''schemaVersion'') 1) e) (\<lambda>_.
         rbind (text_matching (\<lambda>p. p \<in> set allowed_load_profiles \<and> p \<in> fst ` set (ft_load_profiles T))
                 (jget body ''profile'') e) (\<lambda>profile.
         rbind (bounded_int (jget body ''requests'') ''requests'' 1 10000) (\<lambda>requests.
         rbind (bounded_int (jget body ''concurrency'') ''concurrency'' 1 64) (\<lambda>concurrency.
         rbind (bounded_int (jget body ''durationSeconds'') ''durationSeconds'' 1 900) (\<lambda>duration.
         Inr (''load'', Load profile (nat requests) (nat concurrency) (nat duration)))))))))"

definition fc_execute ::
  "(nat \<Rightarrow> nat) \<Rightarrow> 'w platform \<Rightarrow> fc_controller \<Rightarrow> string \<Rightarrow> dict \<Rightarrow> string \<Rightarrow> string \<Rightarrow>
   ('w ctl_state, dict \<times> bool) comp" where
  "fc_execute sched P K route body key correlation_id =
     seqc (raise_if (\<not> ctl_correlation correlation_id) (control_error ''X-Correlation-Id is malformed''))
     (seqc (lift_res (fc_validate_binding K body))
     (if route = ''fault'' then
        bnd (lift_res (fc_plan_fault body)) (\<lambda>(action, op).
        bnd (fc_journal_execute sched P K action body key correlation_id op) (\<lambda>(result, replay).
        ret (fc_with_receipt K result, replay)))
      else if route = ''load'' then
        bnd (lift_res (fc_plan_load (fk_topology K) body)) (\<lambda>(action, op).
        bnd (fc_journal_execute sched P K action body key correlation_id op) (\<lambda>(result, replay).
        ret (fc_with_receipt K (dput ''profile'' (jget body ''profile'') result), replay)))
      else throw (HttpErr 404 ''NOT_FOUND'' ''unknown control route'')))"

section \<open>HTTP\<close>

definition fc_operation_path :: "string \<Rightarrow> string option" where
  "fc_operation_path p =
     (let rest = (if starts_with ''/v1/faults/'' p then drop 11 p
                  else if starts_with ''/v1/load-runs/'' p then drop 14 p else [])
      in if operation_name ''fc'' rest then Some rest else None)"

definition fc_route_get :: "fc_controller \<Rightarrow> inbound \<Rightarrow> ('w ctl_state, dict) comp" where
  "fc_route_get K rq =
     bnd (lift_res (urlsplit (in_path rq))) (\<lambda>parsed.
     seqc (raise_if (u_query parsed \<noteq> [] \<or> u_fragment parsed \<noteq> [])
            (control_error ''query and fragment data are forbidden''))
     (if u_path parsed = ''/health'' then
        ret [(''status'', JStr ''healthy''), (''service'', JStr ''zkdeal-fault-control'')]
      else if u_path parsed = ''/ready'' then
        ret [(''status'', JStr ''ready''), (''candidateId'', JStr (ft_candidate_id (fk_topology K))),
             (''topologySha256'', JStr (ft_topology_sha256 (fk_topology K)))]
      else if u_path parsed = ''/capabilities'' then ret (fc_capabilities K)
      else case fc_operation_path (u_path parsed) of
             Some operation_id \<Rightarrow>
               seqc (lift_res (fc_authenticate K (in_header rq ''authorization'')))
               (bnd (fc_closure K operation_id) (\<lambda>result. ret (fc_with_receipt K result)))
           | None \<Rightarrow> throw (HttpErr 404 ''NOT_FOUND'' ''route not found'')))"

definition fc_do_GET :: "fc_controller \<Rightarrow> inbound \<Rightarrow> 'w ctl_state \<Rightarrow> http_answer \<times> 'w ctl_state" where
  "fc_do_GET K rq s = (case fc_route_get K rq s of
       (Inr v, t) \<Rightarrow> (send_json 200 (JObj v) False, t)
     | (Inl e, t) \<Rightarrow> (handle_error e, t))"

definition header_or :: "inbound \<Rightarrow> string \<Rightarrow> string \<Rightarrow> string" where
  "header_or rq name dflt = (case in_header rq name of Some v \<Rightarrow> v | None \<Rightarrow> dflt)"

definition fc_route_post ::
  "(nat \<Rightarrow> nat) \<Rightarrow> 'w platform \<Rightarrow> fc_controller \<Rightarrow> inbound \<Rightarrow> ('w ctl_state, dict \<times> bool) comp" where
  "fc_route_post sched P K rq =
     (case map_of [(''/v1/faults'', ''fault''), (''/v1/load-runs'', ''load'')] (in_path rq) of
        None \<Rightarrow> throw (HttpErr 404 ''NOT_FOUND'' ''route not found'')
      | Some route \<Rightarrow>
          seqc (lift_res (fc_authenticate K (in_header rq ''authorization'')))
          (bnd (lift_res (request_body ''chunked request'' rq)) (\<lambda>body.
           fc_execute sched P K route body (header_or rq ''idempotency-key'' [])
             (header_or rq ''x-correlation-id'' []))))"

definition fc_do_POST ::
  "(nat \<Rightarrow> nat) \<Rightarrow> 'w platform \<Rightarrow> fc_controller \<Rightarrow> inbound \<Rightarrow> 'w ctl_state \<Rightarrow> http_answer \<times> 'w ctl_state" where
  "fc_do_POST sched P K rq s = (case fc_route_post sched P K rq s of
       (Inr (v, replay), t) \<Rightarrow> (send_json 200 (JObj v) replay, t)
     | (Inl e, t) \<Rightarrow> (handle_error e, t))"

section \<open>Start\<close>

definition environment_is :: "environ \<Rightarrow> string \<times> string \<Rightarrow> exn + unit" where
  "environment_is env ne =
     check (env (fst ne) = Some (snd ne)) (config_error (fst ne @ '' differs from the hash-bound topology''))"

definition fc_receipt_binding :: "environ \<Rightarrow> fc_topology \<Rightarrow> exn + dict" where
  "fc_receipt_binding env T =
     (let descriptor = env_get env ''FAULT_CONTROL_CANDIDATE_DESCRIPTOR_SHA256'' [];
          source = env_get env ''FAULT_CONTROL_ADAPTER_SOURCE_SHA256'' [];
          image = env_get env ''FAULT_CONTROL_ADAPTER_IMAGE'' [];
          platform = env_get env ''FAULT_CONTROL_PLATFORM'' []
      in rbind (check (hex64 descriptor)
                 (config_error ''FAULT_CONTROL_CANDIDATE_DESCRIPTOR_SHA256 is malformed'')) (\<lambda>_.
         rbind (check (hex64 source) (config_error ''FAULT_CONTROL_ADAPTER_SOURCE_SHA256 is malformed'')) (\<lambda>_.
         rbind (check (ctl_oci_digest image)
                 (config_error ''FAULT_CONTROL_ADAPTER_IMAGE must be repository@sha256'')) (\<lambda>_.
         rbind (check (platform = ''docker'')
                 (config_error ''FAULT_CONTROL_PLATFORM must name the reviewed docker adapter'')) (\<lambda>_.
         Inr [(''candidateDescriptorSha256'', JStr descriptor),
              (''topologyReceiptSha256'', JStr (ft_topology_sha256 T)), (''platform'', JStr platform),
              (''adapterImage'', JStr image), (''adapterSourceSha256'', JStr source)])))))"

definition fc_build_controller :: "'w platform \<Rightarrow> environ \<Rightarrow> ('w ctl_state, fc_controller) comp" where
  "fc_build_controller P env =
     bnd (gets ctl_disk) (\<lambda>fs.
     bnd (lift_res (fc_load_topology fs (env_get env ''FAULT_CONTROL_TOPOLOGY_FILE'' [])
            (env_get env ''FAULT_CONTROL_TOPOLOGY_SHA256'' []))) (\<lambda>T.
     bnd (lift_res (rmap (environment_is env)
            [(''FAULT_CONTROL_CANDIDATE_ID'', ft_candidate_id T), (''FAULT_CONTROL_PLAN_SHA256'', ft_plan_sha256 T),
             (''FAULT_CONTROL_HOSTED_INTEGRATION_TOKEN'', ft_hosted_token T)])) (\<lambda>_.
     bnd (lift_res (fc_read_secret fs (env_get env ''FAULT_CONTROL_TOKEN_FILE'' []) (ft_auth_token_sha256 T)
            ''FAULT_CONTROL_TOKEN_FILE'' True)) (\<lambda>token.
     bnd (lift_res (fc_receipt_binding env T)) (\<lambda>receipt.
     let root = py_path (env_get env ''FAULT_CONTROL_JOURNAL_DIR'' ''/journal'')
     in seqc (journal_init P ''FAULT_CONTROL_JOURNAL_DIR'' ''fault journal'' root)
        (ret \<lparr>fk_topology = T, fk_token = token, fk_root = root,
              fk_binding_digest = sha256_hex (canonical_bytes (JObj (dputs receipt (fc_binding T)))),
              fk_receipt = receipt\<rparr>))))))"

end
