(* ===== verification/Fault_Laws.thy ===== *)
theory Fault_Laws
  imports Fault_Controller
begin

text \<open>
  The fault controller as a journalled service: what its operations may touch, and the facts of the
  locale \<open>journalled\<close> for them.
\<close>

section \<open>Operations only move time, the trace and the network\<close>

lemma http_disk [keeps_intro]: "keeps (\<lambda>s :: 'w ctl_state. ctl_disk s p = v) (http_exchange P rq t)"
  by (auto simp: keeps_def http_exchange_def split: prod.splits)

lemma advances_for_each_fold [advances_intro]:
  "(\<And>x. advances (f x)) \<Longrightarrow> advances (foldr (\<lambda>x rest. bnd (f x) (\<lambda>y. bnd rest (\<lambda>ys. ret (g y ys)))) xs (ret z))"
  by (induction xs) (auto intro!: advances_intro)

lemma keeps_for_each_fold [keeps_intro]:
  "(\<And>x. keeps I (f x)) \<Longrightarrow> keeps I (foldr (\<lambda>x rest. bnd (f x) (\<lambda>y. bnd rest (\<lambda>ys. ret (g y ys)))) xs (ret z))"
  by (induction xs) (auto intro!: keeps_intro)

lemma advances_attempt [advances_intro]: "advances m \<Longrightarrow> advances (attempt m)"
  by (auto simp: advances_def attempt_def split: prod.splits) (metis snd_conv)

lemma keeps_attempt [keeps_intro]: "keeps I m \<Longrightarrow> keeps I (attempt m)"
  by (auto simp: keeps_def attempt_def split: prod.splits)

lemma fuelled_attempt [fuelled_intro]: "fuelled (attempt m)"
  by (simp add: fuelled_def attempt_def split: prod.splits)

lemma keeps_monotonic [keeps_intro]: "keeps I monotonic"
  by (simp add: monotonic_def keeps_gets)

lemmas target_defs = http_json_def rpc_json_def docker_restart_def docker_container_action_def docker_network_action_def
  Let_def

lemma advances_targets [advances_intro]:
  "advances (http_json P base path meth body t token)" "advances (rpc_json P base m params t i)"
  "advances (docker_container_action P socket c a t)" "advances (docker_network_action P socket n cs ph t)"
  unfolding target_defs by (auto intro!: advances_intro split: option.splits)

lemma keeps_targets [keeps_intro]:
  "keeps (\<lambda>s :: 'w ctl_state. ctl_disk s p = v) (http_json P base path meth body t token)"
  "keeps (\<lambda>s :: 'w ctl_state. ctl_disk s p = v) (rpc_json P base m params t i)"
  "keeps (\<lambda>s :: 'w ctl_state. ctl_disk s p = v) (docker_container_action P socket c a t)"
  "keeps (\<lambda>s :: 'w ctl_state. ctl_disk s p = v) (docker_network_action P socket n cs ph t)"
  unfolding target_defs by (auto intro!: keeps_intro split: option.splits)

lemma advances_prior [advances_intro]: "advances (read_record e p)" "advances (fc_prior_closure K oid a)"
  unfolding read_record_def fc_prior_closure_def by (auto intro!: advances_intro)

lemma keeps_prior [keeps_intro]: "keeps I (read_record e p)" "keeps I (fc_prior_closure K oid a)"
  unfolding read_record_def fc_prior_closure_def by (auto intro!: keeps_intro)

lemma advances_blocks [advances_intro]:
  "advances (fc_block P T b i)" "advances (fc_block_hash P T b i)" "advances (fc_mine P T b n fee i ts)"
  "advances (fc_revert P T e b sn i)" "advances (snapshot_ok l v)"
  unfolding fc_block_def fc_block_hash_def fc_mine_def fc_revert_def snapshot_ok_def Let_def
  by (auto intro!: advances_intro split: option.splits)

lemma keeps_blocks [keeps_intro]:
  fixes p v
  defines "I \<equiv> \<lambda>s :: 'w ctl_state. ctl_disk s p = v"
  shows "keeps I (fc_block P T b i)" "keeps I (fc_block_hash P T b i)" "keeps I (fc_mine P T b n fee i ts)"
    "keeps I (fc_revert P T e b sn i)" "keeps I (snapshot_ok l j)"
  unfolding I_def fc_block_def fc_block_hash_def fc_mine_def fc_revert_def snapshot_ok_def Let_def
  by (auto intro!: keeps_intro split: option.splits)

lemma load_batch_laws:
  "advances (load_batch n P t es tot)" "keeps (\<lambda>s. ctl_disk s p = v) (load_batch n P t es tot)"
  by (induction n arbitrary: tot)
    (auto simp: load_one_def intro!: advances_intro keeps_intro split: sum.splits)

lemma load_loop_laws:
  "advances (load_loop n sched P t es limit c d st sent flying tot)"
  "keeps (\<lambda>s. ctl_disk s p = v) (load_loop n sched P t es limit c d st sent flying tot)"
  by (induction n arbitrary: sent flying tot)
    (auto simp: Let_def intro!: advances_intro keeps_intro load_batch_laws split: option.splits)

lemmas apply_defs = fc_reorg_prepare_def fc_reorg_replace_def fc_disagree_start_def fc_disagree_restore_def
  fc_container_action_def fc_indexer_rollback_def fc_network_partition_def fc_load_def Let_def

lemma advances_apply: "advances (fc_apply sched P K op oid)"
  by (cases op) (auto simp: fc_apply_def apply_defs simp del: load_loop.simps intro!: advances_intro load_loop_laws split: option.splits)

lemma apply_spares_files: "keeps (\<lambda>s. ctl_disk s p = v) (fc_apply sched P K op oid)"
  by (cases op) (auto simp: fc_apply_def apply_defs simp del: load_loop.simps intro!: keeps_intro load_loop_laws split: option.splits)

section \<open>The journal of the fault controller\<close>

record fc_request =
  fr_action :: string
  fr_body :: dict
  fr_key :: string
  fr_correlation :: string
  fr_op :: fault_op

definition fr_entry :: "fc_controller \<Rightarrow> fc_request \<Rightarrow> journal_op" where
  "fr_entry K x = fc_journal_op K (fr_action x) (fr_body x) (fr_key x) (fr_correlation x)"

definition fr_run :: "(nat \<Rightarrow> nat) \<Rightarrow> 'w platform \<Rightarrow> fc_controller \<Rightarrow> fc_request \<Rightarrow> ('w ctl_state, dict \<times> dict) comp" where
  "fr_run sched P K x = fc_apply sched P K (fr_op x) (jo_operation (fr_entry K x))"

text \<open>What \<open>execute\<close> has checked by the time it enters the journal.\<close>

definition journal_actions :: "string list" where
  "journal_actions = ''load'' # map (\<lambda>a. ''fault:'' @ a) fault_actions"

definition fr_valid :: "fc_controller \<Rightarrow> fc_request \<Rightarrow> bool" where
  "fr_valid K x \<longleftrightarrow>
     fr_action x \<in> set journal_actions \<and> ctl_correlation (fr_correlation x) \<and> utf8_ok (fk_binding_digest K)"

lemma operation_id_utf8: "utf8_ok (fc_operation_id (sha256_hex s))"
proof -
  have "list_all is_ascii (sha256_hex s)"
    using hex64_sha256 [of s] unfolding hex64_def rep_match_def by (auto elim!: list_all_mono' simp: class_defs)
  then show ?thesis
    unfolding fc_operation_id_def
    by (intro utf8_ok_ascii) (auto simp: list_all_iff class_defs dest: in_set_takeD)
qed

lemma journal_actions_utf8: "a \<in> set journal_actions \<Longrightarrow> utf8_ok a"
  by (auto simp: journal_actions_def fault_actions_def utf8_ok_ascii_Cons code_def)

lemma head_names_utf8:
  "utf8_ok ''schemaVersion''" "utf8_ok ''service''" "utf8_ok ''operationId''" "utf8_ok ''action''"
  "utf8_ok ''bindingDigest''" "utf8_ok ''zkdeal-fault-control''"
  by (simp_all add: utf8_ok_ascii_Cons code_def)

lemma fr_entry_wf: "fr_valid K x \<Longrightarrow> journal_wf (fr_entry K x)"
  using ctl_correlation_ascii [of "fr_correlation x"] journal_actions_utf8 [of "fr_action x"] head_names_utf8
    operation_id_utf8
  by (simp add: fr_valid_def journal_wf_def fr_entry_def fc_journal_op_def Let_def record_fields_def
      fc_request_digest_def)

lemma fr_entry_paths: "intent_path (fr_entry K x) \<noteq> closure_path (fr_entry K y)"
proof -
  have "length (intent_name (fr_entry K x)) \<noteq> length (closure_file (jo_operation (fr_entry K y)))"
    by (simp add: intent_name_def closure_file_def fr_entry_def fc_journal_op_def Let_def fc_operation_id_def
        fc_request_digest_def)
  moreover have "jo_root (fr_entry K x) = jo_root (fr_entry K y)"
    by (simp add: fr_entry_def fc_journal_op_def Let_def)
  ultimately show ?thesis unfolding intent_path_def closure_path_def by auto
qed

interpretation fj: journalled P "fr_entry K" "fr_run sched P K" "fr_valid K" UNIV for P K sched
proof unfold_locales
  show "advances (fr_run sched P K x)" for x unfolding fr_run_def by (rule advances_apply)
  show "keeps (\<lambda>s. ctl_disk s p = v) (fr_run sched P K x)" for x p v
    unfolding fr_run_def by (rule apply_spares_files)
qed (simp_all add: fr_entry_paths fr_entry_wf)

end
