(* ===== verification/Fault_Steps.thy ===== *)
theory Fault_Steps
  imports Fault_Laws
begin

text \<open>
  A POST of the fault controller as an admission (pure: authentication, document, binding, plan) followed
  by a journalled execution, and the controller as a step system whose steps are requests and crashes.
\<close>

section \<open>Admission\<close>

definition fc_admit :: "fc_controller \<Rightarrow> inbound \<Rightarrow> exn + (fc_request \<times> dict)" where
  "fc_admit K rq =
     (case map_of [(''/v1/faults'', ''fault''), (''/v1/load-runs'', ''load'')] (in_path rq) of
        None \<Rightarrow> Inl (HttpErr 404 ''NOT_FOUND'' ''route not found'')
      | Some route \<Rightarrow>
          rbind (fc_authenticate K (in_header rq ''authorization'')) (\<lambda>_.
          rbind (request_body ''chunked request'' rq) (\<lambda>body.
          let key = header_or rq ''idempotency-key'' []; correlation_id = header_or rq ''x-correlation-id'' []
          in rbind (check (ctl_correlation correlation_id) (control_error ''X-Correlation-Id is malformed'')) (\<lambda>_.
             rbind (fc_validate_binding K body) (\<lambda>_.
             rbind (if route = ''fault'' then fc_plan_fault body else fc_plan_load (fk_topology K) body) (\<lambda>plan.
             rbind (check (ctl_idempotency key) (control_error ''Idempotency-Key is malformed'')) (\<lambda>_.
             Inr (\<lparr>fr_action = fst plan, fr_body = body, fr_key = key, fr_correlation = correlation_id, fr_op = snd plan\<rparr>,
                  if route = ''fault'' then [] else [(''profile'', jget body ''profile'')])))))))) "

abbreviation fc_serve ::
  "(nat \<Rightarrow> nat) \<Rightarrow> 'w platform \<Rightarrow> fc_controller \<Rightarrow> fc_request \<Rightarrow> ('w ctl_state, dict \<times> bool) comp" where
  "fc_serve sched P K x \<equiv> journal_execute P (fr_entry K x) (fr_run sched P K x)"

declare run_simps [simp]

lemma journal_execute_admit:
  "fc_journal_execute sched P K action body key corr op =
     (if ctl_idempotency key
      then fc_serve sched P K
             \<lparr>fr_action = action, fr_body = body, fr_key = key, fr_correlation = corr, fr_op = op\<rparr>
      else throw (control_error ''Idempotency-Key is malformed''))"
  by (simp add: fc_journal_execute_def fr_entry_def fr_run_def Let_def)

definition fc_finish ::
  "(nat \<Rightarrow> nat) \<Rightarrow> 'w platform \<Rightarrow> fc_controller \<Rightarrow> exn + (fc_request \<times> dict) \<Rightarrow> ('w ctl_state, dict \<times> bool) comp" where
  "fc_finish sched P K admitted =
     (case admitted of
        Inl e \<Rightarrow> throw e
      | Inr xe \<Rightarrow> bnd (fc_serve sched P K (fst xe))
          (\<lambda>r. ret (fc_with_receipt K (dputs (snd xe) (fst r)), snd r)))"

lemma fc_finish_simps [simp]:
  "fc_finish sched P K (Inl e) = throw e"
  "fc_finish sched P K (Inr (x, extra)) =
     bnd (fc_serve sched P K x) (\<lambda>r. ret (fc_with_receipt K (dputs extra (fst r)), snd r))"
  by (simp_all add: fc_finish_def)

lemma execute_fault_admit:
  "fc_execute sched P K ''fault'' body key corr = fc_finish sched P K
     (rbind (check (ctl_correlation corr) (control_error ''X-Correlation-Id is malformed'')) (\<lambda>_.
      rbind (fc_validate_binding K body) (\<lambda>_.
      rbind (fc_plan_fault body) (\<lambda>plan.
      rbind (check (ctl_idempotency key) (control_error ''Idempotency-Key is malformed'')) (\<lambda>_.
      Inr (\<lparr>fr_action = fst plan, fr_body = body, fr_key = key, fr_correlation = corr, fr_op = snd plan\<rparr>, []))))))"
proof (cases "fc_validate_binding K body")
  case (Inl e)
  then show ?thesis by (simp add: fc_execute_def check_def)
next
  case b: (Inr u)
  show ?thesis
  proof (cases "fc_plan_fault body")
    case (Inl e)
    with b show ?thesis by (simp add: fc_execute_def check_def)
  next
    case (Inr plan)
    with b show ?thesis
      by (cases plan) (simp add: fc_execute_def check_def journal_execute_admit case_prod_unfold)
  qed
qed

lemma execute_load_admit:
  "fc_execute sched P K ''load'' body key corr = fc_finish sched P K
     (rbind (check (ctl_correlation corr) (control_error ''X-Correlation-Id is malformed'')) (\<lambda>_.
      rbind (fc_validate_binding K body) (\<lambda>_.
      rbind (fc_plan_load (fk_topology K) body) (\<lambda>plan.
      rbind (check (ctl_idempotency key) (control_error ''Idempotency-Key is malformed'')) (\<lambda>_.
      Inr (\<lparr>fr_action = fst plan, fr_body = body, fr_key = key, fr_correlation = corr, fr_op = snd plan\<rparr>,
           [(''profile'', jget body ''profile'')]))))))"
proof (cases "fc_validate_binding K body")
  case (Inl e)
  then show ?thesis by (simp add: fc_execute_def check_def)
next
  case b: (Inr u)
  show ?thesis
  proof (cases "fc_plan_load (fk_topology K) body")
    case (Inl e)
    with b show ?thesis by (simp add: fc_execute_def check_def)
  next
    case (Inr plan)
    with b show ?thesis
      by (cases plan) (simp add: fc_execute_def check_def journal_execute_admit case_prod_unfold)
  qed
qed

lemma route_post_admit: "fc_route_post sched P K rq = fc_finish sched P K (fc_admit K rq)"
proof (cases "fc_authenticate K (in_header rq ''authorization'')")
  case (Inl e)
  then show ?thesis by (simp add: fc_route_post_def fc_admit_def)
next
  case (Inr u)
  then show ?thesis
    by (cases "request_body ''chunked request'' rq")
      (simp_all add: fc_route_post_def fc_admit_def Let_def execute_fault_admit execute_load_admit)
qed

lemma fc_admit_valid:
  assumes "fc_admit K rq = Inr (x, extra)" and "hex64 (fk_binding_digest K)"
  shows "fr_valid K x" and "extra = [] \<or> (\<exists>v. extra = [(''profile'', v)])"
proof -
  have digest: "utf8_ok (fk_binding_digest K)"
    using assms(2) unfolding hex64_def rep_match_def
    by (intro utf8_ok_ascii) (auto elim!: list_all_mono' simp: class_defs)
  have "fst plan \<in> set journal_actions" if "fc_plan_fault body = Inr plan" for body plan
    using that
    by (auto simp: fc_plan_fault_def Let_def journal_actions_def text_matching_def split: json.splits if_splits)
  moreover have "fst plan \<in> set journal_actions" if "fc_plan_load T body = Inr plan" for T body plan
    using that by (auto simp: fc_plan_load_def Let_def journal_actions_def)
  ultimately show "fr_valid K x" "extra = [] \<or> (\<exists>v. extra = [(''profile'', v)])"
    using assms(1) digest
    by (auto simp: fc_admit_def fr_valid_def Let_def split: option.splits if_splits)
qed

section \<open>Steps\<close>

text \<open>
  The process answers requests one at a time per lock. A crash can strike an execution after its intent
  was saved: the callback may have acted on the outside, but no file was written. The surroundings keep
  evolving while the process is down.
\<close>

definition fc_crash :: "fc_controller \<Rightarrow> fc_request \<Rightarrow> 'w ctl_state \<Rightarrow> 'w ctl_state \<Rightarrow> bool" where
  "fc_crash K x s t \<longleftrightarrow>
     (\<exists>u ms. created (intent_path (fr_entry K x)) (canonical_bytes (JObj (intent_record (fr_entry K x) (utc_text ms)))) s u \<and>
        ctl_disk t = ctl_disk u \<and> (\<exists>new. trace t = new @ trace u))"

inductive fc_step :: "(nat \<Rightarrow> nat) \<Rightarrow> 'w platform \<Rightarrow> fc_controller \<Rightarrow> 'w ctl_state \<Rightarrow> 'w ctl_state \<Rightarrow> bool"
  for sched P K where
  step_post: "fc_do_POST sched P K rq s = (ans, t) \<Longrightarrow> fc_step sched P K s t"
| step_get: "fc_do_GET K rq s = (ans, t) \<Longrightarrow> fc_step sched P K s t"
| step_crash: "fc_admit K rq = Inr (x, extra) \<Longrightarrow> fc_crash K x s t \<Longrightarrow> fc_step sched P K s t"
| step_outside: "ctl_disk t = ctl_disk s \<Longrightarrow> trace t = trace s \<Longrightarrow> fc_step sched P K s t"

inductive fc_reach :: "(nat \<Rightarrow> nat) \<Rightarrow> 'w platform \<Rightarrow> fc_controller \<Rightarrow> 'w ctl_state \<Rightarrow> 'w ctl_state \<Rightarrow> bool"
  for sched P K where
  reach_here: "fc_reach sched P K s s"
| reach_step: "fc_reach sched P K s t \<Longrightarrow> fc_step sched P K t u \<Longrightarrow> fc_reach sched P K s u"

lemma do_post_run:
  "fc_do_POST sched P K rq s =
     (case fc_admit K rq of
        Inl e \<Rightarrow> (handle_error e, s)
      | Inr (x, extra) \<Rightarrow>
          (case fc_serve sched P K x s of
             (Inl e, t) \<Rightarrow> (handle_error e, t)
           | (Inr (result, replay), t) \<Rightarrow>
               (send_json 200 (JObj (fc_with_receipt K (dputs extra result))) replay, t)))"
  unfolding fc_do_POST_def route_post_admit
  by (auto simp: throw_def bnd_def ret_def split: sum.splits prod.splits)

lemma do_post_state:
  "snd (fc_do_POST sched P K rq s) =
     (case fc_admit K rq of Inl e \<Rightarrow> s | Inr (x, extra) \<Rightarrow> snd (fc_serve sched P K x s))"
  unfolding do_post_run by (auto split: sum.splits prod.splits)

lemma route_get_state: "fc_route_get K rq s = (r, t) \<Longrightarrow> t = s"
proof -
  have "keeps ((=) s) (fc_route_get K rq)"
    unfolding fc_route_get_def fc_closure_def by (auto intro!: keeps_intro split: option.splits)
  then show "fc_route_get K rq s = (r, t) \<Longrightarrow> t = s" by (auto dest: keepsD)
qed

lemma do_get_state: "fc_do_GET K rq s = (ans, t) \<Longrightarrow> t = s"
  unfolding fc_do_GET_def by (auto dest: route_get_state split: prod.splits sum.splits)

text \<open>A file that is there is never changed by a step.\<close>

lemma step_keeps_files:
  assumes "fc_step sched P K s t" and "hex64 (fk_binding_digest K)" and "ctl_disk s p = Some f"
  shows "ctl_disk t p = Some f"
  using assms(1)
proof (cases rule: fc_step.cases)
  case (step_post rq ans)
  then have t: "t = snd (fc_do_POST sched P K rq s)" by simp
  show ?thesis
  proof (cases "fc_admit K rq")
    case (Inl e)
    with t assms(3) show ?thesis by (simp add: do_post_state)
  next
    case (Inr xe)
    obtain x extra where xe: "xe = (x, extra)" by fastforce
    obtain r where "fc_serve sched P K x s = (r, t)"
      using t Inr xe by (simp add: do_post_state) (metis prod.collapse)
    from fj.write_once [OF this UNIV_I fc_admit_valid(1) [OF Inr [unfolded xe] assms(2)], of p] assms(3)
    show ?thesis by auto
  qed
next
  case (step_get rq ans)
  then show ?thesis using do_get_state [of K rq s ans t] assms(3) by simp
next
  case (step_crash rq x extra)
  then show ?thesis using assms(3) by (auto simp: fc_crash_def created_def)
next
  case step_outside
  then show ?thesis using assms(3) by simp
qed

lemma reach_keeps_files:
  assumes "fc_reach sched P K s t" and "hex64 (fk_binding_digest K)" and "ctl_disk s p = Some f"
  shows "ctl_disk t p = Some f"
  using assms by (induction rule: fc_reach.induct) (auto dest: step_keeps_files)

end
