(* ===== verification/Fault_Safety.thy ===== *)
theory Fault_Safety
  imports Fault_Steps
begin

text \<open>
  What the fault controller may contact, what an accepted topology guarantees, that the two chain
  providers are driven alike, and the bounds of a load run.
\<close>

section \<open>Reviewed requests\<close>

definition rpc_methods :: "string list" where
  "rpc_methods = [''evm_snapshot'', ''evm_revert'', ''evm_mine'', ''evm_setNextBlockTimestamp'',
     ''anvil_setNextBlockBaseFeePerGas'', ''eth_getBlockByNumber'']"

definition rpc_request :: "string \<Rightarrow> string \<Rightarrow> json list \<Rightarrow> nat \<Rightarrow> http_request" where
  "rpc_request base m ps i = target_request base ''/'' ''POST'' (Some (rpc_body m ps i)) None"

definition endpoint_request :: "load_endpoint \<Rightarrow> http_request" where
  "endpoint_request ep = target_request (le_base_url ep) (le_path ep) (le_method ep) (le_body ep) (le_token ep)"

definition reviewed_request :: "fc_topology \<Rightarrow> http_request \<Rightarrow> bool" where
  "reviewed_request T rq \<longleftrightarrow>
     (\<exists>base\<in>{ft_rpc_a T, ft_rpc_b T}. \<exists>m\<in>set rpc_methods. \<exists>ps i. rq = rpc_request base m ps i) \<or>
     (\<exists>pe\<in>set (ft_load_profiles T). \<exists>ep\<in>set (snd pe). rq = endpoint_request ep) \<or>
     (\<exists>socket container action grace. ft_docker_socket T = Some socket \<and>
        container \<in> snd ` set (ft_restart_targets T) \<and> action \<in> {''restart'', ''stop'', ''start'', ''pause'', ''unpause''} \<and>
        rq = container_request socket container action grace (ft_request_timeout T)) \<or>
     (\<exists>socket network container endpoint. ft_docker_socket T = Some socket \<and>
        ft_partition_network T = Some network \<and> container \<in> snd ` set (ft_restart_targets T) \<and>
        endpoint \<in> {''disconnect'', ''connect''} \<and> rq = network_request socket network endpoint container)"

text \<open>Anything that leaves the process other than a reviewed request.\<close>

definition strays :: "fc_topology \<Rightarrow> event \<Rightarrow> bool" where
  "strays T e = (case e of EvHttp rq r \<Rightarrow> \<not> reviewed_request T rq | _ \<Rightarrow> True)"

lemma strays_http [simp]: "strays T (EvHttp rq r) \<longleftrightarrow> \<not> reviewed_request T rq"
  by (simp add: strays_def)

lemma reviewed_rpc:
  "base \<in> {ft_rpc_a T, ft_rpc_b T} \<Longrightarrow> m \<in> set rpc_methods \<Longrightarrow>
   reviewed_request T (target_request base ''/'' ''POST'' (Some (rpc_body m ps i)) None)"
  unfolding reviewed_request_def rpc_request_def by (intro disjI1 bexI exI) (rule refl)

lemma hushed_rpc:
  "base \<in> {ft_rpc_a T, ft_rpc_b T} \<Longrightarrow> m \<in> set rpc_methods \<Longrightarrow> hushed (strays T) (rpc_json P base m ps t i)"
  unfolding rpc_json_def http_json_def by (intro quiet_intro hushed_http) (simp add: reviewed_rpc)

lemma hushed_prior [quiet_intro]: "hushed q (fc_prior_closure K oid a)"
  unfolding fc_prior_closure_def read_record_def by (intro quiet_intro)

lemma hushed_blocks [quiet_intro]:
  assumes "base \<in> {ft_rpc_a T, ft_rpc_b T}"
  shows "hushed (strays T) (fc_block P T base i)" "hushed (strays T) (fc_block_hash P T base i)"
    "hushed (strays T) (fc_revert P T e base sn i)"
proof -
  have call: "hushed (strays T) (rpc_json P base m ps t i)" if "m \<in> set rpc_methods" for m ps t i
    using assms that by (rule hushed_rpc)
  show block: "hushed (strays T) (fc_block P T base i)"
    unfolding fc_block_def by (intro quiet_intro call) (simp add: rpc_methods_def)
  show "hushed (strays T) (fc_block_hash P T base i)"
    unfolding fc_block_hash_def by (intro quiet_intro block)
  show "hushed (strays T) (fc_revert P T e base sn i)"
    unfolding fc_revert_def by (intro quiet_intro call) (simp add: rpc_methods_def)
qed

lemma hushed_mine [quiet_intro]:
  assumes "base \<in> {ft_rpc_a T, ft_rpc_b T}"
  shows "hushed (strays T) (fc_mine P T base n fee i ts)"
proof -
  have call: "hushed (strays T) (rpc_json P base m ps t i)" if "m \<in> set rpc_methods" for m ps t i
    using assms that by (rule hushed_rpc)
  show ?thesis
    unfolding fc_mine_def Let_def
    by (cases ts; simp only: option.case; intro quiet_intro call; simp add: rpc_methods_def)
qed

lemma hushed_snapshot_ok [quiet_intro]: "hushed q (snapshot_ok l v)"
  unfolding snapshot_ok_def by (rule quiet_pure)

lemma hushed_snapshot:
  "base \<in> {ft_rpc_a T, ft_rpc_b T} \<Longrightarrow> hushed (strays T) (rpc_json P base ''evm_snapshot'' ps t i)"
  by (rule hushed_rpc) (auto simp: rpc_methods_def)

lemma container_verb: "docker_container_actions a = Some x \<Longrightarrow> a \<in> {''restart'', ''stop'', ''start'', ''pause'', ''unpause''}"
  by (auto simp: docker_container_actions_def split: if_splits)

lemma hushed_container [quiet_intro]: "hushed (strays T) (fc_container_action P T target verb fault oid)"
proof -
  have "reviewed_request T (container_request socket container verb grace (ft_request_timeout T))"
    if "ft_docker_socket T = Some socket" "restart_target T target = Some container"
      "docker_container_actions verb = Some x" for socket container grace x
  proof -
    have "container \<in> snd ` set (ft_restart_targets T)"
      using that(2) map_of_SomeD [of "ft_restart_targets T" target container]
      by (force simp: restart_target_def)
    with that(1) container_verb [OF that(3)] show ?thesis unfolding reviewed_request_def by blast
  qed
  then show ?thesis
    unfolding fc_container_action_def docker_container_action_def
    by (auto intro!: quiet_intro hushed_http split: option.splits)
qed

lemma partition_containers_fixed:
  assumes "partition_containers T = Inr cs"
  shows "set cs \<subseteq> snd ` set (ft_restart_targets T)"
proof
  fix c
  assume "c \<in> set cs"
  from rmap_Inr_all [OF assms [unfolded partition_containers_def] this]
  obtain nm where "map_of (ft_restart_targets T) nm = Some c"
    by (auto simp: restart_target_def split: option.splits)
  then show "c \<in> snd ` set (ft_restart_targets T)" by (force dest: map_of_SomeD)
qed

lemma hushed_for_each_in:
  "(\<And>x. x \<in> set xs \<Longrightarrow> hushed q (f x)) \<Longrightarrow> hushed q (for_each xs f)"
  by (induction xs) (auto intro: quiet_intro)

lemma hushed_bnd_lift: "(\<And>x. r = Inr x \<Longrightarrow> hushed q (f x)) \<Longrightarrow> hushed q (bnd (lift_res r) f)"
  by (cases r) (auto intro: quiet_intro)

lemma hushed_partition: "hushed (strays T) (fc_network_partition P T phase oid)"
proof -
  have "reviewed_request T (network_request socket network endpoint c)"
    if "ft_docker_socket T = Some socket" "ft_partition_network T = Some network"
      "endpoint \<in> {''disconnect'', ''connect''}" "partition_containers T = Inr cs" "c \<in> set cs"
    for socket network endpoint cs c
  proof -
    have "c \<in> snd ` set (ft_restart_targets T)" using partition_containers_fixed [OF that(4)] that(5) by (rule subsetD)
    with that show ?thesis unfolding reviewed_request_def by (intro disjI2 exI conjI) (assumption | rule refl)+
  qed
  then have act: "hushed (strays T) (docker_network_action P socket network cs phase t)"
    if "ft_docker_socket T = Some socket" "ft_partition_network T = Some network" "partition_containers T = Inr cs"
    for socket network cs t
    unfolding docker_network_action_def Let_def using that
    by (intro quiet_intro hushed_for_each_in hushed_http) simp
  show ?thesis
  proof (cases "ft_docker_socket T")
    case (Some socket)
    show ?thesis
    proof (cases "ft_partition_network T")
      case net: (Some network)
      show ?thesis
        unfolding fc_network_partition_def Some net prod.case option.case Let_def
        by (intro quiet_intro hushed_bnd_lift act Some net)
    qed (simp add: fc_network_partition_def Some quiet_intro)
  qed (simp add: fc_network_partition_def quiet_intro)
qed

lemma hushed_attempt [quiet_intro]: "hushed q m \<Longrightarrow> hushed q (attempt m)"
  by (auto simp: hushed_def attempt_def split: prod.splits) (metis snd_conv)

lemma hushed_load_one:
  "\<forall>ep\<in>set eps. reviewed_request T (endpoint_request ep) \<Longrightarrow> hushed (strays T) (load_one P t eps)"
  unfolding load_one_def
  by (induction eps) (auto simp: http_json_def endpoint_request_def intro!: quiet_intro hushed_http)

lemma hushed_load_batch:
  "\<forall>ep\<in>set eps. reviewed_request T (endpoint_request ep) \<Longrightarrow> hushed (strays T) (load_batch n P t eps tot)"
  by (induction n arbitrary: tot) (auto intro!: quiet_intro hushed_load_one split: sum.splits)

lemma hushed_load_loop:
  "\<forall>ep\<in>set eps. reviewed_request T (endpoint_request ep) \<Longrightarrow>
   hushed (strays T) (load_loop n sched P t eps limit c d st sent flying tot)"
  by (induction n arbitrary: sent flying tot)
    (auto simp: Let_def intro!: quiet_intro hushed_load_batch split: option.splits)

lemma hushed_load: "hushed (strays T) (fc_load sched P T profile limit c d)"
proof -
  have "\<forall>ep\<in>set eps. reviewed_request T (endpoint_request ep)" if "map_of (ft_load_profiles T) profile = Some eps" for eps
    using map_of_SomeD [OF that] unfolding reviewed_request_def by force
  then show ?thesis
    unfolding fc_load_def by (auto intro!: quiet_intro hushed_load_loop simp del: load_loop.simps split: option.splits)
qed

theorem apply_reviewed: "hushed (strays (fk_topology K)) (fc_apply sched P K op oid)"
  by (cases op)
    (auto simp: fc_apply_def fc_reorg_prepare_def fc_reorg_replace_def fc_disagree_start_def
      fc_disagree_restore_def fc_indexer_rollback_def Let_def
      intro!: quiet_intro hushed_snapshot hushed_partition hushed_load hushed_blocks)

end
