(* ===== verification/Fault_Bounds.thy ===== *)
theory Fault_Bounds
  imports Fault_Safety
begin

text \<open>What an accepted topology guarantees, and the bounds of a load run.\<close>

section \<open>Accepted topologies\<close>

definition fixed_origin :: "string list \<Rightarrow> string \<Rightarrow> bool" where
  "fixed_origin hosts u \<longleftrightarrow>
     (\<exists>p. u_scheme p \<in> {''http'', ''https''} \<and> hostname p \<in> set hosts \<and> username p = [] \<and> password p = [] \<and>
          u = origin (u_scheme p) (u_netloc p))"

lemma normalized_url_fixed: "normalized_url v hosts label = Inr u \<Longrightarrow> fixed_origin hosts u"
  unfolding normalized_url_def fixed_url_def fixed_origin_def
  by (auto simp: result_simps)

definition endpoint_safe :: "string list \<Rightarrow> load_endpoint \<Rightarrow> bool" where
  "endpoint_safe hosts ep \<longleftrightarrow>
     fixed_origin hosts (le_base_url ep) \<and> ''..'' \<notin> set (py_split (CHR ''/'') (le_path ep)) \<and>
     le_method ep \<in> {''GET'', ''POST''} \<and> (le_method ep = ''GET'' \<longrightarrow> le_body ep = None) \<and>
     (\<forall>d. le_body ep = Some d \<longrightarrow> length (canonical_bytes (JObj d)) \<le> max_request_bytes) \<and>
     (\<forall>t. le_token ep = Some t \<longrightarrow> ctl_ephemeral_token t)"

lemma topology_endpoint_safe:
  assumes "topology_endpoint fs hosts name i v = Inr ep"
  shows "endpoint_safe hosts ep"
proof -
  obtain d mb token base path where
    mb: "endpoint_method (name @ ''['' @ nat_str i @ '']'') (jget d ''method'') (jget d ''body'') = Inr mb"
    and token: "endpoint_token fs name (jget d ''tokenFile'') (jget d ''tokenSha256'') = Inr token"
    and base: "normalized_url (jget d ''baseUrl'') hosts (''load profile '' @ name @ '' baseUrl'') = Inr base"
    and path: "safe_path (jget d ''path'') (''load profile '' @ name @ '' path'') = Inr path"
    and ep: "ep = \<lparr>le_base_url = base, le_path = path, le_method = fst mb, le_body = snd mb, le_token = token\<rparr>"
    using assms by (auto simp: topology_endpoint_def)
  have "fst mb \<in> {''GET'', ''POST''} \<and> (fst mb = ''GET'' \<longrightarrow> snd mb = None) \<and>
      (\<forall>d. snd mb = Some d \<longrightarrow> length (canonical_bytes (JObj d)) \<le> max_request_bytes)"
    using mb by (cases "jget d ''body''")
      (auto simp: endpoint_method_def Let_def result_simps allowed_load_methods_def)
  moreover have "\<forall>t. token = Some t \<longrightarrow> ctl_ephemeral_token t"
    using token by (auto simp: endpoint_token_def Let_def fc_read_secret_def read_secret_def split: if_splits)
  moreover have "''..'' \<notin> set (py_split (CHR ''/'') path)"
    using path by (auto simp: safe_path_def)
  ultimately show ?thesis
    using normalized_url_fixed [OF base] by (simp add: ep endpoint_safe_def)
qed

lemma topology_profile_safe:
  assumes "topology_profile fs hosts kv = Inr (name, eps)"
  shows "name = fst kv" "1 \<le> length eps" "length eps \<le> 2" "\<forall>ep\<in>set eps. endpoint_safe hosts ep"
proof -
  have listed: "(case v of JArr es \<Rightarrow> if c es then Inr es else Inl e | _ \<Rightarrow> Inl e) = Inr es \<longleftrightarrow> v = JArr es \<and> c es"
    for v c e es by (cases v) auto
  obtain es where es: "1 \<le> length es" "length es \<le> 2" "name = fst kv"
    and eps: "rmap (\<lambda>ie. topology_endpoint fs hosts (fst kv) (fst ie) (snd ie)) (List.enumerate 0 es) = Inr eps"
    using assms by (auto simp: topology_profile_def Let_def listed)
  show "name = fst kv" by (rule es(3))
  show "1 \<le> length eps" "length eps \<le> 2" using rmap_Inr_length [OF eps] es by simp_all
  show "\<forall>ep\<in>set eps. endpoint_safe hosts ep"
    using rmap_Inr_all [OF eps] topology_endpoint_safe by blast
qed

definition topology_ok :: "fc_topology \<Rightarrow> bool" where
  "topology_ok T \<longleftrightarrow>
     ft_classification T \<in> {''release-candidate'', ''non-release-fixture''} \<and>
     fixed_origin (ft_allowed_hosts T) (ft_rpc_a T) \<and> fixed_origin (ft_allowed_hosts T) (ft_rpc_b T) \<and>
     ft_rpc_a T \<noteq> ft_rpc_b T \<and> ft_docker_socket T \<in> {None, Some ''/var/run/docker.sock''} \<and>
     fst ` set (ft_restart_targets T) \<subseteq> set allowed_restart_targets \<and>
     (\<exists>prefix. fc_container prefix \<and> (\<forall>c\<in>snd ` set (ft_restart_targets T). fc_container c \<and> starts_with prefix c) \<and>
        (\<forall>n. ft_partition_network T = Some n \<longrightarrow> fc_container n \<and> starts_with prefix n)) \<and>
     distinct (ft_partition_targets T) \<and> length (ft_partition_targets T) \<le> 8 \<and>
     set (ft_partition_targets T) \<subseteq> fst ` set (ft_restart_targets T) \<and>
     (ft_partition_targets T = [] \<longleftrightarrow> ft_partition_network T = None) \<and>
     fst ` set (ft_load_profiles T) \<subseteq> set allowed_load_profiles \<and>
     (\<forall>pe\<in>set (ft_load_profiles T). length (snd pe) \<in> {1, 2} \<and> (\<forall>ep\<in>set (snd pe). endpoint_safe (ft_allowed_hosts T) ep)) \<and>
     1 \<le> ft_request_timeout T \<and> ft_request_timeout T \<le> 30 \<and>
     (ft_classification T = ''release-candidate'' \<longrightarrow>
        fst ` set (ft_load_profiles T) = set allowed_load_profiles \<and> ft_docker_socket T \<noteq> None \<and>
        set required_restart_targets \<subseteq> fst ` set (ft_restart_targets T) \<and> ft_partition_network T \<noteq> None)"

lemma rmap_fst:
  assumes "rmap f xs = Inr ys" and "\<And>x y. x \<in> set xs \<Longrightarrow> f x = Inr y \<Longrightarrow> fst y = g x"
  shows "map fst ys = map g xs"
  using assms by (induction xs arbitrary: ys) auto

lemma topology_docker_ok:
  assumes "topology_docker v = Inr (socket, rts, network, aliases)"
  shows "socket \<in> {None, Some ''/var/run/docker.sock''}" "fst ` set rts \<subseteq> set allowed_restart_targets"
    and "\<exists>prefix. fc_container prefix \<and> (\<forall>c\<in>snd ` set rts. fc_container c \<and> starts_with prefix c) \<and>
        (\<forall>n. network = Some n \<longrightarrow> fc_container n \<and> starts_with prefix n)"
    and "distinct aliases" "length aliases \<le> 8" "set aliases \<subseteq> fst ` set rts" "aliases = [] \<longleftrightarrow> network = None"
proof -
  obtain docker prefix where
    sock: "jget docker ''socket'' \<in> {JNull, JStr ''/var/run/docker.sock''}" "socket = str_of (jget docker ''socket'')"
    and prefix: "fc_container prefix"
    and rts: "topology_restart_targets (jget docker ''restartTargets'') prefix = Inr rts"
    and net: "topology_partition_network (jget docker ''partitionNetwork'') prefix = Inr network"
    and al: "topology_partition_targets (jget docker ''partitionTargets'') rts = Inr aliases"
    and both: "(aliases \<noteq> []) = (network \<noteq> None)"
    using assms by (auto simp: topology_docker_def result_simps)
  show "socket \<in> {None, Some ''/var/run/docker.sock''}" using sock by auto
  obtain restart where r: "set (keys restart) \<subseteq> set allowed_restart_targets"
    and m: "rmap (\<lambda>kv. rbind (text_matching (\<lambda>c. fc_container c \<and> starts_with prefix c) (snd kv)
              (config_error (''restart target '' @ fst kv @ '' escapes the candidate prefix''))) (\<lambda>c. Inr (fst kv, c))) restart = Inr rts"
    using rts by (auto simp: topology_restart_targets_def Let_def result_simps)
  have "map fst rts = map fst restart" by (rule rmap_fst [OF m]) (auto simp: result_simps)
  then have "fst ` set rts = set (keys restart)" unfolding keys_def by (metis list.set_map)
  with r show "fst ` set rts \<subseteq> set allowed_restart_targets" by simp
  have "\<forall>c\<in>snd ` set rts. fc_container c \<and> starts_with prefix c"
    using rmap_Inr_all [OF m] by (force simp: result_simps)
  moreover have "\<forall>n. network = Some n \<longrightarrow> fc_container n \<and> starts_with prefix n"
    using net by (auto simp: topology_partition_network_def result_simps split: if_splits)
  ultimately show "\<exists>prefix. fc_container prefix \<and> (\<forall>c\<in>snd ` set rts. fc_container c \<and> starts_with prefix c) \<and>
        (\<forall>n. network = Some n \<longrightarrow> fc_container n \<and> starts_with prefix n)"
    using prefix by blast
  obtain xs where xs: "length xs \<le> 8" and d: "distinct aliases"
    and a: "rmap (\<lambda>a. text_matching (\<lambda>s. s \<in> fst ` set rts) a
              (config_error ''partitionTargets must reference fixed restart targets'')) xs = Inr aliases"
    using al by (auto simp: topology_partition_targets_def Let_def split: json.splits)
  show "distinct aliases" by (rule d)
  show "length aliases \<le> 8" using xs rmap_Inr_length [OF a] by simp
  show "set aliases \<subseteq> fst ` set rts" using rmap_Inr_all [OF a] by (force simp: result_simps)
  show "aliases = [] \<longleftrightarrow> network = None" using both by auto
qed

lemma load_topology_ok:
  assumes "fc_load_topology fs path expected = Inr T"
  shows "topology_ok T"
proof -
  obtain doc where
    cls: "topology_class doc = Inr (ft_classification T)"
    and rpc: "topology_rpc (jget doc ''rpcProviders'') (ft_allowed_hosts T) = Inr (ft_rpc_a T, ft_rpc_b T)"
    and docker: "topology_docker (jget doc ''docker'') =
        Inr (ft_docker_socket T, ft_restart_targets T, ft_partition_network T, ft_partition_targets T)"
    and prof: "topology_profiles fs (ft_allowed_hosts T) (ft_classification T) (jget doc ''loadProfiles'') =
        Inr (ft_load_profiles T)"
    and timeout: "1 \<le> ft_request_timeout T" "ft_request_timeout T \<le> 30"
    and rel: "release_complete (ft_classification T) (ft_docker_socket T) (ft_restart_targets T)
        (ft_partition_network T) (ft_partition_targets T) = Inr ()"
    using assms by (auto simp: fc_load_topology_def result_simps)
  have c: "ft_classification T \<in> {''release-candidate'', ''non-release-fixture''}"
    using cls by (auto simp: topology_class_def Let_def result_simps)
  have "fixed_origin (ft_allowed_hosts T) (ft_rpc_a T) \<and> fixed_origin (ft_allowed_hosts T) (ft_rpc_b T) \<and>
     ft_rpc_a T \<noteq> ft_rpc_b T"
    using rpc by (auto simp: topology_rpc_def dest: normalized_url_fixed)
  moreover obtain raw where raw: "set (keys raw) \<subseteq> set allowed_load_profiles"
      "ft_classification T = ''release-candidate'' \<longrightarrow> same_keys raw allowed_load_profiles"
    and m: "rmap (topology_profile fs (ft_allowed_hosts T)) raw = Inr (ft_load_profiles T)"
    using prof by (auto simp: topology_profiles_def Let_def)
  have "map fst (ft_load_profiles T) = map fst raw"
    by (rule rmap_fst [OF m]) (metis topology_profile_safe(1) prod.collapse)
  then have names: "fst ` set (ft_load_profiles T) = set (keys raw)" unfolding keys_def by (metis list.set_map)
  moreover have "\<forall>pe\<in>set (ft_load_profiles T). length (snd pe) \<in> {1, 2} \<and>
      (\<forall>ep\<in>set (snd pe). endpoint_safe (ft_allowed_hosts T) ep)"
  proof
    fix pe
    assume "pe \<in> set (ft_load_profiles T)"
    with rmap_Inr_all [OF m] obtain kv where "topology_profile fs (ft_allowed_hosts T) kv = Inr (fst pe, snd pe)"
      by (metis prod.collapse)
    from topology_profile_safe [OF this]
    show "length (snd pe) \<in> {1, 2} \<and> (\<forall>ep\<in>set (snd pe). endpoint_safe (ft_allowed_hosts T) ep)" by auto
  qed
  ultimately show ?thesis
    unfolding topology_ok_def using c topology_docker_ok [OF docker] timeout raw rel
    by (auto simp: release_complete_def same_keys_def split: if_splits)
qed

section \<open>Load runs\<close>

text \<open>Every completed request counts one status per endpoint, and at most one mismatch.\<close>

definition totals_ok :: "nat \<Rightarrow> load_totals \<Rightarrow> bool" where
  "totals_ok n t \<longleftrightarrow>
     length (lt_latencies t) = n * lt_completed t \<and> sum_list (map snd (lt_counts t)) = n * lt_completed t \<and>
     lt_mismatches t \<le> lt_completed t \<and> distinct (map fst (lt_counts t))"

lemma count_status_sum:
  "distinct (map fst counts) \<Longrightarrow> sum_list (map snd (count_status counts st)) = Suc (sum_list (map snd counts))"
  unfolding count_status_def by (induction counts) (auto split: option.splits)

lemma count_status_distinct: "distinct (map fst counts) \<Longrightarrow> distinct (map fst (count_status counts st))"
  unfolding count_status_def by (rule distinct_update)

lemma foldl_count:
  "distinct (map fst counts) \<Longrightarrow>
   sum_list (map snd (foldl count_status counts sts)) = sum_list (map snd counts) + length sts \<and>
   distinct (map fst (foldl count_status counts sts))"
  by (induction sts arbitrary: counts) (auto simp: count_status_sum count_status_distinct)

lemma totals_merge: "totals_ok n t \<Longrightarrow> length seen = n \<Longrightarrow> totals_ok n (load_merge seen t)"
  using foldl_count [of "lt_counts t" "map fst seen"] by (auto simp: totals_ok_def load_merge_def)

lemma totals_none: "totals_ok n no_load"
  by (simp add: totals_ok_def no_load_def)

lemma wp_true: "wp m (\<lambda>_ _. True) (\<lambda>_ _. True) s"
  by (auto intro: wpI)

lemma load_one_Cons:
  "load_one P t (ep # eps) =
     bnd (http_json P (le_base_url ep) (le_path ep) (le_method ep) (le_body ep) t (le_token ep)) (\<lambda>x.
     bnd (load_one P t eps) (\<lambda>xs. ret ((fst (fst x), sha256_hex (snd (snd (fst x))), snd x) # xs)))"
  by (simp add: load_one_def)

lemma load_one_length: "wp (load_one P t eps) (\<lambda>seen _. length seen = length eps) (\<lambda>_ _. True) s"
proof (induction eps arbitrary: s)
  case (Cons ep eps)
  show ?case
    unfolding load_one_Cons wp_bnd
    by (rule wp_mono [OF wp_true]) (auto simp: wp intro: wp_mono [OF Cons.IH])
qed (simp add: load_one_def wp)

lemma wp_attempt [wp]: "wp (attempt m) Q E s = wp m (\<lambda>x. Q (Inr x)) (\<lambda>e. Q (Inl e)) s"
  by (auto simp: wp_def attempt_def split: prod.splits sum.splits)

lemma strict_object_fuel: "strict_object raw label n \<noteq> Inl OutOfFuel"
  by (auto simp: strict_object_def rbind_eq_Inl control_error_def split: sum.splits perr.splits json.splits)

lemma fuelled_http_json [fuelled_intro]: "fuelled (http_json P base path m body t token)"
proof -
  have "read_target r \<noteq> Inl OutOfFuel" for r
    using strict_object_fuel by (auto simp: read_target_def rbind_eq_Inl split: http_reply.splits)
  then show ?thesis unfolding http_json_def by (intro fuelled_intro) auto
qed

lemma fuelled_load_one: "fuelled (load_one P t eps)"
  by (induction eps) (auto simp: load_one_Cons load_one_def [of P t "[]"] intro!: fuelled_intro)

lemma wp_load_one:
  "wp (load_one P t eps) (\<lambda>seen _. length seen = length eps) (\<lambda>e _. e \<noteq> OutOfFuel) s"
  using wp_conj [OF load_one_length fuelled_load_one [unfolded fuelled_wp, rule_format]] by (rule wp_mono) auto

definition batch_ok :: "nat \<Rightarrow> nat \<Rightarrow> load_totals \<times> exn option \<Rightarrow> bool" where
  "batch_ok n most x \<longleftrightarrow> totals_ok n (fst x) \<and> lt_completed (fst x) \<le> most \<and> snd x \<noteq> Some OutOfFuel"

lemma load_batch_totals:
  "totals_ok (length eps) tot \<Longrightarrow> lt_completed tot + n \<le> most \<Longrightarrow>
   wp (load_batch n P t eps tot) (\<lambda>x _. batch_ok (length eps) most x) (\<lambda>_ _. False) s"
proof (induction n arbitrary: tot s)
  case (Suc n tot s)
  have ok: "wp (load_batch n P t eps (load_merge seen tot)) (\<lambda>x _. batch_ok (length eps) most x) (\<lambda>_ _. False) u"
    if "length seen = length eps" for seen u
    by (rule Suc.IH) (use totals_merge [OF Suc.prems(1) that] Suc.prems(2) in \<open>auto simp: load_merge_def\<close>)
  have bad: "wp (load_batch n P t eps tot) (\<lambda>x _. batch_ok (length eps) most x) (\<lambda>_ _. False) u" for u
    by (rule Suc.IH) (use Suc.prems in auto)
  show ?case
    unfolding load_batch.simps wp_bnd wp_attempt
    by (rule wp_mono [OF wp_load_one]) (auto simp: wp batch_ok_def intro!: ok [unfolded batch_ok_def] wp_mono [OF bad])
qed (simp add: wp batch_ok_def)

text \<open>
  The loop sends at most \<open>limit\<close> requests, and the fuel of one turn per request never runs out: a turn
  with requests left completes at least one worker.
\<close>

lemma load_loop_totals:
  assumes conc: "0 < concurrency"
  shows "totals_ok (length eps) tot \<Longrightarrow> lt_completed tot + flying \<le> sent \<Longrightarrow> sent \<le> limit \<Longrightarrow> flying \<le> concurrency \<Longrightarrow>
    limit < n + (sent - flying) \<Longrightarrow>
    wp (load_loop n sched P t eps limit concurrency duration started sent flying tot)
      (\<lambda>r _. totals_ok (length eps) r \<and> lt_completed r \<le> limit) (\<lambda>e _. e \<noteq> OutOfFuel) s"
proof (induction n arbitrary: sent flying tot s)
  case (Suc n sent flying tot s)
  define more where "more = min (concurrency - flying) (limit - sent)"
  define pending where "pending = flying + more"
  define finished where "finished = max (Suc 0) (min (sched n) pending)"
  have going: "wp (load_batch finished P t eps tot) (\<lambda>x. wp (case snd x of
         Some e \<Rightarrow> bnd (load_batch (pending - finished) P t eps (fst x)) (\<lambda>_. throw e)
       | None \<Rightarrow> load_loop n sched P t eps limit concurrency duration started (sent + more) (pending - finished) (fst x))
      (\<lambda>r _. totals_ok (length eps) r \<and> lt_completed r \<le> limit) (\<lambda>e _. e \<noteq> OutOfFuel)) (\<lambda>e _. e \<noteq> OutOfFuel) s"
    if "sent < limit"
  proof -
    have pos: "1 \<le> pending" using conc that Suc.prems(4) by (auto simp: pending_def more_def)
    then have f: "1 \<le> finished" "finished \<le> pending" by (auto simp: finished_def)
    have next_turn: "wp (load_loop n sched P t eps limit concurrency duration started (sent + more) (pending - finished) (fst x))
        (\<lambda>r _. totals_ok (length eps) r \<and> lt_completed r \<le> limit) (\<lambda>e _. e \<noteq> OutOfFuel) u"
      if "batch_ok (length eps) (lt_completed tot + finished) x" for x u
    proof (rule Suc.IH)
      have x: "lt_completed (fst x) \<le> lt_completed tot + finished" using that by (simp add: batch_ok_def)
      show "lt_completed (fst x) + (pending - finished) \<le> sent + more"
        using x f Suc.prems(2) by (simp add: pending_def)
      show "pending - finished \<le> concurrency" using Suc.prems(4) by (simp add: pending_def more_def)
      show "limit < n + (sent + more - (pending - finished))"
        using f Suc.prems(2,5) by (simp add: pending_def)
    qed (use that Suc.prems in \<open>auto simp: batch_ok_def more_def\<close>)
    have drain: "wp (bnd (load_batch (pending - finished) P t eps (fst x)) (\<lambda>_. throw e))
        (\<lambda>r _. totals_ok (length eps) r \<and> lt_completed r \<le> limit) (\<lambda>e _. e \<noteq> OutOfFuel) u"
      if "batch_ok (length eps) (lt_completed tot + finished) x" "snd x = Some e" for x e u
      unfolding wp_bnd wp_throw
      by (rule wp_mono [OF load_batch_totals [OF _ order_refl]]) (use that in \<open>auto simp: batch_ok_def\<close>)
    show ?thesis
      by (rule wp_mono [OF load_batch_totals [OF Suc.prems(1) order_refl]])
        (auto split: option.splits intro: next_turn drain)
  qed
  have ending: "wp (load_batch flying P t eps tot) (\<lambda>x. wp (case snd x of Some e \<Rightarrow> throw e | None \<Rightarrow> ret (fst x))
      (\<lambda>r _. totals_ok (length eps) r \<and> lt_completed r \<le> limit) (\<lambda>e _. e \<noteq> OutOfFuel)) (\<lambda>e _. e \<noteq> OutOfFuel) s"
    by (rule wp_mono [OF load_batch_totals [OF Suc.prems(1), of _ limit]])
      (use Suc.prems in \<open>auto simp: batch_ok_def wp split: option.splits\<close>)
  show ?case
    using going ending unfolding load_loop.simps Let_def finished_def pending_def more_def One_nat_def
    by (simp add: wp monotonic_def)
qed simp

end
