(* ===== verification/Fault_Mirror.thy ===== *)
theory Fault_Mirror
  imports Fault_Bounds
begin

text \<open>
  A symmetric reorganisation drives both chain providers with the same calls: the calls of one mined
  branch as a reference list, and the proof that a completed reorganisation sent exactly that list to
  the one provider and then to the other.
\<close>

definition mine_calls :: "nat \<Rightarrow> nat \<Rightarrow> nat \<Rightarrow> (string \<times> json list) list" where
  "mine_calls blocks fee ts =
     (''anvil_setNextBlockBaseFeePerGas'', [JStr (''0x'' @ hex_str fee)]) #
     concat (map (\<lambda>k. [(''evm_setNextBlockTimestamp'', [JInt (int (ts + k))]), (''evm_mine'', [])]) [0..<blocks])"

definition call_to :: "string \<Rightarrow> string \<times> json list \<Rightarrow> event \<Rightarrow> bool" where
  "call_to base call e \<longleftrightarrow> (\<exists>i r. e = EvHttp (rpc_request base (fst call) (snd call) i) r)"

definition sends_calls :: "string \<Rightarrow> (string \<times> json list) list \<Rightarrow> ('w ctl_state, 'a) comp \<Rightarrow> bool" where
  "sends_calls base calls m \<longleftrightarrow>
     (\<forall>s x t. m s = (Inr x, t) \<longrightarrow>
        (\<exists>new. trace t = new @ trace s \<and> list_all2 (call_to base) calls (rev new)))"

lemma sends_rpc: "sends_calls base [(m, ps)] (rpc_json P base m ps t i)"
  by (auto simp: sends_calls_def rpc_json_def http_json_def bnd_def monotonic_def gets_def http_exchange_def
      lift_res_def ret_def call_to_def rpc_request_def split: prod.splits sum.splits)

lemma sends_ret: "sends_calls base [] (ret x)"
  by (auto simp: sends_calls_def ret_def)

lemma sends_seqc:
  assumes "sends_calls base xs m" and "sends_calls base ys n"
  shows "sends_calls base (xs @ ys) (seqc m n)"
  unfolding sends_calls_def
proof (intro allI impI)
  fix s x t
  assume "seqc m n s = (Inr x, t)"
  then obtain y u where m: "m s = (Inr y, u)" and n: "n u = (Inr x, t)"
    unfolding seqc_def by (elim bnd_run_cases) auto
  obtain new where "trace u = new @ trace s" "list_all2 (call_to base) xs (rev new)"
    using assms(1) m unfolding sends_calls_def by blast
  moreover obtain more where "trace t = more @ trace u" "list_all2 (call_to base) ys (rev more)"
    using assms(2) n unfolding sends_calls_def by blast
  ultimately show "\<exists>new. trace t = new @ trace s \<and> list_all2 (call_to base) (xs @ ys) (rev new)"
    by (intro exI [of _ "more @ new"]) (simp add: list_all2_appendI)
qed

lemma sends_for_each:
  "(\<And>x. sends_calls base (f x) (g x)) \<Longrightarrow> sends_calls base (concat (map f xs)) (for_each xs g)"
  by (induction xs) (auto intro: sends_ret sends_seqc)

lemma sends_mine: "sends_calls base (mine_calls blocks fee ts) (fc_mine P T base blocks fee i (Some ts))"
proof -
  have "sends_calls base [(''evm_setNextBlockTimestamp'', [JInt (int (ts + k))]), (''evm_mine'', [])]
      (seqc (seqc (rpc_json P base ''evm_setNextBlockTimestamp'' [JInt (int (ts + k))] t j) (ret ()))
            (seqc (rpc_json P base ''evm_mine'' [] t j') (ret ())))" for k t j j'
    using sends_seqc [OF sends_seqc [OF sends_rpc sends_ret] sends_seqc [OF sends_rpc sends_ret]] by simp
  from sends_seqc [OF sends_rpc sends_for_each [OF this]]
  show ?thesis by (simp add: fc_mine_def mine_calls_def Let_def)
qed

text \<open>Somewhere in the trace, the same calls went to \<open>a\<close> and right after that to \<open>b\<close>.\<close>

definition mirrored :: "string \<Rightarrow> string \<Rightarrow> nat \<Rightarrow> event list \<Rightarrow> event list \<Rightarrow> bool" where
  "mirrored a b blocks tr0 tr \<longleftrightarrow>
     (\<exists>before on_a on_b after fee ts. tr = after @ on_b @ on_a @ before @ tr0 \<and>
        list_all2 (call_to a) (mine_calls blocks fee ts) (rev on_a) \<and>
        list_all2 (call_to b) (mine_calls blocks fee ts) (rev on_b))"

definition mirrors :: "string \<Rightarrow> string \<Rightarrow> nat \<Rightarrow> ('w ctl_state, 'a) comp \<Rightarrow> bool" where
  "mirrors a b blocks m \<longleftrightarrow> (\<forall>s x t. m s = (Inr x, t) \<longrightarrow> mirrored a b blocks (trace s) (trace t))"

lemma mirrored_earlier: "mirrored a b n (new @ tr) tr' \<Longrightarrow> mirrored a b n tr tr'"
  unfolding mirrored_def by (metis append_assoc)

lemma mirrors_bnd:
  assumes "advances m" and "\<And>x. mirrors a b n (f x)"
  shows "mirrors a b n (bnd m f)"
  unfolding mirrors_def
proof (intro allI impI)
  fix s x t
  assume "bnd m f s = (Inr x, t)"
  then obtain y u where m: "m s = (Inr y, u)" and f: "f y u = (Inr x, t)"
    by (elim bnd_run_cases) auto
  have "mirrored a b n (trace u) (trace t)" using assms(2) f unfolding mirrors_def by blast
  moreover obtain new where "trace u = new @ trace s"
    using advancesD [OF assms(1) m] unfolding extends_def by blast
  ultimately show "mirrored a b n (trace s) (trace t)" by (auto intro: mirrored_earlier)
qed

lemma mirrors_seqc: "advances m \<Longrightarrow> mirrors a b n m' \<Longrightarrow> mirrors a b n (seqc m m')"
  unfolding seqc_def by (rule mirrors_bnd)

lemma mirrors_mine:
  assumes "advances rest"
  shows "mirrors a b n (seqc (fc_mine P T a n fee i (Some ts)) (seqc (fc_mine P T b n fee j (Some ts)) rest))"
  unfolding mirrors_def
proof (intro allI impI)
  fix s x t
  assume "seqc (fc_mine P T a n fee i (Some ts)) (seqc (fc_mine P T b n fee j (Some ts)) rest) s = (Inr x, t)"
  then obtain y z u v where a: "fc_mine P T a n fee i (Some ts) s = (Inr y, u)"
    and b: "fc_mine P T b n fee j (Some ts) u = (Inr z, v)" and r: "rest v = (Inr x, t)"
    unfolding seqc_def by (elim bnd_run_cases) auto
  obtain on_a where "trace u = on_a @ trace s" "list_all2 (call_to a) (mine_calls n fee ts) (rev on_a)"
    using sends_mine [of a n fee ts P T i] a unfolding sends_calls_def by blast
  moreover obtain on_b where "trace v = on_b @ trace u" "list_all2 (call_to b) (mine_calls n fee ts) (rev on_b)"
    using sends_mine [of b n fee ts P T j] b unfolding sends_calls_def by blast
  moreover obtain after where "trace t = after @ trace v"
    using advancesD [OF assms r] unfolding extends_def by blast
  ultimately show "mirrored a b n (trace s) (trace t)"
    unfolding mirrored_def by (metis append.assoc append_Nil)
qed

theorem reorg_mirrors:
  "mirrors (ft_rpc_a (fk_topology K)) (ft_rpc_b (fk_topology K)) depth (fc_reorg_prepare P K depth oid)"
  "mirrors (ft_rpc_a (fk_topology K)) (ft_rpc_b (fk_topology K)) depth (fc_reorg_replace P K depth prepared oid)"
  unfolding fc_reorg_prepare_def fc_reorg_replace_def Let_def
  by (intro mirrors_bnd mirrors_seqc mirrors_mine advances_intro)+

end
