(* ===== verification/Sample_Post.thy ===== *)
theory Sample_Post
  imports Journal_Laws
begin

text \<open>A request to either control service whose body is the canonical text of a document.\<close>

text \<open>A POST of a document with its canonical bytes; the length header may promise more than is sent.\<close>

definition json_post :: "string \<Rightarrow> string \<Rightarrow> string \<Rightarrow> dict \<Rightarrow> inbound" where
  "json_post path token key d =
     \<lparr>in_path = path,
      in_header = map_of [(''authorization'', ''Bearer '' @ token), (''content-type'', ''application/json''),
        (''content-length'', ''600''), (''idempotency-key'', key), (''x-correlation-id'', ''corr-0001'')],
      in_body = canonical_bytes (JObj d)\<rparr>"

lemma json_post_body:
  assumes "wf_json (JObj d)" and "jsort (JObj d) = JObj d" and "jweight (JObj d) < 600"
  shows "request_body c (json_post path token key d) = Inr d"
proof -
  have "length (canonical_bytes (JObj d)) \<le> 600" using assms(3) length_canonical [of "JObj d"] by linarith
  then have whole: "take 600 (canonical_bytes (JObj d)) = canonical_bytes (JObj d)" by simp
  have six: "py_int ''600'' = Inr 600"
    by (simp add: py_int_def py_strip_def py_lstrip_def py_rstrip_def class_defs digits_val_def Let_def code_def)
  have json: "content_type (Some ''application/json'') = ''application/json''"
    by (simp add: content_type_def py_strip_def py_lstrip_def py_rstrip_def class_defs to_lower_def Let_def)
  show ?thesis
    using loads_canonical [OF assms(1), of True] assms(2) \<open>length _ \<le> 600\<close>
    by (simp add: request_body_def json_post_def six json max_request_bytes_def strict_object_def whole)
qed

lemma length_print_text: "length (print_str []) = 2"
  "32 \<le> code c \<Longrightarrow> code c \<noteq> 34 \<Longrightarrow> code c \<noteq> 92 \<Longrightarrow> length (print_str (c # s)) = Suc (length (print_str s))"
  by (simp_all add: print_str_def esc_char_def)

lemma zeros64: "length (print_str (replicate 64 CHR ''0'')) = 66" "utf8_ok (replicate 64 CHR ''0'')"
  by (subst length_print_str_plain) (simp_all add: list_all_iff code_def utf8_ok_ascii is_ascii_def)

lemma length_print_sha [simp]: "length (print_str (sha256_hex s)) = 66"
proof -
  have "list_all is_lower_hex (sha256_hex s)" using hex64_sha256 [of s] by (simp add: hex64_def rep_match_def)
  then have "list_all (\<lambda>c. 32 \<le> code c \<and> code c \<noteq> 34 \<and> code c \<noteq> 92) (sha256_hex s)"
    by (rule list_all_mono') (auto simp: class_defs)
  then show ?thesis by (simp add: length_print_str_plain)
qed

lemma zeros_hex: "hex64 (replicate 64 CHR ''0'')"
  by (simp add: hex64_def rep_match_def list_all_iff class_defs)

end
