(* ===== verification/Fault_Example.thy ===== *)
theory Fault_Example
  imports Fault_Mirror Sample_Post
begin

text \<open>
  A concrete candidate: its topology and controller, a platform on which every Docker call succeeds, and
  a reviewed request. The inputs the properties of the fault controller are applied to.
\<close>

section \<open>The candidate\<close>

definition demo_endpoint :: load_endpoint where
  "demo_endpoint =
     \<lparr>le_base_url = ''http://rpc-a:8545'', le_path = ''/health'', le_method = ''GET'', le_body = None, le_token = None\<rparr>"

definition demo_topology :: fc_topology where
  "demo_topology =
     \<lparr>ft_classification = ''release-candidate'', ft_candidate_id = ''candidate-1'',
      ft_plan_sha256 = replicate 64 CHR ''0'', ft_hosted_token = ''hosted-1'',
      ft_auth_token_sha256 = replicate 64 CHR ''1'', ft_allowed_hosts = [''rpc-a'', ''rpc-b''],
      ft_rpc_a = ''http://rpc-a:8545'', ft_rpc_b = ''http://rpc-b:8545'',
      ft_docker_socket = Some ''/var/run/docker.sock'', ft_restart_targets = [(''prover'', ''zk-prover'')],
      ft_partition_network = Some ''zk-net'', ft_partition_targets = [''prover''],
      ft_load_profiles = [(''rpc'', [demo_endpoint])], ft_request_timeout = 15,
      ft_topology_sha256 = replicate 64 CHR ''2''\<rparr>"

definition demo_fault_control :: fc_controller where
  "demo_fault_control =
     \<lparr>fk_topology = demo_topology, fk_token = ''eph_demo'', fk_root = ''/journal'',
      fk_binding_digest = replicate 64 CHR ''3'', fk_receipt = [(''platform'', JStr ''docker'')]\<rparr>"

definition obliging_platform :: "unit platform" where
  "obliging_platform =
     \<lparr>p_run = (\<lambda>cmd t w. (None, 30000, w)), p_http = (\<lambda>rq t w. (Reply 204 [], 7, w)),
      p_dns = (\<lambda>host port w. (Some [host], 1, w)), p_wall = (\<lambda>w. (1700000000000, 1, w)),
      p_sleep = (\<lambda>w. (0, w)), p_store = (\<lambda>f b w. (True, 0, w))\<rparr>"

definition empty_control :: "unit ctl_state" where
  "empty_control = \<lparr>outside = (), mono = 0, trace = [], ctl_disk = (\<lambda>_. None)\<rparr>"

lemma demo_digest_hex [simp]: "hex64 (fk_binding_digest demo_fault_control)"
  by (simp add: demo_fault_control_def hex64_def rep_match_def list_all_iff class_defs)

section \<open>A request\<close>

definition pause_body :: dict where
  "pause_body =
     [(''action'', JStr ''service-pause''),
      (''binding'', JObj [(''candidateId'', JStr ''candidate-1''), (''hostedIntegrationToken'', JStr ''hosted-1''),
                          (''planSha256'', JStr (replicate 64 CHR ''0''))]),
      (''parameters'', JObj [(''phase'', JStr ''pause''), (''target'', JStr ''prover'')]),
      (''schemaVersion'', JInt 1)]"

definition pause_post :: "string \<Rightarrow> inbound" where
  "pause_post key = json_post ''/v1/faults'' ''eph_demo'' key pause_body"

definition pause_request :: "string \<Rightarrow> fc_request" where
  "pause_request key =
     \<lparr>fr_action = ''fault:service-pause'', fr_body = pause_body, fr_key = key, fr_correlation = ''corr-0001'',
      fr_op = ContainerOp ''prover'' ''pause'' ''service-pause''\<rparr>"

lemma pause_body_sorted: "jsort (JObj pause_body) = JObj pause_body"
  by (simp add: pause_body_def)

lemma pause_body_utf8: "wf_json (JObj pause_body)"
  by (simp add: pause_body_def zeros64 utf8_ok_ascii_Cons code_def)

lemma pause_body_short: "jweight (JObj pause_body) < 600"
  by (simp only: pause_body_def jweight.simps list.map sum_list.Cons sum_list.Nil split zeros64)
    (simp add: length_print_text code_def int_str_def nat_str.simps)

lemma pause_body_read: "request_body c (pause_post key) = Inr pause_body"
  unfolding pause_post_def
  by (rule json_post_body [OF pause_body_utf8 pause_body_sorted pause_body_short])

lemma pause_plan: "fc_plan_fault pause_body = Inr (''fault:service-pause'', ContainerOp ''prover'' ''pause'' ''service-pause'')"
  by (simp add: fc_plan_fault_def pause_body_def exact_keys_def same_keys_def keys_def jget_def eq_int_def
      text_matching_def object_of_def fault_actions_def fc_fault_callback_def two_phases_def member_of_def
      allowed_pause_targets_def Let_def)
    blast

lemma pause_bound: "fc_validate_binding demo_fault_control pause_body = Inr ()"
  by (simp add: fc_validate_binding_def pause_body_def jget_def fc_binding_def demo_fault_control_def demo_topology_def
      check_def)

lemma pause_admitted:
  "ctl_idempotency key \<Longrightarrow> fc_admit demo_fault_control (pause_post key) = Inr (pause_request key, [])"
  using pause_body_read pause_plan pause_bound
  by (simp add: fc_admit_def pause_request_def Let_def)
    (simp add: pause_post_def json_post_def header_or_def fc_authenticate_def bearer_ok_def demo_fault_control_def
      ctl_correlation_def rep_match_def class_defs)

section \<open>The request carried out\<close>

definition pause_result :: "string \<Rightarrow> dict" where
  "pause_result oid =
     [(''action'', JStr ''service-pause''), (''applied'', JBool True), (''logicalTarget'', JStr ''prover''),
      (''dockerAction'', JStr ''pause''), (''containerId'', JStr ''zk-prover''), (''candidateId'', JStr ''candidate-1''),
      (''platformReceipt'', JStr (container_receipt oid ''service-pause'' ''pause'' ''prover'' ''zk-prover''))]"

definition pause_event :: event where
  "pause_event = EvHttp (container_request ''/var/run/docker.sock'' ''zk-prover'' ''pause'' False 15) (Reply 204 [])"

lemma pause_run:
  "fr_run sched obliging_platform demo_fault_control (pause_request key) s =
     (Inr (pause_result (jo_operation (fr_entry demo_fault_control (pause_request key))), []),
      s\<lparr>mono := mono s + 7, trace := pause_event # trace s\<rparr>)"
  by (simp add: fr_run_def fc_apply_def pause_request_def fc_container_action_def demo_fault_control_def
      demo_topology_def restart_target_def docker_container_action_def docker_container_actions_def
      bnd_def http_exchange_def obliging_platform_def docker_answer_def check_def ret_def lift_res_def seqc_def
      max_response_bytes_def pause_result_def pause_event_def Let_def)

definition pause_seal :: "string \<Rightarrow> dict" where
  "pause_seal key = [(''intentSha256'', JStr (sha256_hex (canonical_bytes (JObj
     (intent_record (fr_entry demo_fault_control (pause_request key)) (utc_text 1700000000000))))))]"

definition pause_closure :: "string \<Rightarrow> dict" where
  "pause_closure key =
     (let J = fr_entry demo_fault_control (pause_request key)
      in closure_record J (pause_seal key) (utc_text 1700000000000) (pause_result (jo_operation J)) [])"

definition pause_files :: "string \<Rightarrow> files \<Rightarrow> files" where
  "pause_files key fs =
     (let J = fr_entry demo_fault_control (pause_request key)
      in fs (intent_path J \<mapsto> FFile 384 (canonical_bytes (JObj (intent_record J (utc_text 1700000000000)))),
             closure_path J \<mapsto> FFile 384 (canonical_bytes (JObj (pause_closure key)))))"

lemma obliging_now: "utc_now obliging_platform s = (Inr (utc_text 1700000000000), s\<lparr>mono := mono s + 1\<rparr>)"
  by (simp add: utc_now_def wall_ms_def bnd_def ret_def obliging_platform_def)

lemma obliging_create:
  "ctl_disk s (path_join root name) = None \<Longrightarrow> durable_create obliging_platform what root name value s =
     (Inr (sha256_hex (canonical_bytes (JObj value))),
      s\<lparr>trace := EvWrite (path_join root name) (canonical_bytes (JObj value)) # trace s,
        ctl_disk := (ctl_disk s)(path_join root name \<mapsto> FFile 384 (canonical_bytes (JObj value)))\<rparr>)"
  by (simp add: durable_create_def bnd_def seqc_def gets_def raise_if_def ret_def store_file_def obliging_platform_def
      Let_def)

lemma seal_of_file:
  "jo_sealed J \<Longrightarrow> ctl_disk s (intent_path J) = Some (FFile 384 c) \<Longrightarrow>
   intent_seal J s = (Inr [(''intentSha256'', JStr (sha256_hex c))], s)"
  by (simp add: intent_seal_def bnd_def gets_def lift_res_def read_bytes_def fs_follow_def eval_nat_numeral)

lemma pause_served:
  fixes key
  defines "J \<equiv> fr_entry demo_fault_control (pause_request key)"
  assumes "ctl_disk s (intent_path J) = None" and "ctl_disk s (closure_path J) = None"
  obtains t where "fc_serve sched obliging_platform demo_fault_control (pause_request key) s =
      (Inr (first_answer J (pause_closure key) (pause_result (jo_operation J)), False), t)"
    and "ctl_disk t = pause_files key (ctl_disk s)"
    and "trace t = [EvWrite (closure_path J) (canonical_bytes (JObj (pause_closure key))), pause_event,
      EvWrite (intent_path J) (canonical_bytes (JObj (intent_record J (utc_text 1700000000000))))] @ trace s"
proof -
  let ?c = "canonical_bytes (JObj (pause_closure key))"
  define i where "i = canonical_bytes (JObj (intent_record J (utc_text 1700000000000)))"
  define s1 where "s1 = s\<lparr>mono := mono s + 1\<rparr>"
  define s2 where "s2 = s1\<lparr>trace := EvWrite (intent_path J) i # trace s1, ctl_disk := (ctl_disk s1)(intent_path J \<mapsto> FFile 384 i)\<rparr>"
  define s3 where "s3 = s2\<lparr>mono := mono s2 + 7, trace := pause_event # trace s2\<rparr>"
  define s4 where "s4 = s3\<lparr>mono := mono s3 + 1\<rparr>"
  define s5 where "s5 = s4\<lparr>trace := EvWrite (closure_path J) ?c # trace s4, ctl_disk := (ctl_disk s4)(closure_path J \<mapsto> FFile 384 ?c)\<rparr>"
  note states = s1_def s2_def s3_def s4_def s5_def
  have path: "path_join (jo_root J) (intent_name J) = intent_path J"
    "path_join (jo_root J) (closure_file (jo_operation J)) = closure_path J"
    by (simp_all add: intent_path_def closure_path_def)
  have ne: "intent_path J \<noteq> closure_path J" unfolding J_def by (rule fr_entry_paths)
  have sealed: "jo_sealed J" by (simp add: J_def fr_entry_def fc_journal_op_def Let_def)
  have fresh: "\<not> path_exists (ctl_disk s) (intent_path J)"
    using assms(2) by (simp add: path_exists_def fs_follow_def eval_nat_numeral)
  have now: "utc_now obliging_platform s = (Inr (utc_text 1700000000000), s1)"
    "utc_now obliging_platform s3 = (Inr (utc_text 1700000000000), s4)"
    by (simp_all add: obliging_now s1_def s4_def)
  have "ctl_disk s1 (path_join (jo_root J) (intent_name J)) = None" using assms(2) by (simp add: path s1_def)
  then have intent: "durable_create obliging_platform (jo_exists J) (jo_root J) (intent_name J)
      (intent_record J (utc_text 1700000000000)) s1 = (Inr (sha256_hex i), s2)"
    by (simp add: obliging_create path s2_def i_def)
  have run: "fr_run sched obliging_platform demo_fault_control (pause_request key) s2 =
      (Inr (pause_result (jo_operation J), []), s3)"
    by (simp add: pause_run J_def s3_def)
  have seal: "intent_seal J s3 = (Inr (pause_seal key), s3)"
    using sealed by (subst seal_of_file [where c = i]) (simp_all add: states i_def pause_seal_def J_def)
  have "ctl_disk s4 (path_join (jo_root J) (closure_file (jo_operation J))) = None"
    using assms(3) ne by (simp add: path states)
  then have closed: "durable_create obliging_platform (jo_exists J) (jo_root J) (closure_file (jo_operation J))
      (pause_closure key) s4 = (Inr (sha256_hex ?c), s5)"
    by (simp add: obliging_create path s5_def)
  have recorded: "closure_record J (pause_seal key) (utc_text 1700000000000) (pause_result (jo_operation J)) [] = pause_closure key"
    by (simp add: pause_closure_def J_def Let_def)
  show thesis
  proof (rule that)
    show "fc_serve sched obliging_platform demo_fault_control (pause_request key) s =
        (Inr (first_answer J (pause_closure key) (pause_result (jo_operation J)), False), s5)"
      unfolding J_def [symmetric] journal_execute_def journal_first_def seqc_def
      by (simp add: bnd_def gets_def fresh now intent run seal recorded closed ret_def first_answer_def)
    show "ctl_disk s5 = pause_files key (ctl_disk s)"
      by (simp add: states i_def pause_files_def J_def Let_def)
    show "trace s5 = [EvWrite (closure_path J) ?c, pause_event, EvWrite (intent_path J)
        (canonical_bytes (JObj (intent_record J (utc_text 1700000000000))))] @ trace s"
      by (simp add: states i_def)
  qed
qed

section \<open>The sizes of its records\<close>

lemma length_print_operation [simp]: "length (print_str (fc_operation_id (sha256_hex s))) = 45"
proof -
  have "list_all is_lower_hex (sha256_hex s)" using hex64_sha256 [of s] by (simp add: hex64_def rep_match_def)
  then have "list_all (\<lambda>c. 32 \<le> code c \<and> code c \<noteq> 34 \<and> code c \<noteq> 92) (take 40 (sha256_hex s))"
    by (auto simp: list_all_iff class_defs dest!: in_set_takeD)
  then show ?thesis by (simp add: length_print_str_plain fc_operation_id_def code_def)
qed

lemma demo_time: "utc_text 1700000000000 = ''2023-11-14T22:13:20.000Z''"
  by code_simp

lemma length_print_digest: "length (print_str (fk_binding_digest demo_fault_control)) = 66"
  by (simp add: demo_fault_control_def) (subst length_print_str_plain, simp_all add: list_all_iff code_def)

lemmas record_defs = intent_record_def closure_record_def fr_entry_def fc_journal_op_def fc_request_digest_def
  pause_request_def demo_time pause_result_def container_receipt_def Let_def

lemmas weigh = jweight.simps list.map sum_list.Cons sum_list.Nil split length_print_sha length_print_operation length_print_digest
lemma pause_intent_small: "small (intent_record (fr_entry demo_fault_control (pause_request key)) (utc_text 1700000000000))"
proof -
  have "jweight (JObj (intent_record (fr_entry demo_fault_control (pause_request key)) (utc_text 1700000000000))) < 5000"
    by (simp only: record_defs journal_op.select_convs fc_request.select_convs append.simps)
      (simp only: weigh, simp add: length_print_text code_def int_str_def nat_str.simps)
  then show ?thesis using length_canonical [of "JObj (intent_record (fr_entry demo_fault_control (pause_request key)) (utc_text 1700000000000))"]
    unfolding small_def max_response_bytes_def by linarith
qed

lemma pause_closure_small: "small (pause_closure key)"
proof -
  have "jweight (JObj (pause_closure key)) < 5000"
    unfolding pause_closure_def pause_seal_def
    by (simp only: record_defs journal_op.select_convs fc_request.select_convs append.simps)
      (simp only: weigh, simp add: length_print_text code_def int_str_def nat_str.simps)
  then show ?thesis using length_canonical [of "JObj (pause_closure key)"] unfolding small_def max_response_bytes_def by linarith
qed

lemma pause_readable:
  assumes "ctl_disk t = pause_files key fs"
  shows "readable t (intent_path (fr_entry demo_fault_control (pause_request key)))"
    and "readable t (closure_path (fr_entry demo_fault_control (pause_request key)))"
  using pause_intent_small [of key] pause_closure_small [of key] fr_entry_paths assms
  by (simp_all add: readable_def pause_files_def small_def Let_def)

lemma pause_prints: "results_wf (pause_result oid) []"
  by (simp add: results_wf_def pause_result_def container_receipt_def utf8_ok_ascii_Cons code_def)
end
