(* ===== verification/Fault_Start.thy ===== *)
theory Fault_Start
  imports Fault_Example
begin

text \<open>
  A start of the fault controller on a small non-release topology: the document, the token file and the
  environment it accepts.
\<close>

definition fixture_token :: string where "fixture_token = ''eph_'' @ replicate 32 CHR ''a''"

definition fixture_document :: dict where
  "fixture_document =
     [(''allowedHosts'', JArr [JStr ''rpc-a'', JStr ''rpc-b'']), (''candidateId'', JStr ''candidate-1''),
      (''classification'', JStr ''non-release-fixture''),
      (''docker'', JObj [(''containerPrefix'', JStr ''zk-''), (''partitionNetwork'', JNull), (''partitionTargets'', JArr []),
         (''restartTargets'', JObj [(''prover'', JStr ''zk-prover'')]), (''socket'', JStr ''/var/run/docker.sock'')]),
      (''faultControlTokenSha256'', JStr (sha256_hex fixture_token)),
      (''hostedIntegrationToken'', JStr (''sha256:'' @ replicate 64 CHR ''0'')), (''loadProfiles'', JObj []),
      (''planSha256'', JStr (replicate 64 CHR ''0'')), (''requestTimeoutSeconds'', JInt 15),
      (''rpcProviders'', JObj [(''rpc-a'', JStr ''http://rpc-a:8545''), (''rpc-b'', JStr ''http://rpc-b:8545'')]),
      (''schemaVersion'', JInt 1)]"

lemma fixture_sorted: "jsort (JObj fixture_document) = JObj fixture_document"
  by (simp add: fixture_document_def)

lemma fixture_utf8: "wf_json (JObj fixture_document)"
  by (simp add: fixture_document_def zeros64 utf8_ok_ascii_Cons code_def)

lemma fixture_short: "jweight (JObj fixture_document) < 5000"
  by (simp only: fixture_document_def jweight.simps list.map sum_list.Cons sum_list.Nil split zeros64 length_print_sha append.simps)
    (simp add: length_print_text code_def int_str_def nat_str.simps zeros64)

lemma url_a: "normalized_url (JStr ''http://rpc-a:8545'') [''rpc-a'', ''rpc-b''] l = Inr ''http://rpc-a:8545''"
  by code_simp

lemma url_b: "normalized_url (JStr ''http://rpc-b:8545'') [''rpc-a'', ''rpc-b''] l = Inr ''http://rpc-b:8545''"
  by code_simp

definition fixture_state :: "unit ctl_state" where
  "fixture_state = empty_control\<lparr>ctl_disk :=
     [''/topology.json'' \<mapsto> FFile 256 (canonical_bytes (JObj fixture_document)), ''/token'' \<mapsto> FFile 256 fixture_token,
      ''/journal'' \<mapsto> FDir]\<rparr>"

definition fixture_env :: environ where
  "fixture_env =
     [''FAULT_CONTROL_TOPOLOGY_FILE'' \<mapsto> ''/topology.json'',
      ''FAULT_CONTROL_TOPOLOGY_SHA256'' \<mapsto> sha256_hex (canonical_bytes (JObj fixture_document)),
      ''FAULT_CONTROL_CANDIDATE_ID'' \<mapsto> ''candidate-1'', ''FAULT_CONTROL_PLAN_SHA256'' \<mapsto> replicate 64 CHR ''0'',
      ''FAULT_CONTROL_HOSTED_INTEGRATION_TOKEN'' \<mapsto> ''sha256:'' @ replicate 64 CHR ''0'',
      ''FAULT_CONTROL_TOKEN_FILE'' \<mapsto> ''/token'',
      ''FAULT_CONTROL_CANDIDATE_DESCRIPTOR_SHA256'' \<mapsto> replicate 64 CHR ''0'',
      ''FAULT_CONTROL_ADAPTER_SOURCE_SHA256'' \<mapsto> replicate 64 CHR ''0'',
      ''FAULT_CONTROL_ADAPTER_IMAGE'' \<mapsto> ''a@sha256:'' @ replicate 64 CHR ''0'',
      ''FAULT_CONTROL_PLATFORM'' \<mapsto> ''docker'']"

lemma fixture_get:
  "jget fixture_document ''allowedHosts'' = JArr [JStr ''rpc-a'', JStr ''rpc-b'']"
  "jget fixture_document ''candidateId'' = JStr ''candidate-1''"
  "jget fixture_document ''classification'' = JStr ''non-release-fixture''"
  "jget fixture_document ''docker'' = JObj [(''containerPrefix'', JStr ''zk-''), (''partitionNetwork'', JNull), (''partitionTargets'', JArr []),
         (''restartTargets'', JObj [(''prover'', JStr ''zk-prover'')]), (''socket'', JStr ''/var/run/docker.sock'')]"
  "jget fixture_document ''faultControlTokenSha256'' = JStr (sha256_hex fixture_token)"
  "jget fixture_document ''hostedIntegrationToken'' = JStr (''sha256:'' @ replicate 64 CHR ''0'')"
  "jget fixture_document ''loadProfiles'' = JObj []"
  "jget fixture_document ''planSha256'' = JStr (replicate 64 CHR ''0'')"
  "jget fixture_document ''requestTimeoutSeconds'' = JInt 15"
  "jget fixture_document ''rpcProviders'' = JObj [(''rpc-a'', JStr ''http://rpc-a:8545''), (''rpc-b'', JStr ''http://rpc-b:8545'')]"
  "jget fixture_document ''schemaVersion'' = JInt 1"
  by (simp_all add: fixture_document_def jget_def)

lemma fixture_read: "topology_document (ctl_disk fixture_state) ''/topology.json'' (sha256_hex (canonical_bytes (JObj fixture_document)))
   = Inr (fixture_document, sha256_hex (canonical_bytes (JObj fixture_document)))"
proof -
  have f: "fs_follow (ctl_disk fixture_state) ''/topology.json'' = Some (FFile 256 (canonical_bytes (JObj fixture_document)))"
    "\<not> is_symlink (ctl_disk fixture_state) ''/topology.json''"
    by (simp_all add: fs_follow_def is_symlink_def eval_nat_numeral fixture_state_def)
  have k: "exact_keys fixture_document
     [''schemaVersion'', ''classification'', ''candidateId'', ''planSha256'', ''hostedIntegrationToken'',
              ''faultControlTokenSha256'', ''allowedHosts'', ''rpcProviders'', ''docker'', ''loadProfiles'',
              ''requestTimeoutSeconds''] l = Inr ()" for l
    by (simp add: exact_keys_def same_keys_def keys_def fixture_document_def set_eq_subset)
  have l: "length (canonical_bytes (JObj fixture_document)) \<le> max_response_bytes"
    using length_canonical [of "JObj fixture_document"] fixture_short unfolding max_response_bytes_def by linarith
  show ?thesis
    using loads_canonical [OF fixture_utf8, of True] fixture_sorted l k
    by (simp add: topology_document_def f is_file_def read_bytes_def strict_object_def)
qed

lemma fixture_docker: "topology_docker (jget fixture_document ''docker'') =
   Inr (Some ''/var/run/docker.sock'', [(''prover'', ''zk-prover'')], None, [])"
  unfolding fixture_get by code_simp

lemma fixture_loaded: "\<exists>T. fc_load_topology (ctl_disk fixture_state) ''/topology.json'' (sha256_hex (canonical_bytes (JObj fixture_document))) = Inr T
   \<and> ft_candidate_id T = ''candidate-1'' \<and> ft_plan_sha256 T = replicate 64 CHR ''0'' \<and>
   ft_hosted_token T = ''sha256:'' @ replicate 64 CHR ''0'' \<and> ft_auth_token_sha256 T = sha256_hex fixture_token"
proof -
  have c: "topology_class fixture_document = Inr ''non-release-fixture''"
    by (simp add: topology_class_def fixture_get eq_int_def member_of_def text_matching_def Let_def)
  have h: "topology_hosts (jget fixture_document ''allowedHosts'') = Inr [''rpc-a'', ''rpc-b'']"
    unfolding fixture_get by code_simp
  have r: "topology_rpc (jget fixture_document ''rpcProviders'') [''rpc-a'', ''rpc-b''] = Inr (''http://rpc-a:8545'', ''http://rpc-b:8545'')"
    unfolding fixture_get by code_simp
  have t: "ctl_candidate ''candidate-1''" by code_simp
  show ?thesis
    by (simp add: fc_load_topology_def fixture_read c h r fixture_docker)
      (simp add: fixture_get text_matching_def t zeros_hex ctl_token_def topology_profiles_def object_of_def keys_def
       bounded_int_def release_complete_def Let_def)
qed

lemma fixture_secret: "fc_read_secret (ctl_disk fixture_state) ''/token'' (sha256_hex fixture_token) l True = Inr fixture_token"
proof -
  have f: "fs_follow (ctl_disk fixture_state) ''/token'' = Some (FFile 256 fixture_token)"
    "\<not> is_symlink (ctl_disk fixture_state) ''/token''"
    by (simp_all add: fs_follow_def is_symlink_def eval_nat_numeral fixture_state_def)
  have "length fixture_token \<le> 4096" "utf8_ok fixture_token" "py_strip fixture_token = fixture_token"
    "24 \<le> py_len fixture_token" "\<not> list_ex is_space fixture_token" "ctl_ephemeral_token fixture_token"
    by (simp_all add: fixture_token_def utf8_ok_ascii_Cons utf8_ok_ascii is_ascii_def code_def py_strip_def py_lstrip_def
        py_rstrip_def class_defs py_len_def ctl_ephemeral_token_def rep_match_def list_all_iff list_ex_iff)
  then show ?thesis
    by (simp add: fc_read_secret_def read_secret_def f is_file_def file_mode_def read_bytes_def Let_def)
qed

lemma fixture_receipt: "\<exists>r. fc_receipt_binding fixture_env T = Inr r"
proof -
  have "ctl_oci_digest (''a@sha256:'' @ replicate 64 CHR ''0'')" by code_simp
  then show ?thesis
    by (simp add: fc_receipt_binding_def fixture_env_def env_get_def zeros_hex Let_def)
qed

lemma fixture_built:
  obtains K where "fst (fc_build_controller obliging_platform fixture_env fixture_state) = Inr K"
proof -
  obtain T where T: "fc_load_topology (ctl_disk fixture_state) ''/topology.json'' (sha256_hex (canonical_bytes (JObj fixture_document))) = Inr T"
    "ft_candidate_id T = ''candidate-1''" "ft_plan_sha256 T = replicate 64 CHR ''0''"
    "ft_hosted_token T = ''sha256:'' @ replicate 64 CHR ''0''" "ft_auth_token_sha256 T = sha256_hex fixture_token"
    using fixture_loaded by blast
  obtain r where r: "fc_receipt_binding fixture_env T = Inr r" using fixture_receipt by blast
  have env: "env_get fixture_env ''FAULT_CONTROL_TOPOLOGY_FILE'' [] = ''/topology.json''"
    "env_get fixture_env ''FAULT_CONTROL_TOPOLOGY_SHA256'' [] = sha256_hex (canonical_bytes (JObj fixture_document))"
    "env_get fixture_env ''FAULT_CONTROL_TOKEN_FILE'' [] = ''/token''"
    "env_get fixture_env ''FAULT_CONTROL_JOURNAL_DIR'' ''/journal'' = ''/journal''"
    "fixture_env ''FAULT_CONTROL_CANDIDATE_ID'' = Some ''candidate-1''"
    "fixture_env ''FAULT_CONTROL_PLAN_SHA256'' = Some (replicate 64 CHR ''0'')"
    "fixture_env ''FAULT_CONTROL_HOSTED_INTEGRATION_TOKEN'' = Some (''sha256:'' @ replicate 64 CHR ''0'')"
    by (simp_all add: fixture_env_def env_get_def)
  have root: "py_path ''/journal'' = ''/journal''" by code_simp
  have init: "journal_init obliging_platform ''FAULT_CONTROL_JOURNAL_DIR'' ''fault journal'' ''/journal'' fixture_state =
      (Inr (), fixture_state)"
    by (simp add: journal_init_def bnd_def seqc_def gets_def raise_if_def ret_def is_symlink_def is_dir_def fs_follow_def
        eval_nat_numeral fixture_state_def empty_control_def path_join_def obliging_platform_def)
  show thesis
    by (rule that) (simp add: fc_build_controller_def bnd_def gets_def lift_res_def env T r environment_is_def
      fixture_secret root init seqc_def ret_def Let_def)
qed

end
