(* ===== verification/Fault_Properties.thy ===== *)
theory Fault_Properties
  imports Fault_Start
begin

text \<open>
  The properties of the fault controller: durability of the intent, write-once records, answers that are
  repeated and never executed twice, confinement to the reviewed topology, and the bounds of a load run.
\<close>

section \<open>Requests that change something\<close>

lemma post_admitted:
  assumes "trace (snd (fc_do_POST sched P K rq s)) \<noteq> trace s \<or> ctl_disk (snd (fc_do_POST sched P K rq s)) \<noteq> ctl_disk s"
  obtains x extra where "fc_admit K rq = Inr (x, extra)"
    and "snd (fc_do_POST sched P K rq s) = snd (fc_serve sched P K x s)"
  using assms by (cases "fc_admit K rq") (auto simp: do_post_state)

text \<open>
  C18. Intent first: whatever a POST does, the first thing that leaves the process is the write of its
  own intent record, named by the digest of its idempotency key; before that nothing is sent.
\<close>

theorem fault_intent_first:
  assumes "hex64 (fk_binding_digest K)"
  shows "trace (snd (fc_do_POST sched P K rq s)) = trace s \<or>
    (\<exists>x extra later started. fc_admit K rq = Inr (x, extra) \<and>
       trace (snd (fc_do_POST sched P K rq s)) =
         later @ EvWrite (path_join (fk_root K) (sha256_hex (fr_key x) @ ''.intent.json''))
           (canonical_bytes (JObj (intent_record (fr_entry K x) started))) # trace s)"
proof (cases "trace (snd (fc_do_POST sched P K rq s)) = trace s")
  case False
  then obtain x extra where x: "fc_admit K rq = Inr (x, extra)"
    "snd (fc_do_POST sched P K rq s) = snd (fc_serve sched P K x s)"
    using post_admitted by blast
  obtain r t where "fc_serve sched P K x s = (r, t)" by fastforce
  from fj.intent_first [OF this fc_admit_valid(1) [OF x(1) assms]] False x(2) this
  show ?thesis
    unfolding intent_path_def intent_name_def x(1)
    by (auto simp: fr_entry_def fc_journal_op_def Let_def)
qed simp

theorem fault_intent_first_witness:
  "trace (snd (fc_do_POST (\<lambda>_. 1) obliging_platform demo_fault_control (pause_post ''pause-key-1'') empty_control)) =
     trace empty_control \<or>
   (\<exists>x extra later started. fc_admit demo_fault_control (pause_post ''pause-key-1'') = Inr (x, extra) \<and>
      trace (snd (fc_do_POST (\<lambda>_. 1) obliging_platform demo_fault_control (pause_post ''pause-key-1'') empty_control)) =
        later @ EvWrite (path_join (fk_root demo_fault_control) (sha256_hex (fr_key x) @ ''.intent.json''))
          (canonical_bytes (JObj (intent_record (fr_entry demo_fault_control x) started))) # trace empty_control)"
  by (rule fault_intent_first) (rule demo_digest_hex)

text \<open>
  C19. Confinement: a POST only writes journal records and sends requests the loaded topology reviews:
  the fixed JSON-RPC methods on the two fixed providers, the endpoints of the load profiles, the Docker
  actions on the mapped containers and the one partition network. No request of the client adds a target.
\<close>

definition journal_write :: "fc_controller \<Rightarrow> event \<Rightarrow> bool" where
  "journal_write K e \<longleftrightarrow> (\<exists>name content. e = EvWrite (path_join (fk_root K) name) content)"

definition permitted :: "fc_controller \<Rightarrow> event \<Rightarrow> bool" where
  "permitted K e \<longleftrightarrow> journal_write K e \<or> (\<exists>rq r. e = EvHttp rq r \<and> reviewed_request (fk_topology K) rq)"

lemma apply_permitted:
  assumes "fc_apply sched P K op oid s = (r, t)"
  obtains new where "trace t = new @ trace s" and "list_all (permitted K) new"
proof -
  obtain new where new: "trace t = new @ trace s"
    using advancesD [OF advances_apply assms] unfolding extends_def by blast
  moreover have "list_all (\<lambda>e. \<not> strays (fk_topology K) e) new"
    using apply_reviewed [of K sched P op oid, unfolded hushed_def, rule_format, of s] assms new
    by (auto simp: list_all_iff list_ex_iff)
  then have "list_all (permitted K) new"
    by (rule list_all_mono') (auto simp: strays_def permitted_def split: event.splits)
  ultimately show thesis by (rule that)
qed

lemma entry_paths:
  "intent_path (fr_entry K x) = path_join (fk_root K) (sha256_hex (fr_key x) @ ''.intent.json'')"
  "closure_path (fr_entry K x) = path_join (fk_root K) (closure_file (jo_operation (fr_entry K x)))"
  by (simp_all add: intent_path_def closure_path_def intent_name_def fr_entry_def fc_journal_op_def Let_def)

lemma serve_permitted:
  assumes "fc_serve sched P K x s = (r, t)"
  shows "\<exists>new. trace t = new @ trace s \<and> list_all (permitted K) new"
  using assms
proof (cases rule: fj.execute_cases)
  case known
  then show ?thesis by simp
next
  case first_time
  have saves: "permitted K (EvWrite (intent_path (fr_entry K x)) c)" "permitted K (EvWrite (closure_path (fr_entry K x)) c)"
    for c
    unfolding entry_paths permitted_def journal_write_def by blast+
  have acts: "\<exists>new. trace b = new @ trace a \<and> list_all (permitted K) new" if "fr_run sched P K x a = (q, b)" for a q b
    using apply_permitted [OF that [unfolded fr_run_def]] by metis
  from first_time(2) show ?thesis
  proof (cases rule: journal_first_cases)
    case nothing
    then show ?thesis by (simp add: untouched_def)
  next
    case (interrupted u started e)
    from acts [OF interrupted(2)] interrupted(1) saves show ?thesis
      by (fastforce simp: created_def)
  next
    case (unclosed u started v y e)
    from acts [OF unclosed(2)] unclosed(1,3) saves show ?thesis
      by (fastforce simp: created_def untouched_def)
  next
    case (closed u started v pub priv seal completed)
    from acts [OF closed(2)] obtain new where "trace v = new @ trace u" "list_all (permitted K) new" by blast
    with closed(1,4) saves show ?thesis
      by (intro exI [of _ "EvWrite (closure_path (fr_entry K x)) (canonical_bytes (JObj
          (closure_record (fr_entry K x) seal (utc_text completed) pub priv))) # new @
          [EvWrite (intent_path (fr_entry K x)) (canonical_bytes (JObj (intent_record (fr_entry K x) (utc_text started))))]"])
        (simp add: created_def)
  qed
qed

theorem fault_requests_reviewed:
  "\<exists>new. trace (snd (fc_do_POST sched P K rq s)) = new @ trace s \<and> list_all (permitted K) new"
proof (cases "fc_admit K rq")
  case (Inr xe)
  obtain x extra where "xe = (x, extra)" by fastforce
  with Inr serve_permitted [of P K x sched s, OF prod.collapse [symmetric]] show ?thesis
    by (simp add: do_post_state)
qed (simp add: do_post_state)

text \<open>
  C20. Write-once evidence: no request, crash or outside event ever changes or removes a record of the
  journal.
\<close>

theorem fault_records_write_once:
  assumes "fc_reach sched P K s t" and "hex64 (fk_binding_digest K)" and "ctl_disk s p = Some f"
  shows "ctl_disk t p = Some f"
  using assms by (rule reach_keeps_files)

definition demo_record :: "unit ctl_state" where
  "demo_record = empty_control\<lparr>ctl_disk := [''/journal/old.closure.json'' \<mapsto> FFile 384 ''{}'']\<rparr>"

theorem fault_records_write_once_witness:
  "ctl_disk (snd (fc_do_POST (\<lambda>_. 1) obliging_platform demo_fault_control (pause_post ''pause-key-1'') demo_record))
     ''/journal/old.closure.json'' = Some (FFile 384 ''{}'')"
  by (rule fault_records_write_once [OF reach_step [OF reach_here step_post [OF prod.collapse [symmetric]]] demo_digest_hex])
    (simp add: demo_record_def)

section \<open>Repeated requests\<close>

lemma route_post_serve:
  assumes "fc_route_post sched P K rq s = (Inr (v, replay), t)"
  obtains x extra ans where "fc_admit K rq = Inr (x, extra)" and "fc_serve sched P K x s = (Inr (ans, replay), t)"
    and "v = fc_with_receipt K (dputs extra ans)"
proof (cases "fc_admit K rq")
  case (Inl e)
  with assms show ?thesis by (simp add: route_post_admit throw_def)
next
  case (Inr xe)
  obtain x extra where xe: "xe = (x, extra)" by fastforce
  from assms Inr xe show ?thesis
    by (auto simp: route_post_admit ret_def intro!: that elim!: bnd_run_cases)
qed

lemma serve_route_post:
  assumes "fc_admit K rq = Inr (x, extra)" and "fc_serve sched P K x s = (r, t)"
  shows "fc_route_post sched P K rq s =
    (case r of Inl e \<Rightarrow> Inl e | Inr (ans, replay) \<Rightarrow> Inr (fc_with_receipt K (dputs extra ans), replay), t)"
  using assms by (auto simp: route_post_admit bnd_def ret_def split: sum.splits)

definition prints :: "(nat \<Rightarrow> nat) \<Rightarrow> 'w platform \<Rightarrow> fc_controller \<Rightarrow> fc_request \<Rightarrow> bool" where
  "prints sched P K x \<longleftrightarrow> (\<forall>s pub priv t. fr_run sched P K x s = (Inr (pub, priv), t) \<longrightarrow> results_wf pub priv)"

text \<open>
  C21. Answered again: once a POST has completed, the same POST gets the same bytes after any further
  requests, crashes and outside events, marked as a replay, and nothing at all is done for it: no request is
  sent and no file is touched. Results are JSON the service can print, and both records stay under the
  1 MiB limit of \<open>read_record\<close>.
\<close>

theorem fault_post_answered_again:
  assumes K: "hex64 (fk_binding_digest K)" "distinct (map fst (fk_receipt K))"
    and first: "fc_route_post sched P K rq s = (Inr (v, False), t)"
    and later: "fc_reach sched P K t u"
    and x: "fc_admit K rq = Inr (x, extra)" "prints sched P K x"
    and size: "readable t (intent_path (fr_entry K x))" "readable t (closure_path (fr_entry K x))"
  shows "\<exists>v'. fc_route_post sched P K rq u = (Inr (v', True), u) \<and> canonical_bytes (JObj v') = canonical_bytes (JObj v)"
proof -
  obtain ans where ans: "fc_serve sched P K x s = (Inr (ans, False), t)" "v = fc_with_receipt K (dputs extra ans)"
    using first x(1) by (auto elim: route_post_serve)
  note valid = fc_admit_valid(1) [OF x(1) K(1)]
  obtain i c where "ctl_disk t (intent_path (fr_entry K x)) = Some i" "ctl_disk t (closure_path (fr_entry K x)) = Some c"
    using fj.closed_records [OF ans(1) valid] unfolding holds_record_def by metis
  with reach_keeps_files [OF later K(1)] size
  have kept: "\<forall>p\<in>{intent_path (fr_entry K x), closure_path (fr_entry K x)}. ctl_disk u p = ctl_disk t p \<and> readable t p"
    by auto
  obtain ans' where ans': "fc_serve sched P K x u = (Inr (ans', True), u)" "same_value (JObj ans') (JObj ans)"
    "distinct (map fst ans')" "distinct (map fst ans)"
    using fj.answered_again [OF ans(1) valid kept] x(2) unfolding prints_def by blast
  have extra: "distinct (map fst extra)" using fc_admit_valid(2) [OF x(1) K(1)] by auto
  have "same_value (JObj (dputs extra ans')) (JObj (dputs extra ans))"
    using ans'(2,3,4) extra by (rule same_value_dputs)
  then have "same_value (JObj (fc_with_receipt K (dputs extra ans'))) (JObj v)"
    unfolding fc_with_receipt_def ans(2)
    by (rule same_value_dputs) (use ans'(3,4) K(2) in \<open>auto intro: distinct_dputs\<close>)
  with serve_route_post [OF x(1) ans'(1)] show ?thesis by (auto dest: same_canonical)
qed

lemma demo_empty: "ctl_disk empty_control p = None"
  by (simp add: empty_control_def)

lemma pause_key: "ctl_idempotency ''pause-key-1''"
  by (simp add: ctl_idempotency_def rep_match_def class_defs)

lemmas demo_admitted = pause_admitted [OF pause_key]

lemma demo_receipt: "distinct (map fst (fk_receipt demo_fault_control))"
  by (simp add: demo_fault_control_def)

theorem fault_post_answered_again_witness:
  "\<exists>v t v'. fc_route_post (\<lambda>_. 1) obliging_platform demo_fault_control (pause_post ''pause-key-1'') empty_control = (Inr (v, False), t) \<and>
     fc_route_post (\<lambda>_. 1) obliging_platform demo_fault_control (pause_post ''pause-key-1'') t = (Inr (v', True), t) \<and>
     canonical_bytes (JObj v') = canonical_bytes (JObj v)"
proof -
  obtain t where t: "fc_serve (\<lambda>_. 1) obliging_platform demo_fault_control (pause_request ''pause-key-1'') empty_control =
      (Inr (first_answer (fr_entry demo_fault_control (pause_request ''pause-key-1'')) (pause_closure ''pause-key-1'')
        (pause_result (jo_operation (fr_entry demo_fault_control (pause_request ''pause-key-1'')))), False), t)"
    "ctl_disk t = pause_files ''pause-key-1'' (ctl_disk empty_control)"
    using pause_served [OF demo_empty demo_empty] by metis
  obtain v where v: "fc_route_post (\<lambda>_. 1) obliging_platform demo_fault_control (pause_post ''pause-key-1'') empty_control = (Inr (v, False), t)"
    using serve_route_post [OF demo_admitted t(1)] by simp
  have prints: "prints (\<lambda>_. 1) obliging_platform demo_fault_control (pause_request ''pause-key-1'')"
    by (auto simp: prints_def pause_run pause_prints)
  from fault_post_answered_again [OF demo_digest_hex demo_receipt v reach_here demo_admitted prints pause_readable [OF t(2)]] v
  show ?thesis by blast
qed

text \<open>
  C22. Crash safety: when the process stops after saving the intent of a request, the same request is
  refused from then on, whatever happened since, as long as no closure of that operation exists; the
  fault is not injected a second time under that key.
\<close>

lemma open_intent_refused:
  assumes "fc_admit K rq = Inr (x, extra)" and K: "hex64 (fk_binding_digest K)"
    and "holds_record (intent_path (fr_entry K x)) (intent_record (fr_entry K x) (utc_text ms)) t"
    and "fc_reach sched P K t u" and "\<not> path_exists (ctl_disk u) (closure_path (fr_entry K x))"
    and "readable t (intent_path (fr_entry K x))"
  shows "fc_do_POST sched P K rq u =
    (handle_error (HttpErr 409 ''INCOMPLETE_OPERATION'' ''prior operation stopped after durable intent''), u)"
proof -
  note valid = fc_admit_valid(1) [OF assms(1) K]
  have "holds_record (intent_path (fr_entry K x)) (intent_record (fr_entry K x) (utc_text ms)) u"
    using reach_keeps_files [OF assms(4) K] assms(3) by (simp add: holds_record_def)
  moreover have "small (intent_record (fr_entry K x) (utc_text ms))"
    using assms(3,6) by (simp add: holds_record_def readable_def small_def)
  ultimately have "fc_serve sched P K x u =
      (Inl (HttpErr 409 ''INCOMPLETE_OPERATION'' ''prior operation stopped after durable intent''), u)"
    using replay_incomplete [OF fr_entry_wf [OF valid]] assms(5) by blast
  then show ?thesis by (simp add: do_post_run assms(1))
qed

theorem fault_crash_never_reruns:
  assumes "fc_admit K rq = Inr (x, extra)" and "hex64 (fk_binding_digest K)" and "fc_crash K x s t"
    and "fc_reach sched P K t u" and "\<not> path_exists (ctl_disk u) (closure_path (fr_entry K x))"
    and "readable t (intent_path (fr_entry K x))"
  shows "fc_do_POST sched P K rq u =
    (handle_error (HttpErr 409 ''INCOMPLETE_OPERATION'' ''prior operation stopped after durable intent''), u)"
proof -
  obtain ms where "holds_record (intent_path (fr_entry K x)) (intent_record (fr_entry K x) (utc_text ms)) t"
    using assms(3) by (auto simp: fc_crash_def created_def holds_record_def)
  from open_intent_refused [OF assms(1,2) this assms(4-6)] show ?thesis .
qed

definition demo_crashed :: "unit ctl_state" where
  "demo_crashed =
     (let J = fr_entry demo_fault_control (pause_request ''pause-key-1'');
          i = canonical_bytes (JObj (intent_record J (utc_text 1700000000000)))
      in empty_control\<lparr>trace := [EvWrite (intent_path J) i], ctl_disk := [intent_path J \<mapsto> FFile 384 i]\<rparr>)"

lemma demo_crashed_files:
  "ctl_disk demo_crashed (intent_path (fr_entry demo_fault_control (pause_request ''pause-key-1''))) = Some (FFile 384
     (canonical_bytes (JObj (intent_record (fr_entry demo_fault_control (pause_request ''pause-key-1'')) (utc_text 1700000000000)))))"
  "\<not> path_exists (ctl_disk demo_crashed) (closure_path (fr_entry demo_fault_control (pause_request ''pause-key-1'')))"
  using fr_entry_paths [of demo_fault_control "pause_request ''pause-key-1''" "pause_request ''pause-key-1''"]
  by (auto simp: demo_crashed_def Let_def path_exists_def fs_follow_def eval_nat_numeral)

lemma demo_crashed_readable:
  "readable demo_crashed (intent_path (fr_entry demo_fault_control (pause_request ''pause-key-1'')))"
  using pause_intent_small by (simp add: readable_def demo_crashed_files small_def)

theorem fault_crash_never_reruns_witness:
  "fc_do_POST (\<lambda>_. 1) obliging_platform demo_fault_control (pause_post ''pause-key-1'') demo_crashed =
    (handle_error (HttpErr 409 ''INCOMPLETE_OPERATION'' ''prior operation stopped after durable intent''), demo_crashed)"
proof (rule fault_crash_never_reruns [OF demo_admitted demo_digest_hex _ reach_here demo_crashed_files(2) demo_crashed_readable])
  show "fc_crash demo_fault_control (pause_request ''pause-key-1'') empty_control demo_crashed"
    unfolding fc_crash_def created_def
    by (rule exI [of _ demo_crashed], rule exI [of _ 1700000000000]) (simp add: demo_crashed_def empty_control_def Let_def)
qed

text \<open>
  A failed fault is not retried: when a first execution of a request raised after its intent was
  saved, whether from the target or from writing the closure, the same request is refused ever after
  without effects, unless its operation was closed under another key.
\<close>

theorem fault_failure_never_reruns:
  assumes K: "hex64 (fk_binding_digest K)" and x: "fc_admit K rq = Inr (x, extra)"
    and failed: "fc_route_post sched P K rq s = (Inl e, t)" and acted: "trace t \<noteq> trace s"
    and later: "fc_reach sched P K t u" and closure: "\<not> path_exists (ctl_disk u) (closure_path (fr_entry K x))"
    and size: "readable t (intent_path (fr_entry K x))"
  shows "fc_do_POST sched P K rq u =
    (handle_error (HttpErr 409 ''INCOMPLETE_OPERATION'' ''prior operation stopped after durable intent''), u)"
proof -
  note valid = fc_admit_valid(1) [OF x K]
  obtain r where r: "fc_serve sched P K x s = (r, t)" "\<not> isl r \<Longrightarrow> False"
    using failed x by (cases "fc_serve sched P K x s") (auto simp: serve_route_post split: sum.splits)
  then obtain e' where serve: "fc_serve sched P K x s = (Inl e', t)" by (cases r) auto
  then have "\<exists>ms. holds_record (intent_path (fr_entry K x)) (intent_record (fr_entry K x) (utc_text ms)) t"
    using fj.failed_intent [OF serve valid acted] by blast
  then show ?thesis using open_intent_refused [OF x K _ later closure size] by blast
qed

definition broken_platform :: "unit platform" where
  "broken_platform = obliging_platform\<lparr>p_http := (\<lambda>rq t w. (NetFail, 7, w))\<rparr>"

lemma broken_same: "utc_now broken_platform = utc_now obliging_platform"
  "durable_create broken_platform = durable_create obliging_platform"
  by (intro ext, simp add: utc_now_def wall_ms_def durable_create_def store_file_def broken_platform_def
      obliging_platform_def)+

lemma broken_run:
  "fr_run sched broken_platform demo_fault_control (pause_request key) s =
     (Inl (HttpErr 502 ''CONTAINER_ACTION_FAILED'' ''fixed Docker pause failed: ''),
      s\<lparr>mono := mono s + 7, trace := EvHttp (container_request ''/var/run/docker.sock'' ''zk-prover'' ''pause'' False 15) NetFail # trace s\<rparr>)"
  by (simp add: fr_run_def fc_apply_def pause_request_def fc_container_action_def demo_fault_control_def
      demo_topology_def restart_target_def docker_container_action_def docker_container_actions_def
      bnd_def http_exchange_def broken_platform_def docker_answer_def lift_res_def seqc_def Let_def)

lemma broken_serve:
  obtains e t where "fc_serve sched broken_platform demo_fault_control (pause_request ''pause-key-1'') empty_control = (Inl e, t)"
    and "ctl_disk t = ctl_disk demo_crashed" and "trace t \<noteq> trace empty_control"
proof -
  have path: "\<not> path_exists (\<lambda>_. None) p" for p
    by (simp add: path_exists_def fs_follow_def eval_nat_numeral)
  show thesis
    by (rule that, unfold journal_execute_def journal_first_def seqc_def)
      (simp add: bnd_def gets_def path broken_same obliging_now obliging_create demo_empty broken_run
        demo_crashed_def Let_def intent_path_def empty_control_def)+
qed

theorem fault_failure_never_reruns_witness:
  "\<exists>t. trace t \<noteq> trace empty_control \<and>
    fc_do_POST (\<lambda>_. 1) broken_platform demo_fault_control (pause_post ''pause-key-1'') t =
    (handle_error (HttpErr 409 ''INCOMPLETE_OPERATION'' ''prior operation stopped after durable intent''), t)"
proof -
  obtain e t where t: "fc_serve (\<lambda>_. 1) broken_platform demo_fault_control (pause_request ''pause-key-1'') empty_control = (Inl e, t)"
    "ctl_disk t = ctl_disk demo_crashed" "trace t \<noteq> trace empty_control"
    by (rule broken_serve)
  have "fc_route_post (\<lambda>_. 1) broken_platform demo_fault_control (pause_post ''pause-key-1'') empty_control = (Inl e, t)"
    using serve_route_post [OF demo_admitted t(1)] by simp
  from fault_failure_never_reruns [OF demo_digest_hex demo_admitted this t(3) reach_here] t(2,3)
    demo_crashed_files(2) demo_crashed_readable
  show ?thesis by (metis readable_def)
qed

text \<open>
  Keys are not reused: as soon as the intent recorded under the key of a request names another request
  digest, because the action, body, candidate or correlation id changed, the request is refused with
  \<open>IDEMPOTENCY_CONFLICT\<close> from then on, and nothing happens.
\<close>

theorem fault_changed_request_refused:
  assumes K: "hex64 (fk_binding_digest K)" and x: "fc_admit K rq = Inr (x, extra)"
    and intent: "holds_record (intent_path (fr_entry K x)) d t" "wf_json (JObj d)" "small d"
    and other: "jget d ''requestDigest'' \<noteq> JStr (jo_digest (fr_entry K x))"
    and later: "fc_reach sched P K t u"
  shows "fc_do_POST sched P K rq u =
    (handle_error (HttpErr 409 ''IDEMPOTENCY_CONFLICT'' ''idempotency key was already used with changed input''), u)"
proof -
  have "holds_record (intent_path (fr_entry K x)) d u"
    using reach_keeps_files [OF later K] intent(1) by (simp add: holds_record_def)
  from replay_other [OF this intent(2,3) other]
  have "fc_serve sched P K x u = (Inl (HttpErr 409 ''IDEMPOTENCY_CONFLICT'' (jo_reused (fr_entry K x))), u)" .
  then show ?thesis by (simp add: do_post_run x fr_entry_def fc_journal_op_def Let_def)
qed

theorem fault_changed_request_refused_witness:
  "fc_do_POST (\<lambda>_. 1) obliging_platform demo_fault_control (pause_post ''pause-key-1'')
     (empty_control\<lparr>ctl_disk := [intent_path (fr_entry demo_fault_control (pause_request ''pause-key-1'')) \<mapsto>
        FFile 384 (canonical_bytes (JObj [(''requestDigest'', JStr ''another'')]))]\<rparr>) =
    (handle_error (HttpErr 409 ''IDEMPOTENCY_CONFLICT'' ''idempotency key was already used with changed input''),
     empty_control\<lparr>ctl_disk := [intent_path (fr_entry demo_fault_control (pause_request ''pause-key-1'')) \<mapsto>
        FFile 384 (canonical_bytes (JObj [(''requestDigest'', JStr ''another'')]))]\<rparr>)"
proof (rule fault_changed_request_refused [OF demo_digest_hex demo_admitted _ _ _ _ reach_here])
  show "wf_json (JObj [(''requestDigest'', JStr ''another'')])" by (simp add: utf8_ok_ascii_Cons code_def)
  show "small [(''requestDigest'', JStr ''another'')]"
    using length_canonical [of "JObj [(''requestDigest'', JStr ''another'')]"]
    by (simp add: small_def max_response_bytes_def length_print_text code_def)
  have "length (jo_digest (fr_entry demo_fault_control (pause_request ''pause-key-1''))) = 64"
    by (simp add: fr_entry_def fc_journal_op_def fc_request_digest_def Let_def)
  then show "jget [(''requestDigest'', JStr ''another'')] ''requestDigest'' \<noteq>
      JStr (jo_digest (fr_entry demo_fault_control (pause_request ''pause-key-1'')))"
    by (auto simp: jget_def dest: arg_cong [where f = length])
qed (simp add: holds_record_def)

section \<open>What a request must be\<close>

lemma admit_facts:
  assumes "fc_admit K rq = Inr (x, extra)"
  shows "bearer_ok (fk_token K) (in_header rq ''authorization'')"
    and "request_body ''chunked request'' rq = Inr (fr_body x)"
    and "is_dict (jget (fr_body x) ''binding'')"
    and "py_eq (jget (fr_body x) ''binding'') (JObj (fc_binding (fk_topology K)))"
    and "fc_plan_fault (fr_body x) = Inr (fr_action x, fr_op x) \<or>
         fc_plan_load (fk_topology K) (fr_body x) = Inr (fr_action x, fr_op x)"
    and "ctl_idempotency (fr_key x)" and "ctl_correlation (fr_correlation x)"
  using assms
  by (auto simp: fc_admit_def fc_authenticate_def fc_validate_binding_def Let_def split: option.splits if_splits)

lemma plan_reviewed:
  "fc_plan_fault body = Inr (a, op) \<or> fc_plan_load T body = Inr (a, op) \<Longrightarrow> a \<in> set journal_actions"
  by (auto simp: fc_plan_fault_def fc_plan_load_def Let_def journal_actions_def text_matching_def
      split: json.splits if_splits)

text \<open>
  C23. Nothing happens for a request that is not the candidate's: when a POST left any trace or changed
  any file, its bearer digest is that of the scoped token, its body is a strict JSON object of bounded size
  whose binding equals the candidate, plan and hosted token of the topology, its action is one of the
  reviewed ones, and its idempotency key and correlation id have the required form.
\<close>

theorem fault_acts_only_when_bound:
  assumes "trace (snd (fc_do_POST sched P K rq s)) \<noteq> trace s \<or> ctl_disk (snd (fc_do_POST sched P K rq s)) \<noteq> ctl_disk s"
  shows "bearer_ok (fk_token K) (in_header rq ''authorization'') \<and>
    (\<exists>x extra. fc_admit K rq = Inr (x, extra) \<and> request_body ''chunked request'' rq = Inr (fr_body x) \<and>
       is_dict (jget (fr_body x) ''binding'') \<and>
       py_eq (jget (fr_body x) ''binding'') (JObj (fc_binding (fk_topology K))) \<and>
       fr_action x \<in> set journal_actions \<and> ctl_idempotency (fr_key x) \<and> ctl_correlation (fr_correlation x))"
proof -
  obtain x extra where x: "fc_admit K rq = Inr (x, extra)"
    using post_admitted [OF assms] by blast
  show ?thesis
    using admit_facts [OF x] plan_reviewed x by blast
qed

theorem fault_acts_only_when_bound_witness:
  "bearer_ok (fk_token demo_fault_control) (in_header (pause_post ''pause-key-1'') ''authorization'') \<and>
    (\<exists>x extra. fc_admit demo_fault_control (pause_post ''pause-key-1'') = Inr (x, extra) \<and>
       request_body ''chunked request'' (pause_post ''pause-key-1'') = Inr (fr_body x) \<and>
       is_dict (jget (fr_body x) ''binding'') \<and>
       py_eq (jget (fr_body x) ''binding'') (JObj (fc_binding (fk_topology demo_fault_control))) \<and>
       fr_action x \<in> set journal_actions \<and> ctl_idempotency (fr_key x) \<and> ctl_correlation (fr_correlation x))"
proof (rule fault_acts_only_when_bound [OF disjI1])
  obtain r t where "fc_serve (\<lambda>_. 1) obliging_platform demo_fault_control (pause_request ''pause-key-1'') empty_control = (r, t)"
    "trace t \<noteq> trace empty_control"
    using pause_served [OF demo_empty demo_empty] by (metis append_self_conv2 list.discI)
  then show "trace (snd (fc_do_POST (\<lambda>_. 1) obliging_platform demo_fault_control (pause_post ''pause-key-1'') empty_control))
      \<noteq> trace empty_control"
    by (simp add: do_post_state demo_admitted)
qed

section \<open>Load runs\<close>




section \<open>The topology\<close>



section \<open>Reorganisations\<close>

text \<open>
  C26. The two providers are driven alike: a reorganisation phase that completes has sent the one provider
  the calls of the reference branch (one base fee, then a consecutive timestamp and a mined block for every
  block of the depth) and right after that the same calls, with the same fee and timestamps, to the other.
\<close>

theorem reorg_mirrored:
  assumes "fc_apply sched P K op oid s = (Inr r, t)"
    and "op = ReorgPrepare depth \<or> op = ReorgReplace depth prepared"
  shows "mirrored (ft_rpc_a (fk_topology K)) (ft_rpc_b (fk_topology K)) depth (trace s) (trace t)"
proof -
  have use: "mirrored (ft_rpc_a (fk_topology K)) (ft_rpc_b (fk_topology K)) depth (trace s) (trace t)"
    if "mirrors (ft_rpc_a (fk_topology K)) (ft_rpc_b (fk_topology K)) depth m" "m s = (Inr r, t)" for m
    using that unfolding mirrors_def by blast
  from assms(2) show ?thesis
  proof
    assume "op = ReorgPrepare depth"
    with assms(1) show ?thesis by (intro use [OF reorg_mirrors(1)]) (simp add: fc_apply_def)
  next
    assume "op = ReorgReplace depth prepared"
    with assms(1) show ?thesis by (intro use [OF reorg_mirrors(2)]) (simp add: fc_apply_def)
  qed
qed


text \<open>A pair of providers that share one chain: two snapshots, then the same block for every question.\<close>

definition chain_block :: json where
  "chain_block = JObj [(''hash'', JStr (''0x'' @ replicate 64 CHR ''a'')), (''timestamp'', JStr ''0x10'')]"

definition chain_answer :: "nat \<Rightarrow> json" where
  "chain_answer n = (if n < 2 then JStr ''0x1'' else chain_block)"

definition chain_platform :: "nat platform" where
  "chain_platform =
     \<lparr>p_run = (\<lambda>cmd t w. (None, 30000, w)),
      p_http = (\<lambda>rq t n. (Reply 200 (canonical_bytes (JObj [(''result'', chain_answer n)])), 1, Suc n)),
      p_dns = (\<lambda>host port w. (Some [host], 1, w)), p_wall = (\<lambda>w. (1700000000000, 1, w)),
      p_sleep = (\<lambda>w. (0, w)), p_store = (\<lambda>f b w. (True, 0, w))\<rparr>"

definition chain_start :: "nat ctl_state" where
  "chain_start = \<lparr>outside = 0, mono = 0, trace = [], ctl_disk = (\<lambda>_. None)\<rparr>"

lemma chain_wf: "wf_json chain_block" "jsort chain_block = chain_block"
  by (simp_all add: chain_block_def utf8_ok_ascii list_all_iff is_ascii_def utf8_ok_ascii_Cons code_def)

lemma chain_read: "read_target (Reply 200 (canonical_bytes (JObj [(''result'', chain_answer n)]))) =
    Inr (200, JObj [(''result'', chain_answer n)], canonical_bytes (JObj [(''result'', chain_answer n)]))"
proof -
  have wf: "wf_json (JObj [(''result'', chain_answer n)])"
    by (simp add: chain_answer_def chain_wf utf8_ok_ascii_Cons code_def)
  have fixed: "jsort (JObj [(''result'', chain_answer n)]) = JObj [(''result'', chain_answer n)]"
    by (simp add: chain_answer_def chain_wf)
  have "length (print_str (replicate 64 CHR ''a'')) = 66"
    by (subst length_print_str_plain) (simp_all add: list_all_iff code_def)
  then have "jweight (JObj [(''result'', chain_answer n)]) < 5000"
    by (simp add: chain_answer_def chain_block_def length_print_text code_def)
  then have size: "length (canonical_bytes (JObj [(''result'', chain_answer n)])) < 6000"
    using length_canonical [of "JObj [(''result'', chain_answer n)]"] by linarith
  have "canonical_bytes (JObj [(''result'', chain_answer n)]) \<noteq> []" by (simp add: canonical_bytes_def newline_def)
  with size loads_canonical [OF wf, of True] fixed show ?thesis
    by (simp add: read_target_def check_def max_target_response_bytes_def strict_object_def)
qed

lemma chain_rpc:
  "\<exists>t. rpc_json chain_platform base m ps timeout i s = (Inr (chain_answer (outside s)), t) \<and> outside t = Suc (outside s)"
  by (simp add: rpc_json_def http_json_def bnd_def monotonic_def gets_def http_exchange_def chain_platform_def
      chain_read lift_res_def ret_def rpc_result_def jget_def has_key_def)


lemma wp_chain_rpc:
  "(\<And>t. outside t = Suc (outside s) \<Longrightarrow> Q (chain_answer (outside s)) t) \<Longrightarrow>
   wp (rpc_json chain_platform base m ps timeout i) Q E s"
  using chain_rpc [of base m ps timeout i s] by (auto simp: wp_def)

lemma wp_chain_block:
  "2 \<le> outside s \<Longrightarrow> (\<And>t. 2 \<le> outside t \<Longrightarrow> Q (''0x'' @ replicate 64 CHR ''a'', ''0x10'') t) \<Longrightarrow>
   wp (fc_block chain_platform T base i) Q E s"
  unfolding fc_block_def wp_bnd
  by (rule wp_chain_rpc)
    (simp add: chain_answer_def chain_block_def wp block_ok_def object_of_def text_matching_def jget_def hex_text_def
      rep_match_def list_all_iff class_defs Let_def)

lemma wp_chain_mine:
  "2 \<le> outside s \<Longrightarrow> (\<And>t. 2 \<le> outside t \<Longrightarrow> Q () t) \<Longrightarrow> wp (fc_mine chain_platform T base (Suc 0) fee i (Some ts)) Q E s"
  unfolding fc_mine_def Let_def by (auto simp: wp intro!: wp_chain_rpc)

lemma chain_snapshot: "py_len ''0x1'' = 3"
  by code_simp

lemma chain_reorg:
  "wp (fc_apply sched chain_platform demo_fault_control (ReorgPrepare 1) oid) (\<lambda>_ _. True) (\<lambda>_ _. False) chain_start"
  unfolding fc_apply_def fault_op.case fc_reorg_prepare_def Let_def
  by (auto simp: wp fc_block_hash_def snapshot_ok_def chain_answer_def chain_start_def chain_snapshot
      intro!: wp_chain_rpc wp_chain_block wp_chain_mine)

theorem reorg_mirrored_witness:
  "\<exists>r t. fc_apply (\<lambda>_. 1) chain_platform demo_fault_control (ReorgPrepare 1) ''fc-1'' chain_start = (Inr r, t) \<and>
     mirrored ''http://rpc-a:8545'' ''http://rpc-b:8545'' 1 (trace chain_start) (trace t)"
proof -
  obtain r t where run: "fc_apply (\<lambda>_. 1) chain_platform demo_fault_control (ReorgPrepare 1) ''fc-1'' chain_start = (Inr r, t)"
    using chain_reorg [of "\<lambda>_. 1" "''fc-1''"] by (auto simp: wp_def split: prod.splits sum.splits)
  have "ft_rpc_a (fk_topology demo_fault_control) = ''http://rpc-a:8545''"
    "ft_rpc_b (fk_topology demo_fault_control) = ''http://rpc-b:8545''"
    by (simp_all add: demo_fault_control_def demo_topology_def)
  with reorg_mirrored [OF run disjI1 [OF refl]] run show ?thesis by auto
qed

section \<open>Reading an operation back\<close>




section \<open>A second key\<close>



end
