(* ===== verification/Backup_Topology.thy ===== *)
theory Backup_Topology
  imports Control
begin

text \<open>
  The hash-bound topology of \<open>backup-restore-control/backup_restore_control.py\<close>: the source, the
  independent backup store, the encryption key and the fresh restore targets, with every rejection of
  \<open>load_topology\<close> in the order of the code.
\<close>

section \<open>Limits and patterns\<close>

definition max_process_output_bytes :: nat where "max_process_output_bytes = 4194304"
definition max_encrypt_bytes :: nat where "max_encrypt_bytes = 2147483648"

definition bk_key_id :: "string \<Rightarrow> bool" where
  "bk_key_id s \<longleftrightarrow> rep_match is_lower_hex 32 32 s"

definition bk_safe_id :: "string \<Rightarrow> bool" where
  "bk_safe_id s \<longleftrightarrow> head_rep_match is_lower (plus_of is_lower_alnum ''._-'') 2 79 s"

definition bk_db_name :: "string \<Rightarrow> bool" where
  "bk_db_name s \<longleftrightarrow> head_rep_match (plus_of is_alpha ''_'') (plus_of is_alnum ''_-'') 0 62 s"

text \<open>\<open>[a-z0-9][a-z0-9.-]{1,61}[a-z0-9]\<close>.\<close>

definition bk_bucket :: "string \<Rightarrow> bool" where
  "bk_bucket s \<longleftrightarrow>
     rep_match (plus_of is_lower_alnum ''.-'') 3 63 s \<and> is_lower_alnum (hd s) \<and> is_lower_alnum (last s)"

definition aead_algorithm :: string where "aead_algorithm = ''AES-256-GCM''"
definition key_id_label :: string where "key_id_label = ''zkdeal-backup-key-id-v1''"
definition nonce_bytes :: nat where "nonce_bytes = 12"
definition tag_bytes :: nat where "tag_bytes = 16"

section \<open>Key fingerprint\<close>

definition key_fingerprint :: "string \<Rightarrow> string" where
  "key_fingerprint key_hex = take 32 (hmac_sha256_hex (from_hex key_hex) key_id_label)"

section \<open>Records\<close>

record postgres_target =
  pt_host :: string
  pt_port :: int
  pt_database :: string
  pt_user :: string
  pt_password :: string

definition pt_identity :: "postgres_target \<Rightarrow> string \<times> int \<times> string" where
  "pt_identity t = (pt_host t, pt_port t, pt_database t)"

record minio_target =
  mt_endpoint :: string
  mt_access_key :: string
  mt_secret_key :: string
  mt_bucket :: string

definition mt_credential_identity :: "minio_target \<Rightarrow> string \<times> string \<times> string" where
  "mt_credential_identity t = (mt_endpoint t, mt_access_key t, mt_secret_key t)"

record restore_target =
  rt_postgres :: postgres_target
  rt_minio :: minio_target

record bk_topology =
  bt_classification :: string
  bt_candidate_id :: string
  bt_plan_sha256 :: string
  bt_hosted_token :: string
  bt_scoped_token_sha256 :: string
  bt_source_postgres :: postgres_target
  bt_source_minio :: minio_target
  bt_backup_store :: minio_target
  bt_encryption_key :: string
  bt_encryption_key_id :: string
  bt_restore_targets :: "(string \<times> restore_target) list"
  bt_timeout_seconds :: nat
  bt_topology_sha256 :: string

definition bk_binding :: "bk_topology \<Rightarrow> dict" where
  "bk_binding T =
     [(''candidateId'', JStr (bt_candidate_id T)), (''planSha256'', JStr (bt_plan_sha256 T)),
      (''hostedIntegrationToken'', JStr (bt_hosted_token T))]"

section \<open>Secrets and endpoints\<close>

definition bk_read_secret :: "files \<Rightarrow> json \<Rightarrow> json \<Rightarrow> string \<Rightarrow> bool \<Rightarrow> exn + string" where
  "bk_read_secret fs path_value expected_hash label ephemeral =
     (let e = config_error (label @ '' binding is malformed'')
      in rbind (text_matching (\<lambda>_. True) path_value e) (\<lambda>path.
         rbind (text_matching (\<lambda>_. True) expected_hash e) (\<lambda>expected.
         read_secret fs 8 '' is empty or contains whitespace'' path expected label ephemeral)))"

definition normalized_endpoint :: "json \<Rightarrow> string list \<Rightarrow> string \<Rightarrow> exn + string" where
  "normalized_endpoint v allowed_hosts label =
     fixed_url v allowed_hosts label '' is not a bounded endpoint'' '' is outside the fixed topology''"

definition parse_postgres :: "files \<Rightarrow> json \<Rightarrow> string list \<Rightarrow> string \<Rightarrow> exn + postgres_target" where
  "parse_postgres fs v allowed_hosts label =
     rbind (object_of v (config_error (label @ '' must be an object''))) (\<lambda>d.
     rbind (exact_keys d [''host'', ''port'', ''database'', ''user'', ''passwordFile'', ''passwordSha256''] label) (\<lambda>_.
     rbind (text_matching (\<lambda>h. ctl_host h \<and> h \<in> set allowed_hosts) (jget d ''host'')
             (config_error (label @ ''.host is outside the topology''))) (\<lambda>host.
     rbind (text_matching bk_db_name (jget d ''database'') (config_error (label @ ''.database is malformed''))) (\<lambda>database.
     rbind (text_matching bk_db_name (jget d ''user'') (config_error (label @ ''.user is malformed''))) (\<lambda>user.
     rbind (bounded_int (jget d ''port'') (label @ ''.port'') 1 65535) (\<lambda>port.
     rbind (bk_read_secret fs (jget d ''passwordFile'') (jget d ''passwordSha256'') (label @ ''.passwordFile'') False) (\<lambda>password.
     Inr \<lparr>pt_host = host, pt_port = port, pt_database = database, pt_user = user, pt_password = password\<rparr>)))))))"

definition parse_minio :: "files \<Rightarrow> json \<Rightarrow> string list \<Rightarrow> string \<Rightarrow> exn + minio_target" where
  "parse_minio fs v allowed_hosts label =
     rbind (object_of v (config_error (label @ '' must be an object''))) (\<lambda>d.
     rbind (exact_keys d
             [''endpoint'', ''accessKeyFile'', ''accessKeySha256'', ''secretKeyFile'', ''secretKeySha256'', ''bucket''] label) (\<lambda>_.
     rbind (text_matching bk_bucket (jget d ''bucket'') (config_error (label @ ''.bucket is malformed''))) (\<lambda>bucket.
     rbind (normalized_endpoint (jget d ''endpoint'') allowed_hosts (label @ ''.endpoint'')) (\<lambda>endpoint.
     rbind (bk_read_secret fs (jget d ''accessKeyFile'') (jget d ''accessKeySha256'') (label @ ''.accessKeyFile'') False) (\<lambda>access_key.
     rbind (bk_read_secret fs (jget d ''secretKeyFile'') (jget d ''secretKeySha256'') (label @ ''.secretKeyFile'') False) (\<lambda>secret_key.
     Inr \<lparr>mt_endpoint = endpoint, mt_access_key = access_key, mt_secret_key = secret_key, mt_bucket = bucket\<rparr>))))))"

section \<open>Loading\<close>

definition bk_document :: "files \<Rightarrow> string \<Rightarrow> string \<Rightarrow> exn + (dict \<times> string)" where
  "bk_document fs path expected =
     rbind (check (\<not> is_symlink fs path \<and> is_file fs path)
             (config_error ''BACKUP_RESTORE_TOPOLOGY_FILE is absent or unsafe'')) (\<lambda>_.
     rbind (read_bytes fs path) (\<lambda>raw.
     rbind (check (hex64 expected \<and> sha256_hex raw = expected)
             (config_error ''backup topology hash differs'')) (\<lambda>_.
     rbind (strict_object raw ''backup topology'' max_response_bytes) (\<lambda>value.
     rbind (exact_keys value
             [''schemaVersion'', ''classification'', ''candidateId'', ''planSha256'', ''hostedIntegrationToken'',
              ''backupRestoreTokenSha256'', ''allowedHosts'', ''source'', ''backupStore'', ''encryption'',
              ''freshTargets'', ''processTimeoutSeconds''] ''backup topology'') (\<lambda>_.
     Inr (value, sha256_hex raw))))))"

definition bk_class :: "dict \<Rightarrow> exn + string" where
  "bk_class value =
     (let e = config_error ''backup topology schema/classification is invalid''
      in rbind (check (eq_int (jget value ''schemaVersion'') 1) e) (\<lambda>_.
         rbind (member_of (jget value ''classification'') [''release-candidate'', ''non-release-fixture'']) (\<lambda>ok.
         rbind (check ok e) (\<lambda>_.
         text_matching (\<lambda>_. True) (jget value ''classification'') e))))"

definition bk_identifiers :: "dict \<Rightarrow> exn + (string \<times> string \<times> string \<times> string)" where
  "bk_identifiers value =
     rbind (text_matching ctl_candidate (jget value ''candidateId'')
             (config_error ''backup topology candidateId is malformed'')) (\<lambda>candidate.
     rbind (text_matching hex64 (jget value ''planSha256'')
             (config_error ''backup topology planSha256 is malformed'')) (\<lambda>plan.
     rbind (text_matching ctl_token (jget value ''hostedIntegrationToken'')
             (config_error ''backup topology hostedIntegrationToken is malformed'')) (\<lambda>hosted.
     rbind (text_matching hex64 (jget value ''backupRestoreTokenSha256'')
             (config_error ''backup topology scoped token hash is malformed'')) (\<lambda>token_hash.
     Inr (candidate, plan, hosted, token_hash)))))"

text \<open>\<open>set(hosts)\<close> needs hashable items; a repeated and a malformed host are the same rejection.\<close>

definition bk_hosts :: "json \<Rightarrow> exn + string list" where
  "bk_hosts v =
     (let e = config_error ''backup topology allowedHosts is invalid''
      in case v of
           JArr hosts \<Rightarrow>
             rbind (check (2 \<le> length hosts \<and> length hosts \<le> 32) e) (\<lambda>_.
             rbind (check (list_all hashable hosts) TypeErr) (\<lambda>_.
             rbind (rmap (\<lambda>h. text_matching ctl_host h e) hosts) (\<lambda>names.
             rbind (check (distinct names) e) (\<lambda>_. Inr names))))
         | _ \<Rightarrow> Inl e)"

definition bk_source :: "files \<Rightarrow> json \<Rightarrow> string list \<Rightarrow> exn + (postgres_target \<times> minio_target)" where
  "bk_source fs v hosts =
     rbind (object_of v (config_error ''backup topology source must be an object'')) (\<lambda>source.
     rbind (exact_keys source [''postgres'', ''minio''] ''backup topology source'') (\<lambda>_.
     rbind (parse_postgres fs (jget source ''postgres'') hosts ''source.postgres'') (\<lambda>postgres.
     rbind (parse_minio fs (jget source ''minio'') hosts ''source.minio'') (\<lambda>minio.
     Inr (postgres, minio)))))"

definition bk_store :: "files \<Rightarrow> json \<Rightarrow> string list \<Rightarrow> minio_target \<Rightarrow> exn + minio_target" where
  "bk_store fs v hosts source =
     rbind (parse_minio fs v hosts ''backupStore'') (\<lambda>store.
     rbind (check (mt_endpoint store \<noteq> mt_endpoint source)
             (config_error ''backupStore endpoint must differ from the primary data MinIO'')) (\<lambda>_.
     rbind (check ((mt_access_key store, mt_secret_key store) \<noteq> (mt_access_key source, mt_secret_key source))
             (config_error ''backupStore credentials must differ from the primary data MinIO'')) (\<lambda>_.
     Inr store)))"

definition bk_encryption :: "files \<Rightarrow> json \<Rightarrow> exn + string" where
  "bk_encryption fs v =
     rbind (object_of v (config_error ''backup topology encryption must be an object'')) (\<lambda>encryption.
     rbind (exact_keys encryption [''algorithm'', ''keyFile'', ''keySha256''] ''backup topology encryption'') (\<lambda>_.
     rbind (check (eq_str (jget encryption ''algorithm'') aead_algorithm)
             (config_error (''backup encryption algorithm must be '' @ aead_algorithm))) (\<lambda>_.
     rbind (bk_read_secret fs (jget encryption ''keyFile'') (jget encryption ''keySha256'')
             ''backupStore.encryption.keyFile'' False) (\<lambda>key.
     rbind (check (hex64 key) (config_error ''backup encryption key must be 32 bytes of lowercase hexadecimal'')) (\<lambda>_.
     Inr key)))))"

definition bk_fresh_target ::
  "files \<Rightarrow> string list \<Rightarrow> postgres_target \<Rightarrow> minio_target \<Rightarrow> minio_target \<Rightarrow> string \<times> json \<Rightarrow>
   exn + (string \<times> restore_target)" where
  "bk_fresh_target fs hosts source_postgres source_minio store kv =
     (let name = fst kv; e = config_error ''fresh target name/value is malformed''
      in rbind (check (bk_safe_id name) e) (\<lambda>_.
         rbind (object_of (snd kv) e) (\<lambda>target.
         rbind (exact_keys target [''postgres'', ''minio''] (''fresh target '' @ name)) (\<lambda>_.
         rbind (parse_postgres fs (jget target ''postgres'') hosts (''freshTargets.'' @ name @ ''.postgres'')) (\<lambda>pg.
         rbind (parse_minio fs (jget target ''minio'') hosts (''freshTargets.'' @ name @ ''.minio'')) (\<lambda>minio.
         rbind (check (pt_identity pg \<noteq> pt_identity source_postgres)
                 (config_error ''fresh PostgreSQL target equals the source'')) (\<lambda>_.
         rbind (check (mt_endpoint minio \<noteq> mt_endpoint source_minio)
                 (config_error ''fresh MinIO target endpoint equals the source'')) (\<lambda>_.
         rbind (check (mt_endpoint minio \<noteq> mt_endpoint store)
                 (config_error ''fresh MinIO target endpoint equals the backup store'')) (\<lambda>_.
         Inr (name, \<lparr>rt_postgres = pg, rt_minio = minio\<rparr>))))))))))"

definition bk_fresh_targets ::
  "files \<Rightarrow> string list \<Rightarrow> postgres_target \<Rightarrow> minio_target \<Rightarrow> minio_target \<Rightarrow> json \<Rightarrow>
   exn + (string \<times> restore_target) list" where
  "bk_fresh_targets fs hosts source_postgres source_minio store v =
     (let e = config_error ''freshTargets must contain one through eight targets''
      in rbind (object_of v e) (\<lambda>targets.
         rbind (check (1 \<le> length targets \<and> length targets \<le> 8) e) (\<lambda>_.
         rmap (bk_fresh_target fs hosts source_postgres source_minio store) targets)))"

definition bk_load_topology :: "files \<Rightarrow> string \<Rightarrow> string \<Rightarrow> exn + bk_topology" where
  "bk_load_topology fs path expected =
     rbind (bk_document fs path expected) (\<lambda>(value, observed).
     rbind (bk_class value) (\<lambda>classification.
     rbind (bk_identifiers value) (\<lambda>(candidate, plan, hosted, token_hash).
     rbind (bk_hosts (jget value ''allowedHosts'')) (\<lambda>hosts.
     rbind (bk_source fs (jget value ''source'') hosts) (\<lambda>(source_postgres, source_minio).
     rbind (bk_store fs (jget value ''backupStore'') hosts source_minio) (\<lambda>store.
     rbind (bk_encryption fs (jget value ''encryption'')) (\<lambda>key.
     rbind (bk_fresh_targets fs hosts source_postgres source_minio store (jget value ''freshTargets'')) (\<lambda>targets.
     rbind (bounded_int (jget value ''processTimeoutSeconds'') ''processTimeoutSeconds'' 30 3600) (\<lambda>timeout.
     Inr \<lparr>bt_classification = classification, bt_candidate_id = candidate, bt_plan_sha256 = plan,
       bt_hosted_token = hosted, bt_scoped_token_sha256 = token_hash, bt_source_postgres = source_postgres,
       bt_source_minio = source_minio, bt_backup_store = store, bt_encryption_key = key,
       bt_encryption_key_id = key_fingerprint key, bt_restore_targets = targets,
       bt_timeout_seconds = nat timeout, bt_topology_sha256 = observed\<rparr>)))))))))"

section \<open>What an accepted topology guarantees\<close>

text \<open>
  The source, the backup store and every fresh target are apart, and what ends up in a command line is
  a plain name that no tool can take for a path.
\<close>

definition plain_name :: "string \<Rightarrow> bool" where
  "plain_name s \<longleftrightarrow> s \<noteq> [] \<and> CHR ''/'' \<notin> set s"

definition postgres_ok :: "postgres_target \<Rightarrow> bool" where
  "postgres_ok t \<longleftrightarrow> plain_name (pt_host t) \<and> plain_name (pt_database t) \<and> plain_name (pt_user t) \<and>
     1 \<le> pt_port t \<and> pt_port t \<le> 65535"

definition target_apart :: "bk_topology \<Rightarrow> restore_target \<Rightarrow> bool" where
  "target_apart T t \<longleftrightarrow>
     pt_identity (rt_postgres t) \<noteq> pt_identity (bt_source_postgres T) \<and>
     mt_endpoint (rt_minio t) \<noteq> mt_endpoint (bt_source_minio T) \<and>
     mt_endpoint (rt_minio t) \<noteq> mt_endpoint (bt_backup_store T) \<and>
     postgres_ok (rt_postgres t) \<and> plain_name (mt_bucket (rt_minio t))"

definition topology_apart :: "bk_topology \<Rightarrow> bool" where
  "topology_apart T \<longleftrightarrow>
     mt_endpoint (bt_backup_store T) \<noteq> mt_endpoint (bt_source_minio T) \<and>
     (mt_access_key (bt_backup_store T), mt_secret_key (bt_backup_store T)) \<noteq>
       (mt_access_key (bt_source_minio T), mt_secret_key (bt_source_minio T)) \<and>
     postgres_ok (bt_source_postgres T) \<and> plain_name (mt_bucket (bt_source_minio T)) \<and>
     plain_name (mt_bucket (bt_backup_store T)) \<and>
     hex64 (bt_encryption_key T) \<and> bt_encryption_key_id T = key_fingerprint (bt_encryption_key T) \<and>
     1 \<le> length (bt_restore_targets T) \<and> length (bt_restore_targets T) \<le> 8 \<and>
     list_all (\<lambda>(name, t). bk_safe_id name \<and> target_apart T t) (bt_restore_targets T) \<and>
     ctl_candidate (bt_candidate_id T) \<and> hex64 (bt_plan_sha256 T) \<and>
     30 \<le> bt_timeout_seconds T \<and> bt_timeout_seconds T \<le> 3600"

lemma db_name_plain: "bk_db_name s \<Longrightarrow> plain_name s"
  by (cases s) (auto simp: bk_db_name_def plain_name_def rep_match_def list_all_iff class_defs is_alpha_def)

lemma host_plain: "ctl_host s \<Longrightarrow> plain_name s"
  by (auto simp: ctl_host_def plain_name_def rep_match_def list_all_iff class_defs)

lemma bucket_plain: "bk_bucket s \<Longrightarrow> plain_name s"
  by (auto simp: bk_bucket_def plain_name_def rep_match_def list_all_iff class_defs)

lemma parse_postgres_ok: "parse_postgres fs v hosts l = Inr t \<Longrightarrow> postgres_ok t"
  by (auto simp: result_simps parse_postgres_def postgres_ok_def dest: db_name_plain host_plain)

lemma parse_minio_ok: "parse_minio fs v hosts l = Inr t \<Longrightarrow> plain_name (mt_bucket t)"
  by (auto simp: result_simps parse_minio_def dest: bucket_plain)

lemma fresh_target_ok:
  "bk_fresh_target fs hosts sp sm st kv = Inr (n, t) \<Longrightarrow>
   bk_safe_id n \<and> pt_identity (rt_postgres t) \<noteq> pt_identity sp \<and> mt_endpoint (rt_minio t) \<noteq> mt_endpoint sm \<and>
   mt_endpoint (rt_minio t) \<noteq> mt_endpoint st \<and> postgres_ok (rt_postgres t) \<and> plain_name (mt_bucket (rt_minio t))"
  by (auto simp: result_simps bk_fresh_target_def Let_def dest: parse_postgres_ok parse_minio_ok)

lemma fresh_targets_ok:
  assumes "bk_fresh_targets fs hosts sp sm st v = Inr ts"
  shows "1 \<le> length ts" and "length ts \<le> 8"
    and "(n, t) \<in> set ts \<Longrightarrow> bk_safe_id n \<and> pt_identity (rt_postgres t) \<noteq> pt_identity sp \<and>
      mt_endpoint (rt_minio t) \<noteq> mt_endpoint sm \<and> mt_endpoint (rt_minio t) \<noteq> mt_endpoint st \<and>
      postgres_ok (rt_postgres t) \<and> plain_name (mt_bucket (rt_minio t))"
proof -
  from assms obtain d where d: "1 \<le> length d" "length d \<le> 8" "rmap (bk_fresh_target fs hosts sp sm st) d = Inr ts"
    by (auto simp: bk_fresh_targets_def Let_def)
  from rmap_Inr_length [OF d(3)] d show "1 \<le> length ts" "length ts \<le> 8" by simp_all
  assume "(n, t) \<in> set ts"
  from rmap_Inr_all [OF d(3) this] show "bk_safe_id n \<and> pt_identity (rt_postgres t) \<noteq> pt_identity sp \<and>
      mt_endpoint (rt_minio t) \<noteq> mt_endpoint sm \<and> mt_endpoint (rt_minio t) \<noteq> mt_endpoint st \<and>
      postgres_ok (rt_postgres t) \<and> plain_name (mt_bucket (rt_minio t))"
    by (auto dest: fresh_target_ok)
qed

lemma load_topology_apart:
  assumes "bk_load_topology fs path expected = Inr T"
  shows "topology_apart T"
  using assms
  by (auto simp: result_simps bk_load_topology_def topology_apart_def target_apart_def bk_source_def bk_store_def
      bk_encryption_def bk_identifiers_def list_all_iff
      dest: parse_postgres_ok parse_minio_ok fresh_targets_ok split: prod.splits)

end
