(* ===== verification/PySystem.thy ===== *)
theory PySystem
  imports Platform
begin

text \<open>
  Text files read as lines, and commands with the environment they are started in: what the backup and
  restore controller and the release soak share of \<open>pathlib\<close> and \<open>subprocess\<close>.
\<close>

section \<open>Lines\<close>

text \<open>
  Universal newlines and \<open>splitlines\<close>: every line boundary of a decoded text as one newline. Beyond the
  ASCII ones these are U+0085, U+2028 and U+2029.
\<close>

definition two_byte_break :: string where "two_byte_break = utf8_encode 133"
definition three_byte_breaks :: "string list" where "three_byte_breaks = [utf8_encode 8232, utf8_encode 8233]"

fun unify_breaks :: "bool \<Rightarrow> string \<Rightarrow> string" where
  "unify_breaks after_cr [] = []"
| "unify_breaks after_cr (c # s) =
     (if code c = 10 \<and> after_cr then unify_breaks False s
      else if code c = 13 then newline @ unify_breaks True s
      else if code c \<in> {10, 11, 12, 28, 29, 30} then newline @ unify_breaks False s
      else if starts_with two_byte_break (c # s) then newline @ unify_breaks False (drop 1 s)
      else if list_ex (\<lambda>b. starts_with b (c # s)) three_byte_breaks then newline @ unify_breaks False (drop 2 s)
      else c # unify_breaks False s)"

lemma not_break: "code c < 128 \<Longrightarrow> \<not> starts_with two_byte_break (c # s)"
  "code c < 128 \<Longrightarrow> \<not> list_ex (\<lambda>b. starts_with b (c # s)) three_byte_breaks"
  by (auto simp: two_byte_break_def three_byte_breaks_def utf8_encode_def starts_with_iff code_char_of)

lemma unify_plain: "list_all (\<lambda>c. 32 \<le> code c \<and> code c < 128) s \<Longrightarrow> unify_breaks b s = s"
  by (induction s arbitrary: b) (simp_all add: not_break)

lemma unify_append: "list_all (\<lambda>c. 32 \<le> code c \<and> code c < 128) s \<Longrightarrow> unify_breaks False (s @ newline @ t) = s @ newline @ unify_breaks False t"
  by (induction s) (simp_all add: not_break newline_def code_char_of)

section \<open>Commands\<close>

text \<open>A started command is recorded with its environment, as \<open>env NAME=value ... command\<close> writes it.\<close>

definition tool_command :: "(string \<times> string) list \<Rightarrow> string list \<Rightarrow> string list" where
  "tool_command env cmd = map (\<lambda>(k, v). k @ ''='' @ v) env @ cmd"

end
