(* ===== verification/Backup_Artifacts.thy ===== *)
theory Backup_Artifacts
  imports Backup_Topology PySystem
begin

text \<open>
  The private workspace of a backup or restore operation and what is done in it: the checked tool runs,
  the normalised logical dump, the object manifest and bundle, and the AES-256-GCM envelope of
  \<open>backup_restore_control.py\<close>. The directory of an operation is new (\<open>mkdir\<close>), so the workspace is a
  value: the names below it with their nodes. The external tools, the cipher and the archive format are
  parameters.
\<close>

section \<open>Parameters\<close>

text \<open>
  \<open>bx_left\<close> is what a command that has just returned left at the destination its arguments name
  (\<open>[]\<close> for the destination itself, else a name below it). \<open>bx_unpack\<close> is the members a tar reader
  yields and whether it reached the end of the archive.
\<close>

record tar_member =
  tm_name :: string
  tm_regular :: bool
  tm_content :: "string option"

record 'w tools =
  bx_env :: environ
  bx_random :: "'w \<Rightarrow> string \<times> 'w"
  bx_seal :: "string \<Rightarrow> string \<Rightarrow> string \<Rightarrow> string \<Rightarrow> string"
  bx_open :: "string \<Rightarrow> string \<Rightarrow> string \<Rightarrow> string \<Rightarrow> string option"
  bx_left :: "string list \<Rightarrow> 'w \<Rightarrow> (string \<times> fs_node) list"
  bx_pack :: "(string \<times> string) list \<Rightarrow> string"
  bx_unpack :: "string \<Rightarrow> tar_member list \<times> bool"

definition hex_bytes :: "string \<Rightarrow> string" where
  "hex_bytes s = map char_of (from_hex s)"

definition urandom :: "'w tools \<Rightarrow> (('w, 'z) sys_scheme, string) comp" where
  "urandom X = (\<lambda>s. case bx_random X (outside s) of (b, w) \<Rightarrow> (Inr b, s\<lparr>outside := w\<rparr>))"

section \<open>Workspace\<close>

type_synonym work = "(string \<times> fs_node) list"

definition ws_read :: "work \<Rightarrow> string \<Rightarrow> exn + string" where
  "ws_read ws name = read_bytes (map_of ws) name"

definition ws_mkdir :: "string \<Rightarrow> work \<Rightarrow> exn + work" where
  "ws_mkdir name ws = (if map_of ws name = None then Inr (dput name FDir ws) else Inl OsErr)"

text \<open>Writing a file out, and creating one exclusively (\<open>open("xb")\<close>).\<close>

definition ws_write :: "'w platform \<Rightarrow> string \<Rightarrow> string \<Rightarrow> string \<Rightarrow> work \<Rightarrow> (('w, 'z) sys_scheme, work) comp" where
  "ws_write P root name content ws = (\<lambda>s.
     if map_of ws name = Some FDir then (Inl OsErr, s)
     else case p_store P (path_join root name) content (outside s) of (ok, dt, w) \<Rightarrow>
       if ok
       then (Inr (dput name (FFile 420 content) ws),
             s\<lparr>outside := w, mono := mono s + dt, trace := EvWrite (path_join root name) content # trace s\<rparr>)
       else (Inl OsErr, s\<lparr>outside := w, mono := mono s + dt\<rparr>))"

definition ws_create :: "'w platform \<Rightarrow> string \<Rightarrow> string \<Rightarrow> string \<Rightarrow> work \<Rightarrow> (('w, 'z) sys_scheme, work) comp" where
  "ws_create P root name content ws =
     seqc (raise_if (map_of ws name \<noteq> None) OsErr) (ws_write P root name content ws)"

text \<open>\<open>sorted(root.rglob("*"))\<close>: the names below a directory, ordered part by part.\<close>

definition ws_below :: "string \<Rightarrow> work \<Rightarrow> (string \<times> fs_node) list" where
  "ws_below name ws =
     sort_key (\<lambda>e. py_split (CHR ''/'') (fst e))
       (map (\<lambda>e. (drop (length name + 1) (fst e), snd e))
         (List.filter (\<lambda>e. starts_with (name @ ''/'') (fst e)) ws))"

section \<open>Tool runs\<close>

definition command_env :: "environ \<Rightarrow> postgres_target \<Rightarrow> (string \<times> string) list" where
  "command_env env target =
     [(''PATH'', env_get env ''PATH'' ''/usr/local/bin:/usr/bin:/bin''), (''PGPASSWORD'', pt_password target),
      (''PGCONNECT_TIMEOUT'', ''10''), (''PGAPPNAME'', ''zkdeal-backup-restore-control'')]"

definition pg_args :: "postgres_target \<Rightarrow> string list" where
  "pg_args target =
     [''--host'', pt_host target, ''--port'', int_str (pt_port target), ''--username'', pt_user target,
      ''--dbname'', pt_database target]"

definition mc_host :: "string \<Rightarrow> minio_target option \<Rightarrow> exn + (string \<times> string) list" where
  "mc_host name target =
     (case target of
        None \<Rightarrow> Inr []
      | Some t \<Rightarrow>
          rbind (urlsplit (mt_endpoint t)) (\<lambda>parsed.
          Inr [(''MC_HOST_'' @ name,
                origin (u_scheme parsed)
                  (quote_all (mt_access_key t) @ '':'' @ quote_all (mt_secret_key t) @ ''@'' @ u_netloc parsed))]))"

definition mc_env ::
  "environ \<Rightarrow> minio_target option \<Rightarrow> minio_target option \<Rightarrow> minio_target option \<Rightarrow> exn + (string \<times> string) list" where
  "mc_env env source restore backup =
     rbind (mc_host ''zksource'' source) (\<lambda>a.
     rbind (mc_host ''zkrestore'' restore) (\<lambda>b.
     rbind (mc_host ''zkbackup'' backup) (\<lambda>c.
     Inr ([(''PATH'', env_get env ''PATH'' ''/usr/local/bin:/usr/bin:/bin''), (''MC_CONFIG_DIR'', ''/tmp/mc-config''),
           (''MC_JSON'', ''1'')] @ a @ b @ c))))"

text \<open>\<open>bytes.decode("utf-8", errors="replace")\<close>: one U+FFFD for each maximal ill-formed part.\<close>

definition second_ok :: "nat \<Rightarrow> nat \<Rightarrow> bool" where
  "second_ok lead b =
     (if lead = 224 then 160 \<le> b \<and> b \<le> 191 else if lead = 237 then 128 \<le> b \<and> b \<le> 159
      else if lead = 240 then 144 \<le> b \<and> b \<le> 191 else if lead = 244 then 128 \<le> b \<and> b \<le> 143
      else 128 \<le> b \<and> b \<le> 191)"

definition ill_formed :: "string \<Rightarrow> nat" where
  "ill_formed s =
     (case s of
        c # d # r \<Rightarrow>
          (case utf8_lead (code c) of
             Some (n, _) \<Rightarrow>
               if n < 2 \<or> \<not> second_ok (code c) (code d) then 1
               else if n = 3 \<and> r \<noteq> [] \<and> is_cont (hd r) then 3 else 2
           | None \<Rightarrow> 1)
      | _ \<Rightarrow> 1)"

lemma ill_formed_pos: "0 < ill_formed s"
  by (auto simp: ill_formed_def split: list.splits option.splits)

function utf8_replace :: "string \<Rightarrow> string" where
  "utf8_replace s =
     (if s = [] then []
      else case utf8_next s of
             Some (cp, w) \<Rightarrow> take (length s - length w) s @ utf8_replace w
           | None \<Rightarrow> utf8_encode 65533 @ utf8_replace (drop (ill_formed s) s))"
  by pat_completeness auto
termination
  by (relation "measure length") (auto dest: utf8_next_length simp: ill_formed_pos)

declare utf8_replace.simps [simp del]

text \<open>\<open>s[-n:]\<close>, by code points.\<close>

fun last_points :: "nat \<Rightarrow> string \<Rightarrow> string" where
  "last_points 0 s = []"
| "last_points (Suc n) [] = []"
| "last_points (Suc n) (c # s) = c # last_points (if is_cont c then Suc n else n) s"

definition py_last :: "nat \<Rightarrow> string \<Rightarrow> string" where
  "py_last n s = rev (last_points n (rev s))"

definition tool_failed :: "string \<Rightarrow> exn" where
  "tool_failed m = HttpErr 502 ''BACKUP_TOOL_FAILED'' m"

definition run_checked ::
  "'w platform \<Rightarrow> string list \<Rightarrow> (string \<times> string) list \<Rightarrow> nat \<Rightarrow> string \<Rightarrow> (('w, 'z) sys_scheme, proc) comp" where
  "run_checked P cmd env timeout label =
     bnd (catching (\<lambda>e. e = OsErr) (run_process P (tool_command env cmd) timeout)
            (\<lambda>_. throw (tool_failed (label @ '' failed to execute'')))) (\<lambda>r.
     seqc (raise_if (max_process_output_bytes < length (stdout r) \<or> max_process_output_bytes < length (stderr r))
            (tool_failed (label @ '' output exceeded 4 MiB'')))
     (seqc (raise_if (returncode r \<noteq> 0)
              (tool_failed (label @ '' exited '' @ int_str (returncode r) @ '': '' @ py_last 1000 (utf8_replace (stderr r)))))
      (ret r)))"

text \<open>A run whose last argument or \<open>--file\<close> names a place of the workspace.\<close>

definition ws_place :: "string \<Rightarrow> string \<Rightarrow> string" where
  "ws_place dest rel = (if rel = [] then dest else dest @ ''/'' @ rel)"

definition ws_left :: "string \<Rightarrow> (string \<times> fs_node) list \<Rightarrow> work \<Rightarrow> work" where
  "ws_left dest left ws = dputs (map (\<lambda>e. (ws_place dest (fst e), snd e)) left) ws"

definition run_into ::
  "'w tools \<Rightarrow> 'w platform \<Rightarrow> string list \<Rightarrow> (string \<times> string) list \<Rightarrow> nat \<Rightarrow> string \<Rightarrow> string \<Rightarrow> work \<Rightarrow>
   (('w, 'z) sys_scheme, work) comp" where
  "run_into X P cmd env timeout label dest ws =
     seqc (run_checked P cmd env timeout label)
     (bnd (gets outside) (\<lambda>w. ret (ws_left dest (bx_left X (tool_command env cmd) w) ws)))"

section \<open>The logical dump\<close>

definition dump_noise :: "string \<Rightarrow> bool" where
  "dump_noise line \<longleftrightarrow>
     starts_with ''-- Dumped from database version'' line \<or> starts_with ''-- Dumped by pg_dump version'' line \<or>
     starts_with (backslash # ''restrict '') line \<or> starts_with (backslash # ''unrestrict '') line"

definition normalized_dump :: "string \<Rightarrow> exn + string" where
  "normalized_dump content =
     rbind (check (utf8_ok content) ValueErr) (\<lambda>_.
     let lines = py_splitlines (unify_breaks False content)
     in Inr (join_with newline (map py_rstrip (List.filter (\<lambda>l. \<not> dump_noise l) lines)) @ newline))"

definition logical_dump ::
  "'w tools \<Rightarrow> 'w platform \<Rightarrow> string \<Rightarrow> postgres_target \<Rightarrow> string \<Rightarrow> nat \<Rightarrow> work \<Rightarrow>
   (('w, 'z) sys_scheme, string \<times> work) comp" where
  "logical_dump X P root target name timeout ws =
     bnd (run_into X P
            ([''pg_dump''] @ pg_args target @
             [''--format=plain'', ''--no-owner'', ''--no-privileges'', ''--inserts'', ''--column-inserts'',
              ''--quote-all-identifiers'', ''--file'', path_join root name])
            (command_env (bx_env X) target) timeout ''logical pg_dump'' name ws) (\<lambda>ws'.
     bnd (lift_res (rbind (ws_read ws' name) normalized_dump)) (\<lambda>text.
     ret (sha256_hex text, ws')))"

section \<open>Object manifest and bundle\<close>

definition archive_failed :: "string \<Rightarrow> exn" where
  "archive_failed m = HttpErr 502 ''OBJECT_ARCHIVE_FAILED'' m"

definition tree_entry :: "string \<times> fs_node \<Rightarrow> exn + (string \<times> string) list" where
  "tree_entry e =
     (case snd e of
        FLink _ \<Rightarrow> Inl (archive_failed ''object archive contains a symlink'')
      | FFile m content \<Rightarrow> Inr [(fst e, content)]
      | FDir \<Rightarrow> Inr [])"

text \<open>The regular files below a directory: what both the manifest and the bundle list, in their order.\<close>

definition tree_files :: "string \<Rightarrow> work \<Rightarrow> exn + (string \<times> string) list" where
  "tree_files name ws =
     rbind (check (\<not> is_symlink (map_of ws) name \<and> is_dir (map_of ws) name)
             (archive_failed ''object archive root is absent or unsafe'')) (\<lambda>_.
     rbind (rmap tree_entry (ws_below name ws)) (\<lambda>entries. Inr (concat entries)))"

definition manifest_entry :: "string \<times> string \<Rightarrow> json" where
  "manifest_entry f =
     JObj [(''path'', JStr (fst f)), (''bytes'', JInt (int (length (snd f)))), (''sha256'', JStr (sha256_hex (snd f)))]"

definition manifest_of :: "(string \<times> string) list \<Rightarrow> dict" where
  "manifest_of files =
     [(''schemaVersion'', JInt 1), (''algorithm'', JStr ''sha256''), (''files'', JArr (map manifest_entry files))]"

definition tree_manifest :: "string \<Rightarrow> work \<Rightarrow> exn + (dict \<times> string)" where
  "tree_manifest name ws =
     rbind (tree_files name ws) (\<lambda>files.
     rbind (check (list_all (\<lambda>f. utf8_ok (fst f)) files) ValueErr) (\<lambda>_.
     Inr (manifest_of files, sha256_hex (canonical_bytes (JObj (manifest_of files))))))"

definition create_object_bundle ::
  "'w tools \<Rightarrow> 'w platform \<Rightarrow> string \<Rightarrow> string \<Rightarrow> string \<Rightarrow> work \<Rightarrow> (('w, 'z) sys_scheme, work) comp" where
  "create_object_bundle X P root name destination ws =
     bnd (lift_res (tree_files name ws)) (\<lambda>files. ws_write P root destination (bx_pack X files) ws)"

definition unsafe_artifact :: "string \<Rightarrow> exn" where
  "unsafe_artifact m = HttpErr 409 ''UNSAFE_BACKUP_ARTIFACT'' m"

text \<open>\<open>Path(name).parts\<close> of a relative name.\<close>

definition name_parts :: "string \<Rightarrow> string list" where
  "name_parts name = List.filter (\<lambda>p. p \<noteq> [] \<and> p \<noteq> ''.'') (py_split (CHR ''/'') name)"

definition member_safe :: "tar_member \<Rightarrow> string list \<Rightarrow> bool" where
  "member_safe m seen \<longleftrightarrow>
     tm_regular m \<and> tm_name m \<noteq> [] \<and> hd (tm_name m) \<noteq> CHR ''/'' \<and> backslash \<notin> set (tm_name m) \<and>
     ''..'' \<notin> set (name_parts (tm_name m)) \<and> tm_name m \<notin> set seen"

definition member_place :: "string \<Rightarrow> string list \<Rightarrow> string" where
  "member_place destination parts = join_with ''/'' (destination # parts)"

text \<open>\<open>mkdir(parents=True, exist_ok=True)\<close> of the directories above a place.\<close>

fun make_dirs :: "string list \<Rightarrow> work \<Rightarrow> exn + work" where
  "make_dirs [] ws = Inr ws"
| "make_dirs (d # ds) ws =
     (case map_of ws d of
        None \<Rightarrow> make_dirs ds (dput d FDir ws)
      | Some FDir \<Rightarrow> make_dirs ds ws
      | Some _ \<Rightarrow> Inl OsErr)"

definition member_dirs :: "string \<Rightarrow> string list \<Rightarrow> string list" where
  "member_dirs destination parts = map (\<lambda>n. member_place destination (take n parts)) [0..<length parts]"

fun extract_members ::
  "'w platform \<Rightarrow> string \<Rightarrow> string \<Rightarrow> tar_member list \<Rightarrow> string list \<Rightarrow> work \<Rightarrow> (('w, 'z) sys_scheme, work) comp" where
  "extract_members P root destination [] seen ws = ret ws"
| "extract_members P root destination (m # ms) seen ws =
     seqc (raise_if (\<not> member_safe m seen) (unsafe_artifact ''object bundle contains an unsafe member''))
     (bnd (lift_res (make_dirs (member_dirs destination (name_parts (tm_name m))) ws)) (\<lambda>ws1.
      case tm_content m of
        None \<Rightarrow> throw (unsafe_artifact ''object bundle member has no content'')
      | Some content \<Rightarrow>
          bnd (ws_create P root (member_place destination (name_parts (tm_name m))) content ws1) (\<lambda>ws2.
          extract_members P root destination ms (tm_name m # seen) ws2)))"

text \<open>A broken archive raises \<open>tarfile.ReadError\<close> where the reader meets it.\<close>

definition extract_object_bundle ::
  "'w tools \<Rightarrow> 'w platform \<Rightarrow> string \<Rightarrow> string \<Rightarrow> string \<Rightarrow> work \<Rightarrow> (('w, 'z) sys_scheme, work) comp" where
  "extract_object_bundle X P root bundle destination ws =
     bnd (lift_res (ws_mkdir destination ws)) (\<lambda>ws1.
     bnd (lift_res (ws_read ws1 bundle)) (\<lambda>archive.
     bnd (extract_members P root destination (fst (bx_unpack X archive)) [] ws1) (\<lambda>ws2.
     seqc (raise_if (\<not> snd (bx_unpack X archive)) (ToolErr ''ReadError'')) (ret ws2))))"

section \<open>The artifact envelope\<close>

definition artifact_aad :: "string \<Rightarrow> string \<Rightarrow> string \<Rightarrow> string \<Rightarrow> string" where
  "artifact_aad candidate_id backup_id name key_id =
     canonical_bytes (JObj
       [(''aad'', JStr ''zkdeal-backup-artifact-v1''), (''candidateId'', JStr candidate_id),
        (''backupId'', JStr backup_id), (''artifact'', JStr name), (''keyId'', JStr key_id)])"

definition encrypt_artifact ::
  "'w tools \<Rightarrow> 'w platform \<Rightarrow> string \<Rightarrow> bk_topology \<Rightarrow> string \<Rightarrow> string \<Rightarrow> string \<Rightarrow> string \<Rightarrow> work \<Rightarrow>
   (('w, 'z) sys_scheme, dict \<times> work) comp" where
  "encrypt_artifact X P root T backup_id name plaintext_name encrypted_name ws =
     bnd (lift_res (ws_read ws plaintext_name)) (\<lambda>plaintext.
     seqc (raise_if (max_encrypt_bytes < length plaintext)
            (HttpErr 502 ''ENCRYPTION_FAILED'' (''artifact '' @ name @ '' exceeds the encryption size limit'')))
     (bnd (urandom X) (\<lambda>nonce.
      let ciphertext = bx_seal X (hex_bytes (bt_encryption_key T)) nonce plaintext
            (artifact_aad (bt_candidate_id T) backup_id name (bt_encryption_key_id T))
      in bnd (ws_create P root encrypted_name ciphertext ws) (\<lambda>ws'.
         bnd (lift_res (ws_read ws' encrypted_name)) (\<lambda>stored.
         ret ([(''artifact'', JStr name), (''nonce'', JStr (hex_of_bytes (bytes_of nonce))),
               (''plaintextSha256'', JStr (sha256_hex plaintext)), (''encryptedSha256'', JStr (sha256_hex stored)),
               (''encryptedBytes'', JInt (int (length ciphertext)))], ws'))))))"

definition artifact_tampered :: "string \<Rightarrow> exn" where
  "artifact_tampered m = HttpErr 409 ''BACKUP_ARTIFACT_TAMPERED'' m"

definition sealed_nonce :: "string \<Rightarrow> json \<Rightarrow> exn + (dict \<times> string)" where
  "sealed_nonce name v =
     (let e = unsafe_artifact (''backup artifact '' @ name @ '' metadata is incomplete'')
      in rbind (object_of v e) (\<lambda>meta.
         rbind (check ({''nonce'', ''plaintextSha256'', ''encryptedSha256''} \<subseteq> set (keys meta)) e) (\<lambda>_.
         rbind (text_matching (rep_match is_lower_hex (2 * nonce_bytes) (2 * nonce_bytes)) (jget meta ''nonce'')
                 (unsafe_artifact (''backup artifact '' @ name @ '' nonce is malformed''))) (\<lambda>nonce.
         Inr (meta, nonce)))))"

definition decrypt_artifact ::
  "'w tools \<Rightarrow> 'w platform \<Rightarrow> string \<Rightarrow> bk_topology \<Rightarrow> string \<Rightarrow> string \<Rightarrow> json \<Rightarrow> string \<Rightarrow> string \<Rightarrow> work \<Rightarrow>
   (('w, 'z) sys_scheme, string \<times> work) comp" where
  "decrypt_artifact X P root T backup_id name v encrypted_name plaintext_name ws =
     bnd (lift_res (sealed_nonce name v)) (\<lambda>(meta, nonce).
     bnd (lift_res (ws_read ws encrypted_name)) (\<lambda>ciphertext.
     seqc (raise_if (\<not> eq_str (jget meta ''encryptedSha256'') (sha256_hex ciphertext))
            (artifact_tampered (''backup artifact '' @ name @ '' ciphertext differs from its sealed digest'')))
     (case bx_open X (hex_bytes (bt_encryption_key T)) (hex_bytes nonce) ciphertext
             (artifact_aad (bt_candidate_id T) backup_id name (bt_encryption_key_id T)) of
        None \<Rightarrow> throw (artifact_tampered (''backup artifact '' @ name @ '' failed authenticated decryption''))
      | Some plaintext \<Rightarrow>
          seqc (raise_if (\<not> eq_str (jget meta ''plaintextSha256'') (sha256_hex plaintext))
                 (artifact_tampered (''backup artifact '' @ name @ '' plaintext differs from its sealed digest'')))
          (bnd (ws_create P root plaintext_name plaintext ws) (\<lambda>ws'. ret (plaintext, ws'))))))"

section \<open>Freshness of a restore target\<close>

definition user_objects_query :: string where
  "user_objects_query =
     ''SELECT count(*) FROM pg_catalog.pg_class c JOIN pg_catalog.pg_namespace n '' @
     ''ON n.oid=c.relnamespace WHERE c.relkind IN ('r','p','S','v','m','f') '' @
     ''AND n.nspname NOT IN ('pg_catalog','information_schema');''"

definition target_not_fresh :: "string \<Rightarrow> exn" where
  "target_not_fresh m = HttpErr 409 ''TARGET_NOT_FRESH'' m"

definition ensure_empty_postgres ::
  "'w tools \<Rightarrow> 'w platform \<Rightarrow> postgres_target \<Rightarrow> nat \<Rightarrow> (('w, 'z) sys_scheme, unit) comp" where
  "ensure_empty_postgres X P target timeout =
     bnd (run_checked P
            ([''psql''] @ pg_args target @
             [''--no-psqlrc'', ''--tuples-only'', ''--no-align'', ''--command'', user_objects_query])
            (command_env (bx_env X) target) timeout ''fresh PostgreSQL check'') (\<lambda>r.
     raise_if (py_strip (utf8_replace (stdout r)) \<noteq> ''0'')
       (target_not_fresh ''fresh PostgreSQL target already contains user objects''))"

text \<open>\<open>bytes.strip()\<close> leaves nothing: only the six ASCII blanks.\<close>

definition blank_bytes :: "string \<Rightarrow> bool" where
  "blank_bytes s \<longleftrightarrow> list_all (\<lambda>c. in_range 9 13 c \<or> code c = 32) s"

definition ensure_empty_bucket ::
  "'w tools \<Rightarrow> 'w platform \<Rightarrow> minio_target \<Rightarrow> nat \<Rightarrow> (('w, 'z) sys_scheme, unit) comp" where
  "ensure_empty_bucket X P target timeout =
     bnd (lift_res (mc_env (bx_env X) None (Some target) None)) (\<lambda>env.
     seqc (run_checked P [''mc'', ''mb'', ''--ignore-existing'', ''zkrestore/'' @ mt_bucket target] env timeout
             ''fresh bucket create'')
     (bnd (run_checked P [''mc'', ''find'', ''zkrestore/'' @ mt_bucket target, ''--json''] env timeout
             ''fresh bucket check'') (\<lambda>r.
      raise_if (\<not> blank_bytes (stdout r)) (target_not_fresh ''fresh MinIO target bucket is not empty''))))"

end
