(* ===== verification/Backup_Controller.thy ===== *)
theory Backup_Controller
  imports Backup_Artifacts Journal_Laws
begin

text \<open>
  The \<open>Controller\<close> of \<open>backup-restore-control/backup_restore_control.py\<close>: a backup and a restore under the
  journal, their HTTP routes and the start of the service.
\<close>

section \<open>State\<close>

record bk_controller =
  bk_topology :: bk_topology
  bk_token :: string
  bk_root :: string
  bk_binding_digest :: string
  bk_receipt :: dict

definition bk_authenticate :: "bk_controller \<Rightarrow> string option \<Rightarrow> exn + unit" where
  "bk_authenticate K authorization =
     check (bearer_ok (bk_token K) authorization)
       (HttpErr 401 ''UNAUTHORIZED'' ''backup_restore scoped bearer token required'')"

definition bk_validate_binding :: "bk_controller \<Rightarrow> dict \<Rightarrow> exn + unit" where
  "bk_validate_binding K body =
     check (py_eq (jget body ''binding'') (JObj (bk_binding (bk_topology K))))
       (HttpErr 409 ''CANDIDATE_BINDING_MISMATCH'' ''request binding differs from the exact candidate plan'')"

definition bk_with_receipt :: "bk_controller \<Rightarrow> dict \<Rightarrow> dict" where
  "bk_with_receipt K result = dputs (bk_receipt K) result"

definition bk_capabilities :: "bk_controller \<Rightarrow> dict" where
  "bk_capabilities K =
     (let T = bk_topology K; r = bk_receipt K in
     [(''schemaVersion'', JInt 1), (''service'', JStr ''zkdeal-backup-restore-control''),
      (''classification'', JStr (bt_classification T)), (''candidateId'', JStr (bt_candidate_id T)),
      (''planSha256'', JStr (bt_plan_sha256 T)), (''hostedIntegrationToken'', JStr (bt_hosted_token T)),
      (''scopedBearer'', JStr ''backup_restore''),
      (''candidateDescriptorSha256'', jget r ''candidateDescriptorSha256''),
      (''topologyReceiptSha256'', jget r ''topologyReceiptSha256''), (''platform'', jget r ''platform''),
      (''adapterImage'', jget r ''adapterImage''), (''adapterSourceSha256'', jget r ''adapterSourceSha256''),
      (''freshTargets'', JArr (map JStr (sort (map fst (bt_restore_targets T))))),
      (''postgresLogicalDigest'', JStr ''normalized-pg-dump-sha256''),
      (''objectDigest'', JStr ''canonical-relative-path-size-content-sha256-manifest''),
      (''backupMaterial'', JStr ''candidate-prefixed-independent-minio-bucket''),
      (''independentBackupStore'', JBool True),
      (''encryption'', JObj [(''algorithm'', JStr aead_algorithm), (''keyId'', JStr (bt_encryption_key_id T)),
         (''nonceBytes'', JInt (int nonce_bytes)), (''tagBytes'', JInt (int tag_bytes)),
         (''integrityVerifiedBeforeRestore'', JBool True)]),
      (''requestControlledUrls'', JBool False), (''requestControlledCommands'', JBool False),
      (''requestControlledTargetBodies'', JBool False), (''durableWriteOnceJournal'', JBool True)])"

section \<open>Backup\<close>

definition backup_mismatch :: "nat \<Rightarrow> string \<Rightarrow> exn" where
  "backup_mismatch status m = HttpErr status ''BACKUP_HASH_MISMATCH'' m"

definition remote_prefix :: "bk_topology \<Rightarrow> string \<Rightarrow> string" where
  "remote_prefix T backup_id =
     ''zkbackup/'' @ mt_bucket (bt_backup_store T) @ ''/'' @ bt_candidate_id T @ ''/'' @ backup_id"

definition bk_encrypt_upload ::
  "'w tools \<Rightarrow> 'w platform \<Rightarrow> bk_topology \<Rightarrow> string \<Rightarrow> string \<Rightarrow> (string \<times> string) list \<Rightarrow> string \<Rightarrow> string \<Rightarrow> work \<Rightarrow>
   ('w ctl_state, dict \<times> work) comp" where
  "bk_encrypt_upload X P T backup_id root env name plaintext_name ws =
     (let remote = remote_prefix T backup_id @ ''/'' @ name @ ''.enc''; t = bt_timeout_seconds T;
          encrypted = name @ ''.enc''; verify = name @ ''.remote-verify.enc''
      in bnd (encrypt_artifact X P root T backup_id name plaintext_name encrypted ws) (\<lambda>(meta, ws1).
         seqc (run_checked P [''mc'', ''cp'', path_join root encrypted, remote] env t (name @ '' encrypted upload''))
         (bnd (run_into X P [''mc'', ''cp'', remote, path_join root verify] env t
                 (name @ '' encrypted download verification'') verify ws1) (\<lambda>ws2.
          bnd (lift_res (ws_read ws2 verify)) (\<lambda>back.
          seqc (raise_if (\<not> eq_str (jget meta ''encryptedSha256'') (sha256_hex back))
                 (backup_mismatch 502 ''independent backup store changed the ciphertext hash''))
          (ret (meta, ws2)))))))"

definition bk_public_backup :: "bk_topology \<Rightarrow> string \<Rightarrow> string \<Rightarrow> string \<Rightarrow> dict \<Rightarrow> dict" where
  "bk_public_backup T backup_id database_digest object_digest artifacts =
     [(''status'', JStr ''COMPLETED''), (''backupId'', JStr backup_id), (''candidateId'', JStr (bt_candidate_id T)),
      (''sourceDatabaseDigest'', JStr database_digest), (''sourceObjectDigest'', JStr object_digest),
      (''encryption'', JObj [(''algorithm'', JStr aead_algorithm), (''keyId'', JStr (bt_encryption_key_id T)),
         (''nonceBytes'', JInt (int nonce_bytes)), (''tagBytes'', JInt (int tag_bytes))]),
      (''artifacts'', JObj artifacts), (''independentBackupStore'', JBool True),
      (''backupMaterialVerified'', JBool True)]"

definition backup_namespace :: "bk_topology \<Rightarrow> string \<Rightarrow> string" where
  "backup_namespace T backup_id = bt_candidate_id T @ ''/'' @ backup_id"

text \<open>The source is dumped and mirrored into the workspace, and its digests and bundle are made there.\<close>

definition bk_collect ::
  "'w tools \<Rightarrow> 'w platform \<Rightarrow> bk_topology \<Rightarrow> string \<Rightarrow> ('w ctl_state, string \<times> string \<times> work) comp" where
  "bk_collect X P T root =
     (let source = bt_source_postgres T; t = bt_timeout_seconds T
      in bnd (lift_res (ws_mkdir ''source-objects'' [])) (\<lambda>ws0.
         bnd (run_into X P
                ([''pg_dump''] @ pg_args source @
                 [''--format=custom'', ''--no-owner'', ''--no-privileges'', ''--file'', path_join root ''database.dump''])
                (command_env (bx_env X) source) t ''PostgreSQL backup'' ''database.dump'' ws0) (\<lambda>ws1.
         bnd (logical_dump X P root source ''source.logical.sql'' t ws1) (\<lambda>(database_digest, ws2).
         bnd (lift_res (mc_env (bx_env X) (Some (bt_source_minio T)) None None)) (\<lambda>env.
         bnd (run_into X P
                [''mc'', ''mirror'', ''--overwrite'', ''zksource/'' @ mt_bucket (bt_source_minio T), path_join root ''source-objects'']
                env t ''MinIO source mirror'' ''source-objects'' ws2) (\<lambda>ws3.
         bnd (lift_res (tree_manifest ''source-objects'' ws3)) (\<lambda>(manifest, object_digest).
         bnd (ws_write P root ''objects.manifest.json'' (canonical_bytes (JObj manifest)) ws3) (\<lambda>ws4.
         bnd (create_object_bundle X P root ''source-objects'' ''objects.bundle.tar'' ws4) (\<lambda>ws5.
         ret (database_digest, object_digest, ws5))))))))))"

definition bk_backup ::
  "'w tools \<Rightarrow> 'w platform \<Rightarrow> bk_topology \<Rightarrow> string \<Rightarrow> string \<Rightarrow> ('w ctl_state, dict \<times> dict) comp" where
  "bk_backup X P T backup_id root =
     bnd (bk_collect X P T root) (\<lambda>(database_digest, object_digest, ws0).
     bnd (lift_res (mc_env (bx_env X) None None (Some (bt_backup_store T)))) (\<lambda>env.
     seqc (run_checked P [''mc'', ''mb'', ''--ignore-existing'', ''zkbackup/'' @ mt_bucket (bt_backup_store T)] env
             (bt_timeout_seconds T) ''backup bucket create'')
     (bnd (bk_encrypt_upload X P T backup_id root env ''database.dump'' ''database.dump'' ws0) (\<lambda>(database, ws1).
      bnd (bk_encrypt_upload X P T backup_id root env ''objects.bundle.tar'' ''objects.bundle.tar'' ws1) (\<lambda>(bundle, ws2).
      bnd (bk_encrypt_upload X P T backup_id root env ''objects.manifest.json'' ''objects.manifest.json'' ws2) (\<lambda>(manifest, ws3).
      ret (bk_public_backup T backup_id database_digest object_digest
             [(''database.dump'', JObj database), (''objects.bundle.tar'', JObj bundle),
              (''objects.manifest.json'', JObj manifest)],
           [(''backupNamespace'', JStr (backup_namespace T backup_id))])))))))"

section \<open>Restore\<close>

definition artifact_names :: "string list" where
  "artifact_names = [''database.dump'', ''objects.bundle.tar'', ''objects.manifest.json'']"

text \<open>What the sealed backup must say before anything is downloaded.\<close>

definition sealed_backup :: "bk_topology \<Rightarrow> string \<Rightarrow> dict \<Rightarrow> exn + (dict \<times> dict)" where
  "sealed_backup T backup_id backup =
     (let e = HttpErr 409 ''BACKUP_NOT_COMPLETED'' ''backupId is not completed''
      in rbind (object_of (jget backup ''publicResult'') e) (\<lambda>public.
         rbind (check (eq_str (jget public ''status'') ''COMPLETED'') e) (\<lambda>_.
         rbind (object_of (jget backup ''privateResult'') e) (\<lambda>private.
         rbind (check (eq_str (jget private ''backupNamespace'') (backup_namespace T backup_id))
                 (unsafe_artifact ''backup namespace differs from the candidate'')) (\<lambda>_.
         rbind (object_of (jget public ''encryption'')
                 (unsafe_artifact ''backup was not sealed with the supported AEAD envelope'')) (\<lambda>recorded.
         rbind (check (eq_str (jget recorded ''algorithm'') aead_algorithm)
                 (unsafe_artifact ''backup was not sealed with the supported AEAD envelope'')) (\<lambda>_.
         rbind (check (eq_str (jget recorded ''keyId'') (bt_encryption_key_id T))
                 (HttpErr 409 ''RESTORE_KEY_ID_MISMATCH'' ''restore encryption key id does not match the sealed backup'')) (\<lambda>_.
         rbind (object_of (jget public ''artifacts'') (unsafe_artifact ''backup artifact set is incomplete'')) (\<lambda>artifacts.
         rbind (check (same_keys artifacts artifact_names) (unsafe_artifact ''backup artifact set is incomplete'')) (\<lambda>_.
         Inr (public, artifacts)))))))))))"

definition downloaded_name :: "string \<Rightarrow> string" where
  "downloaded_name name =
     (if name = ''database.dump'' then ''database.downloaded.dump''
      else if name = ''objects.bundle.tar'' then ''objects.downloaded.bundle.tar''
      else ''objects.downloaded.manifest.json'')"

definition bk_download ::
  "'w tools \<Rightarrow> 'w platform \<Rightarrow> bk_topology \<Rightarrow> string \<Rightarrow> string \<Rightarrow> (string \<times> string) list \<Rightarrow> dict \<Rightarrow> string \<Rightarrow> work \<Rightarrow>
   ('w ctl_state, work) comp" where
  "bk_download X P T backup_id root env artifacts name ws =
     (let encrypted = name @ ''.downloaded.enc''
      in bnd (run_into X P
                [''mc'', ''cp'', remote_prefix T backup_id @ ''/'' @ name @ ''.enc'', path_join root encrypted]
                env (bt_timeout_seconds T) (name @ '' encrypted download'') encrypted ws) (\<lambda>ws1.
         bnd (decrypt_artifact X P root T backup_id name (jget artifacts name) encrypted (downloaded_name name) ws1) (\<lambda>r.
         ret (snd r))))"

fun bk_download_all ::
  "'w tools \<Rightarrow> 'w platform \<Rightarrow> bk_topology \<Rightarrow> string \<Rightarrow> string \<Rightarrow> (string \<times> string) list \<Rightarrow> dict \<Rightarrow> string list \<Rightarrow> work \<Rightarrow>
   ('w ctl_state, work) comp" where
  "bk_download_all X P T backup_id root env artifacts [] ws = ret ws"
| "bk_download_all X P T backup_id root env artifacts (name # names) ws =
     bnd (bk_download X P T backup_id root env artifacts name ws) (\<lambda>ws1.
     bk_download_all X P T backup_id root env artifacts names ws1)"

text \<open>The bundle is unpacked and compared with the manifest, still before any fresh target is touched.\<close>

definition bk_verify_objects ::
  "'w tools \<Rightarrow> 'w platform \<Rightarrow> string \<Rightarrow> dict \<Rightarrow> work \<Rightarrow> ('w ctl_state, work) comp" where
  "bk_verify_objects X P root public ws =
     bnd (extract_object_bundle X P root ''objects.downloaded.bundle.tar'' ''source-objects'' ws) (\<lambda>ws1.
     bnd (lift_res (tree_manifest ''source-objects'' ws1)) (\<lambda>(manifest, digest).
     bnd (lift_res (rbind (ws_read ws1 ''objects.downloaded.manifest.json'') (\<lambda>raw.
            strict_object raw ''downloaded object manifest'' max_response_bytes))) (\<lambda>recorded.
     seqc (raise_if (\<not> py_eq (JObj recorded) (JObj manifest) \<or> \<not> eq_str (jget public ''sourceObjectDigest'') digest)
            (backup_mismatch 409 ''downloaded object backup differs from its manifest''))
     (ret ws1))))"

text \<open>\<open>str(d.get(k, ""))\<close>.\<close>

definition text_or_empty :: "dict \<Rightarrow> string \<Rightarrow> string" where
  "text_or_empty d k = (case map_of d k of Some v \<Rightarrow> py_str v | None \<Rightarrow> [])"

definition bk_write_target ::
  "'w tools \<Rightarrow> 'w platform \<Rightarrow> bk_topology \<Rightarrow> string \<Rightarrow> restore_target \<Rightarrow> (string \<times> string) list \<Rightarrow> work \<Rightarrow>
   ('w ctl_state, string \<times> string) comp" where
  "bk_write_target X P T root target env ws =
     (let pg = rt_postgres target; bucket = ''zkrestore/'' @ mt_bucket (rt_minio target); t = bt_timeout_seconds T
      in seqc (run_checked P
                ([''pg_restore''] @ pg_args pg @
                 [''--exit-on-error'', ''--no-owner'', ''--no-privileges'', path_join root ''database.downloaded.dump''])
                (command_env (bx_env X) pg) t ''PostgreSQL restore'')
         (bnd (logical_dump X P root pg ''restored.logical.sql'' t ws) (\<lambda>(database_digest, ws1).
          seqc (run_checked P [''mc'', ''mirror'', ''--overwrite'', path_join root ''source-objects'', bucket] env t ''MinIO restore'')
          (bnd (lift_res (ws_mkdir ''restored-objects'' ws1)) (\<lambda>ws2.
           bnd (run_into X P [''mc'', ''mirror'', ''--overwrite'', bucket, path_join root ''restored-objects''] env t
                  ''MinIO restored download'' ''restored-objects'' ws2) (\<lambda>ws3.
           bnd (lift_res (tree_manifest ''restored-objects'' ws3)) (\<lambda>(_, object_digest).
           ret (database_digest, object_digest))))))))"

definition bk_ready ::
  "'w tools \<Rightarrow> 'w platform \<Rightarrow> bk_topology \<Rightarrow> restore_target \<Rightarrow> (string \<times> string) list \<Rightarrow> ('w ctl_state, unit) comp" where
  "bk_ready X P T target env =
     (let pg = rt_postgres target; t = bt_timeout_seconds T
      in seqc (run_checked P
                ([''psql''] @ pg_args pg @
                 [''--no-psqlrc'', ''--tuples-only'', ''--no-align'', ''--command'', ''SELECT 1;''])
                (command_env (bx_env X) pg) t ''restored PostgreSQL readiness'')
         (seqc (run_checked P [''mc'', ''stat'', ''zkrestore/'' @ mt_bucket (rt_minio target)] env t ''restored MinIO readiness'')
          (ret ())))"

definition bk_public_restore ::
  "bk_topology \<Rightarrow> string \<Rightarrow> string \<Rightarrow> string \<Rightarrow> string \<Rightarrow> string \<Rightarrow> string \<Rightarrow> string \<Rightarrow> dict" where
  "bk_public_restore T operation_id backup_id target_name source_database restored_database source_object restored_object =
     [(''status'', JStr ''COMPLETED''), (''restoreId'', JStr operation_id), (''backupId'', JStr backup_id),
      (''freshTarget'', JStr target_name), (''candidateId'', JStr (bt_candidate_id T)),
      (''sourceDatabaseDigest'', JStr source_database), (''restoredDatabaseDigest'', JStr restored_database),
      (''sourceObjectDigest'', JStr source_object), (''restoredObjectDigest'', JStr restored_object),
      (''freshDatabase'', JBool True), (''freshObjectStore'', JBool True), (''hashesVerified'', JBool True),
      (''integrityVerifiedBeforeRestore'', JBool True), (''independentBackupStore'', JBool True),
      (''encryptionKeyId'', JStr (bt_encryption_key_id T)), (''serviceReady'', JBool True)]"

definition bk_verified ::
  "'w tools \<Rightarrow> 'w platform \<Rightarrow> bk_topology \<Rightarrow> string \<Rightarrow> string \<Rightarrow> dict \<Rightarrow> ('w ctl_state, dict \<times> work) comp" where
  "bk_verified X P T root backup_id backup =
     bnd (lift_res (sealed_backup T backup_id backup)) (\<lambda>(public, artifacts).
     bnd (lift_res (mc_env (bx_env X) None None (Some (bt_backup_store T)))) (\<lambda>env.
     bnd (bk_download_all X P T backup_id root env artifacts artifact_names []) (\<lambda>ws1.
     bnd (bk_verify_objects X P root public ws1) (\<lambda>ws2.
     ret (public, ws2)))))"

definition bk_restore ::
  "'w tools \<Rightarrow> 'w platform \<Rightarrow> bk_topology \<Rightarrow> string \<Rightarrow> string \<Rightarrow> string \<Rightarrow> dict \<Rightarrow> string \<Rightarrow> restore_target \<Rightarrow>
   ('w ctl_state, dict \<times> dict) comp" where
  "bk_restore X P T operation_id root backup_id backup target_name target =
     bnd (bk_verified X P T root backup_id backup) (\<lambda>(public, ws).
     seqc (ensure_empty_postgres X P (rt_postgres target) (bt_timeout_seconds T))
     (seqc (ensure_empty_bucket X P (rt_minio target) (bt_timeout_seconds T))
     (bnd (lift_res (mc_env (bx_env X) None (Some (rt_minio target)) None)) (\<lambda>env.
      bnd (bk_write_target X P T root target env ws) (\<lambda>(restored_database, restored_object).
      let source_database = text_or_empty public ''sourceDatabaseDigest'';
          source_object = text_or_empty public ''sourceObjectDigest''
      in seqc (raise_if (\<not> (hex64 source_database \<and> hex64 source_object \<and>
                           restored_database = source_database \<and> restored_object = source_object))
                (HttpErr 409 ''RESTORE_HASH_MISMATCH'' ''restored PostgreSQL or MinIO digest differs''))
         (seqc (bk_ready X P T target env)
         (ret (bk_public_restore T operation_id backup_id target_name source_database restored_database
                 source_object restored_object,
               [(''restoredLogical'', JStr (path_join root ''restored.logical.sql'')),
                (''restoredObjects'', JStr (path_join root ''restored-objects''))]))))))))"

section \<open>Journalled execution\<close>

text \<open>A callback of the source with what it has captured.\<close>

datatype bk_op =
    Backup
  | Restore (restored_id: string) (restored_closure: dict) (restored_target: string)

fun op_kind :: "bk_op \<Rightarrow> string" where
  "op_kind Backup = ''backup''"
| "op_kind (Restore b c t) = ''restore''"

definition kind_prefix :: "string \<Rightarrow> string" where
  "kind_prefix kind = (if kind = ''backup'' then ''bk'' else ''rs'')"

definition bk_request_digest :: "bk_controller \<Rightarrow> string \<Rightarrow> dict \<Rightarrow> string \<Rightarrow> string" where
  "bk_request_digest K kind body correlation_id =
     sha256_hex (canonical_bytes (JObj
       [(''kind'', JStr kind), (''bindingDigest'', JStr (bk_binding_digest K)), (''body'', JObj body),
        (''correlationId'', JStr correlation_id)]))"

definition bk_operation_id :: "string \<Rightarrow> string \<Rightarrow> string" where
  "bk_operation_id kind digest = kind_prefix kind @ ''-'' @ take 40 digest"

definition bk_journal_op :: "bk_controller \<Rightarrow> string \<Rightarrow> dict \<Rightarrow> string \<Rightarrow> string \<Rightarrow> journal_op" where
  "bk_journal_op K kind body key correlation_id =
     (let digest = bk_request_digest K kind body correlation_id; operation_id = bk_operation_id kind digest
      in \<lparr>jo_root = bk_root K, jo_key_hash = sha256_hex key, jo_operation = operation_id, jo_digest = digest,
          jo_correlation = correlation_id,
          jo_head = [(''schemaVersion'', JInt 1), (''service'', JStr ''zkdeal-backup-restore-control''),
             (''kind'', JStr kind), (''operationId'', JStr operation_id),
             (''bindingDigest'', JStr (bk_binding_digest K))],
          jo_sealed = False,
          jo_missing = HttpErr 404 ''NOT_FOUND'' ''journal record is absent or unsafe'',
          jo_reused = ''idempotency key was reused with changed input'',
          jo_exists = ''write-once record exists: ''\<rparr>)"

text \<open>\<open>artifact_root.mkdir\<close>, then the callback in that new directory.\<close>

definition make_root :: "string \<Rightarrow> ('w ctl_state, unit) comp" where
  "make_root path =
     bnd (gets (\<lambda>s. ctl_disk s path)) (\<lambda>node.
     seqc (raise_if (node \<noteq> None) OsErr)
     (modify (\<lambda>s. s\<lparr>ctl_disk := (ctl_disk s)(path \<mapsto> FDir)\<rparr>)))"

definition bk_apply ::
  "'w tools \<Rightarrow> 'w platform \<Rightarrow> bk_controller \<Rightarrow> bk_op \<Rightarrow> string \<Rightarrow> ('w ctl_state, dict \<times> dict) comp" where
  "bk_apply X P K op operation_id =
     (let T = bk_topology K; root = path_join (bk_root K) operation_id
      in seqc (make_root root)
         (case op of
            Backup \<Rightarrow> bk_backup X P T operation_id root
          | Restore backup_id backup target_name \<Rightarrow>
              (case map_of (bt_restore_targets T) target_name of
                 None \<Rightarrow> throw KeyErr
               | Some target \<Rightarrow> bk_restore X P T operation_id root backup_id backup target_name target)))"

definition bk_journal_execute ::
  "'w tools \<Rightarrow> 'w platform \<Rightarrow> bk_controller \<Rightarrow> dict \<Rightarrow> string \<Rightarrow> string \<Rightarrow> bk_op \<Rightarrow> ('w ctl_state, dict \<times> bool) comp" where
  "bk_journal_execute X P K body key correlation_id op =
     seqc (raise_if (\<not> ctl_idempotency key) (control_error ''operation kind or Idempotency-Key is malformed''))
     (seqc (raise_if (\<not> ctl_correlation correlation_id) (control_error ''X-Correlation-Id is malformed''))
     (let J = bk_journal_op K (op_kind op) body key correlation_id
      in journal_execute P J (bk_apply X P K op (jo_operation J))))"

definition bk_closure :: "bk_controller \<Rightarrow> string \<Rightarrow> ('w ctl_state, dict) comp" where
  "bk_closure K operation_id =
     read_record (HttpErr 404 ''NOT_FOUND'' ''journal record is absent or unsafe'')
       (path_join (bk_root K) (closure_file operation_id))"

definition bk_own :: "bk_controller \<Rightarrow> string \<Rightarrow> dict \<Rightarrow> bool" where
  "bk_own K kind closure \<longleftrightarrow>
     eq_str (jget closure ''kind'') kind \<and> eq_str (jget closure ''bindingDigest'') (bk_binding_digest K)"

definition bk_status :: "bk_controller \<Rightarrow> string \<Rightarrow> string \<Rightarrow> ('w ctl_state, dict) comp" where
  "bk_status K operation_id kind =
     seqc (raise_if (\<not> operation_name (kind_prefix kind) operation_id) (control_error ''operationId is malformed''))
     (bnd (bk_closure K operation_id) (\<lambda>closure.
      seqc (raise_if (\<not> bk_own K kind closure)
             (HttpErr 409 ''CANDIDATE_BINDING_MISMATCH'' ''operation belongs to another kind or candidate''))
      (lift_res (published operation_id closure))))"

definition bk_plan_backup :: "bk_controller \<Rightarrow> dict \<Rightarrow> exn + unit" where
  "bk_plan_backup K body =
     rbind (exact_keys body [''schemaVersion'', ''binding''] ''backup request'') (\<lambda>_.
     rbind (check (eq_int (jget body ''schemaVersion'') 1) (control_error ''backup schemaVersion must equal 1'')) (\<lambda>_.
     bk_validate_binding K body))"

definition bk_plan_restore :: "bk_controller \<Rightarrow> dict \<Rightarrow> exn + (string \<times> string)" where
  "bk_plan_restore K body =
     rbind (exact_keys body [''schemaVersion'', ''binding'', ''backupId'', ''freshTarget''] ''restore request'') (\<lambda>_.
     rbind (check (eq_int (jget body ''schemaVersion'') 1) (control_error ''restore schemaVersion must equal 1'')) (\<lambda>_.
     rbind (bk_validate_binding K body) (\<lambda>_.
     rbind (text_matching (operation_name ''bk'') (jget body ''backupId'')
             (control_error ''restore requires a completed backupId'')) (\<lambda>backup_id.
     rbind (check (hashable (jget body ''freshTarget'')) TypeErr) (\<lambda>_.
     rbind (text_matching (\<lambda>n. n \<in> fst ` set (bt_restore_targets (bk_topology K))) (jget body ''freshTarget'')
             (control_error ''freshTarget is not in the fixed candidate topology'')) (\<lambda>target_name.
     Inr (backup_id, target_name)))))))"

definition bk_do_backup ::
  "'w tools \<Rightarrow> 'w platform \<Rightarrow> bk_controller \<Rightarrow> dict \<Rightarrow> string \<Rightarrow> string \<Rightarrow> ('w ctl_state, dict \<times> bool) comp" where
  "bk_do_backup X P K body key correlation_id =
     seqc (lift_res (bk_plan_backup K body))
     (bnd (bk_journal_execute X P K body key correlation_id Backup) (\<lambda>(result, replay).
      ret (bk_with_receipt K result, replay)))"

definition bk_do_restore ::
  "'w tools \<Rightarrow> 'w platform \<Rightarrow> bk_controller \<Rightarrow> dict \<Rightarrow> string \<Rightarrow> string \<Rightarrow> ('w ctl_state, dict \<times> bool) comp" where
  "bk_do_restore X P K body key correlation_id =
     bnd (lift_res (bk_plan_restore K body)) (\<lambda>(backup_id, target_name).
     bnd (bk_closure K backup_id) (\<lambda>backup.
     seqc (raise_if (\<not> bk_own K ''backup'' backup)
            (HttpErr 409 ''CANDIDATE_BINDING_MISMATCH'' ''backupId belongs to another candidate''))
     (bnd (bk_journal_execute X P K body key correlation_id (Restore backup_id backup target_name)) (\<lambda>(result, replay).
      ret (bk_with_receipt K result, replay)))))"

section \<open>HTTP\<close>

text \<open>\<open>/v1/(backups|restores)/((?:bk|rs)-[0-9a-f]{40})\<close>: the kind of the route and the operation.\<close>

definition bk_operation_path :: "string \<Rightarrow> (string \<times> string) option" where
  "bk_operation_path p =
     (let route = (if starts_with ''/v1/backups/'' p then Some (''backup'', drop 12 p)
                   else if starts_with ''/v1/restores/'' p then Some (''restore'', drop 13 p) else None)
      in case route of
           Some (kind, rest) \<Rightarrow>
             if operation_name ''bk'' rest \<or> operation_name ''rs'' rest then Some (kind, rest) else None
         | None \<Rightarrow> None)"

definition bk_route_get :: "bk_controller \<Rightarrow> inbound \<Rightarrow> ('w ctl_state, dict) comp" where
  "bk_route_get K rq =
     bnd (lift_res (urlsplit (in_path rq))) (\<lambda>parsed.
     seqc (raise_if (u_query parsed \<noteq> [] \<or> u_fragment parsed \<noteq> [])
            (control_error ''query and fragment data are forbidden''))
     (if u_path parsed = ''/health'' then
        ret [(''status'', JStr ''healthy''), (''service'', JStr ''zkdeal-backup-restore-control'')]
      else if u_path parsed = ''/ready'' then
        ret [(''status'', JStr ''ready''), (''candidateId'', JStr (bt_candidate_id (bk_topology K))),
             (''topologyReceiptSha256'', JStr (bt_topology_sha256 (bk_topology K)))]
      else if u_path parsed = ''/capabilities'' then ret (bk_capabilities K)
      else case bk_operation_path (u_path parsed) of
             Some (kind, operation_id) \<Rightarrow>
               seqc (lift_res (bk_authenticate K (in_header rq ''authorization'')))
               (bnd (bk_status K operation_id kind) (\<lambda>result. ret (bk_with_receipt K result)))
           | None \<Rightarrow> throw (HttpErr 404 ''NOT_FOUND'' ''route not found'')))"

definition bk_do_GET :: "bk_controller \<Rightarrow> inbound \<Rightarrow> 'w ctl_state \<Rightarrow> http_answer \<times> 'w ctl_state" where
  "bk_do_GET K rq s = (case bk_route_get K rq s of
       (Inr v, t) \<Rightarrow> (send_json 200 (JObj v) False, t)
     | (Inl e, t) \<Rightarrow> (handle_error e, t))"

definition header_text :: "inbound \<Rightarrow> string \<Rightarrow> string" where
  "header_text rq name = (case in_header rq name of Some v \<Rightarrow> v | None \<Rightarrow> [])"

definition bk_route_post ::
  "'w tools \<Rightarrow> 'w platform \<Rightarrow> bk_controller \<Rightarrow> inbound \<Rightarrow> ('w ctl_state, dict \<times> bool) comp" where
  "bk_route_post X P K rq =
     seqc (raise_if (in_path rq \<notin> {''/v1/backups'', ''/v1/restores''}) (HttpErr 404 ''NOT_FOUND'' ''route not found''))
     (seqc (lift_res (bk_authenticate K (in_header rq ''authorization'')))
     (bnd (lift_res (request_body ''chunked'' rq)) (\<lambda>body.
      (if in_path rq = ''/v1/backups'' then bk_do_backup else bk_do_restore)
        X P K body (header_text rq ''idempotency-key'') (header_text rq ''x-correlation-id''))))"

definition bk_do_POST ::
  "'w tools \<Rightarrow> 'w platform \<Rightarrow> bk_controller \<Rightarrow> inbound \<Rightarrow> 'w ctl_state \<Rightarrow> http_answer \<times> 'w ctl_state" where
  "bk_do_POST X P K rq s = (case bk_route_post X P K rq s of
       (Inr (v, replay), t) \<Rightarrow> (send_json 200 (JObj v) replay, t)
     | (Inl e, t) \<Rightarrow> (handle_error e, t))"

section \<open>Start\<close>

definition bk_environment_is :: "environ \<Rightarrow> string \<times> string \<Rightarrow> exn + unit" where
  "bk_environment_is env ne =
     check (env (fst ne) = Some (snd ne)) (config_error (fst ne @ '' differs from the hash-bound topology''))"

definition bk_receipt_binding :: "environ \<Rightarrow> bk_topology \<Rightarrow> exn + dict" where
  "bk_receipt_binding env T =
     (let descriptor = env_get env ''BACKUP_RESTORE_CANDIDATE_DESCRIPTOR_SHA256'' [];
          source = env_get env ''BACKUP_RESTORE_ADAPTER_SOURCE_SHA256'' [];
          image = env_get env ''BACKUP_RESTORE_ADAPTER_IMAGE'' [];
          platform = env_get env ''BACKUP_RESTORE_PLATFORM'' []
      in rbind (check (hex64 descriptor \<and> hex64 source)
                 (config_error ''candidate descriptor or adapter source SHA-256 is malformed'')) (\<lambda>_.
         rbind (check (ctl_oci_digest image)
                 (config_error ''backup adapter image must be repository@sha256'')) (\<lambda>_.
         rbind (check (platform = ''docker'')
                 (config_error ''BACKUP_RESTORE_PLATFORM must equal docker'')) (\<lambda>_.
         Inr [(''candidateDescriptorSha256'', JStr descriptor),
              (''topologyReceiptSha256'', JStr (bt_topology_sha256 T)), (''platform'', JStr platform),
              (''adapterImage'', JStr image), (''adapterSourceSha256'', JStr source)]))))"

definition bk_build_controller :: "'w platform \<Rightarrow> environ \<Rightarrow> ('w ctl_state, bk_controller) comp" where
  "bk_build_controller P env =
     bnd (gets ctl_disk) (\<lambda>fs.
     bnd (lift_res (bk_load_topology fs (env_get env ''BACKUP_RESTORE_TOPOLOGY_FILE'' [])
            (env_get env ''BACKUP_RESTORE_TOPOLOGY_SHA256'' []))) (\<lambda>T.
     bnd (lift_res (rmap (bk_environment_is env)
            [(''BACKUP_RESTORE_CANDIDATE_ID'', bt_candidate_id T), (''BACKUP_RESTORE_PLAN_SHA256'', bt_plan_sha256 T),
             (''BACKUP_RESTORE_HOSTED_INTEGRATION_TOKEN'', bt_hosted_token T)])) (\<lambda>_.
     bnd (lift_res (bk_read_secret fs (JStr (env_get env ''BACKUP_RESTORE_TOKEN_FILE'' [])) (JStr (bt_scoped_token_sha256 T))
            ''BACKUP_RESTORE_TOKEN_FILE'' True)) (\<lambda>token.
     bnd (lift_res (bk_receipt_binding env T)) (\<lambda>receipt.
     let root = py_path (env_get env ''BACKUP_RESTORE_JOURNAL_DIR'' ''/journal'')
     in seqc (journal_init P ''BACKUP_RESTORE_JOURNAL_DIR'' ''backup journal'' root)
        (ret \<lparr>bk_topology = T, bk_token = token, bk_root = root,
              bk_binding_digest = sha256_hex (canonical_bytes (JObj (dputs receipt (bk_binding T)))),
              bk_receipt = receipt\<rparr>))))))"

end
