(* ===== verification/Backup_Laws.thy ===== *)
theory Backup_Laws
  imports Backup_Controller
begin

text \<open>
  The backup and restore controller as a journalled service: its operations work in their own new
  directory and leave every record of the journal alone.
\<close>

section \<open>What the operations may touch\<close>

lemma advances_split [advances_intro]: "(\<And>a b. advances (f a b)) \<Longrightarrow> advances (case x of (a, b) \<Rightarrow> f a b)"
  by (cases x) simp

lemma keeps_split [keeps_intro]: "(\<And>a b. keeps I (f a b)) \<Longrightarrow> keeps I (case x of (a, b) \<Rightarrow> f a b)"
  by (cases x) simp

lemma advances_catching [advances_intro]:
  assumes "advances m" and "\<And>e. advances (h e)"
  shows "advances (catching p m h)"
  unfolding advances_def
proof
  fix s
  obtain r t where m: "m s = (r, t)" by fastforce
  have "extends s t" using advancesD [OF assms(1) m] .
  moreover have "extends t (snd (h e t))" for e using assms(2) unfolding advances_def by blast
  ultimately show "extends s (snd (catching p m h s))"
    using m by (cases r) (auto simp: catching_def intro: extends_trans)
qed

lemma advances_workspace [advances_intro]:
  "advances (urandom X)" "advances (ws_write P root name c ws)"
  by (auto simp: advances_def urandom_def ws_write_def extends_def split: prod.splits)

lemma keeps_workspace [keeps_intro]:
  fixes p v
  defines "I \<equiv> \<lambda>s :: 'w ctl_state. ctl_disk s p = v"
  shows "keeps I (urandom X)" "keeps I (ws_write P root name c ws)" "keeps I (run_process P cmd t)"
  by (auto simp: I_def keeps_def urandom_def ws_write_def run_process_def split: prod.splits option.splits)

lemma advances_runs [advances_intro]:
  "advances (ws_create P root name c ws)" "advances (run_checked P cmd env t l)"
  "advances (run_into X P cmd env t l d ws)" "advances (logical_dump X P root target name t ws)"
  unfolding ws_create_def run_checked_def run_into_def logical_dump_def by (intro advances_intro)+

lemma keeps_runs [keeps_intro]:
  fixes p v
  defines "I \<equiv> \<lambda>s :: 'w ctl_state. ctl_disk s p = v"
  shows "keeps I (ws_create P root name c ws)" "keeps I (run_checked P cmd env t l)"
    "keeps I (run_into X P cmd env t l d ws)" "keeps I (logical_dump X P root target name t ws)"
  unfolding I_def ws_create_def run_checked_def run_into_def logical_dump_def by (intro keeps_intro)+

lemma advances_extract_members [advances_intro]: "advances (extract_members P root d ms seen ws)"
  by (induction ms arbitrary: seen ws) (auto intro!: advances_intro split: option.splits)

lemma keeps_extract_members [keeps_intro]:
  "keeps (\<lambda>s :: 'w ctl_state. ctl_disk s p = v) (extract_members P root d ms seen ws)"
  by (induction ms arbitrary: seen ws) (auto intro!: keeps_intro split: option.splits)

lemmas artifact_defs = create_object_bundle_def extract_object_bundle_def encrypt_artifact_def decrypt_artifact_def
  ensure_empty_postgres_def ensure_empty_bucket_def Let_def

lemma advances_artifacts [advances_intro]:
  "advances (create_object_bundle X P root n d ws)" "advances (extract_object_bundle X P root b d ws)"
  "advances (encrypt_artifact X P root T b n pn en ws)" "advances (decrypt_artifact X P root T b n v en pn ws)"
  "advances (ensure_empty_postgres X P pg t)" "advances (ensure_empty_bucket X P m t)"
  unfolding artifact_defs by (auto intro!: advances_intro split: option.splits)

lemma keeps_artifacts [keeps_intro]:
  fixes p v
  defines "I \<equiv> \<lambda>s :: 'w ctl_state. ctl_disk s p = v"
  shows "keeps I (create_object_bundle X P root n d ws)" "keeps I (extract_object_bundle X P root b d ws)"
    "keeps I (encrypt_artifact X P root T b n pn en ws)" "keeps I (decrypt_artifact X P root T b n j en pn ws)"
    "keeps I (ensure_empty_postgres X P pg t)" "keeps I (ensure_empty_bucket X P m t)"
  unfolding I_def artifact_defs by (auto intro!: keeps_intro split: option.splits)

lemma advances_download_all [advances_intro]: "advances (bk_download_all X P T b root env as ns ws)"
  by (induction ns arbitrary: ws) (auto simp: bk_download_def Let_def intro!: advances_intro)

lemma keeps_download_all [keeps_intro]:
  "keeps (\<lambda>s. ctl_disk s p = v) (bk_download_all X P T b root env as ns ws)"
  by (induction ns arbitrary: ws) (auto simp: bk_download_def Let_def intro!: keeps_intro)

lemmas operation_defs = bk_encrypt_upload_def bk_collect_def bk_backup_def bk_verify_objects_def bk_verified_def
  bk_write_target_def bk_ready_def bk_restore_def Let_def

lemma advances_operations [advances_intro]:
  "advances (bk_encrypt_upload X P T b root env n pn ws)" "advances (bk_collect X P T root)"
  "advances (bk_verify_objects X P root pub ws)" "advances (bk_verified X P T root b c)"
  "advances (bk_write_target X P T root t env ws)" "advances (bk_ready X P T t env)"
  "advances (bk_backup X P T b root)" "advances (bk_restore X P T oid root b c n t)"
  unfolding operation_defs by (intro advances_intro)+

lemma keeps_operations [keeps_intro]:
  fixes p v
  defines "I \<equiv> \<lambda>s :: 'w ctl_state. ctl_disk s p = v"
  shows "keeps I (bk_encrypt_upload X P T b root env n pn ws)" "keeps I (bk_collect X P T root)"
    "keeps I (bk_verify_objects X P root pub ws)" "keeps I (bk_verified X P T root b c)"
    "keeps I (bk_write_target X P T root t env ws)" "keeps I (bk_ready X P T t env)"
    "keeps I (bk_backup X P T b root)" "keeps I (bk_restore X P T oid root b c n t)"
  unfolding I_def operation_defs by (intro keeps_intro)+

lemma advances_make_root [advances_intro]: "advances (make_root path)"
  by (simp add: advances_def make_root_def bnd_def seqc_def gets_def raise_if_def throw_def ret_def modify_def
      extends_def)

lemma advances_bk_apply: "advances (bk_apply X P K op oid)"
  unfolding bk_apply_def Let_def by (cases op) (auto intro!: advances_intro split: option.splits)

lemma apply_spares:
  assumes "p \<noteq> path_join (bk_root K) oid"
  shows "keeps (\<lambda>s. ctl_disk s p = v) (bk_apply X P K op oid)"
  unfolding bk_apply_def make_root_def Let_def
  by (cases op) (auto intro!: keeps_intro keeps_modify simp: assms split: option.splits)

section \<open>The journal of the controller\<close>

record bk_request =
  br_body :: dict
  br_key :: string
  br_correlation :: string
  br_op :: bk_op

definition br_entry :: "bk_controller \<Rightarrow> bk_request \<Rightarrow> journal_op" where
  "br_entry K x = bk_journal_op K (op_kind (br_op x)) (br_body x) (br_key x) (br_correlation x)"

definition br_run :: "'w tools \<Rightarrow> 'w platform \<Rightarrow> bk_controller \<Rightarrow> bk_request \<Rightarrow> ('w ctl_state, dict \<times> dict) comp" where
  "br_run X P K x = bk_apply X P K (br_op x) (jo_operation (br_entry K x))"

text \<open>What the service has checked by the time it enters the journal.\<close>

definition br_valid :: "bk_controller \<Rightarrow> bk_request \<Rightarrow> bool" where
  "br_valid K x \<longleftrightarrow> ctl_correlation (br_correlation x) \<and> utf8_ok (bk_binding_digest K)"

text \<open>The records of the journal, apart from the directories of the operations.\<close>

definition bk_records :: "bk_controller \<Rightarrow> string set" where
  "bk_records K = {path_join (bk_root K) n |n. ends_with ''.json'' n}"

lemma ends_with_iff: "ends_with suf s \<longleftrightarrow> (\<exists>r. s = r @ suf)"
  unfolding ends_with_def starts_with_iff by (metis rev_append rev_rev_ident)

lemma last_hex: "s \<noteq> [] \<Longrightarrow> list_all is_lower_hex s \<Longrightarrow> last s \<noteq> CHR ''n''"
  by (auto simp: list_all_iff class_defs dest!: last_in_set)

lemma sha256_hex_nonempty [simp]: "sha256_hex s \<noteq> []"
  using length_sha256_hex [of s] by (metis list.size(3) zero_neq_numeral)

lemma operation_id_hex: "list_all is_lower_hex (take 40 (sha256_hex s))" "take 40 (sha256_hex s) \<noteq> []"
  using hex64_sha256 [of s] by (auto simp: hex64_def rep_match_def list_all_iff dest: in_set_takeD)

lemma operation_id_no_record: "\<not> ends_with ''.json'' (bk_operation_id kind (sha256_hex s))"
proof
  assume "ends_with ''.json'' (bk_operation_id kind (sha256_hex s))"
  then obtain r where "bk_operation_id kind (sha256_hex s) = r @ ''.json''" by (auto simp: ends_with_iff)
  then have "last (bk_operation_id kind (sha256_hex s)) = CHR ''n''" by simp
  with last_hex [OF operation_id_hex(2) operation_id_hex(1)] show False
    by (simp add: bk_operation_id_def)
qed

lemma bk_operation_id_utf8: "utf8_ok (bk_operation_id kind (sha256_hex s))"
  using operation_id_hex(1) [of s] unfolding bk_operation_id_def kind_prefix_def
  by (intro utf8_ok_ascii) (auto simp: list_all_iff class_defs)

lemma bk_names_utf8:
  "utf8_ok ''schemaVersion''" "utf8_ok ''service''" "utf8_ok ''operationId''" "utf8_ok ''kind''"
  "utf8_ok ''bindingDigest''" "utf8_ok ''zkdeal-backup-restore-control''" "utf8_ok (op_kind op)"
  by (cases op; simp add: utf8_ok_ascii_Cons code_def)+

lemma br_entry_wf: "br_valid K x \<Longrightarrow> journal_wf (br_entry K x)"
  using ctl_correlation_ascii [of "br_correlation x"] bk_names_utf8 bk_operation_id_utf8
  by (simp add: br_valid_def journal_wf_def br_entry_def bk_journal_op_def Let_def record_fields_def
      bk_request_digest_def)

lemma br_entry_simps [simp]:
  "jo_root (br_entry K x) = bk_root K" "jo_key_hash (br_entry K x) = sha256_hex (br_key x)"
  "jo_digest (br_entry K x) = bk_request_digest K (op_kind (br_op x)) (br_body x) (br_correlation x)"
  "jo_operation (br_entry K x) =
     bk_operation_id (op_kind (br_op x)) (bk_request_digest K (op_kind (br_op x)) (br_body x) (br_correlation x))"
  by (simp_all add: br_entry_def bk_journal_op_def Let_def)

lemma br_entry_paths: "intent_path (br_entry K x) \<noteq> closure_path (br_entry K y)"
proof -
  have "length (intent_name (br_entry K x)) \<noteq> length (closure_file (jo_operation (br_entry K y)))"
    by (simp add: intent_name_def closure_file_def bk_operation_id_def kind_prefix_def bk_request_digest_def)
  then show ?thesis unfolding intent_path_def closure_path_def by auto
qed

lemma br_entry_records: "intent_path (br_entry K x) \<in> bk_records K" "closure_path (br_entry K x) \<in> bk_records K"
  by (auto simp: bk_records_def intent_path_def closure_path_def intent_name_def closure_file_def ends_with_iff)

lemma br_run_spares: "p \<in> bk_records K \<Longrightarrow> keeps (\<lambda>s. ctl_disk s p = v) (br_run X P K x)"
  unfolding br_run_def
  by (rule apply_spares) (use operation_id_no_record in \<open>auto simp: bk_records_def bk_request_digest_def\<close>)

interpretation bj: journalled P "br_entry K" "br_run X P K" "br_valid K" "bk_records K" for X P K
proof unfold_locales
  show "advances (br_run X P K x)" for x unfolding br_run_def by (rule advances_bk_apply)
qed (simp_all add: br_entry_paths br_entry_wf br_run_spares br_entry_records)

end
