(* ===== verification/Backup_Safety.thy ===== *)
theory Backup_Safety
  imports Backup_Laws
begin

text \<open>
  The order of a restore: every artifact is downloaded, authenticated and checked before any other
  command runs, and the fresh target is written only once it was found empty.
\<close>

section \<open>Evidence in the trace\<close>

definition field_of :: "json \<Rightarrow> string \<Rightarrow> json" where
  "field_of v k = (case v of JObj d \<Rightarrow> jget d k | _ \<Rightarrow> JNull)"

lemma field_of_obj [simp]: "field_of (JObj d) k = jget d k"
  by (simp add: field_of_def)

definition sealed_digest :: "dict \<Rightarrow> string \<Rightarrow> json" where
  "sealed_digest backup name =
     field_of (field_of (field_of (jget backup ''publicResult'') ''artifacts'') name) ''plaintextSha256''"

text \<open>The plaintext of an artifact was written to the workspace, and its digest is the sealed one.\<close>

definition unsealed :: "string \<Rightarrow> dict \<Rightarrow> string \<Rightarrow> event \<Rightarrow> bool" where
  "unsealed root backup name e = (case e of
       EvWrite path content \<Rightarrow>
         path = path_join root (downloaded_name name) \<and> sealed_digest backup name = JStr (sha256_hex content)
     | _ \<Rightarrow> False)"

definition all_unsealed :: "string \<Rightarrow> dict \<Rightarrow> event list \<Rightarrow> bool" where
  "all_unsealed root backup tr \<longleftrightarrow> list_all (\<lambda>name. list_ex (unsealed root backup name) tr) artifact_names"

text \<open>The program and arguments of a recorded command, after its environment.\<close>

definition tool_args :: "string list \<Rightarrow> string list" where
  "tool_args cmd = dropWhile (\<lambda>a. CHR ''='' \<in> set a) cmd"

lemma tool_args_command [simp]:
  "CHR ''='' \<notin> set program \<Longrightarrow> tool_args (tool_command env (program # args)) = program # args"
  by (induction env) (auto simp: tool_args_def tool_command_def)

text \<open>A copy out of the backup store, the only command before that.\<close>

definition fetches :: "bk_topology \<Rightarrow> string list \<Rightarrow> bool" where
  "fetches T cmd \<longleftrightarrow>
     (case tool_args cmd of
        [program, verb, source, dest] \<Rightarrow>
          program = ''mc'' \<and> verb = ''cp'' \<and> starts_with (''zkbackup/'' @ mt_bucket (bt_backup_store T) @ ''/'') source
      | _ \<Rightarrow> False)"

text \<open>The two freshness checks, answered as required.\<close>

definition count_args :: "postgres_target \<Rightarrow> string list" where
  "count_args target =
     [''psql''] @ pg_args target @
     [''--no-psqlrc'', ''--tuples-only'', ''--no-align'', ''--command'', user_objects_query]"

definition no_objects :: "postgres_target \<Rightarrow> event \<Rightarrow> bool" where
  "no_objects target e = (case e of
       EvRun cmd (Some r) \<Rightarrow>
         tool_args cmd = count_args target \<and> returncode r = 0 \<and> py_strip (utf8_replace (stdout r)) = ''0''
     | _ \<Rightarrow> False)"

definition no_content :: "minio_target \<Rightarrow> event \<Rightarrow> bool" where
  "no_content target e = (case e of
       EvRun cmd (Some r) \<Rightarrow>
         tool_args cmd = [''mc'', ''find'', ''zkrestore/'' @ mt_bucket target, ''--json''] \<and> returncode r = 0 \<and>
         blank_bytes (stdout r)
     | _ \<Rightarrow> False)"

definition target_fresh :: "restore_target \<Rightarrow> event list \<Rightarrow> bool" where
  "target_fresh target tr \<longleftrightarrow>
     list_ex (no_objects (rt_postgres target)) tr \<and> list_ex (no_content (rt_minio target)) tr"

text \<open>The commands that fill a database or copy object trees.\<close>

definition fills :: "string list \<Rightarrow> bool" where
  "fills cmd \<longleftrightarrow> take 1 (tool_args cmd) = [''pg_restore''] \<or> take 2 (tool_args cmd) = [''mc'', ''mirror'']"

section \<open>Rules\<close>

lemma gov_ws_write:
  assumes "\<forall>B\<in>F'. B \<in> F \<or> B (EvWrite (path_join root name) c)"
  shows "gov p G tr0 F (ws_write P root name c ws) (\<lambda>_. F')"
proof -
  have "since tr0 p G F' (s\<lparr>outside := w, mono := m, trace := EvWrite (path_join root name) c # trace s\<rparr>)"
    if "since tr0 p G F s" for s :: "('a, 'b) sys_scheme" and w m
    using that assms by (fastforce simp: since_def shows_all_def)
  moreover have "since tr0 p G {} (s\<lparr>outside := w, mono := m\<rparr>)" if "since tr0 p G F s"
    for s :: "('a, 'b) sys_scheme" and w m
    using that by (auto simp: since_def shows_all_def)
  ultimately show ?thesis
    by (auto simp: gov_def wp_def ws_write_def split: prod.splits elim: since_mono)
qed

lemma gov_ws_create:
  "\<forall>B\<in>F'. B \<in> F \<or> B (EvWrite (path_join root name) c) \<Longrightarrow> gov p G tr0 F (ws_create P root name c ws) (\<lambda>_. F')"
  unfolding ws_create_def by (rule governs_unless) (rule gov_ws_write)

lemma quiet_random [quiet_intro]: "hushed q (urandom X)"
  by (auto simp: hushed_def urandom_def split: prod.splits)

lemma quiet_ws_write [quiet_intro]: "quiet p (ws_write P root name c ws)"
  by (auto simp: hushed_def ws_write_def split: prod.splits)

lemma quiet_split [quiet_intro]: "(\<And>a b. hushed q (f a b)) \<Longrightarrow> hushed q (case x of (a, b) \<Rightarrow> f a b)"
  by (cases x) simp

lemma gov_run_checked:
  assumes "p (tool_command env cmd) \<Longrightarrow> \<forall>tr. shows_all F tr \<longrightarrow> G tr"
  shows "gov p G tr0 F (run_checked P cmd env t l)
    (\<lambda>r. {B. returncode r = 0 \<longrightarrow> B \<in> F \<or> B (EvRun (tool_command env cmd) (Some r))})"
  unfolding run_checked_def
proof (rule gov_bnd)
  show "gov p G tr0 F
      (catching (\<lambda>e. e = OsErr) (run_process P (tool_command env cmd) t)
        (\<lambda>_. throw (tool_failed (l @ '' failed to execute''))))
      (\<lambda>r. F \<union> {B. B (EvRun (tool_command env cmd) (Some r))})"
    by (rule governs_catching [OF gov_run gov_throw]) (use assms in auto)
qed (auto intro!: governs_unless gov_ret)

lemma gov_run_checked_same:
  "(p (tool_command env cmd) \<Longrightarrow> \<forall>tr. shows_all F tr \<longrightarrow> G tr) \<Longrightarrow>
   gov p G tr0 F (run_checked P cmd env t l) (\<lambda>_. F)"
  by (rule gov_post [OF gov_run_checked]) auto

lemma gov_run_into:
  "(p (tool_command env cmd) \<Longrightarrow> \<forall>tr. shows_all F tr \<longrightarrow> G tr) \<Longrightarrow>
   gov p G tr0 F (run_into X P cmd env t l d ws) (\<lambda>_. F)"
  unfolding run_into_def
  by (rule gov_seqc [OF gov_run_checked_same]) (auto intro!: gov_quiet quiet_intro)

lemma gov_logical_dump:
  assumes "\<And>env cmd. p (tool_command env cmd) \<Longrightarrow> \<forall>tr. shows_all F tr \<longrightarrow> G tr"
  shows "gov p G tr0 F (logical_dump X P root target name t ws) (\<lambda>_. F)"
  unfolding logical_dump_def
  by (rule gov_bnd [OF gov_run_into]) (use assms in \<open>auto intro!: gov_quiet quiet_intro\<close>)

section \<open>Downloads\<close>

lemma quiet_extract_members [quiet_intro]: "quiet p (extract_members P root d ms seen ws)"
  by (induction ms arbitrary: seen ws) (auto simp: ws_create_def intro!: quiet_intro split: option.splits)

lemma quiet_verify_objects [quiet_intro]: "quiet p (bk_verify_objects X P root pub ws)"
  unfolding bk_verify_objects_def extract_object_bundle_def by (intro quiet_intro)

lemma gov_decrypt:
  assumes "sealed_digest backup name = field_of v ''plaintextSha256''"
  shows "gov p G tr0 F (decrypt_artifact X P root T b name v en (downloaded_name name) ws)
    (\<lambda>_. insert (unsealed root backup name) F)"
proof -
  have sealed: "sealed_nonce name v = Inr (meta, nonce) \<Longrightarrow> v = JObj meta" for meta nonce
    by (auto simp: sealed_nonce_def Let_def object_of_Inr)
  have written: "gov p G tr0 F (bnd (ws_create P root (downloaded_name name) plain ws) (\<lambda>ws'. ret (plain, ws')))
      (\<lambda>_. insert (unsealed root backup name) F)"
    if "sealed_digest backup name = JStr (sha256_hex plain)" for plain
    by (rule gov_bnd [OF gov_ws_create [where F' = "insert (unsealed root backup name) F"]])
      (use that in \<open>auto simp: unsealed_def intro!: gov_ret\<close>)
  have opened: "gov p G tr0 F
      (case bx_open X k n c a of
         None \<Rightarrow> throw e
       | Some plain \<Rightarrow>
           seqc (raise_if (\<not> eq_str (jget meta ''plaintextSha256'') (sha256_hex plain)) e')
             (bnd (ws_create P root (downloaded_name name) plain ws) (\<lambda>ws'. ret (plain, ws'))))
      (\<lambda>_. insert (unsealed root backup name) F)"
    if "v = JObj meta" for meta k n c a e e'
    using written assms that
    by (auto intro!: gov_throw governs_unless simp: eq_str_def split: option.splits)
  show ?thesis
    unfolding decrypt_artifact_def
    by (rule governs_bnd_lift) (auto dest!: sealed intro!: governs_bnd_lift governs_unless opened)
qed

lemma gov_download:
  assumes "sealed_digest backup name = field_of (jget artifacts name) ''plaintextSha256''"
    and "\<not> p (tool_command env [''mc'', ''cp'', remote_prefix T b @ ''/'' @ name @ ''.enc'', path_join root (name @ ''.downloaded.enc'')])"
  shows "gov p G tr0 F (bk_download X P T b root env artifacts name ws)
    (\<lambda>_. insert (unsealed root backup name) F)"
  unfolding bk_download_def Let_def
  by (rule gov_bnd [OF gov_run_into gov_bnd [OF gov_decrypt [OF assms(1)] gov_ret]]) (use assms(2) in auto)

lemma gov_download_all:
  assumes "\<And>name. name \<in> set names \<Longrightarrow>
      sealed_digest backup name = field_of (jget artifacts name) ''plaintextSha256''"
    and "\<And>src dst. starts_with (remote_prefix T b) src \<Longrightarrow> \<not> p (tool_command env [''mc'', ''cp'', src, dst])"
  shows "gov p G tr0 F (bk_download_all X P T b root env artifacts names ws)
    (\<lambda>_. F \<union> unsealed root backup ` set names)"
  using assms(1)
proof (induction names arbitrary: F ws)
  case Nil
  show ?case by (simp add: gov_ret)
next
  case (Cons name names)
  have "gov p G tr0 F (bk_download X P T b root env artifacts name ws) (\<lambda>_. insert (unsealed root backup name) F)"
    by (rule gov_download) (use Cons.prems assms(2) in auto)
  moreover have "gov p G tr0 (insert (unsealed root backup name) F)
      (bk_download_all X P T b root env artifacts names ws1)
      (\<lambda>_. F \<union> unsealed root backup ` set (name # names))" for ws1
    by (rule gov_post [OF Cons.IH]) (use Cons.prems in auto)
  ultimately show ?case unfolding bk_download_all.simps by (rule gov_bnd)
qed

section \<open>The restore\<close>

definition sealed_facts :: "string \<Rightarrow> dict \<Rightarrow> (event \<Rightarrow> bool) set" where
  "sealed_facts root backup = unsealed root backup ` set artifact_names"

definition fresh_facts :: "restore_target \<Rightarrow> (event \<Rightarrow> bool) set" where
  "fresh_facts target = {no_objects (rt_postgres target), no_content (rt_minio target)}"

lemma sealed_facts_shown: "shows_all (sealed_facts root backup) tr \<longleftrightarrow> all_unsealed root backup tr"
  by (auto simp: sealed_facts_def shows_all_def all_unsealed_def list_all_iff)

lemma fresh_facts_shown: "shows_all (fresh_facts target) tr \<longleftrightarrow> target_fresh target tr"
  by (auto simp: fresh_facts_def shows_all_def target_fresh_def)

lemma sealed_backup_artifacts:
  "sealed_backup T b backup = Inr (public, artifacts) \<Longrightarrow>
   jget backup ''publicResult'' = JObj public \<and> jget public ''artifacts'' = JObj artifacts"
  by (auto simp: sealed_backup_def Let_def object_of_Inr)

lemma gov_verified:
  assumes "\<And>src dst env. starts_with (remote_prefix T b) src \<Longrightarrow> \<not> p (tool_command env [''mc'', ''cp'', src, dst])"
  shows "gov p G tr0 F (bk_verified X P T root b backup) (\<lambda>_. F \<union> sealed_facts root backup)"
proof -
  have "gov p G tr0 F (bk_download_all X P T b root env artifacts artifact_names [])
      (\<lambda>_. F \<union> sealed_facts root backup)"
    if "sealed_backup T b backup = Inr (public, artifacts)" for public artifacts env
    unfolding sealed_facts_def
    by (rule gov_download_all) (use sealed_backup_artifacts [OF that] assms in \<open>auto simp: sealed_digest_def\<close>)
  then show ?thesis
    unfolding bk_verified_def
    by (auto intro!: governs_bnd_lift gov_bnd [where Fx = "\<lambda>_. F \<union> sealed_facts root backup"] gov_ret
        intro: gov_quiet quiet_intro)
qed

lemma gov_empty_postgres:
  assumes "\<And>env. p (tool_command env (count_args target)) \<Longrightarrow> \<forall>tr. shows_all F tr \<longrightarrow> G tr"
  shows "gov p G tr0 F (ensure_empty_postgres X P target t) (\<lambda>_. insert (no_objects target) F)"
  unfolding ensure_empty_postgres_def
  by (rule gov_bnd [OF gov_run_checked])
    (use assms in \<open>auto intro!: gov_raise_if simp: no_objects_def count_args_def\<close>)

lemma gov_empty_bucket:
  assumes "\<And>env args. p (tool_command env ([''mc'', ''mb''] @ args)) \<Longrightarrow> \<forall>tr. shows_all F tr \<longrightarrow> G tr"
    and "\<And>env args. p (tool_command env ([''mc'', ''find''] @ args)) \<Longrightarrow> \<forall>tr. shows_all F tr \<longrightarrow> G tr"
  shows "gov p G tr0 F (ensure_empty_bucket X P target t) (\<lambda>_. insert (no_content target) F)"
  unfolding ensure_empty_bucket_def
  by (rule governs_bnd_lift, rule gov_seqc [OF gov_run_checked_same gov_bnd [OF gov_run_checked]])
    (use assms in \<open>auto intro!: gov_raise_if simp: no_content_def\<close>)

lemma gov_write_target:
  assumes "\<And>cmd tr. p cmd \<Longrightarrow> shows_all F tr \<Longrightarrow> G tr"
  shows "gov p G tr0 F (bk_write_target X P T root target env ws) (\<lambda>_. F)"
    and "gov p G tr0 F (bk_ready X P T target env) (\<lambda>_. F)"
  unfolding bk_write_target_def bk_ready_def Let_def
  by (auto intro!: gov_seqc [OF gov_run_checked_same] gov_bnd [OF gov_logical_dump] gov_bnd [OF gov_run_into]
      governs_bnd_lift gov_ret assms split: prod.splits)

lemma gov_restore:
  assumes fetch: "\<And>src dst env. starts_with (remote_prefix T b) src \<Longrightarrow> \<not> p (tool_command env [''mc'', ''cp'', src, dst])"
    and check: "\<And>env args tr program verb. [program, verb] \<in> {[''psql'', ''--host''], [''mc'', ''mb''], [''mc'', ''find'']} \<Longrightarrow>
      p (tool_command env ([program, verb] @ args)) \<Longrightarrow> shows_all (sealed_facts root backup) tr \<Longrightarrow> G tr"
    and fill: "\<And>cmd tr. p cmd \<Longrightarrow> shows_all (sealed_facts root backup \<union> fresh_facts target) tr \<Longrightarrow> G tr"
  shows "gov p G tr0 {} (bk_restore X P T oid root b backup name target)
    (\<lambda>_. sealed_facts root backup \<union> fresh_facts target)"
proof -
  let ?A = "sealed_facts root backup" and ?B = "insert (no_objects (rt_postgres target)) (sealed_facts root backup)"
  let ?C = "insert (no_content (rt_minio target)) ?B"
  have "gov p G tr0 {} (bk_verified X P T root b backup) (\<lambda>_. ?A)"
    using gov_verified [of T b p G tr0 "{}" X P root backup] fetch by simp
  moreover have "gov p G tr0 ?A (ensure_empty_postgres X P (rt_postgres target) t) (\<lambda>_. ?B)" for t
    by (rule gov_empty_postgres) (use check [of "''psql''" "''--host''"] in \<open>simp add: count_args_def pg_args_def\<close>)
  moreover have "gov p G tr0 ?B (ensure_empty_bucket X P (rt_minio target) t) (\<lambda>_. ?C)" for t
  proof (rule gov_empty_bucket)
    show "\<forall>tr. shows_all ?B tr \<longrightarrow> G tr" if "p (tool_command env ([''mc'', ''mb''] @ args))" for env args
      using check [of "''mc''" "''mb''" env args] that by (simp add: shows_all_def)
    show "\<forall>tr. shows_all ?B tr \<longrightarrow> G tr" if "p (tool_command env ([''mc'', ''find''] @ args))" for env args
      using check [of "''mc''" "''find''" env args] that by (simp add: shows_all_def)
  qed
  moreover have "gov p G tr0 ?C (bk_write_target X P T root target env ws) (\<lambda>_. ?C)"
      "gov p G tr0 ?C (bk_ready X P T target env) (\<lambda>_. ?C)" for env ws
    by (rule gov_write_target, rule fill, auto simp: shows_all_def fresh_facts_def)+
  ultimately show ?thesis
    unfolding bk_restore_def Let_def
    by (auto intro!: gov_bnd [where Fx = "\<lambda>_. ?A" and m = "bk_verified X P T root b backup"]
        gov_seqc [where Fx = "\<lambda>_. ?B" and m = "ensure_empty_postgres X P pg t" for pg t]
        gov_seqc [where Fx = "\<lambda>_. ?C" and m = "ensure_empty_bucket X P m t" for m t]
        gov_bnd [where Fx = "\<lambda>_. ?C" and m = "bk_write_target X P T root target env ws" for env ws]
        gov_seqc [where Fx = "\<lambda>_. ?C" and m = "bk_ready X P T target env" for env]
        governs_bnd_lift governs_unless gov_ret simp: fresh_facts_def split: prod.splits)
qed

end
