(* ===== verification/Backup_Steps.thy ===== *)
theory Backup_Steps
  imports Backup_Safety
begin

text \<open>
  A POST of the backup and restore controller as an admission (a function of the request and of the
  files: authentication, document, binding, plan, the sealed backup) followed by a journalled execution.
\<close>

section \<open>Admission\<close>

definition record_in :: "exn \<Rightarrow> files \<Rightarrow> string \<Rightarrow> exn + dict" where
  "record_in missing fs path =
     rbind (check (\<not> is_symlink fs path \<and> is_file fs path) missing) (\<lambda>_.
     rbind (read_bytes fs path) (\<lambda>raw. strict_object raw ''journal record'' max_response_bytes))"

lemma read_record_in: "read_record e path s = (record_in e (ctl_disk s) path, s)"
  by (auto simp: read_record_def record_in_def bnd_def seqc_def gets_def raise_if_def throw_def ret_def
      lift_res_def check_def)

definition closure_in :: "bk_controller \<Rightarrow> files \<Rightarrow> string \<Rightarrow> exn + dict" where
  "closure_in K fs operation_id =
     record_in (HttpErr 404 ''NOT_FOUND'' ''journal record is absent or unsafe'') fs
       (path_join (bk_root K) (closure_file operation_id))"

lemma bk_closure_in: "bk_closure K oid s = (closure_in K (ctl_disk s) oid, s)"
  by (simp add: bk_closure_def closure_in_def read_record_in)

definition bk_headers_ok :: "inbound \<Rightarrow> exn + unit" where
  "bk_headers_ok rq =
     rbind (check (ctl_idempotency (header_text rq ''idempotency-key''))
             (control_error ''operation kind or Idempotency-Key is malformed'')) (\<lambda>_.
     check (ctl_correlation (header_text rq ''x-correlation-id'')) (control_error ''X-Correlation-Id is malformed''))"

definition bk_request_of :: "inbound \<Rightarrow> dict \<Rightarrow> bk_op \<Rightarrow> exn + bk_request" where
  "bk_request_of rq body op =
     rbind (bk_headers_ok rq) (\<lambda>_.
     Inr \<lparr>br_body = body, br_key = header_text rq ''idempotency-key'',
          br_correlation = header_text rq ''x-correlation-id'', br_op = op\<rparr>)"

definition bk_admit :: "bk_controller \<Rightarrow> files \<Rightarrow> inbound \<Rightarrow> exn + bk_request" where
  "bk_admit K fs rq =
     rbind (check (in_path rq \<in> {''/v1/backups'', ''/v1/restores''}) (HttpErr 404 ''NOT_FOUND'' ''route not found'')) (\<lambda>_.
     rbind (bk_authenticate K (in_header rq ''authorization'')) (\<lambda>_.
     rbind (request_body ''chunked'' rq) (\<lambda>body.
     if in_path rq = ''/v1/backups'' then
       rbind (bk_plan_backup K body) (\<lambda>_. bk_request_of rq body Backup)
     else
       rbind (bk_plan_restore K body) (\<lambda>(backup_id, target_name).
       rbind (closure_in K fs backup_id) (\<lambda>backup.
       rbind (check (bk_own K ''backup'' backup)
               (HttpErr 409 ''CANDIDATE_BINDING_MISMATCH'' ''backupId belongs to another candidate'')) (\<lambda>_.
       bk_request_of rq body (Restore backup_id backup target_name)))))))"

abbreviation bk_serve ::
  "'w tools \<Rightarrow> 'w platform \<Rightarrow> bk_controller \<Rightarrow> bk_request \<Rightarrow> ('w ctl_state, dict \<times> bool) comp" where
  "bk_serve X P K x \<equiv> journal_execute P (br_entry K x) (br_run X P K x)"

definition bk_finish ::
  "'w tools \<Rightarrow> 'w platform \<Rightarrow> bk_controller \<Rightarrow> exn + bk_request \<Rightarrow> ('w ctl_state, dict \<times> bool) comp" where
  "bk_finish X P K admitted =
     (case admitted of
        Inl e \<Rightarrow> throw e
      | Inr x \<Rightarrow> bnd (bk_serve X P K x) (\<lambda>r. ret (bk_with_receipt K (fst r), snd r)))"

lemma bk_finish_simps [simp]:
  "bk_finish X P K (Inl e) = throw e"
  "bk_finish X P K (Inr x) = bnd (bk_serve X P K x) (\<lambda>r. ret (bk_with_receipt K (fst r), snd r))"
  by (simp_all add: bk_finish_def)

lemma journal_execute_request:
  "bnd (bk_journal_execute X P K body (header_text rq ''idempotency-key'') (header_text rq ''x-correlation-id'') op)
      (\<lambda>(result, replay). ret (bk_with_receipt K result, replay)) = bk_finish X P K (bk_request_of rq body op)"
  by (simp add: bk_journal_execute_def bk_request_of_def bk_headers_ok_def run_simps br_entry_def br_run_def Let_def
      case_prod_unfold check_def)

lemma do_backup_admit:
  "bk_do_backup X P K body (header_text rq ''idempotency-key'') (header_text rq ''x-correlation-id'') =
     bk_finish X P K (rbind (bk_plan_backup K body) (\<lambda>_. bk_request_of rq body Backup))"
  by (cases "bk_plan_backup K body") (simp_all add: bk_do_backup_def run_simps journal_execute_request)

lemma bnd_run: "m s = (Inr x, s) \<Longrightarrow> bnd m f s = f x s" "m s = (Inl e, t) \<Longrightarrow> bnd m f s = (Inl e, t)"
  by (simp_all add: bnd_def)

lemma do_restore_admit:
  "bk_do_restore X P K body (header_text rq ''idempotency-key'') (header_text rq ''x-correlation-id'') s =
     bk_finish X P K
       (rbind (bk_plan_restore K body) (\<lambda>(backup_id, target_name).
        rbind (closure_in K (ctl_disk s) backup_id) (\<lambda>backup.
        rbind (check (bk_own K ''backup'' backup)
                (HttpErr 409 ''CANDIDATE_BINDING_MISMATCH'' ''backupId belongs to another candidate'')) (\<lambda>_.
        bk_request_of rq body (Restore backup_id backup target_name))))) s"
proof (cases "bk_plan_restore K body")
  case (Inl e)
  then show ?thesis by (simp add: bk_do_restore_def run_simps)
next
  case (Inr plan)
  obtain b n where plan: "plan = (b, n)" by fastforce
  show ?thesis
  proof (cases "closure_in K (ctl_disk s) b")
    case (Inl e)
    then show ?thesis
      using Inr plan by (simp add: bk_do_restore_def run_simps bnd_run bk_closure_in throw_def)
  next
    case c: (Inr backup)
    then show ?thesis
      using Inr plan
      by (simp add: bk_do_restore_def run_simps bnd_run(1) [where m = "bk_closure K b" and x = backup] bk_closure_in
          journal_execute_request check_def)
  qed
qed

lemma bk_route_post_admit: "bk_route_post X P K rq s = bk_finish X P K (bk_admit K (ctl_disk s) rq) s"
proof (cases "bk_authenticate K (in_header rq ''authorization'')")
  case (Inl e)
  then show ?thesis by (simp add: bk_route_post_def bk_admit_def run_simps check_def)
next
  case (Inr u)
  then show ?thesis
    by (cases "request_body ''chunked'' rq")
      (simp_all add: bk_route_post_def bk_admit_def run_simps do_backup_admit do_restore_admit check_def)
qed

lemma bk_admit_valid:
  "bk_admit K fs rq = Inr x \<Longrightarrow> hex64 (bk_binding_digest K) \<Longrightarrow> br_valid K x"
  by (auto simp: bk_admit_def bk_request_of_def bk_headers_ok_def br_valid_def hex64_def rep_match_def
      intro!: utf8_ok_ascii elim!: list_all_mono' simp: class_defs split: if_splits)

lemma map_of_present: "(k, w) \<in> set d \<Longrightarrow> \<exists>v. map_of d k = Some v"
  by (cases "map_of d k") (force simp: map_of_eq_None_iff)+

lemma bk_admit_restore:
  assumes "bk_admit K fs rq = Inr x" and "br_op x = Restore b backup n"
  shows "closure_in K fs b = Inr backup" and "bk_own K ''backup'' backup"
    and "\<exists>target. map_of (bt_restore_targets (bk_topology K)) n = Some target"
    and "operation_name ''bk'' b"
  using assms
  by (auto simp: bk_admit_def bk_request_of_def bk_plan_restore_def result_simps
      split: if_splits intro: map_of_present)

section \<open>A request seen from outside\<close>

text \<open>Either nothing happened, or the admitted request was executed under the journal.\<close>

lemma bk_route_cases:
  assumes "bk_route_post X P K rq s = (r, t)"
  obtains (refused) e where "bk_admit K (ctl_disk s) rq = Inl e" and "t = s" and "r = Inl e"
    | (failed) x e where "bk_admit K (ctl_disk s) rq = Inr x" and "bk_serve X P K x s = (Inl e, t)" and "r = Inl e"
    | (served) x v replay where "bk_admit K (ctl_disk s) rq = Inr x" and "bk_serve X P K x s = (Inr (v, replay), t)"
      and "r = Inr (bk_with_receipt K v, replay)"
proof (cases "bk_admit K (ctl_disk s) rq")
  case (Inl e)
  with assms show ?thesis by (intro refused [of e]) (auto simp: bk_route_post_admit throw_def)
next
  case (Inr x)
  obtain q u where q: "bk_serve X P K x s = (q, u)" by fastforce
  show ?thesis
  proof (cases q)
    case (Inl e)
    with assms Inr q show ?thesis by (intro failed [of x e]) (auto simp: bk_route_post_admit bnd_def)
  next
    case v: (Inr v)
    with assms Inr q show ?thesis
      by (intro served [of x "fst v" "snd v"]) (auto simp: bk_route_post_admit bnd_def ret_def)
  qed
qed

lemma bk_post_state: "bk_do_POST X P K rq s = (a, t) \<Longrightarrow> \<exists>r. bk_route_post X P K rq s = (r, t)"
  by (auto simp: bk_do_POST_def split: prod.splits sum.splits)

section \<open>Orders of commands through the journal\<close>

lemma quiet_utc [quiet_intro]: "hushed q (utc_now P)"
  unfolding utc_now_def by (intro quiet_intro)

lemma quiet_durable_create [quiet_intro]: "quiet p (durable_create P what root name value)"
proof -
  have "quiet p (store_file P path payload)" for path payload
    by (auto simp: hushed_def store_file_def split: prod.splits)
  then show ?thesis unfolding durable_create_def Let_def by (intro quiet_intro)
qed

lemma quiet_replay [quiet_intro]: "hushed q (journal_replay J)"
  unfolding journal_replay_def read_record_def by (intro quiet_intro)

lemma quiet_seal [quiet_intro]: "hushed q (intent_seal J)"
  unfolding intent_seal_def by (auto intro!: quiet_intro)

lemma gov_journal:
  assumes "gov p G tr0 {} cb (\<lambda>_. {})"
  shows "gov p G tr0 {} (journal_execute P J cb) (\<lambda>_. {})"
  unfolding journal_execute_def journal_first_def
  by (intro gov_bnd [OF gov_quiet] gov_seqc [OF gov_quiet] gov_if gov_bnd [OF assms] gov_quiet quiet_intro)

lemma quiet_make_root [quiet_intro]: "hushed q (make_root path)"
  unfolding make_root_def by (intro quiet_intro quiet_modify) simp

lemma gov_run_restore:
  assumes "br_op x = Restore b backup n" and "map_of (bt_restore_targets (bk_topology K)) n = Some target"
    and "gov p G tr0 {} (bk_restore X P (bk_topology K) (jo_operation (br_entry K x))
        (path_join (bk_root K) (jo_operation (br_entry K x))) b backup n target) F"
  shows "gov p G tr0 {} (br_run X P K x) F"
  using assms by (auto simp: br_run_def bk_apply_def Let_def intro!: gov_seqc [OF gov_quiet] quiet_intro)

lemma gov_serve_restore:
  assumes "br_op x = Restore b backup n" and "map_of (bt_restore_targets (bk_topology K)) n = Some target"
    and "gov p G tr0 {} (bk_restore X P (bk_topology K) (jo_operation (br_entry K x))
        (path_join (bk_root K) (jo_operation (br_entry K x))) b backup n target) F"
  shows "gov p G tr0 {} (bk_serve X P K x) (\<lambda>_. {})"
  by (rule gov_journal [OF gov_post [OF gov_run_restore [OF assms]]]) simp

section \<open>Results\<close>

lemma bnd_InrE:
  assumes "bnd m f s = (Inr y, t)"
  obtains x u where "m s = (Inr x, u)" and "f x u = (Inr y, t)"
  using assms by (auto simp: bnd_def split: prod.splits sum.splits)

lemma seqc_InrE:
  assumes "seqc m n s = (Inr y, t)"
  obtains x u where "m s = (Inr x, u)" and "n u = (Inr y, t)"
  using assms unfolding seqc_def by (rule bnd_InrE)

lemma lift_InrE: "lift_res r s = (Inr y, t) \<Longrightarrow> r = Inr y \<and> t = s"
  by (simp add: lift_res_def)

lemma verified_result:
  assumes "bk_verified X P T root b backup s = (Inr (public, ws), t)"
  shows "\<exists>artifacts. sealed_backup T b backup = Inr (public, artifacts)"
  using assms unfolding bk_verified_def
proof (rule bnd_InrE)
  fix p u
  assume p: "lift_res (sealed_backup T b backup) s = (Inr p, u)"
    and rest: "(case p of (public, artifacts) \<Rightarrow>
        bnd (lift_res (mc_env (bx_env X) None None (Some (bt_backup_store T)))) (\<lambda>env.
        bnd (bk_download_all X P T b root env artifacts artifact_names []) (\<lambda>ws1.
        bnd (bk_verify_objects X P root public ws1) (\<lambda>ws2. ret (public, ws2))))) u = (Inr (public, ws), t)"
  obtain pub artifacts where q: "p = (pub, artifacts)" by fastforce
  from rest [unfolded q prod.case] have "pub = public"
    by (elim bnd_InrE) (simp add: ret_def)
  with lift_InrE [OF p] q show ?thesis by blast
qed

text \<open>A restore that returns found both restored digests equal to the recorded ones.\<close>

lemma restore_result:
  assumes "bk_restore X P T oid root b backup n target s = (Inr r, t)"
  obtains public artifacts db obj where "sealed_backup T b backup = Inr (public, artifacts)"
    and "db = text_or_empty public ''sourceDatabaseDigest''" and "obj = text_or_empty public ''sourceObjectDigest''"
    and "hex64 db" and "hex64 obj" and "fst r = bk_public_restore T oid b n db db obj obj"
  using assms unfolding bk_restore_def
proof (rule bnd_InrE)
  fix p u
  let ?final = "\<lambda>public env (dbr, objr). let source_database = text_or_empty public ''sourceDatabaseDigest'';
          source_object = text_or_empty public ''sourceObjectDigest''
      in seqc (raise_if (\<not> (hex64 source_database \<and> hex64 source_object \<and>
                           dbr = source_database \<and> objr = source_object))
                (HttpErr 409 ''RESTORE_HASH_MISMATCH'' ''restored PostgreSQL or MinIO digest differs''))
         (seqc (bk_ready X P T target env)
         (ret (bk_public_restore T oid b n source_database dbr source_object objr,
               [(''restoredLogical'', JStr (path_join root ''restored.logical.sql'')),
                (''restoredObjects'', JStr (path_join root ''restored-objects''))])))"
  assume p: "bk_verified X P T root b backup s = (Inr p, u)"
    and rest: "(case p of (public, ws) \<Rightarrow>
        seqc (ensure_empty_postgres X P (rt_postgres target) (bt_timeout_seconds T))
        (seqc (ensure_empty_bucket X P (rt_minio target) (bt_timeout_seconds T))
        (bnd (lift_res (mc_env (bx_env X) None (Some (rt_minio target)) None)) (\<lambda>env.
         bnd (bk_write_target X P T root target env ws) (?final public env))))) u = (Inr r, t)"
  obtain public ws where q: "p = (public, ws)" by fastforce
  from rest [unfolded q prod.case] obtain env w v where "?final public env w v = (Inr r, t)"
    by (elim bnd_InrE seqc_InrE) blast
  then have "hex64 (text_or_empty public ''sourceDatabaseDigest'')" "hex64 (text_or_empty public ''sourceObjectDigest'')"
    "fst r = bk_public_restore T oid b n (text_or_empty public ''sourceDatabaseDigest'')
      (text_or_empty public ''sourceDatabaseDigest'') (text_or_empty public ''sourceObjectDigest'')
      (text_or_empty public ''sourceObjectDigest'')"
    by (auto simp: Let_def run_simps throw_def ret_def split: prod.splits if_splits elim!: seqc_InrE)
  with verified_result [OF p [unfolded q]] that show thesis by blast
qed

text \<open>What a first execution that was answered has left behind.\<close>

lemma served_first:
  assumes "bk_serve X P K x s = (Inr (ans, False), t)"
  shows "journal_first P (br_entry K x) (br_run X P K x) s = (Inr (ans, False), t)"
  using assms
proof (cases rule: bj.execute_cases)
  case known
  then show ?thesis
    by (auto simp: journal_replay_def bnd_def seqc_def ret_def split: prod.splits sum.splits)
qed

lemma serve_closed:
  assumes "bk_serve X P K x s = (Inr (ans, False), t)"
  obtains u w pub priv digest c where "br_run X P K x u = (Inr (pub, priv), w)"
    and "trace t = EvWrite (closure_path (br_entry K x)) c # trace w"
    and "\<exists>i. trace u = EvWrite (intent_path (br_entry K x)) i # trace s"
    and "ans = operation_answer (jo_operation (br_entry K x)) digest (JStr (br_correlation x)) pub"
  using served_first [OF assms]
proof (cases rule: journal_first_cases)
  case (closed u started w pub priv seal completed)
  moreover have "jo_correlation (br_entry K x) = br_correlation x"
    by (simp add: br_entry_def bk_journal_op_def Let_def)
  ultimately show ?thesis using that by (auto simp: created_def)
qed simp_all

end
