(* ===== verification/Backup_Roundtrip.thy ===== *)
theory Backup_Roundtrip
  imports Backup_Laws
begin

text \<open>
  Round trips of the backup material: an artifact through the envelope, and the object tree through its
  bundle; and where an extraction may write.
\<close>

section \<open>Hexadecimal text\<close>

lemma from_hex_of_bytes: "list_all (\<lambda>b. b < 256) bs \<Longrightarrow> from_hex (hex_of_bytes bs) = bs"
  by (induction bs) (auto simp: hex_of_bytes_def hex2_def hex_digit_val_digit)

lemma hex_bytes_back [simp]: "hex_bytes (hex_of_bytes (bytes_of s)) = s"
proof -
  have "list_all (\<lambda>b. b < 256) (bytes_of s)" by (simp add: bytes_of_def list_all_iff code_less)
  then show ?thesis by (simp add: hex_bytes_def from_hex_of_bytes) (simp add: bytes_of_def code_def comp_def)
qed

lemma hex_of_bytes_lower: "list_all is_lower_hex (hex_of_bytes bs)"
  by (induction bs) (auto simp: hex_of_bytes_def hex2_def hex_digit_lower_hex)

lemma length_hex_of_bytes [simp]: "length (hex_of_bytes bs) = 2 * length bs"
  by (induction bs) (auto simp: hex_of_bytes_def)

lemma nonce_text: "length s = nonce_bytes \<Longrightarrow>
    rep_match is_lower_hex (2 * nonce_bytes) (2 * nonce_bytes) (hex_of_bytes (bytes_of s))"
  by (simp add: rep_match_def hex_of_bytes_lower bytes_of_def)

section \<open>Files of the workspace\<close>

lemma ws_read_put [simp]: "ws_read (dput name (FFile m c) ws) name = Inr c"
  by (simp add: ws_read_def read_bytes_def fs_follow_def numeral_eq_Suc)

lemma ws_write_cases:
  assumes "ws_write P root name c ws s = (r, t)"
  obtains (written) "r = Inr (dput name (FFile 420 c) ws)" and "map_of ws name \<noteq> Some FDir"
      and "trace t = EvWrite (path_join root name) c # trace s"
    | (failed) "r = Inl OsErr" and "trace t = trace s"
  using assms by (auto simp: ws_write_def split: if_splits prod.splits)

definition stores :: "'w platform \<Rightarrow> bool" where
  "stores P \<longleftrightarrow> (\<forall>path c w. fst (p_store P path c w))"

lemma ws_write_stores:
  assumes "stores P" and "map_of ws name \<noteq> Some FDir"
  shows "\<exists>t. ws_write P root name c ws s = (Inr (dput name (FFile 420 c) ws), t)"
proof -
  have "fst (p_store P (path_join root name) c (outside s))" using assms(1) by (simp add: stores_def)
  with assms(2) show ?thesis by (auto simp: ws_write_def split: prod.splits)
qed

lemma ws_create_stores:
  assumes "stores P" and "map_of ws name = None"
  shows "\<exists>t. ws_create P root name c ws s = (Inr (dput name (FFile 420 c) ws), t)"
  using ws_write_stores [OF assms(1), of ws name root c s] assms(2)
  by (simp add: ws_create_def seqc_def raise_if_def bnd_def ret_def)

section \<open>The envelope\<close>

definition envelope_law :: "'w tools \<Rightarrow> bool" where
  "envelope_law X \<longleftrightarrow>
     (\<forall>k n p a. bx_open X k n (bx_seal X k n p a) a = Some p) \<and> (\<forall>w. length (fst (bx_random X w)) = nonce_bytes)"

definition binds_law :: "'w tools \<Rightarrow> bool" where
  "binds_law X \<longleftrightarrow> (\<forall>k n p a a'. a \<noteq> a' \<longrightarrow> bx_open X k n (bx_seal X k n p a) a' = None)"

definition artifact_meta :: "string \<Rightarrow> string \<Rightarrow> string \<Rightarrow> string \<Rightarrow> dict" where
  "artifact_meta name nonce plaintext ciphertext =
     [(''artifact'', JStr name), (''nonce'', JStr (hex_of_bytes (bytes_of nonce))),
      (''plaintextSha256'', JStr (sha256_hex plaintext)), (''encryptedSha256'', JStr (sha256_hex ciphertext)),
      (''encryptedBytes'', JInt (int (length ciphertext)))]"

lemma encrypt_artifact_result:
  assumes "encrypt_artifact X P root T b name pn en ws s = (Inr (meta, ws'), t)"
  obtains plaintext nonce ciphertext where "ws_read ws pn = Inr plaintext"
    and "nonce = fst (bx_random X (outside s))"
    and "ciphertext = bx_seal X (hex_bytes (bt_encryption_key T)) nonce plaintext
           (artifact_aad (bt_candidate_id T) b name (bt_encryption_key_id T))"
    and "meta = artifact_meta name nonce plaintext ciphertext" and "ws' = dput en (FFile 420 ciphertext) ws"
    and "length plaintext \<le> max_encrypt_bytes"
  using assms
  by (auto simp: encrypt_artifact_def artifact_meta_def bnd_def seqc_def raise_if_def ret_def throw_def lift_res_def
      urandom_def Let_def ws_create_def split: prod.splits sum.splits if_splits elim!: ws_write_cases)

text \<open>What a closure gives back for the entry of an artifact: the same fields, in the order of their names.\<close>

lemma meta_fields:
  assumes "jsort (JObj (artifact_meta name nonce p c)) = JObj d"
  shows "jget d ''nonce'' = JStr (hex_of_bytes (bytes_of nonce))"
    and "jget d ''plaintextSha256'' = JStr (sha256_hex p)" and "jget d ''encryptedSha256'' = JStr (sha256_hex c)"
    and "{''nonce'', ''plaintextSha256'', ''encryptedSha256''} \<subseteq> set (keys d)"
proof -
  have distinct: "distinct (map fst (artifact_meta name nonce p c))" by (simp add: artifact_meta_def)
  from jget_jsort [OF distinct assms] show
    "jget d ''nonce'' = JStr (hex_of_bytes (bytes_of nonce))"
    "jget d ''plaintextSha256'' = JStr (sha256_hex p)" "jget d ''encryptedSha256'' = JStr (sha256_hex c)"
    by (simp_all add: artifact_meta_def jget_def)
  from map_of_jsort [OF distinct assms] have "map_of d k \<noteq> None"
    if "k \<in> {''nonce'', ''plaintextSha256'', ''encryptedSha256''}" for k
    using that by (auto simp: artifact_meta_def)
  then show "{''nonce'', ''plaintextSha256'', ''encryptedSha256''} \<subseteq> set (keys d)"
    unfolding keys_def by (auto simp: map_of_eq_None_iff)
qed

lemma sealed_nonce_meta:
  assumes "jsort (JObj (artifact_meta name nonce p c)) = JObj d" and "length nonce = nonce_bytes"
  shows "sealed_nonce name' (JObj d) = Inr (d, hex_of_bytes (bytes_of nonce))"
  using meta_fields [OF assms(1)] nonce_text [OF assms(2)]
  by (simp add: sealed_nonce_def object_of_def text_matching_def)

lemma decrypt_sealed:
  assumes law: "envelope_law X" and "stores P" and "length nonce = nonce_bytes"
    and aad: "aad = artifact_aad (bt_candidate_id T) b name (bt_encryption_key_id T)"
    and meta: "jsort (JObj (artifact_meta name nonce p (bx_seal X (hex_bytes (bt_encryption_key T)) nonce p aad))) = JObj d"
    and stored: "ws_read vs en = Inr (bx_seal X (hex_bytes (bt_encryption_key T)) nonce p aad)"
    and fresh: "map_of vs dn = None"
  shows "\<exists>t. decrypt_artifact X P root T b name (JObj d) en dn vs s = (Inr (p, dput dn (FFile 420 p) vs), t)"
proof -
  obtain t where "ws_create P root dn p vs s = (Inr (dput dn (FFile 420 p) vs), t)"
    using ws_create_stores [OF assms(2) fresh] by blast
  then show ?thesis
    using sealed_nonce_meta [OF meta assms(3)] meta_fields [OF meta] stored law
    by (simp add: decrypt_artifact_def bnd_def seqc_def raise_if_def ret_def lift_res_def eq_str_def
        envelope_law_def aad)
qed

section \<open>Names and their parts\<close>

lemma py_split_nonempty [simp]: "py_split d s \<noteq> []"
  by (induction s) (auto split: list.splits)

lemma join_split: "join_with [d] (py_split d s) = s"
proof (induction s)
  case (Cons c s)
  obtain w ws where "py_split d s = w # ws" using py_split_nonempty [of d s] by (metis neq_Nil_conv)
  with Cons show ?case by (cases ws) auto
qed simp

lemma split_no_sep: "w \<in> set (py_split d s) \<Longrightarrow> d \<notin> set w"
  by (induction s arbitrary: w) (auto split: if_splits list.splits)

lemma split_word: "d \<notin> set w \<Longrightarrow> py_split d w = [w]"
  by (induction w) auto

lemma split_append: "d \<notin> set w \<Longrightarrow> py_split d (w @ d # s) = w # py_split d s"
  by (induction w) auto

lemma split_join: "ws \<noteq> [] \<Longrightarrow> (\<And>w. w \<in> set ws \<Longrightarrow> d \<notin> set w) \<Longrightarrow> py_split d (join_with [d] ws) = ws"
  by (induction "[d]" ws rule: join_with.induct) (auto simp: split_word split_append)

lemma py_split_inject: "py_split d s = py_split d t \<longleftrightarrow> s = t"
  by (metis join_split)

abbreviation parts :: "string \<Rightarrow> string list" where
  "parts \<equiv> py_split (CHR ''/'')"

text \<open>A name a directory tree can hold, and the directories above it.\<close>

definition plain_path :: "string \<Rightarrow> bool" where
  "plain_path name \<longleftrightarrow> backslash \<notin> set name \<and> list_all (\<lambda>p. p \<notin> {[], ''.'', ''..''}) (parts name)"

definition dirs_above :: "string \<Rightarrow> string list" where
  "dirs_above name = map (\<lambda>n. join_with ''/'' (take n (parts name))) [1..<length (parts name)]"

definition tree_names :: "string list \<Rightarrow> bool" where
  "tree_names ns \<longleftrightarrow>
     distinct ns \<and> list_all plain_path ns \<and> list_all (\<lambda>n. list_all (\<lambda>d. d \<notin> set ns) (dirs_above n)) ns"

lemma plain_name_parts: "plain_path name \<Longrightarrow> name_parts name = parts name"
  by (auto simp: plain_path_def name_parts_def list_all_iff intro!: filter_True)

lemma plain_path_start: "plain_path name \<Longrightarrow> name \<noteq> [] \<and> hd name \<noteq> CHR ''/''"
  by (cases name) (auto simp: plain_path_def)

lemma place_of_name: "plain_path name \<Longrightarrow> member_place dest (name_parts name) = dest @ ''/'' @ name"
proof -
  obtain w ws where "parts name = w # ws" using py_split_nonempty [of "CHR ''/''" name] by (metis neq_Nil_conv)
  moreover have "join_with ''/'' (parts name) = name" using join_split [of "CHR ''/''" name] by simp
  ultimately show "plain_path name \<Longrightarrow> ?thesis" by (simp add: member_place_def plain_name_parts)
qed

lemma member_dirs_of_name:
  assumes "plain_path name"
  shows "member_dirs dest (name_parts name) = dest # map (\<lambda>d. dest @ ''/'' @ d) (dirs_above name)"
proof -
  obtain k where k: "length (parts name) = Suc k" using py_split_nonempty [of "CHR ''/''" name] by (cases "parts name") auto
  have "member_place dest (take n (parts name)) = dest @ ''/'' @ join_with ''/'' (take n (parts name))"
    if n: "1 \<le> n" for n
  proof -
    obtain w ws where "take n (parts name) = w # ws"
      using n k by (cases "take n (parts name)") auto
    then show ?thesis by (simp add: member_place_def)
  qed
  then have "map (\<lambda>n. member_place dest (take n (parts name))) [1..<Suc k] =
      map (\<lambda>d. dest @ ''/'' @ d) (dirs_above name)"
    unfolding dirs_above_def k map_map by (intro map_cong) auto
  then show ?thesis
    using k upt_conv_Cons [of 0 "Suc k"]
    by (simp add: member_dirs_def plain_name_parts [OF assms] member_place_def del: upt_Suc)
qed

lemma not_above_itself: "name \<notin> set (dirs_above name)"
proof
  assume "name \<in> set (dirs_above name)"
  then obtain n where n: "1 \<le> n" "n < length (parts name)" "name = join_with ''/'' (take n (parts name))"
    by (auto simp: dirs_above_def)
  have "py_split (CHR ''/'') (join_with ''/'' (take n (parts name))) = take n (parts name)"
  proof (rule split_join)
    show "take n (parts name) \<noteq> []" using n py_split_nonempty [of "CHR ''/''" name] by auto
    show "CHR ''/'' \<notin> set w" if "w \<in> set (take n (parts name))" for w
      using that split_no_sep in_set_takeD by metis
  qed
  with n show False by (metis length_take min.absorb4 nat_less_le)
qed

section \<open>Making directories\<close>

lemma make_dirs_result:
  assumes "\<And>d. d \<in> set ds \<Longrightarrow> map_of ws d \<in> {None, Some FDir}" and "distinct (map fst ws)"
  shows "\<exists>ws'. make_dirs ds ws = Inr ws' \<and> distinct (map fst ws') \<and>
    (\<forall>q. map_of ws' q = (if q \<in> set ds then Some FDir else map_of ws q))"
  using assms
proof (induction ds arbitrary: ws)
  case (Cons d ds)
  show ?case
  proof (cases "map_of ws d")
    case None
    have "\<exists>ws'. make_dirs ds (dput d FDir ws) = Inr ws' \<and> distinct (map fst ws') \<and>
        (\<forall>q. map_of ws' q = (if q \<in> set ds then Some FDir else map_of (dput d FDir ws) q))"
      by (rule Cons.IH) (use Cons.prems in auto)
    then obtain ws' where "make_dirs ds (dput d FDir ws) = Inr ws'" "distinct (map fst ws')"
      "\<And>q. map_of ws' q = (if q \<in> set ds then Some FDir else map_of (dput d FDir ws) q)" by blast
    with None show ?thesis by (intro exI [of _ ws']) simp
  next
    case (Some node)
    then have "map_of ws d = Some FDir" using Cons.prems(1) [of d] by simp
    moreover have "\<exists>ws'. make_dirs ds ws = Inr ws' \<and> distinct (map fst ws') \<and>
        (\<forall>q. map_of ws' q = (if q \<in> set ds then Some FDir else map_of ws q))"
      by (rule Cons.IH) (use Cons.prems in auto)
    then obtain ws' where "make_dirs ds ws = Inr ws'" "distinct (map fst ws')"
      "\<And>q. map_of ws' q = (if q \<in> set ds then Some FDir else map_of ws q)" by blast
    ultimately show ?thesis by (intro exI [of _ ws']) simp
  qed
qed simp

section \<open>Extraction\<close>

text \<open>The node a tree of files has at a name.\<close>

definition tree_node :: "(string \<times> string) list \<Rightarrow> string \<Rightarrow> fs_node option" where
  "tree_node files q =
     (case map_of files q of
        Some c \<Rightarrow> Some (FFile 420 c)
      | None \<Rightarrow> if list_ex (\<lambda>f. q \<in> set (dirs_above (fst f))) files then Some FDir else None)"

definition regular_member :: "string \<times> string \<Rightarrow> tar_member" where
  "regular_member f = \<lparr>tm_name = fst f, tm_regular = True, tm_content = Some (snd f)\<rparr>"

definition archive_law :: "'w tools \<Rightarrow> bool" where
  "archive_law X \<longleftrightarrow> (\<forall>files. bx_unpack X (bx_pack X files) = (map regular_member files, True))"

text \<open>A directory holds exactly a tree of files.\<close>

definition holds_tree :: "string \<Rightarrow> (string \<times> string) list \<Rightarrow> work \<Rightarrow> bool" where
  "holds_tree dest files ws \<longleftrightarrow>
     distinct (map fst ws) \<and> map_of ws dest = Some FDir \<and> (\<forall>q. map_of ws (dest @ ''/'' @ q) = tree_node files q)"

lemma tree_names_snoc:
  assumes "tree_names (map fst (files @ [f]))"
  shows "tree_names (map fst files)" and "plain_path (fst f)" and "fst f \<notin> fst ` set files"
    and "d \<in> set (dirs_above (fst f)) \<Longrightarrow> d \<notin> fst ` set files"
    and "g \<in> set files \<Longrightarrow> fst f \<notin> set (dirs_above (fst g))"
  using assms by (auto simp: tree_names_def list_all_iff)

lemma tree_node_snoc:
  assumes "fst f \<notin> fst ` set files" and "\<And>d. d \<in> set (dirs_above (fst f)) \<Longrightarrow> d \<notin> fst ` set files"
  shows "tree_node (files @ [f]) q =
    (if q = fst f then Some (FFile 420 (snd f))
     else if q \<in> set (dirs_above (fst f)) then Some FDir else tree_node files q)"
proof -
  have none: "map_of files d = None" if "d \<notin> fst ` set files" for d
    using that by (simp add: map_of_eq_None_iff)
  show ?thesis
  proof (cases "map_of files q")
    case None
    then show ?thesis by (cases f) (auto simp: tree_node_def map_add_def)
  next
    case (Some c)
    then have "q \<in> fst ` set files" using none by force
    then have "q \<noteq> fst f" "q \<notin> set (dirs_above (fst f))" using assms by blast+
    with Some show ?thesis by (cases f) (simp add: tree_node_def map_add_def)
  qed
qed

lemma extract_one:
  assumes names: "tree_names (map fst (files @ [f]))" and holds: "holds_tree dest files ws" and P: "stores P"
    and seen: "seen = rev (map fst files)"
  shows "\<exists>ws' t. holds_tree dest (files @ [f]) ws' \<and>
    extract_members P root dest (regular_member f # ms) seen ws s = extract_members P root dest ms (fst f # seen) ws' t"
proof -
  note n = tree_names_snoc [OF names]
  let ?ds = "dest # map (\<lambda>d. dest @ ''/'' @ d) (dirs_above (fst f))" and ?p = "dest @ ''/'' @ fst f"
  have safe: "member_safe (regular_member f) seen"
    using n(2,3) plain_path_start [OF n(2)] plain_name_parts [OF n(2)] seen
    by (auto simp: member_safe_def regular_member_def plain_path_def list_all_iff)
  have node: "map_of ws (dest @ ''/'' @ q) = tree_node files q" "map_of ws dest = Some FDir" for q
    using holds by (simp_all add: holds_tree_def)
  have "map_of ws d \<in> {None, Some FDir}" if "d \<in> set ?ds" for d
  proof (cases "d = dest")
    case False
    then obtain q where q: "d = dest @ ''/'' @ q" "q \<in> set (dirs_above (fst f))" using \<open>d \<in> set ?ds\<close> by auto
    then have "map_of files q = None" using n(4) by (simp add: map_of_eq_None_iff)
    then show ?thesis using q node(1) [of q] by (simp add: tree_node_def)
  qed (simp add: node)
  then obtain ws1 where ws1: "make_dirs ?ds ws = Inr ws1" "distinct (map fst ws1)"
    "\<And>q. map_of ws1 q = (if q \<in> set ?ds then Some FDir else map_of ws q)"
    using make_dirs_result [of ?ds ws] holds unfolding holds_tree_def by blast
  have here: "map_of ws1 dest = Some FDir" by (simp add: ws1(3))
  have below: "map_of ws1 (dest @ ''/'' @ q) = (if q \<in> set (dirs_above (fst f)) then Some FDir else tree_node files q)" for q
    using node(1) [of q] by (auto simp: ws1(3))
  have "map_of files (fst f) = None" using n(3) by (simp add: map_of_eq_None_iff)
  then have "tree_node files (fst f) = None"
    using n(5) by (auto simp: tree_node_def list_ex_iff)
  then have free: "map_of ws1 ?p = None"
    using not_above_itself [of "fst f"] below [of "fst f"] by simp
  obtain t where t: "ws_create P root ?p (snd f) ws1 s = (Inr (dput ?p (FFile 420 (snd f)) ws1), t)"
    using ws_create_stores [OF P free] by blast
  have grown: "tree_node (files @ [f]) q =
      (if q = fst f then Some (FFile 420 (snd f))
       else if q \<in> set (dirs_above (fst f)) then Some FDir else tree_node files q)" for q
    by (rule tree_node_snoc [OF n(3,4)])
  have "holds_tree dest (files @ [f]) (dput ?p (FFile 420 (snd f)) ws1)"
    unfolding holds_tree_def using distinct_dput [OF ws1(2)] here below grown by simp
  moreover have "extract_members P root dest (regular_member f # ms) seen ws s =
      extract_members P root dest ms (fst f # seen) (dput ?p (FFile 420 (snd f)) ws1) t"
  proof -
    have "make_dirs (member_dirs dest (name_parts (tm_name (regular_member f)))) ws = Inr ws1"
      using ws1(1) member_dirs_of_name [OF n(2)] by (simp add: regular_member_def)
    moreover have "member_place dest (name_parts (tm_name (regular_member f))) = ?p"
      using place_of_name [OF n(2)] by (simp add: regular_member_def)
    moreover have "tm_content (regular_member f) = Some (snd f)" "tm_name (regular_member f) = fst f"
      by (simp_all add: regular_member_def)
    ultimately show ?thesis
      using safe t by (simp add: seqc_def raise_if_def bnd_def ret_def lift_res_def)
  qed
  ultimately show ?thesis by blast
qed

lemma list_all_in: "list_all p xs \<Longrightarrow> x \<in> set xs \<Longrightarrow> p x"
  by (simp add: list_all_iff)

lemma list_allI: "(\<And>x. x \<in> set xs \<Longrightarrow> p x) \<Longrightarrow> list_all p xs"
  by (simp add: list_all_iff)

lemma tree_names_append:
  assumes "tree_names (a @ b)"
  shows "tree_names a"
proof -
  have "list_all (\<lambda>d. d \<notin> set a) (dirs_above n)" if "n \<in> set a" for n
  proof -
    have "list_all (\<lambda>n. list_all (\<lambda>d. d \<notin> set (a @ b)) (dirs_above n)) (a @ b)"
      using assms unfolding tree_names_def by (elim conjE)
    then have "list_all (\<lambda>d. d \<notin> set (a @ b)) (dirs_above n)"
      by (rule list_all_in) (use that in simp)
    then show ?thesis by (rule list_all_mono') simp
  qed
  then have "list_all (\<lambda>n. list_all (\<lambda>d. d \<notin> set a) (dirs_above n)) a" by (rule list_allI)
  then show ?thesis using assms by (simp add: tree_names_def)
qed

lemma extract_all:
  assumes "tree_names (map fst (files @ rest))" and "holds_tree dest files ws" and "stores P"
  shows "\<exists>ws' t. holds_tree dest (files @ rest) ws' \<and>
    extract_members P root dest (map regular_member rest) (rev (map fst files)) ws s = (Inr ws', t)"
  using assms(1,2)
proof (induction rest arbitrary: files ws s)
  case Nil
  then have "extract_members P root dest (map regular_member []) (rev (map fst files)) ws s = (Inr ws, s)"
    by (simp add: ret_def)
  with Nil show ?case by (intro exI [of _ ws] exI [of _ s]) simp
next
  case (Cons f rest)
  have names: "tree_names (map fst (files @ [f]))"
    using tree_names_append [of "map fst (files @ [f])" "map fst rest"] Cons.prems(1) by simp
  obtain ws1 t1 where one: "holds_tree dest (files @ [f]) ws1"
    "extract_members P root dest (regular_member f # map regular_member rest) (rev (map fst files)) ws s =
     extract_members P root dest (map regular_member rest) (fst f # rev (map fst files)) ws1 t1"
    using extract_one [OF names Cons.prems(2) assms(3) refl] by blast
  have "tree_names (map fst ((files @ [f]) @ rest))" using Cons.prems(1) by simp
  then obtain ws2 t2 where "holds_tree dest ((files @ [f]) @ rest) ws2"
    "extract_members P root dest (map regular_member rest) (rev (map fst (files @ [f]))) ws1 t1 = (Inr ws2, t2)"
    using Cons.IH [of "files @ [f]" ws1 t1] one(1) by blast
  moreover have "rev (map fst (files @ [f])) = fst f # rev (map fst files)" "(files @ [f]) @ rest = files @ f # rest"
    by simp_all
  ultimately have "holds_tree dest (files @ f # rest) ws2"
    "extract_members P root dest (map regular_member (f # rest)) (rev (map fst files)) ws s = (Inr ws2, t2)"
    using one(2) by (simp_all only: list.map)
  then show ?case by blast
qed

section \<open>The tree read back\<close>

definition file_of :: "string \<times> fs_node \<Rightarrow> (string \<times> string) list" where
  "file_of e = (case snd e of FFile m c \<Rightarrow> [(fst e, c)] | _ \<Rightarrow> [])"

definition is_regular :: "string \<times> fs_node \<Rightarrow> bool" where
  "is_regular e \<longleftrightarrow> (case snd e of FFile m c \<Rightarrow> True | _ \<Rightarrow> False)"

abbreviation tree_order :: "string \<times> 'a \<Rightarrow> string list" where
  "tree_order e \<equiv> parts (fst e)"

lemma tree_entries:
  "rmap tree_entry es = Inr r \<longleftrightarrow> (\<forall>e\<in>set es. \<forall>q. snd e \<noteq> FLink q) \<and> r = map file_of es"
proof (induction es arbitrary: r)
  case (Cons e es)
  then show ?case by (cases "snd e") (auto simp: tree_entry_def file_of_def)
qed auto

lemma names_of_files: "map fst (concat (map file_of es)) = map fst (List.filter is_regular es)"
  by (induction es) (auto simp: file_of_def is_regular_def split: fs_node.splits)

lemma files_sorted:
  assumes "sorted (map tree_order es)"
  shows "sorted (map tree_order (concat (map file_of es)))"
proof -
  have "map tree_order (concat (map file_of es)) = map parts (map fst (concat (map file_of es)))" by simp
  also have "\<dots> = map tree_order (List.filter is_regular es)" by (simp add: names_of_files)
  finally show ?thesis using sorted_filter [OF assms] by simp
qed

lemma tree_files_sorted:
  assumes "tree_files name ws = Inr files"
  shows "sorted (map tree_order files)"
proof -
  have "files = concat (map file_of (ws_below name ws))"
    using assms by (auto simp: tree_files_def tree_entries)
  moreover have "sorted (map tree_order (ws_below name ws))" unfolding ws_below_def by (rule sorted_sort_key)
  ultimately show ?thesis using files_sorted by simp
qed

lemma same_tree:
  assumes "sorted (map tree_order a)" "distinct (map fst a)" "sorted (map tree_order b)" "distinct (map fst b)"
    and "set a = set b"
  shows "a = b"
proof (rule map_sorted_distinct_set_unique [where f = tree_order])
  have key: "inj_on tree_order (set b)"
    using assms(4) by (auto simp: distinct_map inj_on_def py_split_inject)
  then show "inj_on tree_order (set a \<union> set b)" using assms(5) by simp
  show "distinct (map tree_order b)" using assms(4) key by (simp add: distinct_map)
  have "distinct a" using assms(2) by (simp add: distinct_map)
  then show "distinct (map tree_order a)" using key assms(5) by (simp add: distinct_map)
qed (use assms in auto)

lemma starts_with_drop: "starts_with p s \<longleftrightarrow> p @ drop (length p) s = s"
  unfolding starts_with_iff by (metis append_eq_conv_conj)

lemma stripped_entries:
  fixes p :: string
  assumes "distinct (map fst ws)"
  defines "m \<equiv> \<lambda>e :: string \<times> 'a. (drop (length p) (fst e), snd e)"
  defines "f \<equiv> List.filter (\<lambda>e. starts_with p (fst e)) ws"
  shows "(q, node) \<in> set (map m f) \<longleftrightarrow> map_of ws (p @ q) = Some node" and "distinct (map fst (map m f))"
proof -
  have key: "p @ drop (length p) (fst e) = fst e" if "e \<in> set f" for e
    using that by (simp add: f_def starts_with_drop)
  have "(q, node) \<in> m ` set f \<longleftrightarrow> (p @ q, node) \<in> set ws"
  proof
    assume "(q, node) \<in> m ` set f"
    then obtain e where e: "e \<in> set f" "q = drop (length p) (fst e)" "node = snd e" by (auto simp: m_def)
    then have "e = (p @ q, node)" using key [OF e(1)] by (metis prod.collapse)
    with e(1) show "(p @ q, node) \<in> set ws" by (simp add: f_def)
  next
    assume "(p @ q, node) \<in> set ws"
    then have "(p @ q, node) \<in> set f" by (simp add: f_def)
    then show "(q, node) \<in> m ` set f" by (rule rev_image_eqI) (simp add: m_def)
  qed
  then show "(q, node) \<in> set (map m f) \<longleftrightarrow> map_of ws (p @ q) = Some node"
    using assms(1) by simp
  have d: "distinct (map fst f)" unfolding f_def using assms(1) by (rule distinct_map_filter)
  have "inj_on (drop (length p)) (fst ` set f)"
  proof (rule inj_onI)
    fix a b assume a: "a \<in> fst ` set f" "b \<in> fst ` set f" "drop (length p) a = drop (length p) b"
    obtain e e' where e: "e \<in> set f" "e' \<in> set f" "a = fst e" "b = fst e'" using a(1,2) by (elim imageE)
    then show "a = b" using key [OF e(1)] key [OF e(2)] a(3) by metis
  qed
  with d have "distinct (map (drop (length p)) (map fst f))" unfolding distinct_map set_map by blast
  then show "distinct (map fst (map m f))" by (simp add: m_def comp_def)
qed

lemma below_entries:
  assumes "distinct (map fst ws)"
  shows "(q, node) \<in> set (ws_below name ws) \<longleftrightarrow> map_of ws (name @ ''/'' @ q) = Some node"
    and "distinct (map fst (ws_below name ws))"
proof -
  note s = stripped_entries [OF assms, where p = "name @ ''/''"]
  show "(q, node) \<in> set (ws_below name ws) \<longleftrightarrow> map_of ws (name @ ''/'' @ q) = Some node"
    using s(1) [where q = q and node = node] by (simp add: ws_below_def)
  have "distinct (map fst (sort_key k (map m f)))" if "distinct (map fst (map m f))"
    for k :: "string \<times> fs_node \<Rightarrow> string list" and m :: "string \<times> fs_node \<Rightarrow> string \<times> fs_node" and f
    using that unfolding distinct_map set_sort distinct_sort by blast
  from this [OF s(2)] show "distinct (map fst (ws_below name ws))"
    by (simp add: ws_below_def)
qed

lemma holds_tree_files:
  assumes "holds_tree dest files ws" and "sorted (map tree_order files)" and "distinct (map fst files)"
  shows "tree_files dest ws = Inr files"
proof -
  have d: "distinct (map fst ws)" and root: "map_of ws dest = Some FDir"
    and node: "\<And>q. map_of ws (dest @ ''/'' @ q) = tree_node files q"
    using assms(1) by (simp_all add: holds_tree_def)
  let ?L = "ws_below dest ws" and ?R = "concat (map file_of (ws_below dest ws))"
  have entry: "(q, n) \<in> set ?L \<longleftrightarrow> tree_node files q = Some n" for q n
    using below_entries(1) [OF d, of q n dest] node [of q] by simp
  then have "snd e \<noteq> FLink q" if "e \<in> set ?L" for e q
    using that by (cases e) (auto simp: tree_node_def split: option.splits if_splits)
  moreover have "?R = files"
  proof (rule same_tree)
    show "sorted (map tree_order ?R)"
      by (rule files_sorted) (simp add: ws_below_def)
    show "distinct (map fst ?R)"
      unfolding names_of_files by (rule distinct_map_filter [OF below_entries(2) [OF d]])
    have "(q, c) \<in> set ?R \<longleftrightarrow> (\<exists>m. (q, FFile m c) \<in> set ?L)" for q c
      by (auto simp: file_of_def split: fs_node.splits) force
    then have "(q, c) \<in> set ?R \<longleftrightarrow> map_of files q = Some c" for q c
      by (auto simp: entry tree_node_def split: option.splits if_splits)
    then show "set ?R = set files" using assms(3) by auto
  qed (use assms in auto)
  ultimately show ?thesis
    using root by (auto simp: tree_files_def tree_entries is_symlink_def is_dir_def fs_follow_def numeral_eq_Suc)
qed

lemma extract_bundle:
  assumes law: "archive_law X" and P: "stores P" and names: "tree_names (map fst files)"
    and sorted: "sorted (map tree_order files)"
    and vs: "distinct (map fst vs)" "map_of vs dest = None" "\<And>q. map_of vs (dest @ ''/'' @ q) = None"
    and packed: "map_of vs bundle = Some (FFile m (bx_pack X files))"
  shows "\<exists>ws t. extract_object_bundle X P root bundle dest vs s = (Inr ws, t) \<and> tree_files dest ws = Inr files"
proof -
  let ?ws = "dput dest FDir vs"
  have "holds_tree dest [] ?ws"
    using vs by (simp add: holds_tree_def tree_node_def)
  with names P obtain ws t where x: "holds_tree dest files ws"
    "extract_members P root dest (map regular_member files) [] ?ws s = (Inr ws, t)"
    using extract_all [of "[]" files dest ?ws P root s] by auto
  have "bundle \<noteq> dest" using vs(2) packed by auto
  then have "ws_read ?ws bundle = Inr (bx_pack X files)"
    using packed by (simp add: ws_read_def read_bytes_def fs_follow_def numeral_eq_Suc)
  then have "extract_object_bundle X P root bundle dest vs s = (Inr ws, t)"
    using law vs(2) x(2)
    by (simp add: extract_object_bundle_def ws_mkdir_def archive_law_def bnd_def seqc_def raise_if_def ret_def lift_res_def)
  moreover have "tree_files dest ws = Inr files"
    by (rule holds_tree_files [OF x(1) sorted]) (use names in \<open>simp add: tree_names_def\<close>)
  ultimately show ?thesis by blast
qed

section \<open>Where an extraction writes\<close>

definition safe_parts :: "string list \<Rightarrow> bool" where
  "safe_parts ps \<longleftrightarrow>
     list_all (\<lambda>p. p \<notin> {[], ''.'', ''..''} \<and> CHR ''/'' \<notin> set p \<and> backslash \<notin> set p) ps"

definition extracted :: "string \<Rightarrow> string \<Rightarrow> work \<Rightarrow> event \<Rightarrow> bool" where
  "extracted root dest ws e \<longleftrightarrow>
     (\<exists>ps c. e = EvWrite (path_join root (member_place dest ps)) c \<and> safe_parts ps \<and>
        map_of ws (member_place dest ps) = None)"

fun written_path :: "event \<Rightarrow> string" where
  "written_path (EvWrite path content) = path"
| "written_path e = []"

lemma join_chars: "c \<in> set w \<Longrightarrow> w \<in> set ws \<Longrightarrow> c \<in> set (join_with sep ws)"
  by (induction sep ws rule: join_with.induct) auto

lemma split_chars: "w \<in> set (py_split d s) \<Longrightarrow> c \<in> set w \<Longrightarrow> c \<in> set s"
  using join_chars [of c w "py_split d s" "[d]"] by (simp add: join_split)

lemma member_safe_parts: "member_safe m seen \<Longrightarrow> safe_parts (name_parts (tm_name m))"
  unfolding member_safe_def safe_parts_def name_parts_def list_all_iff
  by (auto dest: split_no_sep split_chars)

lemma make_dirs_keeps: "make_dirs ds ws = Inr ws' \<Longrightarrow> map_of ws q \<noteq> None \<Longrightarrow> map_of ws' q \<noteq> None"
proof (induction ds arbitrary: ws)
  case (Cons d ds)
  then show ?case by (cases "map_of ws d") (auto split: fs_node.splits if_splits)
qed simp

lemma extracted_earlier:
  "(\<And>q. map_of ws q \<noteq> None \<Longrightarrow> map_of ws' q \<noteq> None) \<Longrightarrow> extracted root dest ws' e \<Longrightarrow> extracted root dest ws e"
  unfolding extracted_def by blast

lemma ws_create_cases:
  assumes "ws_create P root name c ws s = (r, t)"
  obtains (written) "r = Inr (dput name (FFile 420 c) ws)" and "map_of ws name = None"
      and "trace t = EvWrite (path_join root name) c # trace s"
    | (failed) "r = Inl OsErr" and "trace t = trace s"
proof (cases "map_of ws name")
  case None
  then have "ws_write P root name c ws s = (r, t)"
    using assms by (simp add: ws_create_def seqc_def raise_if_def bnd_def ret_def)
  then show ?thesis using None written failed by (cases rule: ws_write_cases) auto
next
  case (Some n)
  then show ?thesis using assms failed by (simp add: ws_create_def seqc_def raise_if_def bnd_def throw_def)
qed

lemma extract_members_confined:
  "extract_members P root dest ms seen ws s = (r, t) \<Longrightarrow>
   \<exists>new. trace t = new @ trace s \<and> list_all (extracted root dest ws) new \<and> distinct (map written_path new)"
proof (induction ms arbitrary: seen ws s)
  case Nil
  then show ?case by (simp add: ret_def)
next
  case (Cons m ms)
  show ?case
  proof (cases "member_safe m seen")
    case False
    then show ?thesis using Cons.prems by (simp add: run_simps throw_def)
  next
    case safe: True
    let ?ps = "name_parts (tm_name m)" let ?p = "member_place dest ?ps"
    show ?thesis
    proof (cases "make_dirs (member_dirs dest ?ps) ws")
      case (Inl e)
      then show ?thesis using Cons.prems safe by (simp add: run_simps throw_def)
    next
      case dirs: (Inr ws1)
      note kept = make_dirs_keeps [OF dirs]
      show ?thesis
      proof (cases "tm_content m")
        case None
        then show ?thesis using Cons.prems safe dirs by (simp add: run_simps throw_def)
      next
        case (Some c)
        obtain q u where created: "ws_create P root ?p c ws1 s = (q, u)" by fastforce
        have "bnd (ws_create P root ?p c ws1) (\<lambda>ws2. extract_members P root dest ms (tm_name m # seen) ws2) s = (r, t)"
          using Cons.prems safe dirs Some by (simp add: run_simps)
        with created have rest: "(case q of Inl e \<Rightarrow> (Inl e, u)
            | Inr ws2 \<Rightarrow> extract_members P root dest ms (tm_name m # seen) ws2 u) = (r, t)"
          by (simp add: bnd_def)
        from created show ?thesis
        proof (cases rule: ws_create_cases)
          case written
          let ?ws2 = "dput ?p (FFile 420 c) ws1"
          obtain new where new: "trace t = new @ trace u" "list_all (extracted root dest ?ws2) new"
            "distinct (map written_path new)"
            using Cons.IH [of "tm_name m # seen" ?ws2 u] rest written(1) by auto
          have "extracted root dest ws e" if "extracted root dest ?ws2 e" for e
            by (rule extracted_earlier [OF _ that]) (use kept in auto)
          then have "list_all (extracted root dest ws) new"
            using new(2) by (rule list_all_mono' [rotated])
          moreover have "extracted root dest ws (EvWrite (path_join root ?p) c)"
            unfolding extracted_def using member_safe_parts [OF safe] kept written(2) by blast
          moreover have "path_join root ?p \<noteq> written_path e" if "e \<in> set new" for e
          proof -
            have "extracted root dest ?ws2 e" using new(2) that by (rule list_all_in)
            then show ?thesis by (auto simp: extracted_def)
          qed
          ultimately show ?thesis
            using new(1,3) written(3)
            by (intro exI [of _ "new @ [EvWrite (path_join root ?p) c]"]) auto
        next
          case failed
          with rest show ?thesis by auto
        qed
      qed
    qed
  qed
qed

text \<open>A member no reader accepts stops the extraction, wherever it is.\<close>

lemma extract_members_refused:
  fixes s :: "('w, 'z) sys_scheme"
  assumes "\<exists>m\<in>set ms. \<forall>seen. \<not> member_safe m seen"
  shows "\<exists>e u. extract_members P root dest ms seen ws s = (Inl e, u)"
  using assms
proof (induction ms arbitrary: seen ws s)
  case (Cons m ms)
  show ?case
  proof (cases "\<forall>seen. \<not> member_safe m seen")
    case True
    then show ?thesis by (simp add: run_simps throw_def)
  next
    case False
    then have "\<exists>m\<in>set ms. \<forall>seen. \<not> member_safe m seen" using Cons.prems by auto
    then have later: "\<exists>e u. extract_members P root dest ms seen' ws' s' = (Inl e, u)"
      for seen' ws' and s' :: "('w, 'z) sys_scheme"
      by (rule Cons.IH)
    show ?thesis
      by (auto simp: seqc_def raise_if_def throw_def ret_def bnd_def lift_res_def later
          split: sum.splits prod.splits option.splits)
  qed
qed simp

end
