(* ===== verification/Backup_Example.thy ===== *)
theory Backup_Example
  imports Backup_Steps Backup_Roundtrip Sample_Post
begin

text \<open>
  A candidate with one sealed backup, tools that do what they are asked for, and the restore of that
  backup carried out: the run the properties of the controller are applied to.
\<close>

section \<open>Computations that always return\<close>

definition gives :: "('s, 'a) comp \<Rightarrow> 'a \<Rightarrow> bool" where
  "gives m x \<longleftrightarrow> (\<forall>s. \<exists>t. m s = (Inr x, t))"

lemma gives_bnd: "gives m x \<Longrightarrow> gives (f x) y \<Longrightarrow> gives (bnd m f) y"
  unfolding gives_def bnd_def by (metis (no_types, lifting) old.prod.case old.sum.simps(6))

lemma gives_seqc: "gives m x \<Longrightarrow> gives n y \<Longrightarrow> gives (seqc m n) y"
  unfolding seqc_def by (rule gives_bnd)

lemma gives_ret [simp]: "gives (ret x) y \<longleftrightarrow> x = y"
  by (auto simp: gives_def ret_def)

section \<open>A cipher and an archive format\<close>

text \<open>
  Self-delimiting text: a mark before every character and one at the end. The cipher keeps the
  authenticated data in front of the text, the archive lists names and contents.
\<close>

fun put_text :: "string \<Rightarrow> string \<Rightarrow> string" where
  "put_text [] r = CHR ''e'' # r"
| "put_text (c # s) r = CHR ''c'' # c # put_text s r"

fun get_text :: "string \<Rightarrow> string \<times> string" where
  "get_text [] = ([], [])"
| "get_text [a] = ([], [])"
| "get_text (a # c # s) =
     (if a = CHR ''c'' then (c # fst (get_text s), snd (get_text s)) else ([], c # s))"

lemma get_put [simp]: "get_text (put_text t r) = (t, r)"
  by (induction t) (cases r; simp)+

fun pack_files :: "(string \<times> string) list \<Rightarrow> string" where
  "pack_files [] = []"
| "pack_files (f # fs) = CHR ''m'' # put_text (fst f) (put_text (snd f) (pack_files fs))"

fun unpack_files :: "nat \<Rightarrow> string \<Rightarrow> tar_member list" where
  "unpack_files (Suc n) (m # s) =
     regular_member (fst (get_text s), fst (get_text (snd (get_text s)))) #
     unpack_files n (snd (get_text (snd (get_text s))))"
| "unpack_files n s = []"

lemma length_put_text: "length (put_text t r) = 2 * length t + 1 + length r"
  by (induction t) auto

lemma unpack_pack: "length fs \<le> n \<Longrightarrow> unpack_files n (pack_files fs) = map regular_member fs"
proof (induction fs arbitrary: n)
  case Nil
  then show ?case by (cases n) simp_all
next
  case (Cons f fs)
  then show ?case by (cases n) auto
qed

lemma length_pack: "length fs \<le> length (pack_files fs)"
  by (induction fs) (auto simp: length_put_text)

definition toy_seal :: "string \<Rightarrow> string \<Rightarrow> string \<Rightarrow> string \<Rightarrow> string" where
  "toy_seal k n p a = put_text a p"

definition toy_open :: "string \<Rightarrow> string \<Rightarrow> string \<Rightarrow> string \<Rightarrow> string option" where
  "toy_open k n c a = (if fst (get_text c) = a then Some (snd (get_text c)) else None)"

section \<open>The candidate\<close>

definition sample_postgres :: "string \<Rightarrow> postgres_target" where
  "sample_postgres host =
     \<lparr>pt_host = host, pt_port = 5432, pt_database = ''zkdeal'', pt_user = ''zkdeal'', pt_password = ''password''\<rparr>"

definition sample_minio :: "string \<Rightarrow> minio_target" where
  "sample_minio name =
     \<lparr>mt_endpoint = ''http://'' @ name, mt_access_key = ''access-'' @ name, mt_secret_key = ''secret-key'', mt_bucket = ''bucket''\<rparr>"

definition sample_target :: restore_target where
  "sample_target = \<lparr>rt_postgres = sample_postgres ''fresh-db'', rt_minio = sample_minio ''fresh''\<rparr>"

definition sample_topology :: bk_topology where
  "sample_topology =
     \<lparr>bt_classification = ''non-release-fixture'', bt_candidate_id = ''candidate-1'',
      bt_plan_sha256 = replicate 64 CHR ''0'', bt_hosted_token = ''hosted-1'',
      bt_scoped_token_sha256 = replicate 64 CHR ''1'', bt_source_postgres = sample_postgres ''source-db'',
      bt_source_minio = sample_minio ''source'', bt_backup_store = sample_minio ''store'',
      bt_encryption_key = replicate 64 CHR ''4'', bt_encryption_key_id = ''key-1'',
      bt_restore_targets = [(''fresh-primary'', sample_target)], bt_timeout_seconds = 60,
      bt_topology_sha256 = replicate 64 CHR ''2''\<rparr>"

definition sample_control :: bk_controller where
  "sample_control =
     \<lparr>bk_topology = sample_topology, bk_token = ''eph_demo'', bk_root = ''/journal'',
      bk_binding_digest = replicate 64 CHR ''0'', bk_receipt = [(''platform'', JStr ''docker'')]\<rparr>"

definition sample_id :: string where "sample_id = ''bk-'' @ replicate 40 CHR ''0''"

section \<open>The sealed backup\<close>

definition sample_files :: "(string \<times> string) list" where "sample_files = [(''a'', ''x'')]"

definition sample_plain :: "string \<Rightarrow> string" where
  "sample_plain name =
     (if name = ''database.dump'' then ''dump''
      else if name = ''objects.bundle.tar'' then pack_files sample_files
      else canonical_bytes (JObj (manifest_of sample_files)))"

definition sample_nonce :: string where "sample_nonce = ''nnnnnnnnnnnn''"

definition sample_cipher :: "string \<Rightarrow> string" where
  "sample_cipher name =
     toy_seal (hex_bytes (bt_encryption_key sample_topology)) sample_nonce (sample_plain name)
       (artifact_aad ''candidate-1'' sample_id name ''key-1'')"

definition sample_meta :: "string \<Rightarrow> dict" where
  "sample_meta name =
     [(''artifact'', JStr name), (''encryptedBytes'', JInt (int (length (sample_cipher name)))),
      (''encryptedSha256'', JStr (sha256_hex (sample_cipher name))),
      (''nonce'', JStr (hex_of_bytes (bytes_of sample_nonce))),
      (''plaintextSha256'', JStr (sha256_hex (sample_plain name)))]"

definition sample_dump :: string where "sample_dump = ''SELECT 1;''"

definition sample_database_digest :: string where
  "sample_database_digest = sha256_hex (sample_dump @ newline)"

definition sample_object_digest :: string where
  "sample_object_digest = sha256_hex (canonical_bytes (JObj (manifest_of sample_files)))"

definition sample_public :: dict where
  "sample_public =
     [(''artifacts'', JObj [(''database.dump'', JObj (sample_meta ''database.dump'')),
         (''objects.bundle.tar'', JObj (sample_meta ''objects.bundle.tar'')),
         (''objects.manifest.json'', JObj (sample_meta ''objects.manifest.json''))]),
      (''encryption'', JObj [(''algorithm'', JStr ''AES-256-GCM''), (''keyId'', JStr ''key-1'')]),
      (''sourceDatabaseDigest'', JStr sample_database_digest), (''sourceObjectDigest'', JStr sample_object_digest),
      (''status'', JStr ''COMPLETED'')]"

definition sample_backup :: dict where
  "sample_backup =
     [(''bindingDigest'', JStr (replicate 64 CHR ''0'')), (''kind'', JStr ''backup''),
      (''privateResult'', JObj [(''backupNamespace'', JStr (''candidate-1/'' @ sample_id))]),
      (''publicResult'', JObj sample_public)]"

section \<open>The tools\<close>

text \<open>Every command succeeds; a count is zero, a dump and a mirror leave one line and one file, a download the ciphertext.\<close>

definition helpful_proc :: "string list \<Rightarrow> proc" where
  "helpful_proc cmd =
     \<lparr>returncode = 0, stdout = (if take 1 (tool_args cmd) = [''psql''] then ''0'' else []), stderr = []\<rparr>"

definition helpful_platform :: "unit platform" where
  "helpful_platform =
     \<lparr>p_run = (\<lambda>cmd t w. (Some (helpful_proc cmd), 5, w)), p_http = (\<lambda>rq t w. (NetFail, 7, w)),
      p_dns = (\<lambda>host port w. (Some [host], 1, w)), p_wall = (\<lambda>w. (1700000000000, 1, w)),
      p_sleep = (\<lambda>w. (0, w)), p_store = (\<lambda>f b w. (True, 0, w))\<rparr>"

definition remote_name :: "string \<Rightarrow> string" where
  "remote_name name = remote_prefix sample_topology sample_id @ ''/'' @ name @ ''.enc''"

definition helpful_tools :: "unit tools" where
  "helpful_tools =
     \<lparr>bx_env = (\<lambda>_. None), bx_random = (\<lambda>w. (sample_nonce, w)), bx_seal = toy_seal, bx_open = toy_open,
      bx_left = (\<lambda>cmd w.
        let a = tool_args cmd
        in if take 1 a = [''pg_dump''] then [([], FFile 420 sample_dump)]
           else if take 2 a = [''mc'', ''mirror''] then [(''a'', FFile 420 ''x'')]
           else (case map_of (map (\<lambda>n. (remote_name n, sample_cipher n)) artifact_names) (a ! 2) of
                   Some c \<Rightarrow> [([], FFile 420 c)] | None \<Rightarrow> [])),
      bx_pack = pack_files, bx_unpack = (\<lambda>b. (unpack_files (length b) b, True))\<rparr>"

lemma helpful_laws: "envelope_law helpful_tools" "binds_law helpful_tools" "archive_law helpful_tools" "stores helpful_platform"
  using unpack_pack [OF length_pack]
  by (simp_all add: envelope_law_def binds_law_def archive_law_def stores_def helpful_tools_def helpful_platform_def
      toy_seal_def toy_open_def sample_nonce_def nonce_bytes_def)

lemma gives_run_checked: "gives (run_checked helpful_platform cmd env t l) (helpful_proc (tool_command env cmd))"
  unfolding gives_def
  by (auto simp: run_checked_def run_process_def helpful_platform_def bnd_def catching_def seqc_def raise_if_def ret_def
      helpful_proc_def max_process_output_bytes_def)

lemma gives_run_into:
  "gives (run_into helpful_tools helpful_platform cmd env t l d ws)
     (ws_left d (bx_left helpful_tools (tool_command env cmd) ()) ws)"
  unfolding run_into_def
  by (rule gives_seqc [OF gives_run_checked]) (simp add: gives_def bnd_def gets_def ret_def)

lemma gives_ws_write: "map_of ws n \<noteq> Some FDir \<Longrightarrow> gives (ws_write helpful_platform root n c ws) (dput n (FFile 420 c) ws)"
  unfolding gives_def using ws_write_stores [OF helpful_laws(4)] by blast

lemma gives_ws_create: "map_of ws n = None \<Longrightarrow> gives (ws_create helpful_platform root n c ws) (dput n (FFile 420 c) ws)"
  unfolding gives_def using ws_create_stores [OF helpful_laws(4)] by blast

lemma gives_lift: "r = Inr x \<Longrightarrow> gives (lift_res r) x"
  by (simp add: gives_def lift_res_def)

end
