(* ===== verification/Backup_Run.thy ===== *)
theory Backup_Run
  imports Backup_Example
begin

text \<open>
  The restore of the sample backup carried out in full with the sample tools.
\<close>

section \<open>Downloads\<close>

definition sample_artifacts :: dict where
  "sample_artifacts = map (\<lambda>n. (n, JObj (sample_meta n))) artifact_names"

lemma sample_public_artifacts: "jget sample_public ''artifacts'' = JObj sample_artifacts"
  by (simp add: sample_public_def jget_def sample_artifacts_def artifact_names_def)

lemma sample_sealed: "sealed_backup sample_topology sample_id sample_backup = Inr (sample_public, sample_artifacts)"
  using sample_public_artifacts
  by (simp add: sealed_backup_def sample_backup_def jget_def object_of_def sample_public_def eq_str_def check_def
      backup_namespace_def sample_topology_def aead_algorithm_def sample_artifacts_def same_keys_def keys_def artifact_names_def)

lemma sample_meta_sorted:
  "jsort (JObj (artifact_meta name sample_nonce (sample_plain name) (sample_cipher name))) = JObj (sample_meta name)"
  by (simp add: artifact_meta_def sample_meta_def)

lemma sample_decrypt:
  assumes "ws_read ws en = Inr (sample_cipher name)" and "map_of ws dn = None"
  shows "gives (decrypt_artifact helpful_tools helpful_platform root sample_topology sample_id name (JObj (sample_meta name)) en dn ws)
    (sample_plain name, dput dn (FFile 420 (sample_plain name)) ws)"
proof -
  have aad: "artifact_aad ''candidate-1'' sample_id name ''key-1'' =
      artifact_aad (bt_candidate_id sample_topology) sample_id name (bt_encryption_key_id sample_topology)"
    by (simp add: sample_topology_def)
  have c: "bx_seal helpful_tools (hex_bytes (bt_encryption_key sample_topology)) sample_nonce (sample_plain name)
      (artifact_aad ''candidate-1'' sample_id name ''key-1'') = sample_cipher name"
    by (simp add: helpful_tools_def sample_cipher_def)
  have len: "length sample_nonce = nonce_bytes" by (simp add: sample_nonce_def nonce_bytes_def)
  show ?thesis
    unfolding gives_def
    by (intro allI decrypt_sealed [OF helpful_laws(1,4) len aad]) (use c sample_meta_sorted assms in simp_all)
qed

lemma sample_left:
  assumes "name \<in> set artifact_names"
  shows "bx_left helpful_tools (tool_command env [''mc'', ''cp'', remote_prefix sample_topology sample_id @ ''/'' @ name @ ''.enc'', dst]) () =
    [([], FFile 420 (sample_cipher name))]"
  using assms by (auto simp: helpful_tools_def Let_def artifact_names_def remote_name_def)

definition stored_at :: "string \<Rightarrow> work \<Rightarrow> work" where
  "stored_at name ws =
     dput (downloaded_name name) (FFile 420 (sample_plain name))
       (dput (name @ ''.downloaded.enc'') (FFile 420 (sample_cipher name)) ws)"

lemma sample_download:
  assumes "name \<in> set artifact_names" and "map_of ws (downloaded_name name) = None"
  shows "gives (bk_download helpful_tools helpful_platform sample_topology sample_id root env sample_artifacts name ws)
    (stored_at name ws)"
proof -
  let ?ws = "dput (name @ ''.downloaded.enc'') (FFile 420 (sample_cipher name)) ws"
  have other: "downloaded_name name \<noteq> name @ ''.downloaded.enc''"
    using assms(1) by (auto simp: artifact_names_def downloaded_name_def)
  have "jget sample_artifacts name = JObj (sample_meta name)"
    using assms(1) by (auto simp: sample_artifacts_def artifact_names_def jget_def)
  then have "gives (decrypt_artifact helpful_tools helpful_platform root sample_topology sample_id name
      (jget sample_artifacts name) (name @ ''.downloaded.enc'') (downloaded_name name) ?ws)
      (sample_plain name, stored_at name ws)"
    unfolding stored_at_def using other assms(2) by (auto intro!: sample_decrypt ws_read_put)
  from gives_bnd [OF this, of "\<lambda>r. ret (snd r)" "stored_at name ws"]
  have rest: "gives (bnd (decrypt_artifact helpful_tools helpful_platform root sample_topology sample_id name
      (jget sample_artifacts name) (name @ ''.downloaded.enc'') (downloaded_name name) ?ws) (\<lambda>r. ret (snd r)))
      (stored_at name ws)" by simp
  have "ws_left (name @ ''.downloaded.enc'') (bx_left helpful_tools (tool_command env [''mc'', ''cp'',
      remote_prefix sample_topology sample_id @ ''/'' @ name @ ''.enc'', dst]) ()) ws = ?ws" for dst
    unfolding sample_left [OF assms(1)] by (simp add: ws_left_def ws_place_def)
  with rest show ?thesis
    unfolding bk_download_def Let_def by (intro gives_bnd [OF gives_run_into]) simp
qed

definition sample_downloads :: work where
  "sample_downloads = fold stored_at artifact_names []"

lemma sample_download_all:
  "gives (bk_download_all helpful_tools helpful_platform sample_topology sample_id root env sample_artifacts artifact_names [])
     sample_downloads"
  unfolding artifact_names_def bk_download_all.simps sample_downloads_def fold_simps comp_def id_apply
  by (rule gives_bnd [OF sample_download] gives_ret [THEN iffD2] refl |
      simp add: artifact_names_def stored_at_def downloaded_name_def)+

section \<open>Verification of the objects\<close>

lemma sample_downloads_list:
  "sample_downloads =
     [(''database.dump.downloaded.enc'', FFile 420 (sample_cipher ''database.dump'')),
      (''database.downloaded.dump'', FFile 420 (sample_plain ''database.dump'')),
      (''objects.bundle.tar.downloaded.enc'', FFile 420 (sample_cipher ''objects.bundle.tar'')),
      (''objects.downloaded.bundle.tar'', FFile 420 (sample_plain ''objects.bundle.tar'')),
      (''objects.manifest.json.downloaded.enc'', FFile 420 (sample_cipher ''objects.manifest.json'')),
      (''objects.downloaded.manifest.json'', FFile 420 (sample_plain ''objects.manifest.json''))]"
  by (simp add: sample_downloads_def artifact_names_def stored_at_def downloaded_name_def)

definition sample_unpacked :: work where
  "sample_unpacked = sample_downloads @ [(''source-objects'', FDir), (''source-objects/a'', FFile 420 ''x'')]"

lemma gives_stop: "\<not> c \<Longrightarrow> gives m x \<Longrightarrow> gives (seqc (raise_if c e) m) x"
  by (simp add: run_simps)

lemma gives_res: "r = Inr x \<Longrightarrow> gives (f x) y \<Longrightarrow> gives (bnd (lift_res r) f) y"
  by (rule gives_bnd [OF gives_lift])

lemma ws_read_file: "map_of ws n = Some (FFile m c) \<Longrightarrow> ws_read ws n = Inr c"
  by (simp add: ws_read_def read_bytes_def fs_follow_def eval_nat_numeral)

lemma sample_member: "regular_member (''a'', ''x'') = \<lparr>tm_name = ''a'', tm_regular = True, tm_content = Some ''x''\<rparr>"
  by (simp add: regular_member_def)

lemma backslash_other: "code c \<noteq> 92 \<Longrightarrow> backslash \<noteq> c"
  by (auto simp: backslash_def code_char_of)

lemma sample_extract_members:
  "gives (extract_members helpful_platform root ''source-objects'' [regular_member (''a'', ''x'')] []
      (sample_downloads @ [(''source-objects'', FDir)])) sample_unpacked"
  unfolding extract_members.simps
  apply (rule gives_stop)
   apply (simp add: sample_member member_safe_def name_parts_def backslash_other code_def)
  apply (rule gives_res)
   apply (simp add: sample_member member_dirs_def member_place_def name_parts_def sample_downloads_list)
  apply (simp add: sample_member)
  apply (rule gives_bnd [OF gives_ws_create])
   apply (simp_all add: member_place_def name_parts_def sample_downloads_list sample_unpacked_def)
  done

lemma sample_extract:
  "gives (extract_object_bundle helpful_tools helpful_platform root ''objects.downloaded.bundle.tar'' ''source-objects'' sample_downloads)
     sample_unpacked"
proof -
  let ?ws = "sample_downloads @ [(''source-objects'', FDir)]" and ?b = "sample_plain ''objects.bundle.tar''"
  have ms: "bx_unpack helpful_tools ?b = ([regular_member (''a'', ''x'')], True)"
    using helpful_laws(3) by (simp add: archive_law_def sample_plain_def sample_files_def helpful_tools_def)
  have made: "ws_mkdir ''source-objects'' sample_downloads = Inr ?ws"
    by (simp add: ws_mkdir_def sample_downloads_list)
  have read: "ws_read ?ws ''objects.downloaded.bundle.tar'' = Inr ?b"
    by (rule ws_read_file) (simp add: sample_downloads_list)
  have rest: "gives (bnd (extract_members helpful_platform root ''source-objects'' (fst (bx_unpack helpful_tools ?b)) [] ?ws)
      (\<lambda>ws2. seqc (raise_if (\<not> snd (bx_unpack helpful_tools ?b)) (ToolErr ''ReadError'')) (ret ws2))) sample_unpacked"
    unfolding ms fst_conv snd_conv
    by (rule gives_bnd [OF sample_extract_members gives_stop]) simp_all
  show ?thesis
    unfolding extract_object_bundle_def made bnd_lift_Inr read by (rule rest)
qed

definition sample_manifest :: dict where
  "sample_manifest =
     [(''algorithm'', JStr ''sha256''),
      (''files'', JArr [JObj [(''bytes'', JInt 1), (''path'', JStr ''a''), (''sha256'', JStr (sha256_hex ''x''))]]),
      (''schemaVersion'', JInt 1)]"

lemma sample_manifest_sorted: "jsort (JObj (manifest_of sample_files)) = JObj sample_manifest"
  by (simp add: manifest_of_def manifest_entry_def sample_files_def sample_manifest_def)

lemma sample_manifest_wf: "wf_json (JObj (manifest_of sample_files))"
  by (simp add: manifest_of_def manifest_entry_def sample_files_def utf8_ok_ascii_Cons code_def utf8_sha256)

lemma sample_manifest_weight: "jweight (JObj (manifest_of sample_files)) < 5000"
  by (simp only: manifest_of_def manifest_entry_def sample_files_def jweight.simps list.map sum_list.Cons sum_list.Nil
      split fst_conv snd_conv length_print_sha)
    (simp add: length_print_text code_def int_str_def nat_str.simps)

lemma sample_manifest_short: "length (canonical_bytes (JObj (manifest_of sample_files))) \<le> max_response_bytes"
  using length_canonical [of "JObj (manifest_of sample_files)"] sample_manifest_weight
  unfolding max_response_bytes_def by linarith

lemma sample_manifest_read:
  "strict_object (canonical_bytes (JObj (manifest_of sample_files))) l max_response_bytes = Inr sample_manifest"
  using loads_canonical [OF sample_manifest_wf, of True] sample_manifest_sorted sample_manifest_short
  by (simp add: strict_object_def)

lemma sample_manifest_same: "py_eq (JObj sample_manifest) (JObj (manifest_of sample_files))"
  by (simp add: sample_manifest_def manifest_of_def manifest_entry_def sample_files_def)

lemma sample_tree:
  assumes "map_of ws name = Some FDir" and "ws_below name ws = [(''a'', FFile 420 ''x'')]"
  shows "tree_manifest name ws = Inr (manifest_of sample_files, sample_object_digest)"
proof -
  have "tree_files name ws = Inr sample_files"
    using assms
    by (simp add: tree_files_def is_symlink_def is_dir_def fs_follow_def eval_nat_numeral tree_entry_def check_def sample_files_def)
  then show ?thesis
    by (simp add: tree_manifest_def sample_object_digest_def check_def)
      (simp add: sample_files_def utf8_ok_ascii_Cons code_def)
qed

lemma sample_unpacked_below: "ws_below ''source-objects'' sample_unpacked = [(''a'', FFile 420 ''x'')]"
  by (simp add: ws_below_def sample_unpacked_def sample_downloads_list)

lemma sample_unpacked_manifest:
  "tree_manifest ''source-objects'' sample_unpacked = Inr (manifest_of sample_files, sample_object_digest)"
  by (rule sample_tree [OF _ sample_unpacked_below]) (simp add: sample_unpacked_def sample_downloads_list)

lemma sample_verify:
  "gives (bk_verify_objects helpful_tools helpful_platform root sample_public sample_downloads) sample_unpacked"
proof -
  have read: "rbind (ws_read sample_unpacked ''objects.downloaded.manifest.json'')
      (\<lambda>raw. strict_object raw ''downloaded object manifest'' max_response_bytes) = Inr sample_manifest"
    by (subst ws_read_file [where c = "sample_plain ''objects.manifest.json''"])
      (simp_all add: sample_unpacked_def sample_downloads_list sample_plain_def sample_manifest_read)
  have "jget sample_public ''sourceObjectDigest'' = JStr sample_object_digest"
    by (simp add: sample_public_def jget_def)
  then have stop: "gives (seqc (raise_if (\<not> py_eq (JObj sample_manifest) (JObj (manifest_of sample_files)) \<or>
      \<not> eq_str (jget sample_public ''sourceObjectDigest'') sample_object_digest)
      (backup_mismatch 409 ''downloaded object backup differs from its manifest'')) (ret sample_unpacked)) sample_unpacked"
    using sample_manifest_same by (intro gives_stop) (simp_all del: py_eq.simps add: eq_str_def)
  show ?thesis
    unfolding bk_verify_objects_def
    by (rule gives_bnd [OF sample_extract]) (simp only: sample_unpacked_manifest bnd_lift_Inr split read stop)
qed

lemma mc_env_given:
  assumes "\<not> isl (urlsplit (mt_endpoint t))"
  shows "\<exists>e. mc_env env None None (Some t) = Inr e" and "\<exists>e. mc_env env None (Some t) None = Inr e"
  using assms by (cases "urlsplit (mt_endpoint t)"; simp add: mc_env_def mc_host_def)+

lemma sample_urls: "\<not> isl (urlsplit (mt_endpoint (bt_backup_store sample_topology)))"
  "\<not> isl (urlsplit (mt_endpoint (rt_minio sample_target)))"
  by code_simp+

lemma sample_verified:
  "gives (bk_verified helpful_tools helpful_platform sample_topology root sample_id sample_backup) (sample_public, sample_unpacked)"
proof -
  obtain env where env: "mc_env (bx_env helpful_tools) None None (Some (bt_backup_store sample_topology)) = Inr env"
    using mc_env_given(1) [OF sample_urls(1)] by blast
  have "gives (bnd (bk_verify_objects helpful_tools helpful_platform root sample_public sample_downloads)
      (\<lambda>ws2. ret (sample_public, ws2))) (sample_public, sample_unpacked)"
    by (rule gives_bnd [OF sample_verify]) simp
  then show ?thesis
    unfolding bk_verified_def sample_sealed bnd_lift_Inr split env
    by (rule gives_bnd [OF sample_download_all])
qed

section \<open>The fresh target\<close>

lemma gives_raise_if: "\<not> c \<Longrightarrow> gives (raise_if c e) ()"
  by (simp add: gives_def raise_if_def ret_def)

lemma sample_count_text: "py_strip (utf8_replace ''0'') = ''0''"
proof -
  have "utf8_replace ''0'' = ''0''"
    by (subst utf8_replace.simps) (simp add: utf8_next_def utf8_lead_def utf8_range_def code_def utf8_replace.simps [of "[]"])
  then show ?thesis by (simp add: py_strip_def py_lstrip_def py_rstrip_def class_defs)
qed

lemma sample_empty_postgres: "gives (ensure_empty_postgres helpful_tools helpful_platform target t) ()"
proof -
  have "gives (raise_if (py_strip (utf8_replace (stdout (helpful_proc (tool_command env (''psql'' # args))))) \<noteq> ''0'') e) ()" for env args e
    by (rule gives_raise_if) (simp add: helpful_proc_def sample_count_text)
  then show ?thesis
    unfolding ensure_empty_postgres_def append_Cons append_Nil by (rule gives_bnd [OF gives_run_checked])
qed

lemma helpful_silent: "gives (seqc (run_checked helpful_platform cmd env t l) m) y" if "gives m y"
  using gives_seqc [OF gives_run_checked that] .

lemma sample_empty_bucket:
  assumes "\<not> isl (urlsplit (mt_endpoint target))"
  shows "gives (ensure_empty_bucket helpful_tools helpful_platform target t) ()"
proof -
  obtain env where env: "mc_env (bx_env helpful_tools) None (Some target) None = Inr env"
    using mc_env_given(2) [OF assms] by blast
  have "gives (raise_if (\<not> blank_bytes (stdout (helpful_proc (tool_command env (''mc'' # args))))) e) ()" for args e
    by (rule gives_raise_if) (simp add: helpful_proc_def blank_bytes_def)
  then show ?thesis
    unfolding ensure_empty_bucket_def env bnd_lift_Inr
    by (intro helpful_silent) (rule gives_bnd [OF gives_run_checked])
qed

lemma sample_dump_text: "normalized_dump sample_dump = Inr (sample_dump @ newline)"
proof -
  have "unify_breaks False sample_dump = sample_dump"
    by (rule unify_plain) (simp add: sample_dump_def code_def)
  moreover have "utf8_ok sample_dump" by (simp add: sample_dump_def utf8_ok_ascii_Cons code_def)
  ultimately show ?thesis
    by (simp add: normalized_dump_def check_def)
      (simp add: sample_dump_def dump_noise_def code_def py_rstrip_def class_defs backslash_other)
qed

lemma sample_logical_dump:
  "gives (logical_dump helpful_tools helpful_platform root target name t ws)
     (sample_database_digest, dput name (FFile 420 sample_dump) ws)"
proof -
  have left: "ws_left name (bx_left helpful_tools (tool_command env (''pg_dump'' # args)) ()) ws =
      dput name (FFile 420 sample_dump) ws" for env args
    by (simp add: helpful_tools_def Let_def ws_left_def ws_place_def)
  let ?ws = "dput name (FFile 420 sample_dump) ws"
  have read: "rbind (ws_read ?ws name) normalized_dump = Inr (sample_dump @ newline)"
    by (simp add: ws_read_put sample_dump_text)
  have "gives (bnd (lift_res (rbind (ws_read ?ws name) normalized_dump)) (\<lambda>text. ret (sha256_hex text, ?ws)))
      (sample_database_digest, ?ws)"
    unfolding read bnd_lift_Inr by (simp add: sample_database_digest_def)
  then show ?thesis
    unfolding logical_dump_def append_Cons append_Nil by (intro gives_bnd [OF gives_run_into]) (simp only: left)
qed

definition sample_restored :: work where
  "sample_restored = sample_unpacked @
     [(''restored.logical.sql'', FFile 420 sample_dump), (''restored-objects'', FDir), (''restored-objects/a'', FFile 420 ''x'')]"

lemma sample_write_target:
  "gives (bk_write_target helpful_tools helpful_platform sample_topology root sample_target env sample_unpacked)
     (sample_database_digest, sample_object_digest)"
proof -
  let ?ws1 = "dput ''restored.logical.sql'' (FFile 420 sample_dump) sample_unpacked"
  let ?ws2 = "dput ''restored-objects'' FDir ?ws1"
  have made: "ws_mkdir ''restored-objects'' ?ws1 = Inr ?ws2"
    by (simp add: ws_mkdir_def sample_unpacked_def sample_downloads_list)
  have left: "ws_left ''restored-objects'' (bx_left helpful_tools (tool_command env (''mc'' # ''mirror'' # args)) ()) ?ws2 = sample_restored"
    for args
    by (simp add: helpful_tools_def Let_def ws_left_def ws_place_def sample_restored_def sample_unpacked_def sample_downloads_list)
  have tree: "tree_manifest ''restored-objects'' sample_restored = Inr (manifest_of sample_files, sample_object_digest)"
    by (rule sample_tree)
      (simp_all add: ws_below_def sample_restored_def sample_unpacked_def sample_downloads_list)
  have last: "gives (bnd (lift_res (tree_manifest ''restored-objects'' sample_restored))
      (\<lambda>(_, object_digest). ret (sample_database_digest, object_digest))) (sample_database_digest, sample_object_digest)"
    unfolding tree bnd_lift_Inr by simp
  show ?thesis
    unfolding bk_write_target_def Let_def
    apply (rule helpful_silent)
    apply (rule gives_bnd [OF sample_logical_dump])
    apply (simp only: split)
    apply (rule helpful_silent)
    apply (simp only: made bnd_lift_Inr)
    apply (rule gives_bnd [OF gives_run_into])
    apply (simp only: left last)
    done
qed

lemma sample_ready: "gives (bk_ready helpful_tools helpful_platform sample_topology target env) ()"
  unfolding bk_ready_def Let_def by (intro helpful_silent) simp

definition sample_restore_public :: "string \<Rightarrow> dict" where
  "sample_restore_public oid =
     bk_public_restore sample_topology oid sample_id ''fresh-primary'' sample_database_digest sample_database_digest
       sample_object_digest sample_object_digest"

definition sample_restore_private :: "string \<Rightarrow> dict" where
  "sample_restore_private root =
     [(''restoredLogical'', JStr (path_join root ''restored.logical.sql'')),
      (''restoredObjects'', JStr (path_join root ''restored-objects''))]"

lemma sample_restore:
  "gives (bk_restore helpful_tools helpful_platform sample_topology oid root sample_id sample_backup ''fresh-primary'' sample_target)
     (sample_restore_public oid, sample_restore_private root)"
proof -
  obtain env where env: "mc_env (bx_env helpful_tools) None (Some (rt_minio sample_target)) None = Inr env"
    using mc_env_given(2) [OF sample_urls(2)] by blast
  have digests: "text_or_empty sample_public ''sourceDatabaseDigest'' = sample_database_digest"
    "text_or_empty sample_public ''sourceObjectDigest'' = sample_object_digest"
    by (simp_all add: text_or_empty_def sample_public_def)
  have hex: "hex64 sample_database_digest" "hex64 sample_object_digest"
    by (simp_all add: sample_database_digest_def sample_object_digest_def hex64_sha256)
  show ?thesis
    unfolding bk_restore_def
    apply (rule gives_bnd [OF sample_verified])
    apply (simp only: split)
    apply (rule gives_seqc [OF sample_empty_postgres])
    apply (rule gives_seqc [OF sample_empty_bucket [OF sample_urls(2)]])
    apply (simp only: env bnd_lift_Inr)
    apply (rule gives_bnd [OF sample_write_target])
    apply (simp only: split Let_def digests hex)
    apply (rule gives_stop, simp)
    apply (rule gives_seqc [OF sample_ready])
    apply (simp add: sample_restore_public_def sample_restore_private_def)
    done
qed

section \<open>The request\<close>

lemma stores_create:
  assumes "stores P" and "ctl_disk s (path_join root name) = None"
  shows "\<exists>t. durable_create P what root name v s = (Inr (sha256_hex (canonical_bytes (JObj v))), t) \<and>
    ctl_disk t = (ctl_disk s)(path_join root name \<mapsto> FFile 384 (canonical_bytes (JObj v)))"
proof -
  have "fst (p_store P (path_join root name) (canonical_bytes (JObj v)) (outside s))" using assms(1) by (simp add: stores_def)
  with assms(2) show ?thesis
    by (auto simp: durable_create_def bnd_def seqc_def gets_def raise_if_def ret_def store_file_def Let_def split: prod.splits)
qed

lemma utc_now_ends: "\<exists>text t. utc_now P s = (Inr text, t) \<and> ctl_disk t = ctl_disk s"
  by (auto simp: utc_now_def wall_ms_def bnd_def ret_def split: prod.splits)

lemma serve_succeeds:
  assumes "stores P" and intent: "ctl_disk s (intent_path (br_entry K x)) = None"
    and closure: "ctl_disk s (closure_path (br_entry K x)) = None"
    and run: "\<And>u c. ctl_disk u = (ctl_disk s)(intent_path (br_entry K x) \<mapsto> c) \<Longrightarrow> \<exists>r w. br_run X P K x u = (Inr r, w)"
  shows "\<exists>ans t. bk_serve X P K x s = (Inr (ans, False), t)"
proof -
  let ?J = "br_entry K x"
  have path: "path_join (jo_root ?J) (intent_name ?J) = intent_path ?J"
    "path_join (jo_root ?J) (closure_file (jo_operation ?J)) = closure_path ?J"
    by (simp_all add: intent_path_def closure_path_def)
  obtain started s1 where s1: "utc_now P s = (Inr started, s1)" "ctl_disk s1 = ctl_disk s" using utc_now_ends by blast
  let ?i = "canonical_bytes (JObj (intent_record ?J started))"
  obtain s2 where s2: "durable_create P (jo_exists ?J) (jo_root ?J) (intent_name ?J) (intent_record ?J started) s1 = (Inr (sha256_hex ?i), s2)"
    "ctl_disk s2 = (ctl_disk s)(intent_path ?J \<mapsto> FFile 384 ?i)"
    using stores_create [OF assms(1), of s1 "jo_root ?J" "intent_name ?J"] intent s1(2) unfolding path by auto
  obtain pub priv s3 where s3: "br_run X P K x s2 = (Inr (pub, priv), s3)" using run [OF s2(2)] by auto
  have seal: "intent_seal ?J s3 = (Inr [], s3)" by (simp add: intent_seal_def br_entry_def bk_journal_op_def Let_def ret_def)
  obtain ended s4 where s4: "utc_now P s3 = (Inr ended, s4)" "ctl_disk s4 = ctl_disk s3" using utc_now_ends by blast
  have "ctl_disk s2 (closure_path ?J) = None" using closure br_entry_paths [of K x x] by (simp add: s2(2))
  then have "ctl_disk s3 (closure_path ?J) = None"
    using keepsD [OF br_run_spares [OF br_entry_records(2)], where s = s2] s3 by metis
  then obtain s5 where s5: "durable_create P (jo_exists ?J) (jo_root ?J) (closure_file (jo_operation ?J))
      (closure_record ?J [] ended pub priv) s4 = (Inr (sha256_hex (canonical_bytes (JObj (closure_record ?J [] ended pub priv)))), s5)"
    using stores_create [OF assms(1), of s4 "jo_root ?J" "closure_file (jo_operation ?J)"] s4(2) unfolding path by auto
  have "\<not> path_exists (ctl_disk s) (intent_path ?J)"
    using intent by (simp add: path_exists_def fs_follow_def eval_nat_numeral)
  then show ?thesis
    using s1(1) s2(1) s3 seal s4(1) s5
    by (simp add: journal_execute_def journal_first_def seqc_def bnd_def gets_def ret_def)
qed

lemma sample_run:
  assumes "br_op x = Restore sample_id sample_backup ''fresh-primary''"
    and "ctl_disk u (path_join (bk_root sample_control) (jo_operation (br_entry sample_control x))) = None"
  shows "\<exists>r w. br_run helpful_tools helpful_platform sample_control x u = (Inr r, w)"
proof -
  let ?root = "path_join (bk_root sample_control) (jo_operation (br_entry sample_control x))"
  have "make_root ?root u = (Inr (), u\<lparr>ctl_disk := (ctl_disk u)(?root \<mapsto> FDir)\<rparr>)"
    using assms(2) by (simp add: make_root_def bnd_def gets_def seqc_def raise_if_def modify_def ret_def)
  moreover have "map_of (bt_restore_targets (bk_topology sample_control)) ''fresh-primary'' = Some sample_target"
    by (simp add: sample_control_def sample_topology_def)
  moreover have "bk_topology sample_control = sample_topology" by (simp add: sample_control_def)
  ultimately show ?thesis
    using sample_restore [unfolded gives_def] assms(1)
    by (simp add: br_run_def bk_apply_def Let_def seqc_def bnd_def del: br_entry_simps) blast
qed

definition sample_body :: dict where
  "sample_body =
     [(''backupId'', JStr sample_id),
      (''binding'', JObj [(''candidateId'', JStr ''candidate-1''), (''hostedIntegrationToken'', JStr ''hosted-1''),
                          (''planSha256'', JStr (replicate 64 CHR ''0''))]),
      (''freshTarget'', JStr ''fresh-primary''), (''schemaVersion'', JInt 1)]"

definition sample_post :: inbound where
  "sample_post = json_post ''/v1/restores'' ''eph_demo'' ''key-0001'' sample_body"

definition sample_request :: bk_request where
  "sample_request = \<lparr>br_body = sample_body, br_key = ''key-0001'', br_correlation = ''corr-0001'',
     br_op = Restore sample_id sample_backup ''fresh-primary''\<rparr>"

definition sample_state :: "unit ctl_state" where
  "sample_state = \<lparr>outside = (), mono = 0, trace = [],
     ctl_disk = [path_join ''/journal'' (closure_file sample_id) \<mapsto> FFile 384 (canonical_bytes (JObj sample_backup))]\<rparr>"

lemma zeros40: "length (print_str (replicate 40 CHR ''0'')) = 42"
  by (subst length_print_str_plain) (simp_all add: list_all_iff code_def)

lemma sample_body_read: "request_body c sample_post = Inr sample_body"
  unfolding sample_post_def
proof (rule json_post_body)
  show "wf_json (JObj sample_body)"
    by (simp add: sample_body_def sample_id_def zeros64 utf8_ok_ascii_Cons utf8_ok_ascii is_ascii_def list_all_iff code_def)
  show "jsort (JObj sample_body) = JObj sample_body" by (simp add: sample_body_def)
  show "jweight (JObj sample_body) < 600"
    by (simp only: sample_body_def jweight.simps list.map sum_list.Cons sum_list.Nil split zeros64 sample_id_def)
      (simp add: length_print_text code_def int_str_def nat_str.simps zeros40)
qed

lemma sample_backup_sorted: "jsort (JObj sample_backup) = JObj sample_backup"
  by (simp add: sample_backup_def sample_public_def sample_meta_def)

lemma utf8_hex: "utf8_ok (hex_of_bytes bs)"
  by (rule utf8_ok_ascii, rule list_all_mono' [OF hex_of_bytes_lower]) (auto simp: class_defs is_ascii_def)

lemma zeros40_utf8: "utf8_ok (replicate 40 CHR ''0'')"
  by (simp add: utf8_ok_ascii is_ascii_def list_all_iff code_def)

lemma wf_obj: "wf_json (JObj d) \<longleftrightarrow> distinct (map fst d) \<and> list_all (\<lambda>(k, v). utf8_ok k \<and> wf_json v) d"
  by simp

lemma sample_meta_wf: "name \<in> set artifact_names \<Longrightarrow> wf_json (JObj (sample_meta name))"
  by (auto simp: sample_meta_def artifact_names_def utf8_ok_ascii_Cons code_def utf8_sha256 utf8_hex)

definition sample_meta_object :: "string \<Rightarrow> json" where
  "sample_meta_object name = JObj (sample_meta name)"

lemma sample_backup_wf: "wf_json (JObj sample_backup)"
proof -
  have "wf_json (sample_meta_object n)" if "n \<in> set artifact_names" for n
    using sample_meta_wf [OF that] by (simp only: sample_meta_object_def)
  then show ?thesis
    by (simp add: sample_backup_def sample_public_def sample_meta_object_def [symmetric] sample_id_def zeros64 zeros40_utf8
        utf8_ok_ascii_Cons code_def utf8_sha256 sample_database_digest_def sample_object_digest_def artifact_names_def)
qed

text \<open>Their sizes: the ciphertext of the sample tools is twice the authenticated data and the text.\<close>

lemma length_nat_str: "length (nat_str n) \<le> Suc n"
proof (induction n rule: less_induct)
  case (less n)
  show ?case
  proof (cases "n < 10")
    case True
    then show ?thesis by (simp add: nat_str.simps [of n])
  next
    case False
    then show ?thesis using less [of "n div 10"] by (simp add: nat_str.simps [of n])
  qed
qed

lemma length_int_str: "length (int_str (int n)) \<le> Suc n"
  using length_nat_str [of n] by (simp add: int_str_def)

lemma length_print_hex: "length (print_str (hex_of_bytes bs)) = 2 * length bs + 2"
proof -
  have "list_all (\<lambda>c. 32 \<le> code c \<and> code c \<noteq> 34 \<and> code c \<noteq> 92) (hex_of_bytes bs)"
    by (rule list_all_mono' [OF hex_of_bytes_lower]) (auto simp: class_defs)
  then show ?thesis by (simp add: length_print_str_plain)
qed

lemma sample_aad_short:
  assumes "name \<in> set artifact_names"
  shows "length (artifact_aad ''candidate-1'' sample_id name ''key-1'') < 500"
proof -
  let ?d = "[(''aad'', JStr ''zkdeal-backup-artifact-v1''), (''candidateId'', JStr ''candidate-1''),
        (''backupId'', JStr sample_id), (''artifact'', JStr name), (''keyId'', JStr ''key-1'')]"
  have "jweight (JObj ?d) < 400"
    using assms by (auto simp: artifact_names_def sample_id_def length_print_text code_def zeros40)
  then show ?thesis using length_canonical [of "JObj ?d"] unfolding artifact_aad_def by linarith
qed

lemma sample_plain_short: "name \<in> set artifact_names \<Longrightarrow> length (sample_plain name) < 6000"
  using sample_manifest_weight length_canonical [of "JObj (manifest_of sample_files)"]
  by (auto simp: sample_plain_def artifact_names_def length_put_text sample_files_def)

lemma sample_meta_short:
  assumes "name \<in> set artifact_names"
  shows "jweight (sample_meta_object name) < 10000"
proof -
  have "length (sample_cipher name) < 8000"
    using sample_aad_short [OF assms] sample_plain_short [OF assms]
    by (simp add: sample_cipher_def toy_seal_def length_put_text sample_topology_def)
  moreover have "jweight (sample_meta_object name) < 500 + length (int_str (int (length (sample_cipher name))))"
    using assms
    by (auto simp: sample_meta_object_def sample_meta_def artifact_names_def length_print_text code_def sample_nonce_def
        length_print_hex bytes_of_def)
  ultimately show ?thesis using length_int_str [of "length (sample_cipher name)"] by linarith
qed

lemma sample_backup_short: "length (canonical_bytes (JObj sample_backup)) \<le> max_response_bytes"
proof -
  have "jweight (JObj sample_backup) < 40000"
    using sample_meta_short [of "''database.dump''"] sample_meta_short [of "''objects.bundle.tar''"]
      sample_meta_short [of "''objects.manifest.json''"]
    by (simp add: sample_backup_def sample_public_def sample_meta_object_def [symmetric] sample_id_def zeros64 zeros40
        length_print_text code_def sample_database_digest_def sample_object_digest_def artifact_names_def)
  then show ?thesis using length_canonical [of "JObj sample_backup"] unfolding max_response_bytes_def by linarith
qed

lemma sample_backup_read:
  "strict_object (canonical_bytes (JObj sample_backup)) l max_response_bytes = Inr sample_backup"
  using loads_canonical [OF sample_backup_wf, of True] sample_backup_sorted sample_backup_short
  by (simp add: strict_object_def)

section \<open>Admission and answer\<close>

lemma sample_closure_in: "closure_in sample_control (ctl_disk sample_state) sample_id = Inr sample_backup"
proof -
  have path: "path_join (bk_root sample_control) (closure_file sample_id) = path_join ''/journal'' (closure_file sample_id)"
    by (simp add: sample_control_def)
  show ?thesis
    unfolding closure_in_def record_in_def path
    by (simp add: sample_state_def is_symlink_def is_file_def read_bytes_def fs_follow_def eval_nat_numeral check_def
        sample_backup_read)
qed

lemma sample_own: "bk_own sample_control ''backup'' sample_backup"
  by (simp add: bk_own_def sample_backup_def jget_def eq_str_def sample_control_def)

lemma sample_plan: "bk_plan_restore sample_control sample_body = Inr (sample_id, ''fresh-primary'')"
proof -
  have "operation_name ''bk'' sample_id"
    by (simp add: operation_name_def sample_id_def rep_match_def list_all_iff class_defs)
  moreover have "exact_keys sample_body [''schemaVersion'', ''binding'', ''backupId'', ''freshTarget''] l = Inr ()" for l
    by (simp add: exact_keys_def sample_body_def same_keys_def keys_def) blast
  moreover have "bk_validate_binding sample_control sample_body = Inr ()"
    by (simp add: bk_validate_binding_def sample_body_def jget_def bk_binding_def sample_control_def sample_topology_def check_def)
  ultimately show ?thesis
    by (simp add: bk_plan_restore_def sample_body_def jget_def eq_int_def text_matching_def check_def
        sample_control_def sample_topology_def)
qed

lemma sample_admitted: "bk_admit sample_control (ctl_disk sample_state) sample_post = Inr sample_request"
  using sample_body_read sample_plan sample_closure_in sample_own
  by (simp add: bk_admit_def check_def)
    (simp add: sample_post_def json_post_def bk_authenticate_def bearer_ok_def sample_control_def bk_request_of_def
      bk_headers_ok_def header_text_def ctl_idempotency_def ctl_correlation_def rep_match_def class_defs sample_request_def check_def)

lemma sample_paths:
  fixes x defines "J \<equiv> br_entry sample_control x"
  assumes "br_op x = Restore b c n"
  shows "ctl_disk sample_state (intent_path J) = None" and "ctl_disk sample_state (closure_path J) = None"
    and "ctl_disk sample_state (path_join (bk_root sample_control) (jo_operation J)) = None"
    and "path_join (bk_root sample_control) (jo_operation J) \<noteq> intent_path J"
proof -
  have root: "bk_root sample_control = ''/journal''" by (simp add: sample_control_def)
  have oid: "jo_operation J = ''rs-'' @ take 40 (jo_digest J)"
    using assms by (simp add: bk_operation_id_def kind_prefix_def)
  have "closure_file sample_id \<noteq> intent_name J"
    by (auto simp: closure_file_def intent_name_def dest: arg_cong [where f = "take 12 \<circ> rev"])
  then show "ctl_disk sample_state (intent_path J) = None"
    by (simp add: sample_state_def intent_path_def J_def root del: br_entry_simps(2-))
  show "ctl_disk sample_state (closure_path J) = None"
    using oid by (simp add: sample_state_def closure_path_def J_def root closure_file_def sample_id_def del: br_entry_simps(2-))
  show "ctl_disk sample_state (path_join (bk_root sample_control) (jo_operation J)) = None"
    using oid by (simp add: sample_state_def J_def root closure_file_def sample_id_def del: br_entry_simps(2-))
  have "\<not> ends_with ''.json'' (jo_operation J)"
    unfolding J_def br_entry_simps bk_request_digest_def by (rule operation_id_no_record)
  then show "path_join (bk_root sample_control) (jo_operation J) \<noteq> intent_path J"
    by (auto simp: intent_path_def J_def root intent_name_def ends_with_iff simp del: br_entry_simps(4))
qed

lemma sample_served: "\<exists>ans t. bk_serve helpful_tools helpful_platform sample_control sample_request sample_state = (Inr (ans, False), t)"
proof -
  have op: "br_op sample_request = Restore sample_id sample_backup ''fresh-primary''" by (simp add: sample_request_def)
  note p = sample_paths [OF op]
  show ?thesis
    by (rule serve_succeeds [OF helpful_laws(4) p(1,2)], rule sample_run [OF op]) (use p(3,4) in simp)
qed

lemma sample_answered:
  "\<exists>v t. bk_route_post helpful_tools helpful_platform sample_control sample_post sample_state = (Inr (v, False), t)"
  using sample_served by (auto simp: bk_route_post_admit sample_admitted bnd_def ret_def)

lemma sample_post_acts:
  assumes "bk_do_POST helpful_tools helpful_platform sample_control sample_post sample_state = (a, t)"
  shows "trace t \<noteq> []"
proof -
  obtain ans u where "bk_serve helpful_tools helpful_platform sample_control sample_request sample_state = (Inr (ans, False), u)"
    using sample_served by blast
  moreover from this have "bk_route_post helpful_tools helpful_platform sample_control sample_post sample_state =
      (Inr (bk_with_receipt sample_control ans, False), u)"
    by (simp add: bk_route_post_admit sample_admitted bnd_def ret_def)
  then have "u = t" using assms by (simp add: bk_do_POST_def)
  ultimately show ?thesis using serve_closed by (metis list.distinct(1))
qed

lemma sample_encrypt:
  assumes "map_of ws en = None" and "ws_read ws pn = Inr (sample_plain name)" and "name \<in> set artifact_names"
  shows "gives (encrypt_artifact helpful_tools helpful_platform root sample_topology sample_id name pn en ws)
    (artifact_meta name sample_nonce (sample_plain name) (sample_cipher name), dput en (FFile 420 (sample_cipher name)) ws)"
proof -
  let ?ws = "dput en (FFile 420 (sample_cipher name)) ws"
  have c: "bx_seal helpful_tools (hex_bytes (bt_encryption_key sample_topology)) sample_nonce (sample_plain name)
      (artifact_aad (bt_candidate_id sample_topology) sample_id name (bt_encryption_key_id sample_topology)) = sample_cipher name"
    by (simp add: helpful_tools_def sample_cipher_def sample_topology_def)
  have nonce: "gives (urandom helpful_tools) sample_nonce" by (simp add: gives_def urandom_def helpful_tools_def)
  have short: "\<not> max_encrypt_bytes < length (sample_plain name)"
    using sample_plain_short [OF assms(3)] by (simp add: max_encrypt_bytes_def)
  have read: "ws_read ?ws en = Inr (sample_cipher name)" by (rule ws_read_put)
  show ?thesis
    unfolding encrypt_artifact_def assms(2) bnd_lift_Inr
    apply (rule gives_stop [OF short])
    apply (rule gives_bnd [OF nonce])
    apply (simp only: Let_def c)
    apply (rule gives_bnd [OF gives_ws_create [OF assms(1)]])
    apply (simp only: read bnd_lift_Inr)
    apply (simp add: artifact_meta_def)
    done
qed

end
