(* ===== verification/Backup_Start.thy ===== *)
theory Backup_Start
  imports Backup_Example
begin

text \<open>
  A start of the backup and restore controller: a small non-release topology, its secret files, the
  environment it accepts.
\<close>

section \<open>The document\<close>

definition bf_hosts :: "string list" where
  "bf_hosts = [''db'', ''fresh-db'', ''data'', ''store'', ''fresh'']"

definition bf_zeros :: string where "bf_zeros = replicate 64 CHR ''0''"
definition bf_ones :: string where "bf_ones = replicate 64 CHR ''1''"
definition bf_token :: string where "bf_token = ''eph_'' @ replicate 32 CHR ''a''"

definition bf_postgres :: "string \<Rightarrow> dict" where
  "bf_postgres host =
     [(''database'', JStr ''zkdeal''), (''host'', JStr host), (''passwordFile'', JStr ''/zeros''),
      (''passwordSha256'', JStr (sha256_hex bf_zeros)), (''port'', JInt 5432), (''user'', JStr ''zkdeal'')]"

definition bf_minio :: "string \<Rightarrow> string \<Rightarrow> string \<Rightarrow> dict" where
  "bf_minio host path key =
     [(''accessKeyFile'', JStr path), (''accessKeySha256'', JStr (sha256_hex key)), (''bucket'', JStr ''bucket''),
      (''endpoint'', JStr (''http://'' @ host)), (''secretKeyFile'', JStr path),
      (''secretKeySha256'', JStr (sha256_hex key))]"

definition bf_document :: dict where
  "bf_document =
     [(''allowedHosts'', JArr (map JStr bf_hosts)), (''backupRestoreTokenSha256'', JStr (sha256_hex bf_token)),
      (''backupStore'', JObj (bf_minio ''store'' ''/ones'' bf_ones)), (''candidateId'', JStr ''candidate-1''),
      (''classification'', JStr ''non-release-fixture''),
      (''encryption'', JObj [(''algorithm'', JStr ''AES-256-GCM''), (''keyFile'', JStr ''/zeros''), (''keySha256'', JStr (sha256_hex bf_zeros))]),
      (''freshTargets'', JObj [(''fresh-primary'', JObj [(''minio'', JObj (bf_minio ''fresh'' ''/zeros'' bf_zeros)),
          (''postgres'', JObj (bf_postgres ''fresh-db''))])]),
      (''hostedIntegrationToken'', JStr (''sha256:'' @ replicate 64 CHR ''0'')),
      (''planSha256'', JStr (replicate 64 CHR ''0'')), (''processTimeoutSeconds'', JInt 60), (''schemaVersion'', JInt 1),
      (''source'', JObj [(''minio'', JObj (bf_minio ''data'' ''/zeros'' bf_zeros)), (''postgres'', JObj (bf_postgres ''db''))])]"

definition bf_raw :: string where "bf_raw = canonical_bytes (JObj bf_document)"

definition bf_files :: files where
  "bf_files = [''/topology.json'' \<mapsto> FFile 256 bf_raw, ''/token'' \<mapsto> FFile 256 bf_token, ''/zeros'' \<mapsto> FFile 256 bf_zeros,
     ''/ones'' \<mapsto> FFile 256 bf_ones, ''/journal'' \<mapsto> FDir]"

lemmas bf_defs = bf_document_def bf_minio_def bf_postgres_def

lemma bf_sorted: "jsort (JObj bf_document) = JObj bf_document"
  by (simp add: bf_defs)

lemma bf_wf: "wf_json (JObj bf_document)"
  by (simp add: bf_defs bf_hosts_def zeros64 utf8_ok_ascii_Cons code_def utf8_sha256)

lemma bf_short: "jweight (JObj bf_document) < 10000"
  by (simp only: bf_defs bf_hosts_def jweight.simps list.map sum_list.Cons sum_list.Nil split zeros64 length_print_sha append.simps)
    (simp add: length_print_text code_def int_str_def nat_str.simps zeros64)

lemma bf_strict: "strict_object bf_raw l max_response_bytes = Inr bf_document"
proof -
  have "length bf_raw \<le> max_response_bytes"
    using length_canonical [of "JObj bf_document"] bf_short unfolding bf_raw_def max_response_bytes_def by linarith
  then show ?thesis
    using loads_canonical [OF bf_wf, of True] bf_sorted by (simp add: strict_object_def bf_raw_def)
qed

section \<open>Reading it\<close>

lemma bf_file: "bf_files p = Some (FFile 256 c) \<Longrightarrow> fs_follow bf_files p = Some (FFile 256 c) \<and> \<not> is_symlink bf_files p"
  by (simp add: fs_follow_def is_symlink_def eval_nat_numeral)

lemma bf_read: "bk_document bf_files ''/topology.json'' (sha256_hex bf_raw) = Inr (bf_document, sha256_hex bf_raw)"
proof -
  have f: "fs_follow bf_files ''/topology.json'' = Some (FFile 256 bf_raw)" "\<not> is_symlink bf_files ''/topology.json''"
    using bf_file [of "''/topology.json''" bf_raw] by (simp_all add: bf_files_def)
  have "exact_keys bf_document
     [''schemaVersion'', ''classification'', ''candidateId'', ''planSha256'', ''hostedIntegrationToken'',
      ''backupRestoreTokenSha256'', ''allowedHosts'', ''source'', ''backupStore'', ''encryption'',
      ''freshTargets'', ''processTimeoutSeconds''] l = Inr ()" for l
    by (simp add: exact_keys_def same_keys_def keys_def bf_document_def set_eq_subset)
  then show ?thesis by (simp add: bk_document_def f is_file_def read_bytes_def bf_strict hex64_sha256)
qed

lemma bf_secret:
  assumes "bf_files path = Some (FFile 256 c)" and "c = replicate 64 d" and "d \<in> {CHR ''0'', CHR ''1''}"
  shows "bk_read_secret bf_files (JStr path) (JStr (sha256_hex c)) l False = Inr c"
proof -
  have "length c \<le> 4096" "utf8_ok c" "py_strip c = c" "8 \<le> py_len c" "\<not> list_ex is_space c"
    using assms(2,3)
    by (auto simp: utf8_ok_ascii is_ascii_def code_def py_strip_def py_lstrip_def py_rstrip_def class_defs py_len_def
        list_all_iff list_ex_iff dropWhile_eq_self_iff)
  then show ?thesis
    using bf_file [OF assms(1)] hex64_sha256
    by (simp add: bk_read_secret_def read_secret_def text_matching_def is_file_def file_mode_def read_bytes_def Let_def)
qed

lemma bf_secrets:
  "bk_read_secret bf_files (JStr ''/zeros'') (JStr (sha256_hex bf_zeros)) l False = Inr bf_zeros"
  "bk_read_secret bf_files (JStr ''/ones'') (JStr (sha256_hex bf_ones)) l False = Inr bf_ones"
proof -
  show "bk_read_secret bf_files (JStr ''/zeros'') (JStr (sha256_hex bf_zeros)) l False = Inr bf_zeros"
    by (rule bf_secret [where d = "CHR ''0''"]) (simp_all add: bf_files_def bf_zeros_def)
  show "bk_read_secret bf_files (JStr ''/ones'') (JStr (sha256_hex bf_ones)) l False = Inr bf_ones"
    by (rule bf_secret [where d = "CHR ''1''"]) (simp_all add: bf_files_def bf_ones_def)
qed

lemma bf_postgres_read:
  assumes "ctl_host host" and "host \<in> set bf_hosts"
  shows "parse_postgres bf_files (JObj (bf_postgres host)) bf_hosts l = Inr
    \<lparr>pt_host = host, pt_port = 5432, pt_database = ''zkdeal'', pt_user = ''zkdeal'', pt_password = bf_zeros\<rparr>"
proof -
  have "exact_keys (bf_postgres host) [''host'', ''port'', ''database'', ''user'', ''passwordFile'', ''passwordSha256''] l = Inr ()"
    by (simp add: exact_keys_def same_keys_def keys_def bf_postgres_def set_eq_subset)
  moreover have "bk_db_name ''zkdeal''" by code_simp
  ultimately show ?thesis
    using assms by (simp add: parse_postgres_def object_of_def) (simp add: bf_postgres_def jget_def text_matching_def bounded_int_def bf_secrets)
qed

lemma bf_minio_read:
  assumes "(path, key) \<in> {(''/zeros'', bf_zeros), (''/ones'', bf_ones)}"
    and url: "\<And>l. normalized_endpoint (JStr (''http://'' @ host)) bf_hosts l = Inr (''http://'' @ host)"
  shows "parse_minio bf_files (JObj (bf_minio host path key)) bf_hosts l = Inr
    \<lparr>mt_endpoint = ''http://'' @ host, mt_access_key = key, mt_secret_key = key, mt_bucket = ''bucket''\<rparr>"
proof -
  have "exact_keys (bf_minio host path key)
      [''endpoint'', ''accessKeyFile'', ''accessKeySha256'', ''secretKeyFile'', ''secretKeySha256'', ''bucket''] l = Inr ()"
    by (simp add: exact_keys_def same_keys_def keys_def bf_minio_def set_eq_subset)
  moreover have "bk_bucket ''bucket''" by code_simp
  ultimately show ?thesis
    using assms(1) url
    by (auto simp: parse_minio_def object_of_def bf_minio_def jget_def text_matching_def bf_secrets)
qed

lemma bf_urls: "normalized_endpoint (JStr (''http://'' @ ''data'')) bf_hosts l = Inr (''http://'' @ ''data'')"
  "normalized_endpoint (JStr (''http://'' @ ''store'')) bf_hosts l = Inr (''http://'' @ ''store'')"
  "normalized_endpoint (JStr (''http://'' @ ''fresh'')) bf_hosts l = Inr (''http://'' @ ''fresh'')"
  by code_simp+

definition bf_source_minio :: minio_target where
  "bf_source_minio = \<lparr>mt_endpoint = ''http://data'', mt_access_key = bf_zeros, mt_secret_key = bf_zeros, mt_bucket = ''bucket''\<rparr>"

definition bf_store_minio :: minio_target where
  "bf_store_minio = \<lparr>mt_endpoint = ''http://store'', mt_access_key = bf_ones, mt_secret_key = bf_ones, mt_bucket = ''bucket''\<rparr>"

definition bf_source_postgres :: postgres_target where
  "bf_source_postgres =
     \<lparr>pt_host = ''db'', pt_port = 5432, pt_database = ''zkdeal'', pt_user = ''zkdeal'', pt_password = bf_zeros\<rparr>"

lemma bf_source_read: "bk_source bf_files (jget bf_document ''source'') bf_hosts = Inr (bf_source_postgres, bf_source_minio)"
proof -
  have "parse_postgres bf_files (JObj (bf_postgres ''db'')) bf_hosts l = Inr bf_source_postgres" for l
    unfolding bf_source_postgres_def by (rule bf_postgres_read) code_simp+
  moreover have "parse_minio bf_files (JObj (bf_minio ''data'' ''/zeros'' bf_zeros)) bf_hosts l = Inr bf_source_minio" for l
    using bf_minio_read [OF _ bf_urls(1), of "''/zeros''" bf_zeros l] by (simp add: bf_source_minio_def)
  ultimately show ?thesis
    by (simp add: bk_source_def bf_document_def jget_def object_of_def exact_keys_def same_keys_def keys_def set_eq_subset)
qed

lemma bf_store_read: "bk_store bf_files (jget bf_document ''backupStore'') bf_hosts bf_source_minio = Inr bf_store_minio"
proof -
  have "parse_minio bf_files (JObj (bf_minio ''store'' ''/ones'' bf_ones)) bf_hosts l = Inr bf_store_minio" for l
    using bf_minio_read [OF _ bf_urls(2), of "''/ones''" bf_ones l] by (simp add: bf_store_minio_def)
  moreover have "bf_ones \<noteq> bf_zeros" by (simp add: bf_ones_def bf_zeros_def)
  ultimately show ?thesis
    by (simp add: bk_store_def bf_document_def jget_def bf_source_minio_def bf_store_minio_def)
qed

lemma bf_targets_read:
  "\<exists>ts. bk_fresh_targets bf_files bf_hosts bf_source_postgres bf_source_minio bf_store_minio (jget bf_document ''freshTargets'') = Inr ts"
proof -
  have "parse_postgres bf_files (JObj (bf_postgres ''fresh-db'')) bf_hosts l = Inr (bf_source_postgres\<lparr>pt_host := ''fresh-db''\<rparr>)" for l
  proof -
    have host: "ctl_host ''fresh-db''" by code_simp
    have listed: "''fresh-db'' \<in> set bf_hosts" by (simp add: bf_hosts_def)
    show ?thesis using bf_postgres_read [OF host listed, of l] by (simp add: bf_source_postgres_def)
  qed
  moreover have "parse_minio bf_files (JObj (bf_minio ''fresh'' ''/zeros'' bf_zeros)) bf_hosts l =
      Inr (bf_source_minio\<lparr>mt_endpoint := ''http://fresh''\<rparr>)" for l
    using bf_minio_read [OF _ bf_urls(3), of "''/zeros''" bf_zeros l] by (simp add: bf_source_minio_def)
  moreover have "bk_safe_id ''fresh-primary''" by code_simp
  ultimately show ?thesis
    by (simp add: bk_fresh_targets_def bk_fresh_target_def bf_document_def jget_def object_of_def exact_keys_def same_keys_def
        keys_def set_eq_subset Let_def pt_identity_def bf_source_postgres_def bf_source_minio_def bf_store_minio_def)
qed

lemma bf_encryption_read: "bk_encryption bf_files (jget bf_document ''encryption'') = Inr bf_zeros"
  using bf_secrets(1) zeros_hex
  by (simp add: bk_encryption_def bf_document_def jget_def object_of_def exact_keys_def same_keys_def keys_def set_eq_subset
      eq_str_def aead_algorithm_def bf_zeros_def)

lemma bf_rest_read:
  "bk_class bf_document = Inr ''non-release-fixture''"
  "bk_identifiers bf_document = Inr (''candidate-1'', replicate 64 CHR ''0'', ''sha256:'' @ replicate 64 CHR ''0'', sha256_hex bf_token)"
  "bk_hosts (jget bf_document ''allowedHosts'') = Inr bf_hosts"
  "bounded_int (jget bf_document ''processTimeoutSeconds'') l 30 3600 = Inr 60"
proof -
  have host: "list_all ctl_host bf_hosts" "ctl_candidate ''candidate-1''" by code_simp+
  show "bk_class bf_document = Inr ''non-release-fixture''"
    by (simp add: bk_class_def bf_document_def jget_def eq_int_def member_of_def text_matching_def Let_def)
  show "bk_identifiers bf_document = Inr (''candidate-1'', replicate 64 CHR ''0'', ''sha256:'' @ replicate 64 CHR ''0'', sha256_hex bf_token)"
    using host(2) by (simp add: bk_identifiers_def bf_document_def jget_def text_matching_def zeros_hex ctl_token_def hex64_sha256)
  show "bk_hosts (jget bf_document ''allowedHosts'') = Inr bf_hosts"
    using host(1) by (simp add: bk_hosts_def bf_document_def bf_hosts_def jget_def text_matching_def Let_def)
  show "bounded_int (jget bf_document ''processTimeoutSeconds'') l 30 3600 = Inr 60"
    by (simp add: bf_document_def jget_def bounded_int_def)
qed

lemma bf_loaded:
  "\<exists>T. bk_load_topology bf_files ''/topology.json'' (sha256_hex bf_raw) = Inr T \<and> bt_candidate_id T = ''candidate-1'' \<and>
     bt_plan_sha256 T = replicate 64 CHR ''0'' \<and> bt_hosted_token T = ''sha256:'' @ replicate 64 CHR ''0'' \<and>
     bt_scoped_token_sha256 T = sha256_hex bf_token"
  using bf_targets_read by (auto simp: bk_load_topology_def bf_read bf_rest_read bf_source_read bf_store_read bf_encryption_read)

section \<open>The start\<close>

definition bf_env :: environ where
  "bf_env =
     [''BACKUP_RESTORE_TOPOLOGY_FILE'' \<mapsto> ''/topology.json'', ''BACKUP_RESTORE_TOPOLOGY_SHA256'' \<mapsto> sha256_hex bf_raw,
      ''BACKUP_RESTORE_CANDIDATE_ID'' \<mapsto> ''candidate-1'', ''BACKUP_RESTORE_PLAN_SHA256'' \<mapsto> replicate 64 CHR ''0'',
      ''BACKUP_RESTORE_HOSTED_INTEGRATION_TOKEN'' \<mapsto> ''sha256:'' @ replicate 64 CHR ''0'',
      ''BACKUP_RESTORE_TOKEN_FILE'' \<mapsto> ''/token'',
      ''BACKUP_RESTORE_CANDIDATE_DESCRIPTOR_SHA256'' \<mapsto> replicate 64 CHR ''0'',
      ''BACKUP_RESTORE_ADAPTER_SOURCE_SHA256'' \<mapsto> replicate 64 CHR ''0'',
      ''BACKUP_RESTORE_ADAPTER_IMAGE'' \<mapsto> ''a@sha256:'' @ replicate 64 CHR ''0'',
      ''BACKUP_RESTORE_PLATFORM'' \<mapsto> ''docker'']"

definition bf_state :: "unit ctl_state" where
  "bf_state = \<lparr>outside = (), mono = 0, trace = [], ctl_disk = bf_files\<rparr>"

lemma bf_token_read: "bk_read_secret bf_files (JStr ''/token'') (JStr (sha256_hex bf_token)) l True = Inr bf_token"
proof -
  have f: "fs_follow bf_files ''/token'' = Some (FFile 256 bf_token)" "\<not> is_symlink bf_files ''/token''"
    using bf_file [of "''/token''" bf_token] by (simp_all add: bf_files_def)
  have "length bf_token \<le> 4096" "utf8_ok bf_token" "py_strip bf_token = bf_token"
    "8 \<le> py_len bf_token" "\<not> list_ex is_space bf_token" "ctl_ephemeral_token bf_token"
    by (simp_all add: bf_token_def utf8_ok_ascii_Cons utf8_ok_ascii is_ascii_def code_def py_strip_def py_lstrip_def
        py_rstrip_def class_defs py_len_def ctl_ephemeral_token_def rep_match_def list_all_iff list_ex_iff)
  then show ?thesis
    by (simp add: bk_read_secret_def text_matching_def read_secret_def f is_file_def file_mode_def read_bytes_def Let_def
        hex64_sha256)
qed

lemma bf_receipt: "\<exists>r. bk_receipt_binding bf_env T = Inr r"
proof -
  have "ctl_oci_digest (''a@sha256:'' @ replicate 64 CHR ''0'')" by code_simp
  then show ?thesis by (simp add: bk_receipt_binding_def bf_env_def env_get_def zeros_hex Let_def)
qed

lemma bf_built: obtains K where "fst (bk_build_controller helpful_platform bf_env bf_state) = Inr K"
proof -
  obtain T where T: "bk_load_topology bf_files ''/topology.json'' (sha256_hex bf_raw) = Inr T" "bt_candidate_id T = ''candidate-1''"
    "bt_plan_sha256 T = replicate 64 CHR ''0''" "bt_hosted_token T = ''sha256:'' @ replicate 64 CHR ''0''"
    "bt_scoped_token_sha256 T = sha256_hex bf_token"
    using bf_loaded by blast
  obtain r where r: "bk_receipt_binding bf_env T = Inr r" using bf_receipt by blast
  have env: "env_get bf_env ''BACKUP_RESTORE_TOPOLOGY_FILE'' [] = ''/topology.json''"
    "env_get bf_env ''BACKUP_RESTORE_TOPOLOGY_SHA256'' [] = sha256_hex bf_raw"
    "env_get bf_env ''BACKUP_RESTORE_TOKEN_FILE'' [] = ''/token''"
    "env_get bf_env ''BACKUP_RESTORE_JOURNAL_DIR'' ''/journal'' = ''/journal''"
    "bf_env ''BACKUP_RESTORE_CANDIDATE_ID'' = Some ''candidate-1''"
    "bf_env ''BACKUP_RESTORE_PLAN_SHA256'' = Some (replicate 64 CHR ''0'')"
    "bf_env ''BACKUP_RESTORE_HOSTED_INTEGRATION_TOKEN'' = Some (''sha256:'' @ replicate 64 CHR ''0'')"
    by (simp_all add: bf_env_def env_get_def)
  have root: "py_path ''/journal'' = ''/journal''" by code_simp
  have disk: "ctl_disk bf_state = bf_files" by (simp add: bf_state_def)
  have init: "journal_init helpful_platform ''BACKUP_RESTORE_JOURNAL_DIR'' ''backup journal'' ''/journal'' bf_state = (Inr (), bf_state)"
    by (simp add: journal_init_def bnd_def seqc_def gets_def raise_if_def ret_def is_symlink_def is_dir_def fs_follow_def
        eval_nat_numeral bf_state_def bf_files_def path_join_def helpful_platform_def)
  show thesis
    by (rule that) (simp add: bk_build_controller_def bnd_def gets_def disk lift_res_def env T r bk_environment_is_def
      bf_token_read root init seqc_def ret_def Let_def)
qed

end
