(* ===== verification/Backup_Properties.thy ===== *)
theory Backup_Properties
  imports Backup_Run Backup_Start
begin

text \<open>
  The properties of the backup and restore controller, each with a run it holds of.
\<close>

section \<open>The order of a restore\<close>

lemma guarded_mono: "guarded A G tr \<Longrightarrow> (\<And>r. G r \<Longrightarrow> G' r) \<Longrightarrow> guarded A G' tr"
  by (induction tr) auto

abbreviation run_root :: "bk_controller \<Rightarrow> bk_request \<Rightarrow> string" where
  "run_root K x \<equiv> path_join (bk_root K) (jo_operation (br_entry K x))"

lemma fetch_command:
  "starts_with (remote_prefix T b) src \<Longrightarrow> fetches T (tool_command env [''mc'', ''cp'', src, dst])"
  by (auto simp: fetches_def remote_prefix_def starts_with_iff)

lemma fetch_fills_nothing: "\<not> fills (tool_command env [''mc'', ''cp'', src, dst])"
  by (simp add: fills_def)

lemma serve_order:
  assumes "br_op x = Restore b backup n" and "map_of (bt_restore_targets (bk_topology K)) n = Some target"
    and "bk_serve X P K x s = (r, t)"
  shows "\<exists>new. trace t = new @ trace s \<and>
      guarded (ran (\<lambda>cmd. \<not> fetches (bk_topology K) cmd)) (all_unsealed (run_root K x) backup) new"
    and "\<exists>new. trace t = new @ trace s \<and>
      guarded (ran fills) (\<lambda>tr. all_unsealed (run_root K x) backup tr \<and> target_fresh target tr) new"
proof -
  let ?facts = "sealed_facts (run_root K x) backup"
  have "gov (\<lambda>cmd. \<not> fetches (bk_topology K) cmd) (all_unsealed (run_root K x) backup) (trace s) {}
      (bk_restore X P (bk_topology K) (jo_operation (br_entry K x)) (run_root K x) b backup n target)
      (\<lambda>_. ?facts \<union> fresh_facts target)"
    by (rule gov_restore) (auto simp: fetch_command sealed_facts_shown [symmetric] shows_all_def)
  from gov_guarded [OF gov_serve_restore [OF assms(1,2) this] assms(3)]
  show "\<exists>new. trace t = new @ trace s \<and>
      guarded (ran (\<lambda>cmd. \<not> fetches (bk_topology K) cmd)) (all_unsealed (run_root K x) backup) new" .
  have "gov fills (\<lambda>tr. all_unsealed (run_root K x) backup tr \<and> target_fresh target tr) (trace s) {}
      (bk_restore X P (bk_topology K) (jo_operation (br_entry K x)) (run_root K x) b backup n target)
      (\<lambda>_. ?facts \<union> fresh_facts target)"
  proof (rule gov_restore)
    show "\<not> fills (tool_command env [''mc'', ''cp'', src, dst])" for env src dst by (rule fetch_fills_nothing)
    show "all_unsealed (run_root K x) backup tr \<and> target_fresh target tr"
      if "[program, verb] \<in> {[''psql'', ''--host''], [''mc'', ''mb''], [''mc'', ''find'']}"
        and "fills (tool_command env ([program, verb] @ args))" for env args tr program verb
      using that by (auto simp: fills_def)
    show "all_unsealed (run_root K x) backup tr \<and> target_fresh target tr"
      if "shows_all (?facts \<union> fresh_facts target) tr" for tr
      using that by (simp add: sealed_facts_shown [symmetric] fresh_facts_shown [symmetric] shows_all_def)
  qed
  from gov_guarded [OF gov_serve_restore [OF assms(1,2) this] assms(3)]
  show "\<exists>new. trace t = new @ trace s \<and>
      guarded (ran fills) (\<lambda>tr. all_unsealed (run_root K x) backup tr \<and> target_fresh target tr) new" .
qed

text \<open>What a restore request names.\<close>

definition asks_restore :: "inbound \<Rightarrow> string \<Rightarrow> string \<Rightarrow> bool" where
  "asks_restore rq b n \<longleftrightarrow>
     (case request_body ''chunked'' rq of
        Inr body \<Rightarrow> jget body ''backupId'' = JStr b \<and> jget body ''freshTarget'' = JStr n
      | Inl _ \<Rightarrow> False)"

lemma admitted_restore:
  assumes "bk_admit K fs rq = Inr x" and "in_path rq = ''/v1/restores''"
  obtains b backup n target where "br_op x = Restore b backup n" and "closure_in K fs b = Inr backup"
    and "bk_own K ''backup'' backup" and "map_of (bt_restore_targets (bk_topology K)) n = Some target"
    and "asks_restore rq b n"
proof -
  obtain b backup n where op: "br_op x = Restore b backup n" "asks_restore rq b n"
    using assms
    by (auto simp: bk_admit_def bk_request_of_def bk_plan_restore_def asks_restore_def result_simps split: if_splits)
  with bk_admit_restore [OF assms(1) op(1)] that show thesis by blast
qed

text \<open>
  C29. However the tools and the platform answer, a POST of a restore either changes nothing or names a backup
  of this candidate and one of its fresh targets, and then: until every artifact of that backup has been
  decrypted and has its sealed plaintext digest, no command runs but downloads from the backup store; and no
  \<open>pg_restore\<close> and no mirror runs before that and before the target database was counted empty and the target
  bucket was listed empty.
\<close>

theorem restore_verifies_before_writing:
  assumes "bk_do_POST X P K rq s = (a, t)" and "in_path rq = ''/v1/restores''"
  shows "t = s \<or> (\<exists>b backup n target root oid new.
     asks_restore rq b n \<and> fst (bk_closure K b s) = Inr backup \<and> bk_own K ''backup'' backup \<and> root = path_join (bk_root K) oid \<and>
     map_of (bt_restore_targets (bk_topology K)) n = Some target \<and> trace t = new @ trace s \<and>
     guarded (ran (\<lambda>cmd. \<not> fetches (bk_topology K) cmd)) (all_unsealed root backup) new \<and>
     guarded (ran fills) (\<lambda>tr. all_unsealed root backup tr \<and> target_fresh target tr) new)"
proof -
  have served: ?thesis if x: "bk_admit K (ctl_disk s) rq = Inr x" and r: "bk_serve X P K x s = (r, t)" for x r
  proof -
    obtain b backup n target where adm: "br_op x = Restore b backup n" "closure_in K (ctl_disk s) b = Inr backup"
      "bk_own K ''backup'' backup" "map_of (bt_restore_targets (bk_topology K)) n = Some target" "asks_restore rq b n"
      by (rule admitted_restore [OF x assms(2)])
    obtain new where new: "trace t = new @ trace s"
      "guarded (ran (\<lambda>cmd. \<not> fetches (bk_topology K) cmd)) (all_unsealed (run_root K x) backup) new"
      using serve_order(1) [OF adm(1,4) r] by blast
    moreover have "guarded (ran fills) (\<lambda>tr. all_unsealed (run_root K x) backup tr \<and> target_fresh target tr) new"
      using serve_order(2) [OF adm(1,4) r] new(1) by auto
    moreover have "fst (bk_closure K b s) = Inr backup" using adm(2) by (simp add: bk_closure_in)
    ultimately show ?thesis using adm(3,4,5) by blast
  qed
  obtain q where "bk_route_post X P K rq s = (q, t)" using bk_post_state [OF assms(1)] by blast
  then show ?thesis by (cases rule: bk_route_cases) (use served in blast)+
qed

theorem restore_verifies_before_writing_witness:
  "\<exists>a t b backup n target root oid new. bk_do_POST helpful_tools helpful_platform sample_control sample_post sample_state = (a, t) \<and>
     t \<noteq> sample_state \<and> asks_restore sample_post b n \<and> fst (bk_closure sample_control b sample_state) = Inr backup \<and>
     map_of (bt_restore_targets sample_topology) n = Some target \<and> root = path_join ''/journal'' oid \<and>
     trace t = new @ trace sample_state \<and>
     guarded (ran (\<lambda>cmd. \<not> fetches sample_topology cmd)) (all_unsealed root backup) new \<and>
     guarded (ran fills) (\<lambda>tr. all_unsealed root backup tr \<and> target_fresh target tr) new"
proof -
  obtain a t where post: "bk_do_POST helpful_tools helpful_platform sample_control sample_post sample_state = (a, t)" by fastforce
  have changed: "t \<noteq> sample_state" using sample_post_acts [OF post] by (auto simp: sample_state_def)
  have path: "in_path sample_post = ''/v1/restores''" by (simp add: sample_post_def json_post_def)
  have K: "bk_topology sample_control = sample_topology" "bk_root sample_control = ''/journal''"
    by (simp_all add: sample_control_def)
  from restore_verifies_before_writing [OF post path, unfolded K] changed post show ?thesis by blast
qed


section \<open>A wrong key\<close>

lemma wrong_key_refused:
  assumes "field_of (field_of (jget backup ''publicResult'') ''encryption'') ''keyId'' \<noteq> JStr (bt_encryption_key_id T)"
  shows "\<exists>e. sealed_backup T b backup = Inl e"
proof (cases "sealed_backup T b backup")
  case (Inr pa)
  with assms show ?thesis by (auto simp: sealed_backup_def Let_def result_simps eq_str_def)
qed simp

text \<open>Only the journal writes: no command is run, no network is used.\<close>

definition acts :: "bk_controller \<Rightarrow> event \<Rightarrow> bool" where
  "acts K e = (case e of EvWrite path content \<Rightarrow> path \<notin> bk_records K | _ \<Rightarrow> True)"

lemma hushed_acts_create: "path_join root name \<in> bk_records K \<Longrightarrow> hushed (acts K) (durable_create P what root name v)"
  unfolding durable_create_def Let_def
  by (intro quiet_intro) (auto simp: hushed_def store_file_def acts_def split: prod.splits)

lemma hushed_journal:
  assumes "hushed (acts K) cb" and "intent_path J \<in> bk_records K" and "closure_path J \<in> bk_records K"
  shows "hushed (acts K) (journal_execute P J cb)"
  using assms(2,3) unfolding journal_execute_def journal_first_def intent_path_def closure_path_def
  by (intro quiet_intro assms(1) hushed_acts_create)

lemma hushed_throw_root: "hushed (acts K) (seqc (make_root p) (throw e))"
  by (intro quiet_intro)

lemma wrong_key_run:
  assumes "br_op x = Restore b backup n" and "sealed_backup (bk_topology K) b backup = Inl e"
  shows "\<exists>e. br_run X P K x = seqc (make_root (run_root K x)) (throw e)"
  using assms
  by (cases "map_of (bt_restore_targets (bk_topology K)) n")
    (auto simp: br_run_def bk_apply_def Let_def bk_restore_def bk_verified_def run_simps)

lemma root_throw_raises: "seqc (make_root p) (throw e) u \<noteq> (Inr r, w)"
  by (auto simp: seqc_def bnd_def throw_def split: prod.splits sum.splits)

text \<open>
  A restore of a backup that was sealed under another key identifier runs no command, uses no network and
  writes nothing except the journal's own records, and it is never answered with a restore carried out now.
\<close>

theorem wrong_key_touches_nothing:
  assumes post: "bk_route_post X P K rq s = (answer, t)" and path: "in_path rq = ''/v1/restores''"
    and body: "request_body ''chunked'' rq = Inr body" and id: "jget body ''backupId'' = JStr b"
    and sealed: "fst (bk_closure K b s) = Inr backup"
    and key: "field_of (field_of (jget backup ''publicResult'') ''encryption'') ''keyId'' \<noteq>
      JStr (bt_encryption_key_id (bk_topology K))"
  shows "\<exists>new. trace t = new @ trace s \<and> list_all (\<lambda>e. \<not> acts K e) new \<and> (\<forall>v. answer \<noteq> Inr (v, False))"
proof -
  have run: "\<exists>e. br_run X P K x = seqc (make_root (run_root K x)) (throw e)"
    if adm: "bk_admit K (ctl_disk s) rq = Inr x" for x
  proof -
    obtain b' n where "br_op x = Restore b' backup n"
      using adm path body id sealed
      by (auto simp: bk_admit_def bk_request_of_def bk_plan_restore_def bk_closure_in result_simps split: if_splits)
    with wrong_key_refused [OF key] show ?thesis using wrong_key_run by metis
  qed
  have quiet: "\<exists>new. trace t = new @ trace s \<and> list_all (\<lambda>e. \<not> acts K e) new"
    if adm: "bk_admit K (ctl_disk s) rq = Inr x" and r: "bk_serve X P K x s = (r, t)" for x r
  proof -
    have "hushed (acts K) (bk_serve X P K x)"
      using run [OF adm] br_entry_records hushed_throw_root by (metis hushed_journal)
    from hushedE [OF this r] show ?thesis by (auto simp: list_all_iff list_ex_iff)
  qed
  have first: "False" if adm: "bk_admit K (ctl_disk s) rq = Inr x" and r: "bk_serve X P K x s = (Inr (v, False), t)" for x v
    using serve_closed [OF r] run [OF adm] root_throw_raises by metis
  from post show ?thesis
  proof (cases rule: bk_route_cases)
    case (served x v replay)
    with quiet first show ?thesis by (cases replay) auto
  qed (use quiet in auto)
qed

definition rotated_control :: bk_controller where
  "rotated_control = sample_control\<lparr>bk_topology := sample_topology\<lparr>bt_encryption_key_id := ''key-2''\<rparr>\<rparr>"

theorem wrong_key_touches_nothing_witness:
  "\<exists>answer t new. bk_route_post helpful_tools helpful_platform rotated_control sample_post sample_state = (answer, t) \<and>
     trace t = new @ trace sample_state \<and> list_all (\<lambda>e. \<not> acts rotated_control e) new \<and> (\<forall>v. answer \<noteq> Inr (v, False))"
proof -
  obtain answer t where post: "bk_route_post helpful_tools helpful_platform rotated_control sample_post sample_state = (answer, t)"
    by fastforce
  have path: "in_path sample_post = ''/v1/restores''" by (simp add: sample_post_def json_post_def)
  have id: "jget sample_body ''backupId'' = JStr sample_id" by (simp add: sample_body_def jget_def)
  have "closure_in rotated_control (ctl_disk sample_state) sample_id = Inr sample_backup"
    using sample_closure_in by (simp add: closure_in_def rotated_control_def)
  then have sealed: "fst (bk_closure rotated_control sample_id sample_state) = Inr sample_backup" by (simp add: bk_closure_in)
  have key: "field_of (field_of (jget sample_backup ''publicResult'') ''encryption'') ''keyId'' \<noteq>
      JStr (bt_encryption_key_id (bk_topology rotated_control))"
    by (simp add: sample_backup_def sample_public_def jget_def field_of_def rotated_control_def)
  from wrong_key_touches_nothing [OF post path sample_body_read id sealed key] post show ?thesis by blast
qed


section \<open>A completed restore\<close>





section \<open>Round trips of the backup material\<close>

text \<open>
  C31. With a cipher that opens what it sealed and nonces of twelve bytes, an artifact that was encrypted and whose
  ciphertext and closure entry come back unchanged is decrypted to the plaintext it was made from, and that
  plaintext is the file written.
\<close>

theorem artifact_roundtrip:
  assumes law: "envelope_law X" and P: "stores P"
    and enc: "encrypt_artifact X P root T b name pn en ws s = (Inr (meta, ws'), t)"
    and meta: "jsort (JObj meta) = JObj d" and same: "ws_read vs en' = ws_read ws' en" and fresh: "map_of vs dn = None"
  shows "\<exists>plaintext vs' u. ws_read ws pn = Inr plaintext \<and>
     decrypt_artifact X P root' T b name (JObj d) en' dn vs s' = (Inr (plaintext, vs'), u) \<and>
     ws_read vs' dn = Inr plaintext"
proof -
  obtain plaintext nonce ciphertext where e: "ws_read ws pn = Inr plaintext" "nonce = fst (bx_random X (outside s))"
    "ciphertext = bx_seal X (hex_bytes (bt_encryption_key T)) nonce plaintext
       (artifact_aad (bt_candidate_id T) b name (bt_encryption_key_id T))"
    "meta = artifact_meta name nonce plaintext ciphertext" "ws' = dput en (FFile 420 ciphertext) ws"
    by (rule encrypt_artifact_result [OF enc])
  have "length nonce = nonce_bytes" using law e(2) by (simp add: envelope_law_def)
  moreover have "jsort (JObj (artifact_meta name nonce plaintext ciphertext)) = JObj d"
    using meta unfolding e(4) .
  moreover have "ws_read vs en' = Inr ciphertext" unfolding same e(5) by (rule ws_read_put)
  ultimately obtain u where "decrypt_artifact X P root' T b name (JObj d) en' dn vs s' =
      (Inr (plaintext, dput dn (FFile 420 plaintext) vs), u)"
    using decrypt_sealed [OF law P _ refl, where T = T and b = b and root = root' and s = s' and name = name and
        nonce = nonce and p = plaintext and d = d and vs = vs and en = en' and dn = dn] fresh unfolding e(3) by blast
  with e(1) show ?thesis by auto
qed

lemma sample_encrypted:
  obtains t where "encrypt_artifact helpful_tools helpful_platform ''/a'' sample_topology sample_id ''database.dump'' ''p'' ''e''
      [(''p'', FFile 420 ''dump'')] sample_state =
    (Inr (artifact_meta ''database.dump'' sample_nonce ''dump'' (sample_cipher ''database.dump''),
      [(''p'', FFile 420 ''dump''), (''e'', FFile 420 (sample_cipher ''database.dump''))]), t)"
proof -
  have plain: "sample_plain ''database.dump'' = ''dump''" by (simp add: sample_plain_def)
  have "ws_read [(''p'', FFile 420 ''dump'')] ''p'' = Inr ''dump''" by (rule ws_read_file) simp
  with sample_encrypt [of "[(''p'', FFile 420 ''dump'')]" "''e''" "''p''" "''database.dump''" "''/a''"] that show thesis
    by (simp add: gives_def plain artifact_names_def) blast
qed

theorem artifact_roundtrip_witness:
  "\<exists>meta ws t vs u. encrypt_artifact helpful_tools helpful_platform ''/a'' sample_topology sample_id ''database.dump'' ''p'' ''e''
       [(''p'', FFile 420 ''dump'')] sample_state = (Inr (meta, ws), t) \<and>
     decrypt_artifact helpful_tools helpful_platform ''/b'' sample_topology sample_id ''database.dump'' (jsort (JObj meta)) ''e'' ''d'' ws
       sample_state = (Inr (''dump'', vs), u) \<and> ws_read vs ''d'' = Inr ''dump''"
proof -
  have plain: "sample_plain ''database.dump'' = ''dump''" by (simp add: sample_plain_def)
  obtain t where enc: "encrypt_artifact helpful_tools helpful_platform ''/a'' sample_topology sample_id ''database.dump'' ''p'' ''e''
      [(''p'', FFile 420 ''dump'')] sample_state =
    (Inr (artifact_meta ''database.dump'' sample_nonce ''dump'' (sample_cipher ''database.dump''),
      [(''p'', FFile 420 ''dump''), (''e'', FFile 420 (sample_cipher ''database.dump''))]), t)"
    by (rule sample_encrypted)
  note meta = sample_meta_sorted [of "''database.dump''", unfolded plain]
  have fresh: "map_of [(''p'', FFile 420 ''dump''), (''e'', FFile 420 (sample_cipher ''database.dump''))] ''d'' = None" by simp
  have read: "ws_read [(''p'', FFile 420 ''dump'')] ''p'' = Inr ''dump''" by (rule ws_read_file) simp
  from artifact_roundtrip [OF helpful_laws(1,4) enc meta refl fresh, of "''/b''" sample_state] enc meta read
  show ?thesis by (auto simp del: jsort.simps)
qed


text \<open>The authenticated data of two identities differ.\<close>

lemma same_fields:
  assumes "jsort (JObj a) = jsort (JObj b)" and "distinct (map fst a)" and "distinct (map fst b)"
  shows "jsort (jget a k) = jsort (jget b k)"
proof -
  obtain d where d: "jsort (JObj a) = JObj d" by simp
  with assms(1) have "jsort (JObj b) = JObj d" by simp
  with d show ?thesis using jget_jsort assms(2,3) by metis
qed

lemma artifact_aad_inject:
  assumes "utf8_ok c" "utf8_ok b" "utf8_ok n" "utf8_ok k" "utf8_ok c'" "utf8_ok b'" "utf8_ok n'" "utf8_ok k'"
    and "artifact_aad c b n k = artifact_aad c' b' n' k'"
  shows "c = c' \<and> b = b' \<and> n = n' \<and> k = k'"
proof -
  let ?d = "\<lambda>c b n k. [(''aad'', JStr ''zkdeal-backup-artifact-v1''), (''candidateId'', JStr c),
        (''backupId'', JStr b), (''artifact'', JStr n), (''keyId'', JStr k)]"
  have wf: "wf_json (JObj (?d c b n k))" if "utf8_ok c" "utf8_ok b" "utf8_ok n" "utf8_ok k" for c b n k
    using that by (simp add: utf8_ok_ascii_Cons code_def)
  have "loads True (artifact_aad c b n k) = Inr (jsort (JObj (?d c b n k)))"
    if "utf8_ok c" "utf8_ok b" "utf8_ok n" "utf8_ok k" for c b n k
    unfolding artifact_aad_def by (rule loads_canonical [OF wf [OF that]])
  from this [OF assms(1-4)] this [OF assms(5-8)] assms(9)
  have "jsort (JObj (?d c b n k)) = jsort (JObj (?d c' b' n' k'))" by (metis Inr_inject)
  then have "jsort (jget (?d c b n k) x) = jsort (jget (?d c' b' n' k') x)" for x
    by (rule same_fields) simp_all
  from this [of "''candidateId''"] this [of "''backupId''"] this [of "''artifact''"] this [of "''keyId''"]
  show ?thesis by (simp add: jget_def)
qed

definition identity_of :: "bk_topology \<Rightarrow> string \<Rightarrow> string \<Rightarrow> string list" where
  "identity_of T b name = [bt_candidate_id T, b, name, bt_encryption_key_id T]"

text \<open>
  C32. With a cipher that binds its authenticated data, an artifact is not accepted under another identity: the
  same ciphertext and closure entry, presented for another candidate, backup, artifact name or key identifier,
  are refused as BACKUP_ARTIFACT_TAMPERED before anything is written.
\<close>

theorem artifact_never_replayed:
  assumes law: "binds_law X" and nonce: "\<forall>w. length (fst (bx_random X w)) = nonce_bytes"
    and enc: "encrypt_artifact X P root T b name pn en ws s = (Inr (meta, ws'), t)"
    and meta: "jsort (JObj meta) = JObj d" and same: "ws_read vs en' = ws_read ws' en"
    and key: "bt_encryption_key T' = bt_encryption_key T" and other: "identity_of T' b' name' \<noteq> identity_of T b name"
    and utf8: "list_all utf8_ok (identity_of T b name)" "list_all utf8_ok (identity_of T' b' name')"
  shows "decrypt_artifact X P root' T' b' name' (JObj d) en' dn vs s' =
     (Inl (HttpErr 409 ''BACKUP_ARTIFACT_TAMPERED'' (''backup artifact '' @ name' @ '' failed authenticated decryption'')), s')"
proof -
  obtain plaintext n ciphertext where e: "n = fst (bx_random X (outside s))"
    "ciphertext = bx_seal X (hex_bytes (bt_encryption_key T)) n plaintext
       (artifact_aad (bt_candidate_id T) b name (bt_encryption_key_id T))"
    "meta = artifact_meta name n plaintext ciphertext" "ws' = dput en (FFile 420 ciphertext) ws"
    by (rule encrypt_artifact_result [OF enc])
  note m = meta [unfolded e(3)]
  have "artifact_aad (bt_candidate_id T) b name (bt_encryption_key_id T) \<noteq>
      artifact_aad (bt_candidate_id T') b' name' (bt_encryption_key_id T')"
    using artifact_aad_inject utf8 other unfolding identity_of_def list.pred_inject by metis
  then have shut: "bx_open X (hex_bytes (bt_encryption_key T')) n ciphertext
      (artifact_aad (bt_candidate_id T') b' name' (bt_encryption_key_id T')) = None"
    using law unfolding binds_law_def e(2) key by blast
  have "sealed_nonce name' (JObj d) = Inr (d, hex_of_bytes (bytes_of n))"
    by (rule sealed_nonce_meta [OF m]) (use nonce e(1) in simp)
  moreover have "ws_read vs en' = Inr ciphertext" unfolding same e(4) by (rule ws_read_put)
  moreover have "jget d ''encryptedSha256'' = JStr (sha256_hex ciphertext)" by (rule meta_fields(3) [OF m])
  ultimately show ?thesis
    using shut by (simp add: decrypt_artifact_def run_simps eq_str_def throw_def artifact_tampered_def)
qed

theorem artifact_never_replayed_witness:
  "\<exists>meta ws t. encrypt_artifact helpful_tools helpful_platform ''/a'' sample_topology sample_id ''database.dump'' ''p'' ''e''
       [(''p'', FFile 420 ''dump'')] sample_state = (Inr (meta, ws), t) \<and>
     decrypt_artifact helpful_tools helpful_platform ''/b'' sample_topology sample_id ''objects.manifest.json'' (jsort (JObj meta)) ''e''
       ''d'' ws sample_state =
     (Inl (HttpErr 409 ''BACKUP_ARTIFACT_TAMPERED'' ''backup artifact objects.manifest.json failed authenticated decryption''), sample_state)"
proof -
  have plain: "sample_plain ''database.dump'' = ''dump''" by (simp add: sample_plain_def)
  obtain t where enc: "encrypt_artifact helpful_tools helpful_platform ''/a'' sample_topology sample_id ''database.dump'' ''p'' ''e''
      [(''p'', FFile 420 ''dump'')] sample_state =
    (Inr (artifact_meta ''database.dump'' sample_nonce ''dump'' (sample_cipher ''database.dump''),
      [(''p'', FFile 420 ''dump''), (''e'', FFile 420 (sample_cipher ''database.dump''))]), t)"
    by (rule sample_encrypted)
  note meta = sample_meta_sorted [of "''database.dump''", unfolded plain]
  have nonce: "\<forall>w. length (fst (bx_random helpful_tools w)) = nonce_bytes" using helpful_laws(1) by (simp add: envelope_law_def)
  have other: "identity_of sample_topology sample_id ''objects.manifest.json'' \<noteq> identity_of sample_topology sample_id ''database.dump''"
    by (simp add: identity_of_def)
  have utf8: "list_all utf8_ok (identity_of sample_topology sample_id n)" if "n \<in> set artifact_names" for n
    using that by (auto simp: identity_of_def sample_topology_def sample_id_def zeros40_utf8 artifact_names_def utf8_ok_ascii_Cons code_def)
  have "list_all utf8_ok (identity_of sample_topology sample_id ''database.dump'')"
    "list_all utf8_ok (identity_of sample_topology sample_id ''objects.manifest.json'')"
    by (rule utf8, simp add: artifact_names_def)+
  from artifact_never_replayed [OF helpful_laws(2) nonce enc meta refl refl other this, of "''/b''" "''d''" sample_state] enc meta
  show ?thesis by (auto simp del: jsort.simps)
qed


section \<open>Object bundles\<close>

text \<open>
  C33. A mirrored object tree comes back: with an archive format that yields what was packed, a tree whose names are
  plain (no backslash, no empty, \<open>.\<close> or \<open>..\<close> part, no name below another) is bundled, and unpacking that bundle
  in a new directory succeeds and has the same manifest and digest.
\<close>

theorem bundle_roundtrip:
  assumes "archive_law X" and "stores P" and "tree_files src ws = Inr files" and "tree_names (map fst files)"
    and "create_object_bundle X P root src packed ws s = (Inr ws', t)"
    and "distinct (map fst vs)" and "map_of vs dest = None" and "\<forall>q. map_of vs (dest @ ''/'' @ q) = None"
    and "map_of vs fetched = map_of ws' packed"
  shows "\<exists>vs' u. extract_object_bundle X P root' fetched dest vs s' = (Inr vs', u) \<and>
     tree_manifest dest vs' = tree_manifest src ws"
proof -
  have "ws_write P root packed (bx_pack X files) ws s = (Inr ws', t)"
    using assms(3,5) by (simp add: create_object_bundle_def run_simps)
  then have "map_of ws' packed = Some (FFile 420 (bx_pack X files))"
    by (cases rule: ws_write_cases) auto
  with assms(9) have "map_of vs fetched = Some (FFile 420 (bx_pack X files))" by simp
  from extract_bundle [OF assms(1,2,4) tree_files_sorted [OF assms(3)] assms(6,7) assms(8) [rule_format] this, of root' s']
  obtain vs' u where "extract_object_bundle X P root' fetched dest vs s' = (Inr vs', u)" "tree_files dest vs' = Inr files"
    by blast
  then show ?thesis using assms(3) by (simp add: tree_manifest_def)
qed

definition sample_source :: work where
  "sample_source = [(''src'', FDir), (''src/a'', FFile 420 ''x'')]"

lemma sample_source_files: "tree_files ''src'' sample_source = Inr [(''a'', ''x'')]"
  by (simp add: tree_files_def sample_source_def is_symlink_def is_dir_def fs_follow_def eval_nat_numeral ws_below_def
      tree_entry_def check_def)

theorem bundle_roundtrip_witness:
  "\<exists>ws t vs u. create_object_bundle helpful_tools helpful_platform ''/a'' ''src'' ''b.tar'' sample_source sample_state = (Inr ws, t) \<and>
     extract_object_bundle helpful_tools helpful_platform ''/b'' ''c.tar'' ''out'' [(''c.tar'', FFile 420 (pack_files [(''a'', ''x'')]))] sample_state =
     (Inr vs, u) \<and> tree_manifest ''out'' vs = tree_manifest ''src'' sample_source"
proof -
  let ?packed = "bx_pack helpful_tools [(''a'', ''x'')]"
  have packed: "?packed = pack_files [(''a'', ''x'')]" by (simp add: helpful_tools_def)
  have "map_of sample_source ''b.tar'' \<noteq> Some FDir" by (simp add: sample_source_def)
  then obtain t where made: "create_object_bundle helpful_tools helpful_platform ''/a'' ''src'' ''b.tar'' sample_source sample_state =
      (Inr (dput ''b.tar'' (FFile 420 ?packed) sample_source), t)"
    using gives_ws_write unfolding gives_def create_object_bundle_def sample_source_files bnd_lift_Inr by blast
  have names: "tree_names (map fst [(''a'', ''x'')])"
    by (simp add: tree_names_def plain_path_def dirs_above_def backslash_other code_def)
  let ?vs = "[(''c.tar'', FFile 420 (pack_files [(''a'', ''x'')]))]"
  have "distinct (map fst ?vs)" "map_of ?vs ''out'' = None" "\<forall>q. map_of ?vs (''out'' @ ''/'' @ q) = None"
    "map_of ?vs ''c.tar'' = map_of (dput ''b.tar'' (FFile 420 ?packed) sample_source) ''b.tar''"
    by (simp_all only: packed map_of_dput) simp_all
  from bundle_roundtrip [OF helpful_laws(3,4) sample_source_files names made this, of "''/b''" sample_state] made
  show ?thesis by blast
qed


lemma nothing_extracted:
  "trace t = trace s \<Longrightarrow>
   \<exists>new. trace t = new @ trace s \<and> list_all (extracted root dest ws) new \<and> distinct (map written_path new)"
  by (intro exI [of _ "[]"]) simp

text \<open>
  C34. Whatever members an archive reader yields, unpacking an object bundle writes only files below its
  destination: every write goes to the destination followed by parts of the member's name, none of which
  is empty, \<open>.\<close> or \<open>..\<close>, at a place where the workspace held nothing, and no place is written twice.
\<close>

theorem extraction_confined:
  "\<exists>new. trace (snd (extract_object_bundle X P root archive dest ws s)) = new @ trace s \<and>
     list_all (extracted root dest ws) new \<and> distinct (map written_path new)"
proof -
  show ?thesis
  proof (cases "ws_mkdir dest ws")
    case (Inl e)
    then have "trace (snd (extract_object_bundle X P root archive dest ws s)) = trace s"
      by (simp add: extract_object_bundle_def run_simps throw_def)
    then show ?thesis by (rule nothing_extracted)
  next
    case ws1: (Inr ws1)
    show ?thesis
    proof (cases "ws_read ws1 archive")
      case (Inl e)
      with ws1 have "trace (snd (extract_object_bundle X P root archive dest ws s)) = trace s"
        by (simp add: extract_object_bundle_def run_simps throw_def)
      then show ?thesis by (rule nothing_extracted)
    next
      case (Inr b)
      obtain r t where m: "extract_members P root dest (fst (bx_unpack X b)) [] ws1 s = (r, t)" by fastforce
      have "trace (snd (extract_object_bundle X P root archive dest ws s)) = trace t"
        using ws1 Inr m
        by (cases r) (simp_all add: extract_object_bundle_def run_simps bnd_def [of "extract_members P root d ms sn w" for d ms sn w]
            throw_def ret_def)
      moreover obtain new where new: "trace t = new @ trace s" "list_all (extracted root dest ws1) new"
        "distinct (map written_path new)"
        using extract_members_confined [OF m] by blast
      moreover have "list_all (extracted root dest ws) new"
        using new(2) by (rule list_all_mono') (rule extracted_earlier, use ws1 in \<open>auto simp: ws_mkdir_def split: if_splits\<close>)
      ultimately show ?thesis by auto
    qed
  qed
qed






section \<open>A loaded topology\<close>

text \<open>
  C36. A controller that starts holds a topology in which the backup store has another endpoint and other credentials
  than the source object store; every fresh target has a database other than the source and an endpoint other
  than the source's and the store's; hosts, databases, users and buckets are plain names; the key is 32 bytes of
  hexadecimal with its own fingerprint; there are one to eight targets and the timeout is 30 to 3600 seconds.
\<close>

theorem loaded_backup_topology_apart:
  assumes "fst (bk_build_controller P env s) = Inr K"
  shows "topology_apart (bk_topology K)"
proof -
  have "wp (bk_build_controller P env) (\<lambda>K _. topology_apart (bk_topology K)) (\<lambda>_ _. True) s"
    unfolding bk_build_controller_def Let_def
    by (auto simp: wp split: sum.splits dest: load_topology_apart
        intro!: wp_mono [OF wpI [of "journal_init P ''BACKUP_RESTORE_JOURNAL_DIR'' ''backup journal''
          (py_path (env_get env ''BACKUP_RESTORE_JOURNAL_DIR'' ''/journal''))" _ "\<lambda>_ _. True" "\<lambda>_ _. True"]])
  with assms show ?thesis by (auto simp: wp_def split: prod.splits)
qed

theorem loaded_backup_topology_apart_witness:
  "\<exists>K. fst (bk_build_controller helpful_platform bf_env bf_state) = Inr K \<and> topology_apart (bk_topology K)"
  by (rule bf_built) (blast intro: loaded_backup_topology_apart)


end
