(* ===== verification/Project_Common.thy ===== *)
theory Project_Common
  imports Control PySystem
begin

text \<open>
  What the release scripts share (\<open>scripts/common.py\<close>): the error they report, the container they insist on, the
  boundary of the project they write in, and files that are replaced at once. Paths are given resolved, and
  creating a parent directory is not modelled.
\<close>

definition deployment_error :: "string \<Rightarrow> exn" where
  "deployment_error m = ToolErr m"

definition require_container :: "files \<Rightarrow> exn + unit" where
  "require_container fs =
     check (path_exists fs ''/.dockerenv'' \<or> path_exists fs ''/run/.containerenv'')
       (deployment_error ''this command is container-only; use the documented deployment-tools container'')"

section \<open>Writing JSON files\<close>

definition indent_break :: "nat \<Rightarrow> string" where
  "indent_break n = newline @ replicate (2 * n) (CHR '' '')"

text \<open>\<open>json.dumps(v, indent=2)\<close> at a nesting depth.\<close>

fun jprint_indent :: "nat \<Rightarrow> json \<Rightarrow> string" where
  "jprint_indent n (JArr xs) =
     (if xs = [] then ''[]''
      else ''['' @ indent_break (Suc n) @ join_with ('','' @ indent_break (Suc n)) (map (jprint_indent (Suc n)) xs) @
           indent_break n @ '']'')"
| "jprint_indent n (JObj d) =
     (if d = [] then ''{}''
      else ''{'' @ indent_break (Suc n) @
           join_with ('','' @ indent_break (Suc n)) (map (\<lambda>(k, v). print_str_ascii k @ '': '' @ jprint_indent (Suc n) v) d) @
           indent_break n @ ''}'')"
| "jprint_indent n v = jprint True v"

definition json_file_bytes :: "dict \<Rightarrow> string" where
  "json_file_bytes d = jprint_indent 0 (jsort (JObj d)) @ newline"

definition require_project_write_path :: "string \<Rightarrow> string \<Rightarrow> exn + string" where
  "require_project_write_path root path =
     (if path = root \<or> starts_with (root @ ''/'') path then Inr path
      else Inl (deployment_error (''refusing to write outside deployment project: '' @ path)))"

text \<open>A temporary file replaces the old one: the content of the path changes at once or not at all.\<close>

definition atomic_write :: "'w platform \<Rightarrow> string \<Rightarrow> string \<Rightarrow> string \<Rightarrow> ('w ctl_state, unit) comp" where
  "atomic_write P root path data = seqc (lift_res (require_project_write_path root path)) (store_file P path data)"

definition atomic_write_json :: "'w platform \<Rightarrow> string \<Rightarrow> string \<Rightarrow> dict \<Rightarrow> ('w ctl_state, unit) comp" where
  "atomic_write_json P root path d = atomic_write P root path (json_file_bytes d)"

lemma atomic_write_runs:
  assumes "atomic_write P root path data s = (r, t)"
  shows "(\<exists>e. r = Inl e \<and> trace t = trace s \<and> ctl_disk t = ctl_disk s) \<or>
    (r = Inr () \<and> trace t = EvWrite path data # trace s \<and> ctl_disk t = (ctl_disk s)(path \<mapsto> FFile 384 data))"
  using assms
  by (auto simp: atomic_write_def seqc_def bnd_def lift_res_def require_project_write_path_def store_file_def
      split: prod.splits sum.splits if_splits)

end
