(* ===== verification/Soak_Manifest.thy ===== *)
theory Soak_Manifest
  imports Project_Common
begin

text \<open>
  The manifest of a release soak (\<open>scripts/soak.py\<close>): the patterns and required sets, and \<open>validate_manifest\<close>,
  which collects every complaint before it raises. Values come from \<open>json.loads\<close>, so \<open>True\<close> compares as 1. The
  order in which Python walks a set of names is not fixed; here it is the order of the source.
\<close>

section \<open>Patterns and required names\<close>

text \<open>\<open>[^\s@]+@sha256:[0-9a-f]{64}\<close>.\<close>

definition soak_image_digest :: "string \<Rightarrow> bool" where
  "soak_image_digest s \<longleftrightarrow>
     (case split_once (CHR ''@'') s of
        None \<Rightarrow> False
      | Some (a, b) \<Rightarrow>
          a \<noteq> [] \<and> \<not> list_ex is_space a \<and> starts_with ''sha256:'' b \<and> hex64 (drop 7 b))"

definition required_images :: "string list" where
  "required_images = [''coordinator'', ''indexer'', ''reconciler'', ''headless'', ''prover'', ''ownerAcceptanceRunner'']"

definition required_trust_roots :: "string list" where
  "required_trust_roots =
     [''contractsAbiSha256'', ''circuitManifestSha256'', ''zkvmArtifactsSha256'', ''generatedTrustRootClosureSha256'']"

definition required_lifecycle :: "string list" where
  "required_lifecycle =
     [''room-create'', ''submit'', ''lease'', ''live-prepare'', ''prove'', ''verify'', ''blob-archive'', ''aggregate-settle'',
      ''sponsor'', ''reorg'', ''finalize'', ''withdraw'', ''reconcile'']"

definition required_faults :: "string list" where
  "required_faults =
     [''headless-restart'', ''prover-restart'', ''coordinator-promotion'', ''indexer-rollback'', ''rpc-split'',
      ''object-store-restart'', ''database-restart'', ''docker-host-restart-resume'']"

definition required_zero_budgets :: "string list" where
  "required_zero_budgets = [''maxUnresolvedSafetyEvents'', ''maxUnresolvedClaims'', ''maxDuplicateNonces'', ''maxDuplicateCharges'']"

section \<open>Reading values\<close>

text \<open>\<open>d.get(k, dflt)\<close>, and a pattern on \<open>str(d.get(k, ""))\<close>.\<close>

definition get_or :: "dict \<Rightarrow> string \<Rightarrow> json \<Rightarrow> json" where
  "get_or d k dflt = (case map_of d k of Some v \<Rightarrow> v | None \<Rightarrow> dflt)"

definition text_field :: "(string \<Rightarrow> bool) \<Rightarrow> dict \<Rightarrow> string \<Rightarrow> bool" where
  "text_field pattern d k \<longleftrightarrow> pattern (py_str (get_or d k (JStr [])))"

text \<open>\<open>isinstance(v, int) and v >= least\<close>.\<close>

definition int_at_least :: "int \<Rightarrow> json \<Rightarrow> bool" where
  "int_at_least least v \<longleftrightarrow> is_int v \<and> (case num_of v of Some i \<Rightarrow> least \<le> i | None \<Rightarrow> False)"

definition complaint :: "bool \<Rightarrow> string \<Rightarrow> string list" where
  "complaint c m = (if c then [m] else [])"

section \<open>The parts of the manifest\<close>

definition identity_errors :: "dict \<Rightarrow> exn + string list" where
  "identity_errors manifest =
     rbind (json_int (get_or manifest ''durationSeconds'' (JInt 0))) (\<lambda>duration.
     Inr (complaint (\<not> eq_int (jget manifest ''schemaVersion'') 1 \<or> \<not> eq_str (jget manifest ''kind'') ''zkdeal-release-soak'')
            ''manifest must be zkdeal-release-soak schemaVersion 1'' @
          complaint (duration < 43200) ''release soak duration must be at least 43200 seconds (12 hours)'' @
          concat (map (\<lambda>k. complaint (\<not> text_field hex64 manifest k) (k @ '' must be a concrete SHA-256''))
            [''umbrellaSourceManifestSha256'', ''sourceBundleArchiveSha256'', ''sourceClosureSha256''])))"

definition exact_scenario :: "(string \<times> json) list" where
  "exact_scenario =
     [(''hostedBatchInput'', JStr ''BatchInputV5''), (''fixturePrepare'', JBool False), (''realCudaProof'', JBool True),
      (''aggregateMembers'', JInt 8), (''transactionBlobs'', JInt 6), (''partialSuccessApplied'', JInt 7),
      (''partialSuccessFailed'', JInt 1), (''successOnlyCharging'', JBool True), (''withdrawalClaim'', JBool True),
      (''sponsorship'', JBool True), (''preFinalityReorg'', JBool True), (''freshDeployment'', JBool True),
      (''restartResume'', JBool True), (''ownerDurablePublishing'', JBool True), (''castEncodingOnly'', JBool True),
      (''directBroadcastAllowed'', JBool False)]"

definition scalar_repr :: "json \<Rightarrow> string" where
  "scalar_repr v = (case v of JStr s \<Rightarrow> py_repr_str s | _ \<Rightarrow> py_str v)"

definition scenario_errors :: "json \<Rightarrow> string list" where
  "scenario_errors v =
     (case v of
        JObj scenario \<Rightarrow>
          concat (map (\<lambda>k. complaint (\<not> text_field hex64 scenario k) (''physicalScenario.'' @ k @ '' must be a concrete SHA-256''))
            [''settlementScenarioSha256'', ''deploymentAddressesSha256'', ''ownerDurableCapabilitiesSha256'']) @
          complaint (\<not> text_field (\<lambda>s. starts_with ''sha256:'' s \<and> hex64 (drop 7 s)) scenario ''ownerAcceptanceToken'')
            ''physicalScenario.ownerAcceptanceToken must be a final sha256 acceptance token'' @
          concat (map (\<lambda>(k, expected). complaint (\<not> py_eq (jget scenario k) expected)
            (''physicalScenario.'' @ k @ '' must equal '' @ scalar_repr expected)) exact_scenario)
      | _ \<Rightarrow> [''physicalScenario must be an object''])"

definition absent :: "string list \<Rightarrow> string list \<Rightarrow> string list" where
  "absent required present = List.filter (\<lambda>k. k \<notin> set present) required"

definition image_errors :: "json \<Rightarrow> string list" where
  "image_errors v =
     (case v of
        JObj images \<Rightarrow>
          (let missing = absent required_images (keys images)
           in complaint (missing \<noteq> []) (''missing required images: '' @ py_repr_strs (sort missing))) @
          concat (map (\<lambda>(role, reference).
            complaint (\<not> (case reference of JStr s \<Rightarrow> soak_image_digest s | _ \<Rightarrow> False))
              (''image '' @ role @ '' must be repository@sha256:<64 hex>'')) images)
      | _ \<Rightarrow> [''images must be an object''])"

definition root_errors :: "json \<Rightarrow> string list" where
  "root_errors v =
     (case v of
        JObj roots \<Rightarrow>
          concat (map (\<lambda>k. complaint (\<not> text_field hex64 roots k) (''trust root '' @ k @ '' must be a concrete SHA-256''))
            required_trust_roots)
      | _ \<Rightarrow> [''trustRoots must be an object''])"

definition rpc_endpoint :: "json \<Rightarrow> bool" where
  "rpc_endpoint v \<longleftrightarrow> (case v of JStr s \<Rightarrow> starts_with ''http://'' s \<or> starts_with ''https://'' s | _ \<Rightarrow> False)"

definition seed_errors :: "json \<Rightarrow> string list" where
  "seed_errors v =
     (case v of
        JObj seed \<Rightarrow>
          complaint (\<not> int_at_least 1 (jget seed ''chainId'')) ''chainSeed.chainId must be a positive integer'' @
          complaint (\<not> text_field (\<lambda>s. starts_with ''0x'' s \<and> rep_match is_hex 64 64 (drop 2 s)) seed ''genesisHash'')
            ''chainSeed.genesisHash must be a 32-byte hash'' @
          complaint (\<not> text_field hex64 seed ''seedSha256'') ''chainSeed.seedSha256 must be a concrete SHA-256'' @
          complaint (\<not> (case jget seed ''rpcEndpoints'' of JArr es \<Rightarrow> 2 \<le> length es \<and> list_all rpc_endpoint es | _ \<Rightarrow> False))
            ''chainSeed.rpcEndpoints must contain at least two HTTP(S) endpoints''
      | _ \<Rightarrow> [''chainSeed must be an object''])"

text \<open>\<open>int((expected or {}).get("chargesWei", -1))\<close>: only \<open>TypeError\<close> and \<open>ValueError\<close> become a complaint.\<close>

definition expected_errors :: "json \<Rightarrow> exn + string list" where
  "expected_errors v =
     (let units = complaint (\<not> (case v of JObj d \<Rightarrow> int_at_least 0 (jget d ''usageUnits'') | _ \<Rightarrow> False))
            ''expected.usageUnits must be a non-negative integer'';
          wei = ''expected.chargesWei must be a non-negative integer string''
      in rbind (attr_get (if truthy v then v else JObj []) ''chargesWei'' (JInt (- 1))) (\<lambda>w.
         case json_int w of
           Inr i \<Rightarrow> Inr (units @ complaint (i < 0) wei)
         | Inl e \<Rightarrow> if e \<in> {TypeErr, ValueErr} then Inr (units @ [wei]) else Inl e))"

definition budget_errors :: "json \<Rightarrow> string list" where
  "budget_errors v =
     (case v of
        JObj budgets \<Rightarrow>
          concat (map (\<lambda>k. complaint (\<not> eq_int (jget budgets k) 0) (k @ '' must be zero'')) required_zero_budgets) @
          complaint (\<not> int_at_least 1 (jget budgets ''maxFairnessWaitMs'')) ''maxFairnessWaitMs must be a positive integer'' @
          complaint (\<not> int_at_least 0 (jget budgets ''maxDeadlineMisses'')) ''maxDeadlineMisses must be a non-negative integer''
      | _ \<Rightarrow> [''budgets must be an object''])"

text \<open>\<open>{item.get("kind") for item in items if isinstance(item, dict)}\<close> raises on a kind that cannot be hashed.\<close>

definition kinds_of :: "dict list \<Rightarrow> exn + json list" where
  "kinds_of ds =
     rmap (\<lambda>d. if hashable (jget d ''kind'') then Inr (jget d ''kind'') else Inl TypeErr) ds"

definition objects_in :: "json list \<Rightarrow> dict list" where
  "objects_in vs = concat (map (\<lambda>v. case v of JObj d \<Rightarrow> [d] | _ \<Rightarrow> []) vs)"

definition fault_errors :: "json \<Rightarrow> exn + string list" where
  "fault_errors v =
     (case v of
        JArr faults \<Rightarrow>
          rbind (kinds_of (objects_in faults)) (\<lambda>kinds.
          let missing = List.filter (\<lambda>k. JStr k \<notin> set kinds) required_faults
          in Inr (complaint (missing \<noteq> []) (''missing scheduled faults: '' @ py_repr_strs (sort missing)) @
                  complaint (\<not> list_all (\<lambda>f. case f of JObj d \<Rightarrow> int_at_least 0 (jget d ''atSecond'') | _ \<Rightarrow> False) faults)
                    ''every scheduled fault requires a non-negative atSecond''))
      | _ \<Rightarrow> Inr [''scheduledFaults must be a list''])"

definition validate_manifest :: "dict \<Rightarrow> exn + unit" where
  "validate_manifest manifest =
     rbind (identity_errors manifest) (\<lambda>identity.
     rbind (expected_errors (jget manifest ''expected'')) (\<lambda>expected.
     rbind (fault_errors (jget manifest ''scheduledFaults'')) (\<lambda>faults.
     let errors = identity @ scenario_errors (jget manifest ''physicalScenario'') @ image_errors (jget manifest ''images'') @
           root_errors (jget manifest ''trustRoots'') @ seed_errors (jget manifest ''chainSeed'') @ expected @
           budget_errors (jget manifest ''budgets'') @ faults
     in check (errors = []) (deployment_error (join_with ''; '' errors)))))"

end
