(* ===== verification/Soak_Journal.thy ===== *)
theory Soak_Journal
  imports Soak_Manifest Sha256
begin

text \<open>
  The journal of a release soak (\<open>scripts/soak.py\<close>): its events, their canonical bytes, and \<open>verify_closure\<close> with
  every rejection in the order of the code. Keys of dictionaries and members of sets built from the journal are
  JSON values under Python's equality.
\<close>

section \<open>Reading\<close>

type_synonym soak_event = dict

definition canonical_event_bytes :: "soak_event list \<Rightarrow> string" where
  "canonical_event_bytes events = concat (map (\<lambda>e. dumps True (JObj e) @ newline) events)"

text \<open>\<open>json.loads\<close> of a decoded text without the duplicate-key hook.\<close>

definition load_text :: "string \<Rightarrow> exn + json" where
  "load_text text = (case loads False text of Inl _ \<Rightarrow> Inl ValueErr | Inr v \<Rightarrow> Inr v)"

definition load_json :: "files \<Rightarrow> string \<Rightarrow> exn + dict" where
  "load_json fs path =
     rbind (read_text fs path) (\<lambda>text.
     rbind (load_text text) (\<lambda>v.
     object_of v (deployment_error (''expected JSON object: '' @ path))))"

fun journal_lines :: "nat \<Rightarrow> string list \<Rightarrow> exn + soak_event list" where
  "journal_lines n [] = Inr []"
| "journal_lines n (raw # rest) =
     (if py_strip raw = [] then journal_lines (Suc n) rest
      else rbind (load_text raw) (\<lambda>v.
           rbind (object_of v (deployment_error (''journal line '' @ nat_str n @ '' is not an object''))) (\<lambda>e.
           rbind (journal_lines (Suc n) rest) (\<lambda>es. Inr (e # es)))))"

fun contiguous :: "nat \<Rightarrow> soak_event list \<Rightarrow> exn + unit" where
  "contiguous n [] = Inr ()"
| "contiguous n (e # es) =
     rbind (check (eq_int (jget e ''seq'') (int n))
             (deployment_error (''journal sequence is not contiguous at event '' @ nat_str n))) (\<lambda>_.
     contiguous (Suc n) es)"

definition load_journal :: "files \<Rightarrow> string \<Rightarrow> exn + soak_event list" where
  "load_journal fs path =
     rbind (read_text fs path) (\<lambda>text.
     rbind (journal_lines 1 (py_splitlines (unify_breaks False text))) (\<lambda>events.
     rbind (check (events \<noteq> []) (deployment_error ''soak journal is empty'')) (\<lambda>_.
     rbind (contiguous 1 events) (\<lambda>_. Inr events))))"

section \<open>Events by kind\<close>

definition kind_is :: "string \<Rightarrow> soak_event \<Rightarrow> bool" where
  "kind_is k e \<longleftrightarrow> eq_str (jget e ''kind'') k"

definition one_event :: "soak_event list \<Rightarrow> string \<Rightarrow> exn + soak_event" where
  "one_event body k =
     (case List.filter (kind_is k) body of
        [] \<Rightarrow> Inl (deployment_error (''journal is missing '' @ k @ '' evidence''))
      | e # es \<Rightarrow> Inr (last (e # es)))"

text \<open>\<open>isinstance(v, str) and v\<close>.\<close>

definition some_text :: "json \<Rightarrow> bool" where
  "some_text v \<longleftrightarrow> (case v of JStr s \<Rightarrow> s \<noteq> [] | _ \<Rightarrow> False)"

definition owner_publisher :: string where "owner_publisher = ''owner-durable-operation''"

section \<open>Evidence\<close>

definition check_preparation :: "soak_event list \<Rightarrow> exn + unit" where
  "check_preparation body =
     rbind (one_event body ''live-prepare'') (\<lambda>prepared.
     rbind (check (eq_str (jget prepared ''preparedFrom'') ''live-room-engine-state'' \<and>
                   eq_str (jget prepared ''batchInput'') ''BatchInputV5'' \<and> is_false (jget prepared ''fixture''))
             (deployment_error ''live preparation is not a non-fixture BatchInputV5 artifact'')) (\<lambda>_.
     rbind (one_event body ''prove'') (\<lambda>proved.
     rbind (check (is_true (jget proved ''realCuda'') \<and> eq_str (jget proved ''proofMode'') ''groth16'')
             (deployment_error ''prove event is not a real CUDA Groth16 proof'')) (\<lambda>_.
     rbind (one_event body ''verify'') (\<lambda>verified.
     check (is_true (jget verified ''realReceipt''))
       (deployment_error ''verify event does not cover the real receipt''))))))"

definition aggregate_numbers :: "(string \<times> int) list" where
  "aggregate_numbers =
     [(''members'', 8), (''transactionBlobs'', 6), (''applied'', 7), (''failed'', 1), (''successfulCharges'', 7),
      (''failedCharges'', 0)]"

definition check_aggregate :: "soak_event list \<Rightarrow> exn + unit" where
  "check_aggregate body =
     rbind (one_event body ''aggregate-settle'') (\<lambda>aggregate.
     rbind (check (list_all (\<lambda>(k, n). eq_int (jget aggregate k) n) aggregate_numbers)
             (deployment_error ''aggregate event is not the six-blob 7+1 partial-success case'')) (\<lambda>_.
     check (eq_str (jget aggregate ''publisher'') owner_publisher \<and> some_text (jget aggregate ''ownerOperationId'') \<and>
            eq_str (jget aggregate ''selector'') ''0x5e8b37ac'' \<and> eq_int (jget aggregate ''transactionType'') 3 \<and>
            is_true (jget aggregate ''finalizedCanonical'') \<and> is_false (jget aggregate ''castBroadcast''))
       (deployment_error ''aggregate event bypasses the finalized owner durable type-3 operation'')))"

definition sponsor_selectors :: json where
  "sponsor_selectors =
     JObj [(''reserve'', JStr ''0x827ac259''), (''renew'', JStr ''0xf180fe5d''), (''checkpoint'', JStr ''0xe19bc67e''),
           (''dispose'', JStr ''0xed97f11a'')]"

definition check_sponsorship :: "soak_event list \<Rightarrow> exn + unit" where
  "check_sponsorship body =
     rbind (one_event body ''sponsor'') (\<lambda>sponsored.
     rbind (check (is_str (jget sponsored ''payer'') \<and> \<not> py_eq (jget sponsored ''payer'') (jget sponsored ''beneficiary'') \<and>
                   py_eq (jget sponsored ''refundRecipient'') (jget sponsored ''payer'') \<and> is_false (jget sponsored ''doubleBilled''))
             (deployment_error ''sponsorship event does not prove payer refund ownership and no double billing'')) (\<lambda>_.
     check (eq_str (jget sponsored ''publisher'') owner_publisher \<and> is_true (jget sponsored ''senderAuthoritySplit'') \<and>
            (case jget sponsored ''ownerOperations'' of
               JObj ops \<Rightarrow> list_all (\<lambda>k. some_text (jget ops k)) [''reserve'', ''renew'', ''checkpoint'', ''dispose'']
             | _ \<Rightarrow> False) \<and>
            py_eq (jget sponsored ''selectors'') sponsor_selectors \<and> is_true (jget sponsored ''finalizedCanonical''))
       (deployment_error ''sponsorship event lacks the split finalized owner durable pool operations'')))"

definition check_recovery :: "soak_event list \<Rightarrow> exn + unit" where
  "check_recovery body =
     rbind (one_event body ''reorg'') (\<lambda>reorg.
     rbind (check (is_true (jget reorg ''preFinalityOrphaned'') \<and> is_true (jget reorg ''canonicalRecovery'') \<and>
                   is_false (jget reorg ''duplicateNonce'') \<and> is_false (jget reorg ''duplicateCharge''))
             (deployment_error ''reorg event does not prove canonical duplicate-free recovery'')) (\<lambda>_.
     rbind (one_event body ''withdraw'') (\<lambda>withdrawal.
     rbind (check (is_true (jget withdrawal ''realProof'') \<and> is_true (jget withdrawal ''claimed'') \<and>
                   is_true (jget withdrawal ''replayRejected''))
             (deployment_error ''withdrawal event does not prove a real claim and rejected replay'')) (\<lambda>_.
     check (eq_str (jget withdrawal ''publisher'') owner_publisher \<and> some_text (jget withdrawal ''ownerOperationId'') \<and>
            eq_str (jget withdrawal ''selector'') ''0xb051a9f8'' \<and> is_true (jget withdrawal ''finalizedCanonical''))
       (deployment_error ''withdrawal event bypasses the finalized owner durable claim operation'')))))"

section \<open>Faults\<close>

text \<open>A dictionary keyed by hashable JSON values: assignment keeps the place and the key of an equal entry.\<close>

fun jput :: "json \<Rightarrow> 'v \<Rightarrow> (json \<times> 'v) list \<Rightarrow> (json \<times> 'v) list" where
  "jput k v [] = [(k, v)]"
| "jput k v ((k', v') # d) = (if py_eq k' k then (k', v) # d else (k', v') # jput k v d)"

fun jlook :: "(json \<times> 'v) list \<Rightarrow> json \<Rightarrow> 'v option" where
  "jlook [] k = None"
| "jlook ((k', v) # d) k = (if py_eq k' k then Some v else jlook d k)"

fun scheduled_faults :: "(json \<times> json) list \<Rightarrow> dict list \<Rightarrow> exn + (json \<times> json) list" where
  "scheduled_faults d [] = Inr d"
| "scheduled_faults d (item # items) =
     (case (map_of item ''kind'', map_of item ''atSecond'') of
        (Some k, Some at) \<Rightarrow> if hashable k then scheduled_faults (jput k at d) items else Inl TypeErr
      | _ \<Rightarrow> Inl KeyErr)"

fun faults_by_name :: "(json \<times> soak_event) list \<Rightarrow> soak_event list \<Rightarrow> exn + (json \<times> soak_event) list" where
  "faults_by_name d [] = Inr d"
| "faults_by_name d (e # es) =
     (if kind_is ''fault'' e
      then if hashable (jget e ''fault'') then faults_by_name (jput (jget e ''fault'') e d) es else Inl TypeErr
      else faults_by_name d es)"

definition recovered_faults :: "soak_event list \<Rightarrow> exn + json list" where
  "recovered_faults body =
     rmap (\<lambda>e. if hashable (jget e ''fault'') then Inr (jget e ''fault'') else Inl TypeErr) (List.filter (kind_is ''recovered'') body)"

definition check_fault :: "(json \<times> soak_event) list \<Rightarrow> json list \<Rightarrow> json \<times> json \<Rightarrow> exn + unit" where
  "check_fault faults recovered scheduled =
     (let name = fst scheduled
      in rbind (check (case jlook faults name of Some e \<Rightarrow> py_eq (jget e ''scheduledAtSecond'') (snd scheduled) | None \<Rightarrow> False)
                 (deployment_error (''fault '' @ py_str name @ '' was not executed at its scheduled offset''))) (\<lambda>_.
         check (list_ex (\<lambda>r. py_eq r name) recovered)
           (deployment_error (''fault '' @ py_str name @ '' has no recovery assertion''))))"

definition manifest_faults :: "dict \<Rightarrow> dict list" where
  "manifest_faults manifest = (case jget manifest ''scheduledFaults'' of JArr vs \<Rightarrow> objects_in vs | _ \<Rightarrow> [])"

definition check_faults :: "dict \<Rightarrow> soak_event list \<Rightarrow> exn + (json \<times> soak_event) list" where
  "check_faults manifest body =
     rbind (scheduled_faults [] (manifest_faults manifest)) (\<lambda>scheduled.
     rbind (faults_by_name [] body) (\<lambda>faults.
     rbind (recovered_faults body) (\<lambda>recovered.
     rbind (rmap (check_fault faults recovered) scheduled) (\<lambda>_. Inr faults))))"

section \<open>Durable identifiers, transactions and charges\<close>

definition durable_fields :: "string list" where
  "durable_fields = [''roomId'', ''jobId'', ''nonceId'', ''txHash'', ''eventId'', ''cursor'']"

definition persists :: "string \<Rightarrow> soak_event \<Rightarrow> bool" where
  "persists k e \<longleftrightarrow> (is_str (jget e k) \<or> is_int (jget e k)) \<and> py_str (jget e k) \<noteq> []"

definition check_durable :: "soak_event list \<Rightarrow> exn + unit list" where
  "check_durable body =
     rmap (\<lambda>k. check (list_ex (persists k) body) (deployment_error (''journal does not persist any '' @ k))) durable_fields"

text \<open>\<open>len(vs) == len(set(vs))\<close>, or \<open>TypeError\<close>.\<close>

fun pairwise_distinct :: "json list \<Rightarrow> bool" where
  "pairwise_distinct [] = True"
| "pairwise_distinct (v # vs) = (\<not> list_ex (py_eq v) vs \<and> pairwise_distinct vs)"

definition no_duplicates :: "json list \<Rightarrow> exn + bool" where
  "no_duplicates vs = (if list_all hashable vs then Inr (pairwise_distinct vs) else Inl TypeErr)"

definition values_of :: "string \<Rightarrow> soak_event list \<Rightarrow> json list" where
  "values_of k es = map (\<lambda>e. jget e k) (List.filter (\<lambda>e. has_key e k) es)"

fun sum_ints :: "string \<Rightarrow> soak_event list \<Rightarrow> exn + int" where
  "sum_ints k [] = Inr 0"
| "sum_ints k (e # es) =
     rbind (json_int (get_or e k (JInt 0))) (\<lambda>i.
     rbind (sum_ints k es) (\<lambda>n. Inr (i + n)))"

definition check_transactions :: "soak_event list \<Rightarrow> exn + unit" where
  "check_transactions body =
     (let broadcasts = List.filter (kind_is ''tx-broadcast'') body
      in rbind (check (list_all (\<lambda>e. eq_str (jget e ''publisher'') owner_publisher \<and> some_text (jget e ''operationId'')) broadcasts)
                 (deployment_error ''transaction broadcast bypasses the owner durable-operation boundary'')) (\<lambda>_.
         rbind (no_duplicates (values_of ''nonceId'' broadcasts)) (\<lambda>fresh.
         check fresh (deployment_error ''duplicate transaction nonce detected in journal''))))"

definition check_charges :: "dict \<Rightarrow> soak_event list \<Rightarrow> exn + (int \<times> int)" where
  "check_charges manifest body =
     (let charged = List.filter (kind_is ''charge'') body; ids = values_of ''chargeId'' charged
      in rbind (if ids = [] then Inr False else no_duplicates ids) (\<lambda>fresh.
         rbind (check fresh (deployment_error ''missing or duplicate charge ID detected in journal'')) (\<lambda>_.
         rbind (sum_ints ''usageUnits'' charged) (\<lambda>usage.
         rbind (sum_ints ''chargeWei'' charged) (\<lambda>wei.
         rbind (object_of (jget manifest ''expected'') TypeErr) (\<lambda>expected.
         rbind (if eq_int (jget expected ''usageUnits'') usage
                then rbind (json_int (jget expected ''chargesWei'')) (\<lambda>w. Inr (wei = w)) else Inr False) (\<lambda>matches.
         rbind (check matches (deployment_error ''observed usage/charges do not match the manifest'')) (\<lambda>_.
         Inr (usage, wei)))))))))"

section \<open>Sealed outputs\<close>

fun collect_seals :: "(string \<times> json) list \<Rightarrow> soak_event list \<Rightarrow> exn + (string \<times> json) list" where
  "collect_seals seals [] = Inr seals"
| "collect_seals seals (e # es) =
     (let output = jget e ''outputId''; digest = jget e ''sealedOutputSha256''
      in if output = JNull \<and> digest = JNull then collect_seals seals es
         else rbind (text_matching (\<lambda>_. hex64 (py_str digest)) output
                      (deployment_error ''sealed output events require outputId and SHA-256'')) (\<lambda>name.
              case map_of seals name of
                None \<Rightarrow> collect_seals (seals @ [(name, digest)]) es
              | Some previous \<Rightarrow>
                  rbind (check (py_eq previous digest)
                          (deployment_error (''sealed output changed after restart: '' @ name))) (\<lambda>_.
                  collect_seals seals es)))"

definition check_seals :: "soak_event list \<Rightarrow> exn + (string \<times> json) list" where
  "check_seals body =
     rbind (collect_seals [] body) (\<lambda>seals.
     rbind (check (list_ex (\<lambda>e. kind_is ''finalize'' e \<and>
                     (case jget e ''outputId'' of JStr s \<Rightarrow> map_of seals s \<noteq> None | _ \<Rightarrow> False)) body)
             (deployment_error ''no finalized sealed output was re-verified'')) (\<lambda>_.
     Inr seals))"

section \<open>The closure\<close>

definition required_closure :: "string \<Rightarrow> string \<Rightarrow> (string \<times> json) list" where
  "required_closure manifest_hash prior_hash =
     [(''manifestSha256'', JStr manifest_hash), (''priorEventsSha256'', JStr prior_hash),
      (''sealedOutputsUnchanged'', JBool True), (''resumeVerified'', JBool True), (''unresolvedSafetyEvents'', JInt 0),
      (''unresolvedClaims'', JInt 0), (''duplicateNonces'', JInt 0), (''duplicateCharges'', JInt 0),
      (''fairnessBudgetMet'', JBool True), (''deadlineBudgetMet'', JBool True)]"

definition check_lifecycle :: "soak_event list \<Rightarrow> exn + unit" where
  "check_lifecycle body =
     rbind (kinds_of body) (\<lambda>kinds.
     let missing = List.filter (\<lambda>k. JStr k \<notin> set kinds) required_lifecycle
     in check (missing = []) (deployment_error (''journal is missing lifecycle events: '' @ py_repr_strs (sort missing))))"

definition check_closing :: "dict \<Rightarrow> soak_event \<Rightarrow> string \<Rightarrow> string \<Rightarrow> exn + unit" where
  "check_closing manifest closure manifest_hash prior_hash =
     rbind (rmap (\<lambda>(k, v). check (py_eq (jget closure k) v) (deployment_error (''closure assertion failed: '' @ k)))
             (required_closure manifest_hash prior_hash)) (\<lambda>_.
     rbind (json_int (get_or closure ''durationSeconds'' (JInt 0))) (\<lambda>observed.
     rbind (json_int (jget manifest ''durationSeconds'')) (\<lambda>required.
     check (required \<le> observed)
       (deployment_error ''closure duration is shorter than the release-soak duration''))))"

text \<open>
  \<open>sorted\<close> of the fault names. The required faults are among them and are texts, so any other key cannot be
  compared with them.
\<close>

definition sorted_names :: "(json \<times> 'v) list \<Rightarrow> exn + string list" where
  "sorted_names d = rbind (rmap (\<lambda>kv. text_matching (\<lambda>_. True) (fst kv) TypeErr) d) (\<lambda>names. Inr (sort names))"

definition soak_result :: "string \<Rightarrow> string \<Rightarrow> json \<Rightarrow> nat \<Rightarrow> string list \<Rightarrow> nat \<Rightarrow> int \<Rightarrow> int \<Rightarrow> dict" where
  "soak_result manifest_hash journal_hash duration events faults seals usage wei =
     [(''passed'', JBool True), (''manifestSha256'', JStr manifest_hash), (''journalSha256'', JStr journal_hash),
      (''durationSeconds'', duration), (''events'', JInt (int events)), (''faults'', JArr (map JStr faults)),
      (''sealedOutputs'', JInt (int seals)), (''usageUnits'', JInt usage), (''chargesWei'', JStr (int_str wei)),
      (''restartResumeVerified'', JBool True), (''healthPollingOnly'', JBool False)]"

definition verify_events :: "dict \<Rightarrow> string \<Rightarrow> string \<Rightarrow> soak_event list \<Rightarrow> exn + dict" where
  "verify_events manifest manifest_hash journal_hash events =
     (let closure = last events; body = butlast events
      in rbind (check (kind_is ''closure'' closure) (deployment_error ''last journal event must be the closure'')) (\<lambda>_.
         rbind (check_lifecycle body) (\<lambda>_.
         rbind (check_preparation body) (\<lambda>_.
         rbind (check_aggregate body) (\<lambda>_.
         rbind (check_sponsorship body) (\<lambda>_.
         rbind (check_recovery body) (\<lambda>_.
         rbind (check_faults manifest body) (\<lambda>faults.
         rbind (check_durable body) (\<lambda>_.
         rbind (check_transactions body) (\<lambda>_.
         rbind (check_charges manifest body) (\<lambda>(usage, wei).
         rbind (check_seals body) (\<lambda>seals.
         rbind (check_closing manifest closure manifest_hash (sha256_hex (canonical_event_bytes body))) (\<lambda>_.
         rbind (sorted_names faults) (\<lambda>names.
         Inr (soak_result manifest_hash journal_hash (jget closure ''durationSeconds'') (length events) names
                (length seals) usage wei)))))))))))))))"

definition verify_closure :: "files \<Rightarrow> string \<Rightarrow> string \<Rightarrow> exn + dict" where
  "verify_closure fs manifest_path journal_path =
     rbind (load_json fs manifest_path) (\<lambda>manifest.
     rbind (validate_manifest manifest) (\<lambda>_.
     rbind (load_journal fs journal_path) (\<lambda>events.
     rbind (read_bytes fs manifest_path) (\<lambda>manifest_bytes.
     rbind (read_bytes fs journal_path) (\<lambda>journal_bytes.
     verify_events manifest (sha256_hex manifest_bytes) (sha256_hex journal_bytes) events)))))"

end
