(* ===== verification/Soak_Owner.thy ===== *)
theory Soak_Owner
  imports Soak_Journal
begin

text \<open>
  Running the owner's soak command (\<open>run_owner\<close> of \<open>scripts/soak.py\<close>) with its durable state file. The command
  is the deployment owner's: its exit status, and the files it leaves, are parameters. Paths are given resolved, as \<open>main\<close> resolves them.
\<close>

section \<open>The owner's command\<close>

record 'w owner =
  ow_root :: string
  ow_environ :: "(string \<times> string) list"
  ow_left :: "string list \<Rightarrow> 'w \<Rightarrow> files \<Rightarrow> files"

definition git_word :: "char \<Rightarrow> bool" where
  "git_word c \<longleftrightarrow> is_alnum c \<or> c \<in> set ''_-''"

text \<open>
  \<open>re.search(r"(^|[^a-z0-9_-])git(?:\.exe)?([^a-z0-9_-]|$)", text, re.I)\<close>: the suffix \<open>.exe\<close> begins with a
  character outside the class, so it never decides the match.
\<close>

fun names_git :: "bool \<Rightarrow> string \<Rightarrow> bool" where
  "names_git start [] = False"
| "names_git start (c # s) =
     (start \<and> to_lower (take 3 (c # s)) = ''git'' \<and> (case drop 3 (c # s) of [] \<Rightarrow> True | d # _ \<Rightarrow> \<not> git_word d) \<or>
      names_git (\<not> git_word c) s)"

definition owner_command :: "files \<Rightarrow> string \<Rightarrow> exn + string list" where
  "owner_command fs path =
     (let e = deployment_error ''owner command file must contain a non-empty JSON argv array''
      in rbind (read_text fs path) (\<lambda>text.
         rbind (load_text text) (\<lambda>v.
         rbind (case v of JArr vs \<Rightarrow> Inr vs | _ \<Rightarrow> Inl e) (\<lambda>vs.
         rbind (check (vs \<noteq> []) e) (\<lambda>_.
         rbind (rmap (\<lambda>w. text_matching (\<lambda>s. s \<noteq> []) w e) vs) (\<lambda>command.
         rbind (check (\<not> names_git True (join_with '' '' command))
                 (deployment_error ''repository-history commands are forbidden'')) (\<lambda>_.
         Inr command)))))))"

definition owner_state :: "files \<Rightarrow> string \<Rightarrow> bool \<Rightarrow> string \<Rightarrow> exn + dict" where
  "owner_state fs path resume manifest_hash =
     (if path_exists fs path then
        rbind (load_json fs path) (\<lambda>state.
        rbind (check resume (deployment_error ''state already exists; --resume is required'')) (\<lambda>_.
        rbind (check (eq_str (jget state ''manifestSha256'') manifest_hash)
                (deployment_error ''resume manifest does not match persisted state'')) (\<lambda>_.
        Inr state)))
      else
        rbind (check (\<not> resume) (deployment_error ''--resume was requested but no durable state exists'')) (\<lambda>_.
        Inr [(''schemaVersion'', JInt 1), (''manifestSha256'', JStr manifest_hash), (''attempts'', JInt 0),
             (''status'', JStr ''running'')]))"

definition owner_env :: "'w owner \<Rightarrow> string \<Rightarrow> string \<Rightarrow> string \<Rightarrow> bool \<Rightarrow> (string \<times> string) list" where
  "owner_env W manifest_path journal_path state_path resume =
     dputs [(''ZKDEAL_SOAK_MANIFEST'', manifest_path), (''ZKDEAL_SOAK_JOURNAL'', journal_path),
            (''ZKDEAL_SOAK_STATE'', state_path), (''ZKDEAL_SOAK_RESUME'', if resume then ''1'' else ''0'')] (ow_environ W)"

definition run_command :: "'w owner \<Rightarrow> 'w platform \<Rightarrow> string list \<Rightarrow> nat \<Rightarrow> ('w ctl_state, proc) comp" where
  "run_command W P cmd timeout = (\<lambda>s. case run_process P cmd timeout s of (r, t) \<Rightarrow>
     (r, t\<lparr>ctl_disk := ow_left W cmd (outside t) (ctl_disk t)\<rparr>))"

section \<open>A run\<close>

definition owner_finish ::
  "'w owner \<Rightarrow> 'w platform \<Rightarrow> string \<Rightarrow> string \<Rightarrow> string \<Rightarrow> dict \<Rightarrow> proc \<Rightarrow> ('w ctl_state, dict) comp" where
  "owner_finish W P manifest_path journal_path state_path state completed =
     (if returncode completed \<noteq> 0
      then seqc (atomic_write_json P (ow_root W) state_path
                  (dput ''ownerExitCode'' (JInt (returncode completed)) (dput ''status'' (JStr ''owner-command-failed'') state)))
           (throw (deployment_error (''owner soak command exited '' @ int_str (returncode completed))))
      else bnd (gets ctl_disk) (\<lambda>fs.
           bnd (lift_res (verify_closure fs manifest_path journal_path)) (\<lambda>result.
           seqc (atomic_write_json P (ow_root W) state_path
                  (dput ''closure'' (JObj result) (dput ''status'' (JStr ''passed'') state)))
           (ret result))))"

definition owner_attempt ::
  "'w owner \<Rightarrow> 'w platform \<Rightarrow> string \<Rightarrow> string \<Rightarrow> string \<Rightarrow> string list \<Rightarrow> nat \<Rightarrow> dict \<Rightarrow> ('w ctl_state, dict) comp" where
  "owner_attempt W P manifest_path journal_path state_path cmd timeout state =
     seqc (atomic_write_json P (ow_root W) state_path state)
     (bnd (run_command W P cmd timeout) (owner_finish W P manifest_path journal_path state_path state))"

definition run_owner ::
  "'w owner \<Rightarrow> 'w platform \<Rightarrow> string \<Rightarrow> string \<Rightarrow> string \<Rightarrow> string \<Rightarrow> bool \<Rightarrow> ('w ctl_state, dict) comp" where
  "run_owner W P manifest_path journal_path state_path command_path resume =
     bnd (gets ctl_disk) (\<lambda>fs.
     bnd (lift_res (load_json fs manifest_path)) (\<lambda>manifest.
     seqc (lift_res (validate_manifest manifest))
     (bnd (lift_res (read_bytes fs manifest_path)) (\<lambda>raw.
      bnd (lift_res (owner_state fs state_path resume (sha256_hex raw))) (\<lambda>state.
      bnd (lift_res (owner_command fs command_path)) (\<lambda>command.
      bnd (lift_res (json_int (get_or state ''attempts'' (JInt 0)))) (\<lambda>attempts.
      bnd (lift_res (json_int (jget manifest ''durationSeconds''))) (\<lambda>duration.
      owner_attempt W P manifest_path journal_path state_path
        (tool_command (owner_env W manifest_path journal_path state_path resume) command)
        (nat (min (duration + 7200) 93600)) (dput ''attempts'' (JInt (attempts + 1)) state)))))))))"

section \<open>The command line\<close>

text \<open>
  The two commands with their paths, after \<open>argparse\<close>. The answer is the exit status with the text printed on
  standard output; an error that \<open>main\<close> does not catch leaves it.
\<close>

datatype soak_args = SoakVerify string string | SoakRun string string string string bool

fun soak_command :: "'w owner \<Rightarrow> 'w platform \<Rightarrow> soak_args \<Rightarrow> ('w ctl_state, dict) comp" where
  "soak_command W P (SoakVerify manifest_path journal_path) =
     bnd (gets ctl_disk) (\<lambda>fs. lift_res (verify_closure fs manifest_path journal_path))"
| "soak_command W P (SoakRun manifest_path journal_path state_path command_path resume) =
     run_owner W P manifest_path journal_path state_path command_path resume"

definition soak_reported :: "exn \<Rightarrow> bool" where
  "soak_reported e \<longleftrightarrow> (case e of ToolErr _ \<Rightarrow> True | OsErr \<Rightarrow> True | ValueErr \<Rightarrow> True | _ \<Rightarrow> False)"

definition soak_main :: "'w owner \<Rightarrow> 'w platform \<Rightarrow> soak_args \<Rightarrow> ('w ctl_state, nat \<times> string) comp" where
  "soak_main W P args =
     catching soak_reported
       (bnd (gets ctl_disk) (\<lambda>fs.
        seqc (lift_res (require_container fs))
        (bnd (soak_command W P args) (\<lambda>result. ret (0, json_file_bytes result)))))
       (\<lambda>e. ret (1, []))"

end
