(* ===== verification/Soak_Laws.thy ===== *)
theory Soak_Laws
  imports Soak_Owner PyJsonLaws
begin

text \<open>
  Laws of the release soak: a journal written as canonical bytes is read back event by event, and what an
  accepted closure says of the journal.
\<close>

section \<open>Reading the journal back\<close>

lemma newline_char: "newline = [char_of (10 :: nat)]"
  by (simp add: newline_def)

lemma splitlines_line:
  assumes "s \<noteq> []" and "list_all (\<lambda>c. code c \<noteq> 10) s"
  shows "py_splitlines (s @ newline @ t) = s # py_splitlines t"
  using assms
proof (induction s)
  case (Cons c s)
  show ?case
  proof (cases "s = []")
    case True
    then show ?thesis using Cons.prems by (simp add: newline_char code_char_of)
  next
    case False
    with Cons have "py_splitlines (s @ newline @ t) = s # py_splitlines t" by simp
    with False Cons.prems show ?thesis by (cases s) (simp_all add: newline_char)
  qed
qed simp

lemma plain_line:
  assumes "plain_text s"
  shows "list_all (\<lambda>c. 32 \<le> code c \<and> code c < 128) s" "list_all (\<lambda>c. code c \<noteq> 10) s"
  using assms by (auto simp: plain_text_def list_all_iff)

lemma dumps_object_head: "plain_json (JObj d) \<Longrightarrow> \<exists>w. dumps True (JObj d) = CHR ''{'' # w"
  using jprint_plain [OF plain_jsort, of "JObj d"] by (simp add: dumps_def)

lemma journal_text:
  assumes "list_all (\<lambda>e. plain_json (JObj e)) events"
  shows "py_splitlines (unify_breaks False (canonical_event_bytes events)) = map (\<lambda>e. dumps True (JObj e)) events"
  using assms
proof (induction events)
  case (Cons e events)
  let ?s = "dumps True (JObj e)"
  have "canonical_event_bytes (e # events) = ?s @ newline @ canonical_event_bytes events"
    by (simp add: canonical_event_bytes_def)
  moreover have "?s \<noteq> []" using Cons.prems dumps_object_head [of e] by auto
  moreover have "plain_text ?s" using Cons.prems plain_dumps [of "JObj e"] by simp
  ultimately show ?case
    using Cons plain_line [of ?s] by (simp add: unify_append splitlines_line)
qed (simp add: canonical_event_bytes_def)

lemma load_line: "plain_json v \<Longrightarrow> load_text (dumps True v) = Inr (jsort v)"
proof -
  assume v: "plain_json v"
  have wf: "wf_json (jsort v)" by (rule plain_wf [OF plain_jsort [OF v]])
  let ?t = "jprint False (jsort v)"
  have "skip_ws ?t = ?t" using jprint_head [OF wf] by (auto simp: val_head_def)
  moreover have "parse_val (2 * length ?t + 2) False (?t @ []) = Inr (jsort v, [])"
    using read_print [OF wf, unfolded reads_back_def, rule_format, of "[]"] by (simp add: num_stop_def del: parse_val.simps)
  moreover have "utf8_ok ?t" by (rule plain_utf8 [OF plain_jprint [OF plain_jsort [OF v]]])
  ultimately have "loads False ?t = Inr (jsort v)"
    by (simp add: loads_def loads_text_def Let_def skip_ws_def del: parse_val.simps)
  with jprint_plain [OF plain_jsort [OF v]] show ?thesis
    by (simp add: load_text_def dumps_def)
qed

definition sorted_event :: "soak_event \<Rightarrow> soak_event" where
  "sorted_event e = sort_key fst (map (\<lambda>(k, v). (k, jsort v)) e)"

lemma jsort_event: "jsort (JObj e) = JObj (sorted_event e)"
  by (simp add: sorted_event_def)

lemma journal_lines_back:
  "list_all (\<lambda>e. plain_json (JObj e)) events \<Longrightarrow>
   journal_lines n (map (\<lambda>e. dumps True (JObj e)) events) = Inr (map sorted_event events)"
proof (induction events arbitrary: n)
  case (Cons e events)
  obtain w where w: "dumps True (JObj e) = CHR ''{'' # w"
    using dumps_object_head [of e] Cons.prems by auto
  then have "py_strip (dumps True (JObj e)) \<noteq> []"
    by (auto simp: py_strip_def py_rstrip_def py_lstrip_def class_defs)
  with Cons load_line [of "JObj e"] show ?case by (simp add: sorted_event_def object_of_def)
qed simp

lemma jget_sorted: "distinct (map fst e) \<Longrightarrow> jget (sorted_event e) k = jsort (jget e k)"
  using jget_jsort jsort_event by blast

lemma contiguous_sorted:
  "list_all (\<lambda>e. plain_json (JObj e)) events \<Longrightarrow> contiguous n (map sorted_event events) = contiguous n events"
proof (induction events arbitrary: n)
  case (Cons e events)
  have "eq_int (jsort v) i \<longleftrightarrow> eq_int v i" for v i by (cases v) (simp_all add: eq_int_def)
  with Cons show ?case by (simp add: jget_sorted)
qed simp

lemma utf8_journal: "list_all (\<lambda>e. plain_json (JObj e)) events \<Longrightarrow> utf8_ok (canonical_event_bytes events)"
proof (induction events)
  case (Cons e events)
  then have "utf8_ok (dumps True (JObj e) @ newline)" by (intro read_back_plain) simp
  with Cons utf8_ok_app show ?case by (fastforce simp: canonical_event_bytes_def)
qed (simp add: canonical_event_bytes_def)

lemma load_journal_back:
  assumes "read_bytes fs path = Inr (canonical_event_bytes events)"
    and "list_all (\<lambda>e. plain_json (JObj e)) events" and "events \<noteq> []" and "contiguous 1 events = Inr ()"
  shows "load_journal fs path = Inr (map sorted_event events)"
  using assms journal_text [OF assms(2)] journal_lines_back [OF assms(2)] contiguous_sorted [OF assms(2)]
    utf8_journal [OF assms(2)]
  by (simp add: load_journal_def read_text_def check_def)

text \<open>A value whose keys are in order is read back as it is.\<close>

fun in_order :: "json \<Rightarrow> bool" where
  "in_order (JArr xs) = list_all in_order xs"
| "in_order (JObj d) = (sorted (map fst d) \<and> list_all (\<lambda>(k, v). in_order v) d)"
| "in_order v = True"

lemma jsort_in_order: "in_order v \<Longrightarrow> jsort v = v"
proof (induction v)
  case (JArr xs)
  then show ?case by (auto simp: list_all_iff intro: map_idI)
next
  case (JObj d)
  then have "map (\<lambda>(k, v). (k, jsort v)) d = d" by (intro map_idI) (auto simp: list_all_iff)
  with JObj show ?case by (simp add: sort_key_id_if_sorted)
qed simp_all

lemma sorted_event_in_order: "in_order (JObj e) \<Longrightarrow> sorted_event e = e"
  using jsort_in_order jsort_event by (metis json.inject(6))

section \<open>What the checks establish\<close>

lemma contiguous_seq:
  "contiguous n es = Inr () \<longleftrightarrow> (\<forall>i<length es. eq_int (jget (es ! i) ''seq'') (int (n + i)))"
proof (induction es arbitrary: n)
  case (Cons e es)
  have "(\<forall>i<length (e # es). eq_int (jget ((e # es) ! i) ''seq'') (int (n + i))) \<longleftrightarrow>
      eq_int (jget e ''seq'') (int n) \<and> (\<forall>i<length es. eq_int (jget (es ! i) ''seq'') (int (Suc n + i)))"
    by (simp only: length_Cons All_less_Suc2) (simp add: algebra_simps)
  with Cons show ?case by (simp add: algebra_simps)
qed simp

lemma pairwise_distinct_nth:
  "pairwise_distinct vs \<longleftrightarrow> (\<forall>j<length vs. \<forall>i<j. \<not> py_eq (vs ! i) (vs ! j))"
proof (induction vs)
  case (Cons v vs)
  have "(\<forall>j<length (v # vs). \<forall>i<j. \<not> py_eq ((v # vs) ! i) ((v # vs) ! j)) \<longleftrightarrow>
      (\<forall>j<length vs. \<not> py_eq v (vs ! j)) \<and> (\<forall>j<length vs. \<forall>i<j. \<not> py_eq (vs ! i) (vs ! j))"
    by (simp only: length_Cons All_less_Suc2 nth_Cons_0 nth_Cons_Suc) blast
  moreover have "list_ex (py_eq v) vs \<longleftrightarrow> (\<exists>j<length vs. py_eq v (vs ! j))"
    by (metis list_ex_iff in_set_conv_nth)
  ultimately show ?case using Cons by (simp only: pairwise_distinct.simps) blast
qed simp

lemma rmap_unit: "rmap f xs = Inr us \<Longrightarrow> x \<in> set xs \<Longrightarrow> \<exists>u. f x = Inr u"
  by (induction xs arbitrary: us) auto

lemma one_event_in: "one_event body k = Inr e \<Longrightarrow> e \<in> set body \<and> kind_is k e"
proof -
  assume "one_event body k = Inr e"
  then have "List.filter (kind_is k) body \<noteq> [] \<and> e = last (List.filter (kind_is k) body)"
    by (auto simp: one_event_def split: list.splits)
  then show ?thesis using last_in_set [of "List.filter (kind_is k) body"] by auto
qed

lemma lifecycle_covered:
  assumes "check_lifecycle body = Inr ()" and "k \<in> set required_lifecycle"
  shows "\<exists>e\<in>set body. kind_is k e"
proof -
  from assms(1) obtain ks where ks: "kinds_of body = Inr ks" "List.filter (\<lambda>k. JStr k \<notin> set ks) required_lifecycle = []"
    by (auto simp: check_lifecycle_def Let_def)
  with assms(2) have "JStr k \<in> set ks" by (metis (mono_tags, lifting) filter_empty_conv)
  with ks(1) rmap_Inr_all show ?thesis
    unfolding kinds_of_def by (fastforce simp: kind_is_def eq_str_def split: if_splits)
qed

section \<open>Faults\<close>

text \<open>A name that is a text equals only itself, so its entry is the last one put under it.\<close>

lemma jlook_jput: "jlook (jput j v d) (JStr k) = (if j = JStr k then Some v else jlook d (JStr k))"
  by (induction d) auto

lemma jlook_in: "jlook d (JStr k) = Some v \<Longrightarrow> (JStr k, v) \<in> set d"
  by (induction d) (auto split: if_splits)

lemma scheduled_step:
  "scheduled_faults d (item # items) = Inr out \<longleftrightarrow>
     (\<exists>j at. map_of item ''kind'' = Some j \<and> map_of item ''atSecond'' = Some at \<and> hashable j \<and>
       scheduled_faults (jput j at d) items = Inr out)"
  by (auto split: option.splits)

lemma scheduled_from:
  "scheduled_faults d items = Inr out \<Longrightarrow> jlook out (JStr k) = Some at \<Longrightarrow>
   jlook d (JStr k) = Some at \<or>
   (\<exists>item\<in>set items. map_of item ''kind'' = Some (JStr k) \<and> map_of item ''atSecond'' = Some at)"
proof (induction items arbitrary: d)
  case (Cons item items)
  then obtain j at' where j: "map_of item ''kind'' = Some j" "map_of item ''atSecond'' = Some at'"
      "scheduled_faults (jput j at' d) items = Inr out"
    unfolding scheduled_step by blast
  from Cons.IH [OF j(3) Cons.prems(2)] j show ?case by (auto simp: jlook_jput split: if_splits)
qed simp

lemma scheduled_kept:
  "scheduled_faults d items = Inr out \<Longrightarrow>
   jlook d (JStr k) \<noteq> None \<or> (\<exists>item\<in>set items. map_of item ''kind'' = Some (JStr k)) \<Longrightarrow> jlook out (JStr k) \<noteq> None"
proof (induction items arbitrary: d)
  case (Cons item items)
  then obtain j at where j: "map_of item ''kind'' = Some j" "scheduled_faults (jput j at d) items = Inr out"
    unfolding scheduled_step by blast
  show ?case by (rule Cons.IH [OF j(2)]) (use Cons.prems(2) j in \<open>auto simp: jlook_jput\<close>)
qed simp

lemma faults_by_name_look:
  "faults_by_name d es = Inr out \<Longrightarrow> jlook out (JStr k) = Some e \<Longrightarrow>
   jlook d (JStr k) = Some e \<or> (e \<in> set es \<and> kind_is ''fault'' e \<and> jget e ''fault'' = JStr k)"
  by (induction d es rule: faults_by_name.induct) (auto simp: jlook_jput split: if_splits)

lemma faults_executed:
  assumes "check_faults manifest body = Inr faults"
    and "item \<in> set (manifest_faults manifest)" and "jget item ''kind'' = JStr k"
  shows "\<exists>planned\<in>set (manifest_faults manifest). \<exists>ran\<in>set body. \<exists>restored\<in>set body.
      jget planned ''kind'' = JStr k \<and>
      kind_is ''fault'' ran \<and> jget ran ''fault'' = JStr k \<and>
      py_eq (jget ran ''scheduledAtSecond'') (jget planned ''atSecond'') \<and>
      kind_is ''recovered'' restored \<and> jget restored ''fault'' = JStr k"
proof -
  from assms(1) obtain sched rec us where s: "scheduled_faults [] (manifest_faults manifest) = Inr sched"
    and f: "faults_by_name [] body = Inr faults" and r: "recovered_faults body = Inr rec"
    and c: "rmap (check_fault faults rec) sched = Inr us"
    by (auto simp: check_faults_def)
  have "map_of item ''kind'' = Some (JStr k)"
    using assms(3) by (simp add: jget_def split: option.splits)
  with s assms(2) obtain at where at: "jlook sched (JStr k) = Some at"
    using scheduled_kept [OF s] by blast
  then obtain planned where p: "planned \<in> set (manifest_faults manifest)" "map_of planned ''kind'' = Some (JStr k)"
      "map_of planned ''atSecond'' = Some at"
    using scheduled_from [OF s at] by fastforce
  from rmap_unit [OF c jlook_in [OF at]]
  obtain e where e: "jlook faults (JStr k) = Some e" "py_eq (jget e ''scheduledAtSecond'') at" "JStr k \<in> set rec"
    by (auto simp: check_fault_def Let_def list_ex_iff split: option.splits)
  obtain restored where b: "restored \<in> set body" "kind_is ''recovered'' restored" "jget restored ''fault'' = JStr k"
    using rmap_Inr_all [OF r [unfolded recovered_faults_def] e(3)] by (auto split: if_splits)
  have "e \<in> set body" and "kind_is ''fault'' e" and "jget e ''fault'' = JStr k"
    using faults_by_name_look [OF f e(1)] by simp_all
  moreover have "jget planned ''kind'' = JStr k" "jget planned ''atSecond'' = at"
    using p by (simp_all add: jget_def)
  ultimately show ?thesis using p(1) e(2) b by blast
qed

text \<open>A name scheduled twice keeps its last offset only: the earlier one is never looked at.\<close>

lemma earlier_offset_dropped:
  "scheduled_faults [] [[(''kind'', JStr k), (''atSecond'', at)], [(''kind'', JStr k), (''atSecond'', at')]] = Inr [(JStr k, at')]"
  by simp

section \<open>Sealed outputs and sums\<close>

lemma collect_seals_step:
  "collect_seals seals (e # es) = Inr out \<longleftrightarrow>
     (if jget e ''outputId'' = JNull \<and> jget e ''sealedOutputSha256'' = JNull then collect_seals seals es = Inr out
      else \<exists>name. jget e ''outputId'' = JStr name \<and> hex64 (py_str (jget e ''sealedOutputSha256'')) \<and>
        (case map_of seals name of
           None \<Rightarrow> collect_seals (seals @ [(name, jget e ''sealedOutputSha256'')]) es = Inr out
         | Some d \<Rightarrow> py_eq d (jget e ''sealedOutputSha256'') \<and> collect_seals seals es = Inr out))"
  by (simp add: Let_def text_matching_Inr split: option.split)

lemma collect_seals_keeps: "collect_seals seals es = Inr out \<Longrightarrow> map_of seals o' = Some d \<Longrightarrow> map_of out o' = Some d"
proof (induction es arbitrary: seals)
  case (Cons e es)
  then obtain seals' where "collect_seals seals' es = Inr out" "map_of seals' o' = Some d"
    unfolding collect_seals_step by (auto split: if_splits option.splits)
  with Cons.IH show ?case by blast
qed simp

lemma collect_seals_sound:
  "collect_seals seals es = Inr out \<Longrightarrow> e \<in> set es \<Longrightarrow>
   jget e ''outputId'' \<noteq> JNull \<or> jget e ''sealedOutputSha256'' \<noteq> JNull \<Longrightarrow>
   \<exists>name d. jget e ''outputId'' = JStr name \<and> hex64 (py_str (jget e ''sealedOutputSha256'')) \<and>
     map_of out name = Some d \<and> (d = jget e ''sealedOutputSha256'' \<or> py_eq d (jget e ''sealedOutputSha256''))"
proof (induction es arbitrary: seals)
  case (Cons e' es)
  show ?case
  proof (cases "e = e'")
    case True
    with Cons.prems obtain name where n: "jget e ''outputId'' = JStr name" "hex64 (py_str (jget e ''sealedOutputSha256''))"
      and c: "case map_of seals name of
           None \<Rightarrow> collect_seals (seals @ [(name, jget e ''sealedOutputSha256'')]) es = Inr out
         | Some d \<Rightarrow> py_eq d (jget e ''sealedOutputSha256'') \<and> collect_seals seals es = Inr out"
      unfolding collect_seals_step by (auto split: if_splits)
    show ?thesis
    proof (cases "map_of seals name")
      case None
      then have "map_of (seals @ [(name, jget e ''sealedOutputSha256'')]) name = Some (jget e ''sealedOutputSha256'')"
        by (simp add: map_add_def)
      with None n c collect_seals_keeps show ?thesis by fastforce
    next
      case (Some d)
      with n c collect_seals_keeps show ?thesis by fastforce
    qed
  next
    case False
    with Cons.prems(1,2) obtain seals' where "collect_seals seals' es = Inr out" "e \<in> set es"
      unfolding collect_seals_step by (auto split: if_splits option.splits)
    with Cons.IH Cons.prems(3) show ?thesis by blast
  qed
qed simp

lemma sum_ints_sum:
  "sum_ints k es = Inr n \<longleftrightarrow> (\<exists>ns. rmap (\<lambda>e. json_int (get_or e k (JInt 0))) es = Inr ns \<and> n = sum_list ns)"
  by (induction es arbitrary: n) auto

end
