(* ===== verification/Soak_Example.thy ===== *)
theory Soak_Example
  imports Soak_Laws
begin

text \<open>
  A release soak that passes: a manifest and a journal with every required image, trust root, lifecycle event and
  fault, as the repository's own tests build them, and the file the owner's command is read from.
\<close>

section \<open>Manifest and journal\<close>

definition lab_digest :: string where "lab_digest = replicate 64 CHR ''a''"

definition lab_physicalScenario :: dict where
  "lab_physicalScenario =
     [(''aggregateMembers'', JInt 8), (''castEncodingOnly'', JBool True), (''deploymentAddressesSha256'',
     JStr lab_digest), (''directBroadcastAllowed'', JBool False), (''fixturePrepare'', JBool False),
     (''freshDeployment'', JBool True), (''hostedBatchInput'', JStr ''BatchInputV5''), (''ownerAcceptanceToken'',
     JStr (''sha256:'' @ lab_digest)), (''ownerDurableCapabilitiesSha256'', JStr lab_digest),
     (''ownerDurablePublishing'', JBool True), (''partialSuccessApplied'', JInt 7), (''partialSuccessFailed'',
     JInt 1), (''preFinalityReorg'', JBool True), (''realCudaProof'', JBool True), (''restartResume'', JBool True),
     (''settlementScenarioSha256'', JStr lab_digest), (''sponsorship'', JBool True), (''successOnlyCharging'',
     JBool True), (''transactionBlobs'', JInt 6), (''withdrawalClaim'', JBool True)]"

definition lab_images :: dict where
  "lab_images =
     [(''coordinator'', JStr (''registry.invalid/coordinator@sha256:'' @ lab_digest)), (''headless'',
     JStr (''registry.invalid/headless@sha256:'' @ lab_digest)), (''indexer'',
     JStr (''registry.invalid/indexer@sha256:'' @ lab_digest)), (''ownerAcceptanceRunner'',
     JStr (''registry.invalid/ownerAcceptanceRunner@sha256:'' @ lab_digest)), (''prover'',
     JStr (''registry.invalid/prover@sha256:'' @ lab_digest)), (''reconciler'',
     JStr (''registry.invalid/reconciler@sha256:'' @ lab_digest))]"

definition lab_trustRoots :: dict where
  "lab_trustRoots =
     [(''circuitManifestSha256'', JStr lab_digest), (''contractsAbiSha256'', JStr lab_digest),
     (''generatedTrustRootClosureSha256'', JStr lab_digest), (''zkvmArtifactsSha256'', JStr lab_digest)]"

definition lab_chainSeed :: dict where
  "lab_chainSeed =
     [(''chainId'', JInt 31337), (''genesisHash'', JStr (''0x'' @ lab_digest)), (''rpcEndpoints'',
     JArr [JStr ''http://rpc-a:8545'', JStr ''http://rpc-b:8545'']), (''seedSha256'', JStr lab_digest)]"

definition lab_budgets :: dict where
  "lab_budgets =
     [(''maxDeadlineMisses'', JInt 0), (''maxDuplicateCharges'', JInt 0), (''maxDuplicateNonces'', JInt 0),
     (''maxFairnessWaitMs'', JInt 5000), (''maxUnresolvedClaims'', JInt 0), (''maxUnresolvedSafetyEvents'', JInt 0)]"

definition lab_schedule :: "dict list" where
  "lab_schedule =
     [[(''atSecond'', JInt 100), (''kind'', JStr ''coordinator-promotion'')],
      [(''atSecond'', JInt 200), (''kind'', JStr ''database-restart'')],
      [(''atSecond'', JInt 300), (''kind'', JStr ''docker-host-restart-resume'')],
      [(''atSecond'', JInt 400), (''kind'', JStr ''headless-restart'')],
      [(''atSecond'', JInt 500), (''kind'', JStr ''indexer-rollback'')],
      [(''atSecond'', JInt 600), (''kind'', JStr ''object-store-restart'')],
      [(''atSecond'', JInt 700), (''kind'', JStr ''prover-restart'')],
      [(''atSecond'', JInt 800), (''kind'', JStr ''rpc-split'')]]"

definition lab_manifest :: dict where
  "lab_manifest =
     [(''budgets'', JObj lab_budgets), (''chainSeed'', JObj lab_chainSeed), (''durationSeconds'', JInt 43200),
     (''expected'', JObj [(''chargesWei'', JStr ''11''), (''usageUnits'', JInt 7)]), (''images'',
     JObj lab_images), (''kind'', JStr ''zkdeal-release-soak''), (''physicalScenario'',
     JObj lab_physicalScenario), (''scheduledFaults'', JArr (map JObj lab_schedule)), (''schemaVersion'',
     JInt 1), (''sourceBundleArchiveSha256'', JStr lab_digest), (''sourceClosureSha256'', JStr lab_digest),
     (''trustRoots'', JObj lab_trustRoots), (''umbrellaSourceManifestSha256'', JStr lab_digest)]"

definition lab_work :: "soak_event list" where
  "lab_work =
     [[(''kind'', JStr ''room-create''), (''roomId'', JStr ''room-1''), (''seq'', JInt 1)],
      [(''cursor'', JInt 1), (''eventId'', JStr ''event-1''), (''jobId'', JStr ''job-1''), (''kind'',
       JStr ''submit''), (''seq'', JInt 2)],
      [(''kind'', JStr ''lease''), (''seq'', JInt 3)],
      [(''kind'', JStr ''tx-broadcast''), (''nonceId'', JStr ''signer:1''), (''operationId'',
       JStr ''operation-aggregate''), (''publisher'', JStr ''owner-durable-operation''), (''seq'', JInt 4),
       (''txHash'', JStr ''0xdd'')],
      [(''batchInput'', JStr ''BatchInputV5''), (''fixture'', JBool False), (''kind'', JStr ''live-prepare''),
       (''preparedFrom'', JStr ''live-room-engine-state''), (''seq'', JInt 5)],
      [(''kind'', JStr ''prove''), (''outputId'', JStr ''proof-1''), (''proofMode'', JStr ''groth16''),
       (''realCuda'', JBool True), (''sealedOutputSha256'', JStr lab_digest), (''seq'', JInt 6)],
      [(''kind'', JStr ''verify''), (''realReceipt'', JBool True), (''seq'', JInt 7)],
      [(''kind'', JStr ''blob-archive''), (''seq'', JInt 8)],
      [(''applied'', JInt 7), (''castBroadcast'', JBool False), (''failed'', JInt 1), (''failedCharges'', JInt 0),
       (''finalizedCanonical'', JBool True), (''kind'', JStr ''aggregate-settle''), (''members'', JInt 8),
       (''ownerOperationId'', JStr ''operation-aggregate''), (''publisher'', JStr ''owner-durable-operation''),
       (''selector'', JStr ''0x5e8b37ac''), (''seq'', JInt 9), (''successfulCharges'', JInt 7),
       (''transactionBlobs'', JInt 6), (''transactionType'', JInt 3)],
      [(''beneficiary'', JStr ''beneficiary-1''), (''doubleBilled'', JBool False), (''finalizedCanonical'',
       JBool True), (''kind'', JStr ''sponsor''), (''ownerOperations'', JObj [(''checkpoint'',
       JStr ''operation-checkpoint''), (''dispose'', JStr ''operation-dispose''), (''renew'',
       JStr ''operation-renew''), (''reserve'', JStr ''operation-reserve'')]), (''payer'', JStr ''payer-1''),
       (''publisher'', JStr ''owner-durable-operation''), (''refundRecipient'', JStr ''payer-1''), (''selectors'',
       JObj [(''checkpoint'', JStr ''0xe19bc67e''), (''dispose'', JStr ''0xed97f11a''), (''renew'',
       JStr ''0xf180fe5d''), (''reserve'', JStr ''0x827ac259'')]), (''senderAuthoritySplit'', JBool True), (''seq'',
       JInt 10)],
      [(''canonicalRecovery'', JBool True), (''duplicateCharge'', JBool False), (''duplicateNonce'', JBool False),
       (''kind'', JStr ''reorg''), (''preFinalityOrphaned'', JBool True), (''seq'', JInt 11)],
      [(''kind'', JStr ''finalize''), (''outputId'', JStr ''proof-1''), (''sealedOutputSha256'',
       JStr lab_digest), (''seq'', JInt 12)],
      [(''claimed'', JBool True), (''finalizedCanonical'', JBool True), (''kind'', JStr ''withdraw''),
       (''ownerOperationId'', JStr ''operation-withdrawal''), (''publisher'', JStr ''owner-durable-operation''),
       (''realProof'', JBool True), (''replayRejected'', JBool True), (''selector'', JStr ''0xb051a9f8''), (''seq'',
       JInt 13)],
      [(''kind'', JStr ''reconcile''), (''seq'', JInt 14)],
      [(''chargeId'', JStr ''charge-1''), (''chargeWei'', JStr ''11''), (''kind'', JStr ''charge''), (''seq'',
       JInt 15), (''usageUnits'', JInt 7)]]"

definition lab_recoveries :: "soak_event list" where
  "lab_recoveries =
     [[(''fault'', JStr ''coordinator-promotion''), (''kind'', JStr ''fault''), (''scheduledAtSecond'', JInt 100),
       (''seq'', JInt 16)],
      [(''fault'', JStr ''coordinator-promotion''), (''kind'', JStr ''recovered''), (''seq'', JInt 17)],
      [(''fault'', JStr ''database-restart''), (''kind'', JStr ''fault''), (''scheduledAtSecond'', JInt 200),
       (''seq'', JInt 18)],
      [(''fault'', JStr ''database-restart''), (''kind'', JStr ''recovered''), (''seq'', JInt 19)],
      [(''fault'', JStr ''docker-host-restart-resume''), (''kind'', JStr ''fault''), (''scheduledAtSecond'',
       JInt 300), (''seq'', JInt 20)],
      [(''fault'', JStr ''docker-host-restart-resume''), (''kind'', JStr ''recovered''), (''seq'', JInt 21)],
      [(''fault'', JStr ''headless-restart''), (''kind'', JStr ''fault''), (''scheduledAtSecond'', JInt 400),
       (''seq'', JInt 22)],
      [(''fault'', JStr ''headless-restart''), (''kind'', JStr ''recovered''), (''seq'', JInt 23)],
      [(''fault'', JStr ''indexer-rollback''), (''kind'', JStr ''fault''), (''scheduledAtSecond'', JInt 500),
       (''seq'', JInt 24)],
      [(''fault'', JStr ''indexer-rollback''), (''kind'', JStr ''recovered''), (''seq'', JInt 25)],
      [(''fault'', JStr ''object-store-restart''), (''kind'', JStr ''fault''), (''scheduledAtSecond'', JInt 600),
       (''seq'', JInt 26)],
      [(''fault'', JStr ''object-store-restart''), (''kind'', JStr ''recovered''), (''seq'', JInt 27)],
      [(''fault'', JStr ''prover-restart''), (''kind'', JStr ''fault''), (''scheduledAtSecond'', JInt 700),
       (''seq'', JInt 28)],
      [(''fault'', JStr ''prover-restart''), (''kind'', JStr ''recovered''), (''seq'', JInt 29)],
      [(''fault'', JStr ''rpc-split''), (''kind'', JStr ''fault''), (''scheduledAtSecond'', JInt 800), (''seq'',
       JInt 30)],
      [(''fault'', JStr ''rpc-split''), (''kind'', JStr ''recovered''), (''seq'', JInt 31)]]"

definition lab_body :: "soak_event list" where
  "lab_body = lab_work @ lab_recoveries"

definition lab_manifest_bytes :: string where
  "lab_manifest_bytes = dumps True (JObj lab_manifest) @ newline"

definition lab_closure :: soak_event where
  "lab_closure =
     [(''deadlineBudgetMet'', JBool True), (''duplicateCharges'', JInt 0), (''duplicateNonces'', JInt 0),
     (''durationSeconds'', JInt 43200), (''fairnessBudgetMet'', JBool True), (''kind'', JStr ''closure''),
     (''manifestSha256'', JStr (sha256_hex lab_manifest_bytes)), (''priorEventsSha256'',
     JStr (sha256_hex (canonical_event_bytes lab_body))), (''resumeVerified'', JBool True),
     (''sealedOutputsUnchanged'', JBool True), (''seq'', JInt 32), (''unresolvedClaims'', JInt 0),
     (''unresolvedSafetyEvents'', JInt 0)]"

definition lab_events :: "soak_event list" where
  "lab_events = lab_body @ [lab_closure]"

definition lab_files :: files where
  "lab_files =
     [''/p/manifest.json'' \<mapsto> FFile 420 lab_manifest_bytes, ''/p/soak.jsonl'' \<mapsto> FFile 420 (canonical_event_bytes lab_events),
      ''/p/command.json'' \<mapsto> FFile 420 (dumps True (JArr [JStr ''run-soak'']))]"

section \<open>They are plain, and written in the order they are read back\<close>

lemma lab_digest_facts [simp]: "hex64 lab_digest" "plain_text lab_digest" "rep_match is_hex 64 64 lab_digest"
  by (simp_all add: lab_digest_def hex64_def rep_match_def plain_text_def class_defs list_all_iff)

lemma sha_plain [simp]: "plain_text (sha256_hex s)"
proof -
  have "list_all is_lower_hex (sha256_hex s)" using hex64_sha256 [of s] by (simp add: hex64_def rep_match_def)
  then show ?thesis by (auto simp: plain_text_def list_all_iff class_defs)
qed

lemmas lab_sections = lab_physicalScenario_def lab_images_def lab_trustRoots_def lab_chainSeed_def lab_budgets_def
  lab_schedule_def

lemma lab_manifest_plain: "plain_json (JObj lab_manifest)"
  by (simp add: lab_manifest_def lab_sections plain_text_simps code_def)

lemma lab_events_plain: "list_all (\<lambda>e. plain_json (JObj e)) lab_events"
  by (simp add: lab_events_def lab_body_def lab_work_def lab_recoveries_def lab_closure_def plain_text_simps code_def)

lemma lab_in_order: "in_order (JObj lab_manifest)" "list_all (\<lambda>e. in_order (JObj e)) lab_events"
  by (simp_all add: lab_manifest_def lab_sections lab_events_def lab_body_def lab_work_def lab_recoveries_def lab_closure_def)

section \<open>What is read\<close>

lemma lab_reads:
  "read_bytes lab_files ''/p/manifest.json'' = Inr lab_manifest_bytes"
  "read_bytes lab_files ''/p/soak.jsonl'' = Inr (canonical_event_bytes lab_events)"
  "read_bytes lab_files ''/p/command.json'' = Inr (dumps True (JArr [JStr ''run-soak'']))"
  "path_exists lab_files ''/p/state.json'' = False"
  by (simp_all add: lab_files_def read_bytes_def fs_follow_def path_exists_def eval_nat_numeral)

lemma lab_load_manifest: "load_json lab_files ''/p/manifest.json'' = Inr lab_manifest"
  using loads_dumps_plain [OF lab_manifest_plain] read_back_plain [OF lab_manifest_plain] jsort_in_order [OF lab_in_order(1)]
  by (simp add: load_json_def read_text_def lab_reads lab_manifest_bytes_def load_text_def object_of_def del: jsort.simps)

lemma lab_contiguous: "contiguous 1 lab_events = Inr ()"
  by (simp add: lab_events_def lab_body_def lab_work_def lab_recoveries_def lab_closure_def eq_int_def jget_def check_def)

lemma lab_load_journal: "load_journal lab_files ''/p/soak.jsonl'' = Inr lab_events"
proof -
  have "map sorted_event lab_events = lab_events"
    using lab_in_order(2) by (intro map_idI sorted_event_in_order) (simp add: list_all_iff)
  with load_journal_back [OF lab_reads(2) lab_events_plain _ lab_contiguous] show ?thesis
    by (simp add: lab_events_def)
qed

section \<open>What is checked\<close>

lemma reading [simp]:
  "jget ((k', v) # d) k = (if k' = k then v else jget d k)" "jget [] k = JNull"
  "get_or ((k', v) # d) k w = (if k' = k then v else get_or d k w)" "get_or [] k w = w"
  "complaint False m = []" "eq_str (JStr s) t \<longleftrightarrow> s = t" "eq_int (JInt i) j \<longleftrightarrow> i = j"
  "text_field p d k \<longleftrightarrow> p (py_str (get_or d k (JStr [])))"
  by (simp_all add: jget_def get_or_def complaint_def eq_str_def eq_int_def text_field_def)

lemma lab_identity: "identity_errors lab_manifest = Inr []"
  by (simp add: identity_errors_def lab_manifest_def)

lemma lab_scenario: "scenario_errors (JObj lab_physicalScenario) = []"
  by (simp add: scenario_errors_def lab_physicalScenario_def exact_scenario_def)

lemma lab_image_roles: "image_errors (JObj lab_images) = []"
  by (simp add: image_errors_def lab_images_def absent_def required_images_def soak_image_digest_def keys_def class_defs)

lemma lab_roots: "root_errors (JObj lab_trustRoots) = []"
  by (simp add: root_errors_def lab_trustRoots_def required_trust_roots_def)

lemma lab_seed: "seed_errors (JObj lab_chainSeed) = []"
  by (simp add: seed_errors_def lab_chainSeed_def int_at_least_def rpc_endpoint_def)

lemma lab_wei [simp]: "py_int ''11'' = Inr 11"
  by code_simp

lemma lab_expected: "expected_errors (jget lab_manifest ''expected'') = Inr []"
  by (simp add: expected_errors_def lab_manifest_def int_at_least_def Let_def)

lemma lab_budget: "budget_errors (JObj lab_budgets) = []"
  by (simp add: budget_errors_def lab_budgets_def int_at_least_def required_zero_budgets_def)

lemma lab_faults: "fault_errors (JArr (map JObj lab_schedule)) = Inr []"
  by (simp add: fault_errors_def lab_schedule_def int_at_least_def required_faults_def objects_in_def kinds_of_def)

lemma lab_manifest_valid: "validate_manifest lab_manifest = Inr ()"
proof -
  have "jget lab_manifest ''physicalScenario'' = JObj lab_physicalScenario" "jget lab_manifest ''images'' = JObj lab_images"
    "jget lab_manifest ''trustRoots'' = JObj lab_trustRoots" "jget lab_manifest ''chainSeed'' = JObj lab_chainSeed"
    "jget lab_manifest ''budgets'' = JObj lab_budgets" "jget lab_manifest ''scheduledFaults'' = JArr (map JObj lab_schedule)"
    by (simp_all add: lab_manifest_def)
  then show ?thesis
    by (simp add: validate_manifest_def lab_identity lab_scenario lab_image_roles lab_roots lab_seed lab_expected lab_budget
        lab_faults)
qed

text \<open>The journal, one check after the other.\<close>

lemma lab_kind [simp]: "kind_is k e \<longleftrightarrow> jget e ''kind'' = JStr k"
  by (simp add: kind_is_def eq_str_def)

lemmas lab_journal = lab_body_def lab_work_def lab_recoveries_def

lemma lab_lifecycle: "check_lifecycle lab_body = Inr ()"
  by (simp add: check_lifecycle_def kinds_of_def lab_journal required_lifecycle_def)

lemma lab_one [simp]: "one_event [] k = Inl (deployment_error (''journal is missing '' @ k @ '' evidence''))"
  "one_event (e # es) k =
     (if jget e ''kind'' = JStr k then (case one_event es k of Inr e' \<Rightarrow> Inr e' | Inl _ \<Rightarrow> Inr e) else one_event es k)"
  by (auto simp: one_event_def split: list.splits)

lemma lab_preparation: "check_preparation lab_body = Inr ()"
  by (simp add: check_preparation_def lab_journal is_true_def is_false_def)

lemma lab_aggregate: "check_aggregate lab_body = Inr ()"
  by (simp add: check_aggregate_def lab_journal is_true_def is_false_def aggregate_numbers_def owner_publisher_def some_text_def)

lemma lab_sponsorship: "check_sponsorship lab_body = Inr ()"
  by (simp add: check_sponsorship_def lab_journal is_true_def is_false_def owner_publisher_def some_text_def sponsor_selectors_def)

lemma lab_recovery: "check_recovery lab_body = Inr ()"
  by (simp add: check_recovery_def lab_journal is_true_def is_false_def owner_publisher_def some_text_def)

definition lab_fault_events :: "(json \<times> soak_event) list" where
  "lab_fault_events = map (\<lambda>e. (jget e ''fault'', e)) (List.filter (kind_is ''fault'') lab_recoveries)"

lemma lab_check_faults: "check_faults lab_manifest lab_body = Inr lab_fault_events"
  by (simp add: check_faults_def lab_manifest_def lab_schedule_def manifest_faults_def objects_in_def lab_journal
      recovered_faults_def check_fault_def lab_fault_events_def)

lemma int_str_some [simp]: "int_str i \<noteq> []"
  using int_str_head [of i] by auto

lemma lab_durable: "check_durable lab_body = Inr [(), (), (), (), (), ()]"
  by (simp add: check_durable_def durable_fields_def lab_journal persists_def)

lemma lab_transactions: "check_transactions lab_body = Inr ()"
  by (simp add: check_transactions_def lab_journal owner_publisher_def some_text_def no_duplicates_def values_of_def has_key_def)

lemma lab_charges: "check_charges lab_manifest lab_body = Inr (7, 11)"
  by (simp add: check_charges_def lab_journal no_duplicates_def values_of_def has_key_def lab_manifest_def object_of_def)

lemma lab_seals: "check_seals lab_body = Inr [(''proof-1'', JStr lab_digest)]"
  by (simp add: check_seals_def lab_journal text_matching_def)

lemma lab_closing:
  "check_closing lab_manifest lab_closure (sha256_hex lab_manifest_bytes) (sha256_hex (canonical_event_bytes lab_body)) = Inr ()"
  by (simp add: check_closing_def required_closure_def lab_closure_def lab_manifest_def)

lemma lab_names: "sorted_names lab_fault_events = Inr (sort required_faults)"
  by (simp add: sorted_names_def lab_fault_events_def lab_recoveries_def text_matching_def required_faults_def sort_key_def)

definition lab_result :: dict where
  "lab_result =
     soak_result (sha256_hex lab_manifest_bytes) (sha256_hex (canonical_event_bytes lab_events)) (JInt 43200)
       (length lab_events) (sort required_faults) 1 7 11"

lemma lab_closure_fields: "jget lab_closure ''kind'' = JStr ''closure''" "jget lab_closure ''durationSeconds'' = JInt 43200"
  by (simp_all add: lab_closure_def)

lemma lab_events_verified:
  "verify_events lab_manifest (sha256_hex lab_manifest_bytes) (sha256_hex (canonical_event_bytes lab_events)) lab_events =
     Inr lab_result"
  by (simp add: verify_events_def lab_events_def butlast_append lab_closure_fields lab_lifecycle lab_preparation lab_aggregate
      lab_sponsorship lab_recovery lab_check_faults lab_durable lab_transactions lab_charges lab_seals lab_closing lab_names
      lab_result_def)

lemma lab_accepted: "verify_closure lab_files ''/p/manifest.json'' ''/p/soak.jsonl'' = Inr lab_result"
  by (simp add: verify_closure_def lab_load_manifest lab_manifest_valid lab_load_journal lab_reads lab_events_verified)

section \<open>A run\<close>

text \<open>A command that exits with the given status and leaves every file as it was.\<close>

definition lab_owner :: "unit owner" where
  "lab_owner = \<lparr>ow_root = ''/p'', ow_environ = [(''PATH'', ''/bin'')], ow_left = (\<lambda>cmd w fs. fs)\<rparr>"

definition lab_platform :: "int \<Rightarrow> unit platform" where
  "lab_platform status =
     \<lparr>p_run = (\<lambda>cmd t w. (Some \<lparr>returncode = status, stdout = [], stderr = []\<rparr>, 5, w)), p_http = (\<lambda>rq t w. (NetFail, 7, w)),
      p_dns = (\<lambda>host port w. (None, 1, w)), p_wall = (\<lambda>w. (0, 1, w)), p_sleep = (\<lambda>w. (0, w)),
      p_store = (\<lambda>f b w. (True, 0, w))\<rparr>"

definition lab_start :: "unit ctl_state" where
  "lab_start = \<lparr>outside = (), mono = 0, trace = [], ctl_disk = lab_files\<rparr>"

end
