(* ===== verification/Soak_Properties.thy ===== *)
theory Soak_Properties
  imports Soak_Example
begin

text \<open>
  The properties of the release soak, with their witnesses on the sample manifest and journal.
\<close>

section \<open>Parts of an accepted closure\<close>

lemma verify_closureD:
  assumes "verify_closure fs manifest_path journal_path = Inr result"
  obtains manifest body closure manifest_bytes journal_bytes where
    "load_json fs manifest_path = Inr manifest" and "validate_manifest manifest = Inr ()"
    and "load_journal fs journal_path = Inr (body @ [closure])"
    and "read_bytes fs manifest_path = Inr manifest_bytes" and "read_bytes fs journal_path = Inr journal_bytes"
    and "verify_events manifest (sha256_hex manifest_bytes) (sha256_hex journal_bytes) (body @ [closure]) = Inr result"
proof -
  from assms obtain manifest events mb jb where v: "load_json fs manifest_path = Inr manifest"
      "validate_manifest manifest = Inr ()" "load_journal fs journal_path = Inr events"
      "read_bytes fs manifest_path = Inr mb" "read_bytes fs journal_path = Inr jb"
      "verify_events manifest (sha256_hex mb) (sha256_hex jb) events = Inr result"
    by (auto simp: verify_closure_def)
  then have "events \<noteq> []" by (auto simp: load_journal_def)
  then have "butlast events @ [last events] = events" by simp
  with v that show ?thesis by metis
qed

lemma load_journal_seq: "load_journal fs path = Inr events \<Longrightarrow> contiguous 1 events = Inr ()"
  by (auto simp: load_journal_def)

lemma verify_eventsD:
  assumes "verify_events manifest manifest_hash journal_hash (body @ [closure]) = Inr result"
  obtains faults usage wei seals names where
    "kind_is ''closure'' closure" and "check_lifecycle body = Inr ()" and "check_faults manifest body = Inr faults"
    and "check_transactions body = Inr ()" and "check_charges manifest body = Inr (usage, wei)"
    and "check_seals body = Inr seals"
    and "check_closing manifest closure manifest_hash (sha256_hex (canonical_event_bytes body)) = Inr ()"
    and "result = soak_result manifest_hash journal_hash (jget closure ''durationSeconds'') (Suc (length body)) names
      (length seals) usage wei"
  using assms by (auto simp: verify_events_def)

lemma scheduled_required:
  assumes "validate_manifest manifest = Inr ()" and "k \<in> set required_faults"
  shows "\<exists>item\<in>set (manifest_faults manifest). jget item ''kind'' = JStr k"
proof -
  from assms(1) have "fault_errors (jget manifest ''scheduledFaults'') = Inr []"
    by (auto simp: validate_manifest_def Let_def)
  then obtain vs ks where v: "jget manifest ''scheduledFaults'' = JArr vs" "kinds_of (objects_in vs) = Inr ks"
      "List.filter (\<lambda>k. JStr k \<notin> set ks) required_faults = []"
    by (auto simp: fault_errors_def Let_def complaint_def split: json.splits if_splits)
  with assms(2) have "JStr k \<in> set ks" by (metis (mono_tags, lifting) filter_empty_conv)
  from rmap_Inr_all [OF v(2) [unfolded kinds_of_def] this]
  obtain item where "item \<in> set (objects_in vs)" "jget item ''kind'' = JStr k"
    by (auto split: if_splits)
  with v(1) show ?thesis by (auto simp: manifest_faults_def)
qed

lemma seals_agree:
  assumes "check_seals body = Inr seals" and "e \<in> set body" and "e' \<in> set body"
    and "jget e ''outputId'' \<noteq> JNull" and "jget e' ''outputId'' = jget e ''outputId''"
    and "jget e ''sealedOutputSha256'' = JStr h"
  shows "jget e' ''sealedOutputSha256'' = JStr h"
proof -
  from assms(1) have c: "collect_seals [] body = Inr seals" by (auto simp: check_seals_def)
  from collect_seals_sound [OF c assms(2)] assms(4,6)
  obtain name where n: "jget e ''outputId'' = JStr name" "map_of seals name = Some (JStr h)" by auto
  with collect_seals_sound [OF c assms(3)] assms(5) show ?thesis by auto
qed

section \<open>Accepted closures\<close>

text \<open>C37. A closure is accepted only over a journal whose events are numbered without a gap, in which every stage
  of the lifecycle happened, every required fault was scheduled, was injected at a scheduled offset and was
  recovered from, and an output that was sealed twice was sealed with the same digest.\<close>

theorem accepted_soak_evidence:
  assumes "verify_closure fs manifest_path journal_path = Inr result"
  shows "\<exists>manifest body closure.
      load_json fs manifest_path = Inr manifest \<and> load_journal fs journal_path = Inr (body @ [closure]) \<and>
      kind_is ''closure'' closure \<and>
      (\<forall>i<length (body @ [closure]). eq_int (jget ((body @ [closure]) ! i) ''seq'') (int (Suc i))) \<and>
      (\<forall>k\<in>set required_lifecycle. \<exists>e\<in>set body. kind_is k e) \<and>
      (\<forall>k\<in>set required_faults. \<exists>planned\<in>set (manifest_faults manifest). \<exists>ran\<in>set body. \<exists>restored\<in>set body.
         jget planned ''kind'' = JStr k \<and> kind_is ''fault'' ran \<and> jget ran ''fault'' = JStr k \<and>
         py_eq (jget ran ''scheduledAtSecond'') (jget planned ''atSecond'') \<and>
         kind_is ''recovered'' restored \<and> jget restored ''fault'' = JStr k) \<and>
      (\<forall>e\<in>set body. \<forall>e'\<in>set body. \<forall>h. jget e ''outputId'' \<noteq> JNull \<and> jget e' ''outputId'' = jget e ''outputId'' \<and>
         jget e ''sealedOutputSha256'' = JStr h \<longrightarrow> jget e' ''sealedOutputSha256'' = JStr h)"
proof -
  from assms obtain manifest body closure mb jb where v: "load_json fs manifest_path = Inr manifest"
      "validate_manifest manifest = Inr ()" "load_journal fs journal_path = Inr (body @ [closure])"
    and e: "verify_events manifest (sha256_hex mb) (sha256_hex jb) (body @ [closure]) = Inr result"
    by (rule verify_closureD)
  from e obtain faults seals where c: "kind_is ''closure'' closure" "check_lifecycle body = Inr ()"
      "check_faults manifest body = Inr faults" "check_seals body = Inr seals"
    by (rule verify_eventsD)
  have seq: "\<forall>i<length (body @ [closure]). eq_int (jget ((body @ [closure]) ! i) ''seq'') (int (Suc i))"
    using load_journal_seq [OF v(3)] unfolding contiguous_seq by (simp only: plus_1_eq_Suc)
  have faults: "\<forall>k\<in>set required_faults. \<exists>planned\<in>set (manifest_faults manifest). \<exists>ran\<in>set body. \<exists>restored\<in>set body.
      jget planned ''kind'' = JStr k \<and> kind_is ''fault'' ran \<and> jget ran ''fault'' = JStr k \<and>
      py_eq (jget ran ''scheduledAtSecond'') (jget planned ''atSecond'') \<and>
      kind_is ''recovered'' restored \<and> jget restored ''fault'' = JStr k"
    using scheduled_required [OF v(2)] faults_executed [OF c(3)] by blast
  show ?thesis
    using v(1,3) c(1) seq lifecycle_covered [OF c(2)] faults seals_agree [OF c(4)] by blast
qed

theorem accepted_soak_evidence_witness:
  "kind_is ''closure'' lab_closure \<and> (\<exists>e\<in>set lab_body. kind_is ''withdraw'' e) \<and>
   (\<exists>planned\<in>set lab_schedule. \<exists>ran\<in>set lab_body. jget planned ''kind'' = JStr ''rpc-split'' \<and>
     py_eq (jget ran ''scheduledAtSecond'') (jget planned ''atSecond''))"
proof -
  have "load_journal lab_files ''/p/soak.jsonl'' = Inr (lab_body @ [lab_closure])"
    using lab_load_journal by (simp add: lab_events_def)
  moreover have "manifest_faults lab_manifest = lab_schedule"
    by (simp add: manifest_faults_def lab_manifest_def objects_in_def lab_schedule_def)
  moreover have "''withdraw'' \<in> set required_lifecycle" "''rpc-split'' \<in> set required_faults"
    by (simp_all add: required_lifecycle_def required_faults_def)
  ultimately show ?thesis
    using accepted_soak_evidence [OF lab_accepted] lab_load_manifest
    by (metis (no_types, lifting) append1_eq_conv sum.inject(2))
qed

text \<open>C38. The ledger of an accepted soak: no transaction nonce and no charge identifier occurs twice, there is a
  charge, the usage and the charges sum up to what the manifest expects and to what the result reports, and the
  closure names the digests of the manifest and of the events before it.\<close>

theorem accepted_soak_ledger:
  assumes "verify_closure fs manifest_path journal_path = Inr result"
  shows "\<exists>manifest expected body closure raw units wei.
      load_json fs manifest_path = Inr manifest \<and> jget manifest ''expected'' = JObj expected \<and>
      load_journal fs journal_path = Inr (body @ [closure]) \<and> read_bytes fs manifest_path = Inr raw \<and>
      (let nonces = values_of ''nonceId'' (List.filter (kind_is ''tx-broadcast'') body);
           charges = List.filter (kind_is ''charge'') body;
           ids = values_of ''chargeId'' charges
       in (\<forall>j<length nonces. \<forall>i<j. \<not> py_eq (nonces ! i) (nonces ! j)) \<and>
          ids \<noteq> [] \<and> (\<forall>j<length ids. \<forall>i<j. \<not> py_eq (ids ! i) (ids ! j)) \<and>
          rmap (\<lambda>e. json_int (get_or e ''usageUnits'' (JInt 0))) charges = Inr units \<and>
          rmap (\<lambda>e. json_int (get_or e ''chargeWei'' (JInt 0))) charges = Inr wei) \<and>
      eq_int (jget expected ''usageUnits'') (sum_list units) \<and> json_int (jget expected ''chargesWei'') = Inr (sum_list wei) \<and>
      jget closure ''manifestSha256'' = JStr (sha256_hex raw) \<and>
      jget closure ''priorEventsSha256'' = JStr (sha256_hex (canonical_event_bytes body)) \<and>
      jget result ''passed'' = JBool True \<and> jget result ''manifestSha256'' = JStr (sha256_hex raw) \<and>
      jget result ''usageUnits'' = JInt (sum_list units) \<and> jget result ''chargesWei'' = JStr (int_str (sum_list wei))"
proof -
  from assms obtain manifest body closure mb jb where v: "load_json fs manifest_path = Inr manifest"
      "load_journal fs journal_path = Inr (body @ [closure])" "read_bytes fs manifest_path = Inr mb"
    and e: "verify_events manifest (sha256_hex mb) (sha256_hex jb) (body @ [closure]) = Inr result"
    by (rule verify_closureD)
  from e obtain usage wei names seals where c: "check_transactions body = Inr ()" "check_charges manifest body = Inr (usage, wei)"
      "check_closing manifest closure (sha256_hex mb) (sha256_hex (canonical_event_bytes body)) = Inr ()"
    and r: "result = soak_result (sha256_hex mb) (sha256_hex jb) (jget closure ''durationSeconds'') (Suc (length body)) names
      (length (seals :: (string \<times> json) list)) usage wei"
    by (rule verify_eventsD)
  have nonces: "pairwise_distinct (values_of ''nonceId'' (List.filter (kind_is ''tx-broadcast'') body))"
    using c(1) by (auto simp: check_transactions_def Let_def no_duplicates_def split: if_splits)
  have charges: "values_of ''chargeId'' (List.filter (kind_is ''charge'') body) \<noteq> []"
    "pairwise_distinct (values_of ''chargeId'' (List.filter (kind_is ''charge'') body))"
    using c(2) by (auto simp: check_charges_def Let_def no_duplicates_def split: if_splits)
  obtain expected where x: "jget manifest ''expected'' = JObj expected"
      "sum_ints ''usageUnits'' (List.filter (kind_is ''charge'') body) = Inr usage"
      "sum_ints ''chargeWei'' (List.filter (kind_is ''charge'') body) = Inr wei"
      "eq_int (jget expected ''usageUnits'') usage" "json_int (jget expected ''chargesWei'') = Inr wei"
    using c(2) by (auto simp: check_charges_def Let_def object_of_Inr split: if_splits)
  have closing: "jget closure ''manifestSha256'' = JStr (sha256_hex mb)"
    "jget closure ''priorEventsSha256'' = JStr (sha256_hex (canonical_event_bytes body))"
    using c(3) by (auto simp: check_closing_def required_closure_def)
  show ?thesis
    unfolding Let_def pairwise_distinct_nth [symmetric]
    using v x nonces charges closing r by (auto simp: sum_ints_sum soak_result_def)
qed

theorem accepted_soak_ledger_witness:
  "jget lab_result ''passed'' = JBool True \<and> jget lab_result ''usageUnits'' = JInt 7 \<and>
   jget lab_result ''chargesWei'' = JStr (int_str 11) \<and>
   jget lab_closure ''priorEventsSha256'' = JStr (sha256_hex (canonical_event_bytes lab_body))"
proof -
  obtain manifest expected body closure units wei where
      r: "load_json lab_files ''/p/manifest.json'' = Inr manifest" "jget manifest ''expected'' = JObj expected"
      "load_journal lab_files ''/p/soak.jsonl'' = Inr (body @ [closure])"
      "eq_int (jget expected ''usageUnits'') (sum_list units)" "json_int (jget expected ''chargesWei'') = Inr (sum_list wei)"
      "jget closure ''priorEventsSha256'' = JStr (sha256_hex (canonical_event_bytes body))"
      "jget lab_result ''passed'' = JBool True" "jget lab_result ''usageUnits'' = JInt (sum_list units)"
      "jget lab_result ''chargesWei'' = JStr (int_str (sum_list wei))"
    using accepted_soak_ledger [OF lab_accepted] by blast
  have "manifest = lab_manifest" using r(1) by (simp add: lab_load_manifest)
  with r(2) have e: "expected = [(''chargesWei'', JStr ''11''), (''usageUnits'', JInt 7)]"
    by (simp add: lab_manifest_def)
  have "body = lab_body" "closure = lab_closure"
    using r(3) unfolding lab_load_journal lab_events_def by simp_all
  moreover have "sum_list units = 7" "sum_list wei = 11"
    using r(4,5) by (simp_all add: e)
  ultimately show ?thesis using r(6-9) by simp
qed



section \<open>Runs\<close>

lemma soak_jget_dput [simp]: "jget (dput k v d) k' = (if k' = k then v else jget d k')"
  by (simp add: jget_def)

















end
