(* ===== verification/Spec2Isabelle.thy ===== *)
theory Spec2Isabelle
  imports Promotion_Properties Fault_Properties Backup_Properties Soak_Properties
begin

text \<open>
  Verification development for the zkdeal cloud deployer infrastructure.

  \<^bold>\<open>The program.\<close> The repository deploys a coordinator with a warm standby. Its own Python code holds
  the controllers that act on a running deployment. The failover provider
  (\<open>failover-provider/provider.py\<close>) is the only component with platform authority: it fences the old
  writer, promotes the standby database, switches the stable routes and starts the signer, through
  Docker or Kubernetes commands, and keeps every operation in a durable table so that retries and
  restarts repeat nothing. The promotion controller (\<open>scripts/promotion_controller.py\<close>) watches the
  active coordinator's witnesses and calls the provider over HTTP. The fault controller
  (\<open>fault-control/fault_control.py\<close>) injects reviewed faults into one candidate deployment: chain
  reorganisations on two RPC providers, container and network actions, bounded load; it serves one
  hash-bound topology and runs every request under a write-once journal. The backup and restore controller
  (\<open>backup-restore-control/backup_restore_control.py\<close>) has the same frame: it dumps the candidate's database and
  mirrors its object store, seals three artifacts with AES-256-GCM into an independent store, and restores
  them into a fresh target only after every artifact has been authenticated. The release soak
  (\<open>scripts/soak.py\<close>) runs the owner's soak command under a durable state file and accepts its journal only
  when every stage, fault, charge and sealed output of the manifest is in it.

  \<^bold>\<open>Theories.\<close>
  \<^item> \<open>Prelude\<close>: exceptions as a datatype, computations over a state with exceptions (\<open>comp\<close>), their
    weakest-precondition calculus, invariants, fuel, guarded traces, dictionaries as association lists.
  \<^item> \<open>PyText\<close>, \<open>PyFloat\<close>, \<open>PyJson\<close>, \<open>PyJsonRead\<close>, \<open>PyUrl\<close>, \<open>Sha256\<close>: what the code uses of Python's
    standard library (text, floats in JSON, \<open>json.dumps\<close> and \<open>json.loads\<close>, \<open>urllib.parse\<close>, \<open>hashlib\<close>,
    \<open>hmac\<close>), executable; \<open>PyJsonLaws\<close> proves that printed JSON reads back.
  \<^item> \<open>Platform\<close>: the environment, the file tree, commands, HTTP, name resolution and clocks as a record
    of functions over an arbitrary outside state; the trace of events; the polling loop; the calculus
    \<open>gov\<close> for what must be in the trace before a command.
  \<^item> \<open>PySystem\<close>: lines of a text file, and the environment a command is started in.
  \<^item> \<open>Failover_Config\<close>, \<open>Failover_Drivers\<close>, \<open>Failover_Provider\<close>: provider.py in its own order: helpers
    and \<open>Config\<close>; observations and the two drivers; \<open>Provider\<close> and \<open>Handler\<close>.
  \<^item> \<open>Failover_Safety\<close>: ordering of the drivers' commands. \<open>Failover_Contract\<close>: the driver interface as
    the locale \<open>failover_driver\<close>, interpreted on both drivers. \<open>Failover_Lifecycle\<close>, \<open>Failover_Steps\<close>:
    how one operation evolves, the durable-state invariant over requests and restarts.
    \<open>Failover_Example\<close>, \<open>Failover_Run\<close>: a concrete configuration, and a platform on which a whole prepare
    succeeds. \<open>Failover_Properties\<close>: C1 to C11.
  \<^item> \<open>HttpServer\<close>, \<open>PyClock\<close>: requests as \<open>http.server\<close> hands them over; \<open>time.monotonic\<close> differences and
    \<open>round\<close> on exact doubles.
  \<^item> \<open>Promotion_Controller\<close>, \<open>Promotion_Safety\<close>, \<open>Promotion_Properties\<close>: promotion_controller.py, the order of
    its requests, and C12 to C17, which include that it accepts what the provider's model answers.
  \<^item> \<open>Control\<close>, \<open>Journal\<close>: the helpers and the journal that both control services repeat word for word;
    their differing texts are arguments. \<open>Journal_Laws\<close>: the locale \<open>journalled\<close>, from a callback that only
    moves time and the trace forward to intent first, records written once, repeated answers and refusals.
  \<^item> \<open>Fault_Topology\<close>, \<open>Fault_Targets\<close>, \<open>Fault_Controller\<close>: fault_control.py in its order; a callback of the
    source is a value of \<open>fault_op\<close>. \<open>Fault_Laws\<close> interprets \<open>journalled\<close> on it. \<open>Fault_Steps\<close>: a POST as an
    admission followed by a journalled execution; requests, crashes and outside changes as steps.
    \<open>Fault_Safety\<close>: only reviewed requests leave. \<open>Fault_Bounds\<close>: what an accepted topology guarantees, the
    bounds of a load run. \<open>Fault_Mirror\<close>: the two providers get the same calls. \<open>Fault_Example\<close>,
    \<open>Fault_Start\<close>: a concrete candidate and its start. \<open>Fault_Properties\<close>: C18 to C28.
  \<^item> \<open>Backup_Topology\<close>, \<open>Backup_Artifacts\<close>, \<open>Backup_Controller\<close>: backup_restore_control.py: \<open>load_topology\<close> with
    every rejection; the tool runs, the normalised dump, the object manifest and bundle, the envelope; \<open>_backup\<close>,
    \<open>_restore\<close>, the journal, the routes and the start. \<open>Backup_Laws\<close> interprets \<open>journalled\<close> on it, so that C20 to
    C22 have their counterparts as the facts \<open>bj\<close>. \<open>Backup_Safety\<close>: what the trace must show before a command,
    step by step through a restore. \<open>Backup_Steps\<close>: a POST as an admission and a journalled execution.
    \<open>Backup_Roundtrip\<close>: envelope and bundles read back; where an extraction may write. \<open>Backup_Example\<close>,
    \<open>Backup_Run\<close>: a candidate with a sealed backup, tools and a platform on which its whole restore succeeds;
    \<open>Backup_Start\<close>: an accepted topology and its start; \<open>Sample_Post\<close>: the requests the examples share.
    \<open>Backup_Properties\<close>: C29 to C36.
  \<^item> \<open>Soak_Manifest\<close>, \<open>Soak_Journal\<close>, \<open>Soak_Owner\<close>: soak.py in its order: \<open>validate_manifest\<close>; the journal and
    \<open>verify_closure\<close>; \<open>run_owner\<close> and \<open>main\<close>, with the atomic JSON file of \<open>scripts/common.py\<close>. \<open>Soak_Laws\<close>:
    what each check establishes, and that canonical bytes read back. \<open>Soak_Example\<close>: a manifest and a journal
    that pass, as the repository's tests build them. \<open>Soak_Properties\<close>: C37 to C40.

  \<^bold>\<open>Modelling.\<close> Strings are lists of bytes of UTF-8 text; \<open>len\<close> counts code points. Python integers are
  \<open>int\<close>; its limit of 4300 digits, its recursion limit and lone surrogates are not modelled. White space
  and digits are the ASCII ones. A raised exception is \<open>Inl\<close> of \<open>exn\<close>: \<open>HttpErr\<close> is \<open>ProviderError\<close>
  (status, code, message). Clocks count nanoseconds. \<open>operation_lock\<close> serialises prepare and commit, so
  each is one computation; a crash is an exception at any command, followed by a restart step that
  reloads the file. Local file errors appear where the code names a branch for them. The journal's lock
  makes an execution one computation; a crash of the fault controller is a step that leaves the intent and
  whatever the callback had done. Load workers in flight are carried out one after another, and how many
  finish at each wait is the argument \<open>sched\<close>. Docker requests are addressed as \<open>unix:<socket>:<path>\<close>.
  Paths are normalised as \<open>pathlib\<close> does. What the operating system appends to an error message is not
  observed; header parsing errors of the HTTP library and UTF-16 documents are not modelled.
  The directory of a backup or restore is new, so its content is a value threaded through the operation
  (\<open>work\<close>), and a tool changes it only at the destination its arguments name; what it leaves there is the
  parameter \<open>bx_left\<close>. The cipher, its random nonces and the tar format are parameters, with their laws
  (\<open>envelope_law\<close>, \<open>binds_law\<close>, \<open>archive_law\<close>) as hypotheses of C31, C32, C33 and C35 only; the 2 GiB limit inside the
  cipher library is not modelled, the controller's own limit is. A tool run is recorded with its environment
  in front, as \<open>env NAME=value ... command\<close> would write it. A reader that meets a broken archive raises
  \<open>ToolErr\<close>; a symbolic link that leaves the workspace reads as absent. Modes of files are recorded, not enforced.
  Sets of names of the soak are walked in the order of the source; keys of its dictionaries are compared as
  Python compares values. The git search of \<open>run_owner\<close> folds the case of ASCII letters; paths are given resolved;
  creating the parent directory of the state file is not modelled. The owner command's exit status and
  the files it leaves (\<open>ow_left\<close>) are parameters; a timeout or a missing executable is \<open>OsErr\<close>.

  \<^bold>\<open>Fuel.\<close> Every turn of a polling loop sleeps at least a second, so \<open>Suc timeout\<close> turns suffice for a
  timeout in seconds; C10 proves that the fuel is never exhausted. The monitor of the promotion controller
  is bounded by its own cycle limit (C13). A load run submits a worker at every turn, so one turn more than
  the request limit suffices (C24).

  \<^bold>\<open>Not modelled.\<close> The TLS listener, logging and socket writes; docker, kubectl, PostgreSQL and the
  network, which are parameters; the other helpers of \<open>scripts/common.py\<close>; shell, YAML, Helm and Kurtosis files; the release tooling listed in
  the manifest.
\<close>

end
